(* ===== verification/Prelude.thy ===== *)
theory Prelude
  imports Main "HOL-Library.Word"
begin

text \<open>
  Shared vocabulary of the development: the widths of the C++ integer types, the C++ exceptions
  the code can meet, and the \<^emph>\<open>program\<close> type in which every stateful function of the daemons is
  written.  A program maps a state to an outcome (an exception or a value) and a new state; an
  exception keeps the effects that happened before it, as in C++.

  The section on frame relations states once how a reflexive and transitive relation between the
  state before and the state after lifts from single calls to whole programs.  Component theories
  interpret that locale for the relations they need.
\<close>

unbundle bit_operations_syntax

section \<open>Machine integers\<close>

type_synonym u8 = "8 word"
type_synonym u16 = "16 word"
type_synonym u32 = "32 word"

section \<open>Collections of facts\<close>

named_theorems prog_simps \<open>evaluation of programs\<close>
named_theorems frame_intros \<open>frame conditions of programs\<close>

section \<open>Exceptions\<close>

text \<open>
  The exception classes that the handlers of the source tell apart.  \<open>Undefined\<close> is not a C++
  exception: it marks a run that reads a vector out of range through the unchecked
  \<open>operator[]\<close>, or an empty container through \<open>begin()\<close>, which the language leaves undefined.
  No handler catches it.
\<close>

datatype exn =
    DBusError
  | OutOfRange
  | BadVariantAccess
  | JsonError
  | Undefined

text \<open>\<open>catch (const std::exception&)\<close> takes every real exception, \<open>catch (sdbusplus::exception_t&)\<close>
  only those of the D-Bus library, \<open>catch (nlohmann::json::exception&)\<close> those of the JSON library.\<close>

definition any_exception :: "exn \<Rightarrow> bool" where
  "any_exception e \<longleftrightarrow> e \<noteq> Undefined"

definition sdbus_exception :: "exn \<Rightarrow> bool" where
  "sdbus_exception e \<longleftrightarrow> e = DBusError"

definition json_exception :: "exn \<Rightarrow> bool" where
  "json_exception e \<longleftrightarrow> e = JsonError"

definition out_of_range_exception :: "exn \<Rightarrow> bool" where
  "out_of_range_exception e \<longleftrightarrow> e = OutOfRange"

lemmas exn_class_defs =
  any_exception_def sdbus_exception_def json_exception_def out_of_range_exception_def

lemma sdbus_exception_simps [simp]:
  "sdbus_exception DBusError" "\<not> sdbus_exception OutOfRange"
  "\<not> sdbus_exception BadVariantAccess" "\<not> sdbus_exception JsonError"
  "\<not> sdbus_exception Undefined"
  by (simp_all add: sdbus_exception_def)

lemma any_exception_simps [simp]:
  "any_exception DBusError" "any_exception OutOfRange"
  "any_exception BadVariantAccess" "any_exception JsonError"
  "\<not> any_exception Undefined"
  by (simp_all add: any_exception_def)

lemma json_exception_simps [simp]:
  "\<not> json_exception DBusError" "\<not> json_exception OutOfRange"
  "\<not> json_exception BadVariantAccess" "json_exception JsonError"
  "\<not> json_exception Undefined"
  by (simp_all add: json_exception_def)

section \<open>Programs\<close>

type_synonym ('s, 'a) prog = "'s \<Rightarrow> (exn + 'a) \<times> 's"

definition ret :: "'a \<Rightarrow> ('s, 'a) prog" where
  "ret x = (\<lambda>s. (Inr x, s))"

definition throwE :: "exn \<Rightarrow> ('s, 'a) prog" where
  "throwE e = (\<lambda>s. (Inl e, s))"

definition liftE :: "exn + 'a \<Rightarrow> ('s, 'a) prog" where
  "liftE r = (\<lambda>s. (r, s))"

definition bindE :: "('s, 'a) prog \<Rightarrow> ('a \<Rightarrow> ('s, 'b) prog) \<Rightarrow> ('s, 'b) prog" where
  "bindE m f = (\<lambda>s. case m s of (Inl e, s') \<Rightarrow> (Inl e, s') | (Inr x, s') \<Rightarrow> f x s')"

definition thenE :: "('s, 'a) prog \<Rightarrow> ('s, 'b) prog \<Rightarrow> ('s, 'b) prog" where
  "thenE m n = bindE m (\<lambda>_. n)"

definition catchE ::
  "(exn \<Rightarrow> bool) \<Rightarrow> ('s, 'a) prog \<Rightarrow> ('s, 'a) prog \<Rightarrow> ('s, 'a) prog" where
  "catchE p m h = (\<lambda>s. case m s of
       (Inl e, s') \<Rightarrow> (if p e then h s' else (Inl e, s'))
     | (Inr x, s') \<Rightarrow> (Inr x, s'))"

definition getsE :: "('s \<Rightarrow> 'a) \<Rightarrow> ('s, 'a) prog" where
  "getsE f = (\<lambda>s. (Inr (f s), s))"

definition modifyE :: "('s \<Rightarrow> 's) \<Rightarrow> ('s, unit) prog" where
  "modifyE f = (\<lambda>s. (Inr (), f s))"

definition whenE :: "bool \<Rightarrow> ('s, unit) prog \<Rightarrow> ('s, unit) prog" where
  "whenE b m = (if b then m else ret ())"

text \<open>A range-for loop runs its body on each element in turn; an exception leaves the loop.\<close>

fun forE :: "'a list \<Rightarrow> ('a \<Rightarrow> ('s, unit) prog) \<Rightarrow> ('s, unit) prog" where
  "forE [] f = ret ()"
| "forE (x # xs) f = thenE (f x) (forE xs f)"

text \<open>A loop that appends what each iteration yields to a result vector.\<close>

fun collectE :: "'a list \<Rightarrow> ('a \<Rightarrow> ('s, 'b list) prog) \<Rightarrow> ('s, 'b list) prog" where
  "collectE [] f = ret []"
| "collectE (x # xs) f = bindE (f x) (\<lambda>ys. bindE (collectE xs f) (\<lambda>zs. ret (ys @ zs)))"

lemma ret_apply [simp, prog_simps]: "ret x s = (Inr x, s)"
  by (simp add: ret_def)

lemma throwE_apply [simp, prog_simps]: "throwE e s = (Inl e, s)"
  by (simp add: throwE_def)

lemma liftE_apply [simp, prog_simps]: "liftE r s = (r, s)"
  by (simp add: liftE_def)

lemma getsE_apply [simp, prog_simps]: "getsE f s = (Inr (f s), s)"
  by (simp add: getsE_def)

lemma modifyE_apply [simp, prog_simps]: "modifyE f s = (Inr (), f s)"
  by (simp add: modifyE_def)

lemma bindE_Inl [simp, prog_simps]: "m s = (Inl e, s') \<Longrightarrow> bindE m f s = (Inl e, s')"
  by (simp add: bindE_def)

lemma bindE_Inr [simp, prog_simps]: "m s = (Inr x, s') \<Longrightarrow> bindE m f s = f x s'"
  by (simp add: bindE_def)

lemma thenE_Inl [simp, prog_simps]: "m s = (Inl e, s') \<Longrightarrow> thenE m n s = (Inl e, s')"
  by (simp add: thenE_def)

lemma thenE_Inr [simp, prog_simps]: "m s = (Inr x, s') \<Longrightarrow> thenE m n s = n s'"
  by (simp add: thenE_def)

lemma catchE_Inr [simp, prog_simps]: "m s = (Inr x, s') \<Longrightarrow> catchE p m h s = (Inr x, s')"
  by (simp add: catchE_def)

lemma catchE_Inl [simp, prog_simps]:
  "m s = (Inl e, s') \<Longrightarrow> catchE p m h s = (if p e then h s' else (Inl e, s'))"
  by (simp add: catchE_def)

lemma whenE_simps [simp, prog_simps]: "whenE True m = m" "whenE False m = ret ()"
  by (simp_all add: whenE_def)

lemma run_fst: "fst (m s) = r \<Longrightarrow> \<exists>s'. m s = (r, s')"
  by (cases "m s") simp

lemma bindE_ret [simp]: "bindE (ret x) f = f x"
  by (simp add: bindE_def fun_eq_iff)

lemma bindE_throw [simp]: "bindE (throwE e) f = throwE e"
  by (simp add: bindE_def fun_eq_iff)

lemma bindE_liftE_Inr [simp]: "bindE (liftE (Inr x)) f = f x"
  by (simp add: bindE_def fun_eq_iff)

lemma bindE_liftE_Inl [simp]: "bindE (liftE (Inl e)) f = throwE e"
  by (simp add: bindE_def fun_eq_iff)

lemma step_simps [simp, prog_simps]:
  "bindE (getsE g) f s = f (g s) s" "bindE (modifyE h) f' s = f' () (h s)"
  "thenE (modifyE h) n s = n (h s)" "thenE (ret x) n s = n s" "thenE (liftE (Inr x)) n s = n s"
  "catchE p (ret x) k s = (Inr x, s)"
  by (simp_all add: bindE_def thenE_def catchE_def)

lemma bindE_assoc: "bindE (bindE m f) g = bindE m (\<lambda>x. bindE (f x) g)"
  by (auto simp: bindE_def fun_eq_iff split: prod.splits sum.splits)

lemma bindE_cases:
  obtains (exc) e s' where "m s = (Inl e, s')" "bindE m f s = (Inl e, s')"
  | (val) x s' where "m s = (Inr x, s')" "bindE m f s = f x s'"
  by (cases "m s"; cases "fst (m s)") auto

lemma forE_append: "forE (xs @ ys) f = thenE (forE xs f) (forE ys f)"
proof (induction xs)
  case Nil
  then show ?case by (simp add: thenE_def)
next
  case (Cons x xs)
  then show ?case by (simp add: thenE_def bindE_assoc)
qed

section \<open>Frame relations\<close>

text \<open>\<open>sat R m\<close>: whatever the outcome of \<open>m\<close>, the states before and after it are related by \<open>R\<close>.\<close>

definition sat :: "('s \<Rightarrow> 's \<Rightarrow> bool) \<Rightarrow> ('s, 'a) prog \<Rightarrow> bool" where
  "sat R m \<longleftrightarrow> (\<forall>s. R s (snd (m s)))"

lemma satD: "sat R m \<Longrightarrow> R s (snd (m s))"
  by (simp add: sat_def)

lemma satD': "sat R m \<Longrightarrow> m s = (r, s') \<Longrightarrow> R s s'"
  by (metis satD snd_conv)

locale frame_relation =
  fixes R :: "'s \<Rightarrow> 's \<Rightarrow> bool"
  assumes refl: "R s s"
    and trans: "R s t \<Longrightarrow> R t u \<Longrightarrow> R s u"
begin

lemma sat_ret: "sat R (ret x)"
  by (simp add: sat_def refl)

lemma sat_throw: "sat R (throwE e)"
  by (simp add: sat_def refl)

lemma sat_lift: "sat R (liftE r)"
  by (simp add: sat_def refl)

lemma sat_gets: "sat R (getsE f)"
  by (simp add: sat_def refl)

lemma sat_modify: "(\<And>s. R s (f s)) \<Longrightarrow> sat R (modifyE f)"
  by (simp add: sat_def)

lemma sat_bind:
  assumes m: "sat R m" and f: "\<And>x. sat R (f x)"
  shows "sat R (bindE m f)"
  unfolding sat_def
proof
  fix s
  show "R s (snd (bindE m f s))"
  proof (cases rule: bindE_cases [of m s f])
    case (exc e s')
    then show ?thesis using satD [OF m, of s] by simp
  next
    case (val x s')
    have "R s s'" using satD [OF m, of s] val(1) by simp
    moreover have "R s' (snd (f x s'))" by (rule satD [OF f])
    ultimately show ?thesis using val(2) trans by simp
  qed
qed

lemma sat_then: "sat R m \<Longrightarrow> sat R n \<Longrightarrow> sat R (thenE m n)"
  by (simp add: thenE_def sat_bind)

lemma sat_catch:
  assumes m: "sat R m" and h: "sat R h"
  shows "sat R (catchE p m h)"
  unfolding sat_def
proof
  fix s
  obtain r s' where ms: "m s = (r, s')" by (cases "m s")
  have R1: "R s s'" using satD [OF m, of s] ms by simp
  have R2: "R s' (snd (h s'))" by (rule satD [OF h])
  show "R s (snd (catchE p m h s))"
    using ms R1 R2 trans by (cases r) auto
qed

lemma sat_when: "(b \<Longrightarrow> sat R m) \<Longrightarrow> sat R (whenE b m)"
  by (simp add: whenE_def sat_ret)

lemma sat_for: "(\<And>x. x \<in> set xs \<Longrightarrow> sat R (f x)) \<Longrightarrow> sat R (forE xs f)"
  by (induction xs) (auto intro: sat_ret sat_then)

lemma sat_collect: "(\<And>x. x \<in> set xs \<Longrightarrow> sat R (f x)) \<Longrightarrow> sat R (collectE xs f)"
  by (induction xs) (auto intro!: sat_ret sat_bind)

lemmas sat_basic = sat_ret sat_throw sat_lift sat_gets
lemmas sat_compound = sat_bind sat_then sat_catch sat_when sat_for sat_collect

end

text \<open>Weakening the relation, and branching, need no law of the relation.\<close>

lemma sat_mono: "sat R m \<Longrightarrow> (\<And>s t. R s t \<Longrightarrow> Q s t) \<Longrightarrow> sat Q m"
  by (simp add: sat_def)

lemma sat_if: "(b \<Longrightarrow> sat R m) \<Longrightarrow> (\<not> b \<Longrightarrow> sat R n) \<Longrightarrow> sat R (if b then m else n)"
  by simp

lemma sat_option:
  "(x = None \<Longrightarrow> sat R m) \<Longrightarrow> (\<And>y. x = Some y \<Longrightarrow> sat R (f y)) \<Longrightarrow>
   sat R (case x of None \<Rightarrow> m | Some y \<Rightarrow> f y)"
  by (cases x) auto

lemma sat_sum:
  "(\<And>y. x = Inl y \<Longrightarrow> sat R (f y)) \<Longrightarrow> (\<And>y. x = Inr y \<Longrightarrow> sat R (g y)) \<Longrightarrow>
   sat R (case x of Inl y \<Rightarrow> f y | Inr y \<Rightarrow> g y)"
  by (cases x) auto

lemma sat_prod: "(\<And>a b. x = (a, b) \<Longrightarrow> sat R (f a b)) \<Longrightarrow> sat R (case x of (a, b) \<Rightarrow> f a b)"
  by (cases x) auto

lemma sat_list:
  "(x = [] \<Longrightarrow> sat R m) \<Longrightarrow> (\<And>y ys. x = y # ys \<Longrightarrow> sat R (f y ys)) \<Longrightarrow>
   sat R (case x of [] \<Rightarrow> m | y # ys \<Rightarrow> f y ys)"
  by (cases x) auto

lemmas sat_branch = sat_if sat_option sat_sum sat_prod

text \<open>An invariant gives a frame relation: it holds afterwards when it held before.\<close>

definition keeps :: "('s \<Rightarrow> bool) \<Rightarrow> 's \<Rightarrow> 's \<Rightarrow> bool" where
  "keeps I s s' \<longleftrightarrow> (I s \<longrightarrow> I s')"

interpretation keep: frame_relation "keeps I" for I
  by unfold_locales (simp_all add: keeps_def)

lemmas keep_sat = keep.sat_basic keep.sat_compound sat_branch

lemma sat_keepsD: "sat (keeps I) m \<Longrightarrow> I s \<Longrightarrow> m s = (r, s') \<Longrightarrow> I s'"
  by (metis keeps_def satD')

section \<open>Results\<close>

text \<open>\<open>yields P m\<close>: whenever \<open>m\<close> returns a value, the value satisfies \<open>P\<close>.\<close>

definition yields :: "('a \<Rightarrow> bool) \<Rightarrow> ('s, 'a) prog \<Rightarrow> bool" where
  "yields P m \<longleftrightarrow> (\<forall>s x s'. m s = (Inr x, s') \<longrightarrow> P x)"

lemma yieldsD: "yields P m \<Longrightarrow> m s = (Inr x, s') \<Longrightarrow> P x"
  by (auto simp: yields_def)

lemma yields_ret: "P x \<Longrightarrow> yields P (ret x)"
  by (simp add: yields_def)

lemma yields_throw: "yields P (throwE e)"
  by (simp add: yields_def)

lemma yields_bind: "(\<And>x. yields P (f x)) \<Longrightarrow> yields P (bindE m f)"
  by (auto simp: yields_def bindE_def split: prod.splits sum.splits)

lemma yields_bind_via: "yields Q m \<Longrightarrow> (\<And>x. Q x \<Longrightarrow> yields P (f x)) \<Longrightarrow> yields P (bindE m f)"
  unfolding yields_def bindE_def by (fastforce split: prod.splits sum.splits)

lemma yields_then: "yields P n \<Longrightarrow> yields P (thenE m n)"
  by (simp add: thenE_def yields_bind)

lemma yields_catch: "yields P m \<Longrightarrow> yields P h \<Longrightarrow> yields P (catchE p m h)"
  by (auto simp: yields_def catchE_def split: prod.splits sum.splits if_splits)

lemma yields_if: "(b \<Longrightarrow> yields P m) \<Longrightarrow> (\<not> b \<Longrightarrow> yields P n) \<Longrightarrow> yields P (if b then m else n)"
  by simp

lemma yields_option:
  "(x = None \<Longrightarrow> yields P m) \<Longrightarrow> (\<And>y. x = Some y \<Longrightarrow> yields P (f y)) \<Longrightarrow>
   yields P (case x of None \<Rightarrow> m | Some y \<Rightarrow> f y)"
  by (cases x) auto

lemma yields_prod: "(\<And>a b. x = (a, b) \<Longrightarrow> yields P (f a b)) \<Longrightarrow> yields P (case x of (a, b) \<Rightarrow> f a b)"
  by (cases x) auto

lemmas yields_intros =
  yields_ret yields_throw yields_bind yields_then yields_catch yields_if yields_option yields_prod

section \<open>Exceptions raised\<close>

text \<open>\<open>raises P m\<close>: every exception that leaves \<open>m\<close> satisfies \<open>P\<close>.\<close>

definition raises :: "(exn \<Rightarrow> bool) \<Rightarrow> ('s, 'a) prog \<Rightarrow> bool" where
  "raises P m \<longleftrightarrow> (\<forall>s e s'. m s = (Inl e, s') \<longrightarrow> P e)"

lemma raisesD: "raises P m \<Longrightarrow> m s = (Inl e, s') \<Longrightarrow> P e"
  by (auto simp: raises_def)

lemma raises_none: "raises (\<lambda>_. False) m \<Longrightarrow> \<exists>x s'. m s = (Inr x, s')"
  by (cases "m s"; cases "fst (m s)") (auto simp: raises_def)

lemma raises_mono: "raises P m \<Longrightarrow> (\<And>e. P e \<Longrightarrow> Q e) \<Longrightarrow> raises Q m"
  by (auto simp: raises_def)

lemma raises_ret: "raises P (ret x)"
  by (simp add: raises_def)

lemma raises_throw: "P e \<Longrightarrow> raises P (throwE e)"
  by (simp add: raises_def)

lemma raises_lift: "(\<And>e. r = Inl e \<Longrightarrow> P e) \<Longrightarrow> raises P (liftE r)"
  by (simp add: raises_def)

lemma raises_gets: "raises P (getsE f)"
  by (simp add: raises_def)

lemma raises_modify: "raises P (modifyE f)"
  by (simp add: raises_def)

lemma raises_bind: "raises P m \<Longrightarrow> (\<And>x. raises P (f x)) \<Longrightarrow> raises P (bindE m f)"
  unfolding raises_def bindE_def by (fastforce split: prod.splits sum.splits)

lemma raises_then: "raises P m \<Longrightarrow> raises P n \<Longrightarrow> raises P (thenE m n)"
  by (simp add: thenE_def raises_bind)

lemma raises_catch:
  "raises Q m \<Longrightarrow> (\<And>e. Q e \<Longrightarrow> \<not> p e \<Longrightarrow> P e) \<Longrightarrow> raises P h \<Longrightarrow> raises P (catchE p m h)"
  unfolding raises_def catchE_def by (fastforce split: prod.splits sum.splits if_splits)

lemma raises_catch_any:
  "raises any_exception m \<Longrightarrow> raises P h \<Longrightarrow> raises P (catchE any_exception m h)"
  by (erule raises_catch) simp_all

lemma raises_when: "(b \<Longrightarrow> raises P m) \<Longrightarrow> raises P (whenE b m)"
  by (simp add: whenE_def raises_ret)

lemma raises_for: "(\<And>x. x \<in> set xs \<Longrightarrow> raises P (f x)) \<Longrightarrow> raises P (forE xs f)"
  by (induction xs) (auto intro: raises_ret raises_then)

lemma raises_collect: "(\<And>x. x \<in> set xs \<Longrightarrow> raises P (f x)) \<Longrightarrow> raises P (collectE xs f)"
  by (induction xs) (auto intro!: raises_ret raises_bind)

lemma raises_if: "(b \<Longrightarrow> raises P m) \<Longrightarrow> (\<not> b \<Longrightarrow> raises P n) \<Longrightarrow> raises P (if b then m else n)"
  by simp

lemma raises_option:
  "(x = None \<Longrightarrow> raises P m) \<Longrightarrow> (\<And>y. x = Some y \<Longrightarrow> raises P (f y)) \<Longrightarrow>
   raises P (case x of None \<Rightarrow> m | Some y \<Rightarrow> f y)"
  by (cases x) auto

lemma raises_prod: "(\<And>a b. x = (a, b) \<Longrightarrow> raises P (f a b)) \<Longrightarrow> raises P (case x of (a, b) \<Rightarrow> f a b)"
  by (cases x) auto

lemmas raises_intros =
  raises_ret raises_throw raises_gets raises_modify raises_bind raises_then raises_when raises_for
  raises_collect raises_if raises_option raises_prod

section \<open>Checked and unchecked access\<close>

text \<open>\<open>std::vector::operator[]\<close> with an index of type \<open>size_t\<close>: defined only in range.\<close>

definition index_unchecked :: "'a list \<Rightarrow> nat \<Rightarrow> exn + 'a" where
  "index_unchecked xs i = (if i < length xs then Inr (xs ! i) else Inl Undefined)"

text \<open>\<open>std::vector::at\<close>.\<close>

definition vector_at :: "'a list \<Rightarrow> nat \<Rightarrow> exn + 'a" where
  "vector_at xs i = (if i < length xs then Inr (xs ! i) else Inl OutOfRange)"

text \<open>\<open>std::map::at\<close>.\<close>

definition map_at :: "('k \<times> 'v) list \<Rightarrow> 'k \<Rightarrow> exn + 'v" where
  "map_at m k = (case map_of m k of None \<Rightarrow> Inl OutOfRange | Some v \<Rightarrow> Inr v)"

text \<open>Subtraction in \<open>size_t\<close> (64 bits): it wraps.\<close>

definition size_sub :: "nat \<Rightarrow> nat \<Rightarrow> nat" where
  "size_sub a b = (if b \<le> a then a - b else 2 ^ 64 + a - b)"

lemma size_sub_le [simp]: "b \<le> a \<Longrightarrow> size_sub a b = a - b"
  by (simp add: size_sub_def)

lemma size_sub_0_1: "size_sub 0 1 = 2 ^ 64 - 1"
  by (simp add: size_sub_def)

text \<open>Sequencing of pure steps that may throw.\<close>

definition bindR :: "exn + 'a \<Rightarrow> ('a \<Rightarrow> exn + 'b) \<Rightarrow> exn + 'b" where
  "bindR r f = (case r of Inl e \<Rightarrow> Inl e | Inr x \<Rightarrow> f x)"

lemma bindR_simps [simp]: "bindR (Inl e) f = Inl e" "bindR (Inr x) f = f x"
  by (simp_all add: bindR_def)

lemma bindR_eq_Inr: "bindR r f = Inr y \<longleftrightarrow> (\<exists>x. r = Inr x \<and> f x = Inr y)"
  by (cases r) auto

lemma index_unchecked_Inr [simp]: "i < length xs \<Longrightarrow> index_unchecked xs i = Inr (xs ! i)"
  by (simp add: index_unchecked_def)

lemma vector_at_Inr [simp]: "i < length xs \<Longrightarrow> vector_at xs i = Inr (xs ! i)"
  by (simp add: vector_at_def)

text \<open>The exceptions of these accesses.\<close>

lemma access_exceptions:
  "vector_at xs i = Inl e \<Longrightarrow> e = OutOfRange"
  "map_at m k = Inl e \<Longrightarrow> e = OutOfRange"
  "index_unchecked xs i = Inl e \<Longrightarrow> e = Undefined"
  by (auto simp: vector_at_def map_at_def index_unchecked_def split: if_splits option.splits)

lemma bindR_eq_Inl: "bindR r f = Inl e \<longleftrightarrow> r = Inl e \<or> (\<exists>x. r = Inr x \<and> f x = Inl e)"
  by (cases r) auto

lemma map_at_eq_Inr: "map_at m k = Inr v \<longleftrightarrow> map_of m k = Some v"
  by (simp add: map_at_def split: option.splits)

end
