(* ===== verification/StdMap.thy ===== *)
theory StdMap
  imports Main
begin

text \<open>
  \<open>std::map\<close> with its order: a list of pairs sorted by key, \<open>m[k] = v\<close>, and the map that a sequence of
  such assignments builds.
\<close>

fun map_put :: "'k :: linorder \<Rightarrow> 'v \<Rightarrow> ('k \<times> 'v) list \<Rightarrow> ('k \<times> 'v) list" where
  "map_put k v [] = [(k, v)]"
| "map_put k v ((k', v') # m) =
     (if k < k' then (k, v) # (k', v') # m
      else if k = k' then (k, v) # m
      else (k', v') # map_put k v m)"

definition assign_all :: "('k :: linorder \<times> 'v) list \<Rightarrow> ('k \<times> 'v) list" where
  "assign_all kvs = foldl (\<lambda>m (k, v). map_put k v m) [] kvs"

definition map_ok :: "('k :: linorder \<times> 'v) list \<Rightarrow> bool" where
  "map_ok m \<longleftrightarrow> sorted_wrt (<) (map fst m)"

lemma map_ok_Nil [simp]: "map_ok []"
  by (simp add: map_ok_def)

lemma keys_map_put [simp]: "fst ` set (map_put k v m) = insert k (fst ` set m)"
  by (induction k v m rule: map_put.induct) auto

lemma map_ok_map_put [simp]: "map_ok m \<Longrightarrow> map_ok (map_put k v m)"
proof (induction k v m rule: map_put.induct)
  case (1 k v)
  then show ?case by (simp add: map_ok_def)
next
  case (2 k v k' v' m)
  have "fst ` set (map_put k v m) = insert k (fst ` set m)" by simp
  with 2 show ?case by (auto simp: map_ok_def)
qed

lemma map_of_map_put [simp]: "map_ok m \<Longrightarrow> map_of (map_put k v m) = (map_of m)(k \<mapsto> v)"
proof (induction k v m rule: map_put.induct)
  case (1 k v)
  then show ?case by simp
next
  case (2 k v k' v' m)
  then show ?case by (auto simp: map_ok_def fun_eq_iff dest: weak_map_of_SomeI)
qed

lemma foldl_map_put:
  assumes "map_ok m"
  shows "map_ok (foldl (\<lambda>m (k, v). map_put k v m) m kvs)
    \<and> map_of (foldl (\<lambda>m (k, v). map_put k v m) m kvs) = map_of m ++ map_of (rev kvs)"
  using assms
proof (induction kvs arbitrary: m)
  case Nil
  then show ?case by simp
next
  case (Cons kv kvs)
  then show ?case
    using Cons.IH [of "map_put (fst kv) (snd kv) m"]
    by (auto simp: split_beta fun_eq_iff map_add_def split: option.splits)
qed

lemma map_ok_assign_all [simp]: "map_ok (assign_all kvs)"
  using foldl_map_put [of "[]" kvs] by (simp add: assign_all_def)

text \<open>The last assignment to a key counts.\<close>

lemma map_of_assign_all [simp]: "map_of (assign_all kvs) = map_of (rev kvs)"
  using foldl_map_put [of "[]" kvs] by (simp add: assign_all_def)

lemma map_of_rev_distinct: "distinct (map fst kvs) \<Longrightarrow> map_of (rev kvs) = map_of kvs"
  by (metis distinct_rev map_of_eqI map_of_inject_set rev_map set_rev)

lemma assign_all_Nil [simp]: "assign_all [] = []"
  by (simp add: assign_all_def)

lemma assign_all_snoc: "assign_all (kvs @ [kv]) = map_put (fst kv) (snd kv) (assign_all kvs)"
  by (simp add: assign_all_def split_beta)

lemma map_put_not_Nil [simp]: "map_put k v m \<noteq> []"
  by (cases m) (auto split: if_splits)

lemma assign_all_eq_Nil [simp]: "assign_all kvs = [] \<longleftrightarrow> kvs = []"
  by (induction kvs rule: rev_induct) (simp_all add: assign_all_snoc)

lemma keys_assign_all [simp]: "fst ` set (assign_all kvs) = fst ` set kvs"
  by (induction kvs rule: rev_induct) (simp_all add: assign_all_snoc)

lemma map_ok_distinct: "map_ok m \<Longrightarrow> distinct (map fst m)"
  unfolding map_ok_def by (rule strict_sorted_iff [THEN iffD1, THEN conjunct2])

end
