(* ===== verification/IpmiStats.thy ===== *)
theory IpmiStats
  imports Complex_Main CppString
begin

text \<open>
  The statistics of sensor readings in \<open>include/sdrutils.hpp\<close> (\<open>IPMIStatsEntry\<close>, \<open>IPMIStatsTable\<close>).  A
  reading is a real number, or \<open>None\<close> where \<open>std::isfinite\<close> is false; only finite readings are compared and
  stored.  The counters are C++ integers, whose overflow is undefined.
\<close>

type_synonym reading = "real option"

record IPMIStatsEntry =
  numReadings :: int
  numMissings :: int
  numStreakRead :: int
  numStreakMiss :: int
  minValue :: real
  maxValue :: real
  statsName :: string

definition new_stats_entry :: IPMIStatsEntry where
  "new_stats_entry =
     \<lparr>numReadings = 0, numMissings = 0, numStreakRead = 0, numStreakMiss = 0, minValue = 0, maxValue = 0,
      statsName = []\<rparr>"

text \<open>\<open>++n\<close> for an \<open>int\<close>.\<close>

definition int_inc :: "int \<Rightarrow> exn + int" where
  "int_inc n = (if n < 2 ^ 31 - 1 then Inr (n + 1) else Inl Undefined)"

definition enableInstrumentation :: bool where "enableInstrumentation = False"

text \<open>\<open>updateReading\<close> with the instrumentation compiled in.\<close>

definition record_reading :: "IPMIStatsEntry \<Rightarrow> reading \<Rightarrow> exn + bool \<times> IPMIStatsEntry" where
  "record_reading e reading =
     (let first = (numReadings e = 0 \<and> numMissings e = 0)
      in case reading of
           None \<Rightarrow>
             bindR (int_inc (numMissings e)) (\<lambda>missings.
             bindR (int_inc (numStreakMiss e)) (\<lambda>streak.
               Inr (first, e\<lparr>numStreakRead := 0, numMissings := missings, numStreakMiss := streak\<rparr>)))
         | Some value \<Rightarrow>
             (let e1 = (if numReadings e = 0 then e\<lparr>minValue := value, maxValue := value\<rparr> else e)
              in bindR (int_inc (numReadings e1)) (\<lambda>readings.
                 bindR (int_inc (numStreakRead e1)) (\<lambda>streak.
                 let e2 = e1\<lparr>numStreakMiss := 0, numReadings := readings, numStreakRead := streak\<rparr>;
                     e3 = (if value < minValue e2 then e2\<lparr>minValue := value\<rparr> else e2)
                 in Inr (first, if value > maxValue e3 then e3\<lparr>maxValue := value\<rparr> else e3)))))"

definition updateReading_entry :: "IPMIStatsEntry \<Rightarrow> reading \<Rightarrow> exn + bool \<times> IPMIStatsEntry" where
  "updateReading_entry e reading =
     (if \<not> enableInstrumentation then Inr (False, e) else record_reading e reading)"

section \<open>The table\<close>

text \<open>The digits of \<open>%02zX\<close>.\<close>

fun hex_digits :: "nat \<Rightarrow> string" where
  "hex_digits n = (if n < 16 then [hex_digit n] else hex_digits (n div 16) @ [hex_digit (n mod 16)])"

declare hex_digits.simps [simp del]

definition hex_name :: "nat \<Rightarrow> string" where
  "hex_name n = ''0x'' @ (if n < 16 then CHR ''0'' # hex_digits n else hex_digits n)"

function padEntries :: "nat \<Rightarrow> IPMIStatsEntry list \<Rightarrow> IPMIStatsEntry list" where
  "padEntries index entries =
     (if length entries \<le> index
      then padEntries index (entries @ [new_stats_entry\<lparr>statsName := hex_name (length entries)\<rparr>])
      else entries)"
  by pat_completeness auto

termination by (relation "measure (\<lambda>(index, entries). Suc index - length entries)") auto

declare padEntries.simps [simp del]

definition wipeTable :: "IPMIStatsEntry list \<Rightarrow> IPMIStatsEntry list" where
  "wipeTable entries = []"

definition stats_getName :: "nat \<Rightarrow> IPMIStatsEntry list \<Rightarrow> string \<times> IPMIStatsEntry list" where
  "stats_getName index entries =
     (let entries' = padEntries index entries in (statsName (entries' ! index), entries'))"

definition stats_updateName :: "nat \<Rightarrow> string \<Rightarrow> IPMIStatsEntry list \<Rightarrow> IPMIStatsEntry list" where
  "stats_updateName index name entries =
     (let entries' = padEntries index entries in entries'[index := (entries' ! index)\<lparr>statsName := name\<rparr>])"

definition stats_updateReading ::
  "nat \<Rightarrow> reading \<Rightarrow> IPMIStatsEntry list \<Rightarrow> exn + bool \<times> IPMIStatsEntry list" where
  "stats_updateReading index reading entries =
     (let entries' = padEntries index entries
      in bindR (updateReading_entry (entries' ! index) reading) (\<lambda>(first, e).
           Inr (first, entries'[index := e])))"

section \<open>Facts\<close>

lemma padEntries_eq:
  "padEntries index entries =
     entries @ map (\<lambda>i. new_stats_entry\<lparr>statsName := hex_name i\<rparr>) [length entries..<Suc index]"
proof (induction index entries rule: padEntries.induct)
  case (1 index entries)
  show ?case
  proof (cases "length entries \<le> index")
    case True
    then show ?thesis
      using 1 [OF True]
      by (simp add: padEntries.simps [of index entries] upt_conv_Cons [of "length entries"] del: upt_Suc)
  next
    case False
    then show ?thesis by (simp add: padEntries.simps [of index entries])
  qed
qed

text \<open>Names: the last one given, or the index in hexadecimal; and readings change nothing in this build.\<close>

lemma padded_nth:
  "i \<le> index \<Longrightarrow> padEntries index entries ! i =
     (if i < length entries then entries ! i else new_stats_entry\<lparr>statsName := hex_name i\<rparr>)"
  by (auto simp: padEntries_eq nth_append simp del: upt_Suc)

lemma length_padded [simp]: "length (padEntries index entries) = max (length entries) (Suc index)"
  by (simp add: padEntries_eq del: upt_Suc)

lemma padded_nth_old: "i < length entries \<Longrightarrow> padEntries index entries ! i = entries ! i"
  by (simp add: padEntries_eq nth_append del: upt_Suc)

theorem stats_names:
  "fst (stats_getName i (stats_updateName j name entries)) = (if i = j then name else fst (stats_getName i entries))
   \<and> fst (stats_getName i []) = hex_name i
   \<and> stats_updateReading i r entries = Inr (False, padEntries i entries)"
proof (intro conjI)
  let ?e = "padEntries j entries"
  have len: "length (?e[j := (?e ! j)\<lparr>statsName := name\<rparr>]) = max (length entries) (Suc j)" by simp
  show "fst (stats_getName i (stats_updateName j name entries))
      = (if i = j then name else fst (stats_getName i entries))"
  proof (cases "i < max (length entries) (Suc j)")
    case True
    then show ?thesis
      using padded_nth [of i j entries]
      by (cases "i < length entries")
        (auto simp: stats_getName_def stats_updateName_def Let_def padded_nth padded_nth_old nth_list_update)
  next
    case False
    then show ?thesis by (auto simp: stats_getName_def stats_updateName_def Let_def padded_nth)
  qed
  show "fst (stats_getName i []) = hex_name i" by (simp add: stats_getName_def Let_def padded_nth)
  show "stats_updateReading i r entries = Inr (False, padEntries i entries)"
    by (simp add: stats_updateReading_def updateReading_entry_def enableInstrumentation_def Let_def)
qed

text \<open>A sequence of readings of one sensor.\<close>

fun record_readings :: "IPMIStatsEntry \<Rightarrow> reading list \<Rightarrow> exn + IPMIStatsEntry" where
  "record_readings e [] = Inr e"
| "record_readings e (r # rs) = bindR (record_reading e r) (\<lambda>(first, e'). record_readings e' rs)"

lemma record_readings_append:
  "record_readings e (rs @ rs') = bindR (record_readings e rs) (\<lambda>e'. record_readings e' rs')"
  by (induction rs arbitrary: e) (auto simp: bindR_def split: sum.split)

text \<open>The finite readings, and what the entry says of a history.\<close>

definition finite_readings :: "reading list \<Rightarrow> real list" where
  "finite_readings rs = List.map_filter id rs"

definition streak :: "(reading \<Rightarrow> bool) \<Rightarrow> reading list \<Rightarrow> int" where
  "streak P rs = int (length (takeWhile P (rev rs)))"

definition stats_of :: "reading list \<Rightarrow> IPMIStatsEntry \<Rightarrow> bool" where
  "stats_of rs e \<longleftrightarrow>
     numReadings e = int (length (finite_readings rs))
     \<and> numMissings e = int (length rs) - int (length (finite_readings rs))
     \<and> numStreakRead e = streak (\<lambda>r. r \<noteq> None) rs \<and> numStreakMiss e = streak (\<lambda>r. r = None) rs
     \<and> (finite_readings rs \<noteq> [] \<longrightarrow>
         minValue e = Min (set (finite_readings rs)) \<and> maxValue e = Max (set (finite_readings rs)))"

lemma finite_readings_snoc [simp]:
  "finite_readings [] = []" "finite_readings (rs @ [None]) = finite_readings rs"
  "finite_readings (rs @ [Some x]) = finite_readings rs @ [x]"
  by (simp_all add: finite_readings_def List.map_filter_def)

lemma streak_snoc [simp]:
  "streak P [] = 0" "streak P (rs @ [r]) = (if P r then streak P rs + 1 else 0)"
  by (simp_all add: streak_def)

lemma streak_bound: "streak P rs \<le> int (length rs)"
  unfolding streak_def using length_takeWhile_le [of P "rev rs"] by simp

lemma finite_readings_bound: "length (finite_readings rs) \<le> length rs"
  unfolding finite_readings_def List.map_filter_def by (simp add: length_filter_le)

lemma strict_min_max:
  "min x m = (if x < m then x else m)" "max x m = (if x > m then x else m)" for x m :: real
  by auto

lemma stats_of_step:
  assumes "stats_of rs e" and "length rs < 2 ^ 31 - 1"
  shows "\<exists>e'. record_reading e r = Inr (rs = [], e') \<and> stats_of (rs @ [r]) e' \<and> statsName e' = statsName e"
proof -
  have small: "int (length (finite_readings rs)) < 2 ^ 31 - 1" "streak P rs < 2 ^ 31 - 1"
    "int (length rs) - int (length (finite_readings rs)) < 2 ^ 31 - 1" for P
    using assms(2) streak_bound [of P rs] finite_readings_bound [of rs] by simp_all
  have first: "numReadings e = 0 \<and> numMissings e = 0 \<longleftrightarrow> rs = []"
    using assms(1) by (auto simp: stats_of_def)
  show ?thesis
  proof (cases r)
    case None
    then show ?thesis
      using assms(1) small first
      by (auto simp: stats_of_def record_reading_def int_inc_def Let_def)
  next
    case (Some x)
    let ?S = "set (finite_readings rs)"
    have fresh: "numReadings e = 0 \<longleftrightarrow> finite_readings rs = []" using assms(1) by (simp add: stats_of_def)
    have bounds: "Min (insert x ?S) = (if x < Min ?S then x else Min ?S)"
      "Max (insert x ?S) = (if x > Max ?S then x else Max ?S)" if "finite_readings rs \<noteq> []"
      unfolding strict_min_max [symmetric] using that by simp_all
    show ?thesis
    proof (cases "finite_readings rs = []")
      case True
      then show ?thesis
        using Some assms(1) small first fresh by (simp add: stats_of_def record_reading_def int_inc_def Let_def)
    next
      case False
      then show ?thesis
        using Some assms(1) small first fresh bounds [OF False]
        by (simp add: stats_of_def record_reading_def int_inc_def Let_def
            del: Min_less_iff Max_less_iff Min_gr_iff Max_gr_iff)
    qed
  qed
qed

section \<open>Properties\<close>



end
