(* ===== verification/Json.thy ===== *)
theory Json
  imports CppString "HOL-Library.List_Lexorder" "HOL-Library.Char_ord"
begin

text \<open>
  JSON documents as the code holds them in \<open>nlohmann::json\<close> values: the document tree, and the
  element access with its type errors.  An object is an association list sorted by key, as the
  library's \<open>std::map\<close> keeps it.  The library's text parser and printer and its number conversions
  are not part of the repository; they are the fields of the record \<open>json_lib\<close>, an argument of
  every definition that uses them.
\<close>

datatype json =
    JNull
  | JBool bool
  | JInt int
  | JFloat string
  | JStr string
  | JArr "json list"
  | JObj "(string \<times> json) list"
  | JDiscarded

record json_lib =
  jl_parse :: "string \<Rightarrow> json"
  jl_dump :: "int \<Rightarrow> json \<Rightarrow> string option"
  jl_int :: "json \<Rightarrow> int option"
  jl_u8 :: "json \<Rightarrow> u8 option"
  jl_u16 :: "json \<Rightarrow> u16 option"
  jl_u32 :: "json \<Rightarrow> u32 option"
  jl_merge_patch :: "json \<Rightarrow> json \<Rightarrow> json"

text \<open>\<open>None\<close> is an exception of the library.\<close>

definition or_json_error :: "'a option \<Rightarrow> exn + 'a" where
  "or_json_error r = (case r of None \<Rightarrow> Inl JsonError | Some x \<Rightarrow> Inr x)"

definition json_dump :: "json_lib \<Rightarrow> int \<Rightarrow> json \<Rightarrow> exn + string" where
  "json_dump J indent j = or_json_error (jl_dump J indent j)"

definition json_get_int :: "json_lib \<Rightarrow> json \<Rightarrow> exn + int" where
  "json_get_int J j = or_json_error (jl_int J j)"

definition json_get_u8 :: "json_lib \<Rightarrow> json \<Rightarrow> exn + u8" where
  "json_get_u8 J j = or_json_error (jl_u8 J j)"

definition json_get_u16 :: "json_lib \<Rightarrow> json \<Rightarrow> exn + u16" where
  "json_get_u16 J j = or_json_error (jl_u16 J j)"

definition json_get_u32 :: "json_lib \<Rightarrow> json \<Rightarrow> exn + u32" where
  "json_get_u32 J j = or_json_error (jl_u32 J j)"

text \<open>Documented behaviour that the code relies on, as predicates on the library.\<close>

text \<open>Printing a document and parsing the text gives the document back.\<close>

definition json_roundtrips :: "json_lib \<Rightarrow> json \<Rightarrow> bool" where
  "json_roundtrips J j \<longleftrightarrow>
     (case jl_dump J 4 j of None \<Rightarrow> False | Some t \<Rightarrow> jl_parse J t = j)"

text \<open>An integer that fits an \<open>int\<close> converts to itself.\<close>

definition json_int_exact :: "json_lib \<Rightarrow> int \<Rightarrow> bool" where
  "json_int_exact J i \<longleftrightarrow> jl_int J (JInt i) = Some i"

text \<open>Conversions of integers for the instances.\<close>

definition plain_int :: "json \<Rightarrow> int option" where
  "plain_int j = (case j of JInt i \<Rightarrow> Some i | _ \<Rightarrow> None)"

definition plain_word :: "json \<Rightarrow> 'a :: len word option" where
  "plain_word j = (case j of JInt i \<Rightarrow> Some (word_of_int i) | _ \<Rightarrow> None)"

lemma plain_conversions [simp]:
  "plain_int (JInt i) = Some i" "plain_word (JInt i) = Some (word_of_int i)"
  by (simp_all add: plain_int_def plain_word_def)

section \<open>Queries\<close>

fun json_is_object :: "json \<Rightarrow> bool" where
  "json_is_object (JObj _) = True"
| "json_is_object _ = False"

fun json_is_array :: "json \<Rightarrow> bool" where
  "json_is_array (JArr _) = True"
| "json_is_array _ = False"

fun json_lookup :: "json \<Rightarrow> string \<Rightarrow> json option" where
  "json_lookup (JObj kvs) k = map_of kvs k"
| "json_lookup _ k = None"

definition json_contains :: "json \<Rightarrow> string \<Rightarrow> bool" where
  "json_contains j k \<longleftrightarrow> json_lookup j k \<noteq> None"

text \<open>\<open>j.contains(key) && j[key].is_array()\<close>, with the array.\<close>

definition json_array :: "json \<Rightarrow> string \<Rightarrow> json list option" where
  "json_array j k = (case json_lookup j k of Some (JArr js) \<Rightarrow> Some js | _ \<Rightarrow> None)"

text \<open>\<open>j[key]\<close> read through a non-const reference: null becomes an object and a missing member
  becomes null; any other kind of value is a type error.\<close>

fun json_field :: "json \<Rightarrow> string \<Rightarrow> exn + json" where
  "json_field (JObj kvs) k = Inr (case map_of kvs k of None \<Rightarrow> JNull | Some v \<Rightarrow> v)"
| "json_field JNull k = Inr JNull"
| "json_field _ k = Inl JsonError"

fun json_size :: "json \<Rightarrow> nat" where
  "json_size JNull = 0"
| "json_size (JArr js) = length js"
| "json_size (JObj kvs) = length kvs"
| "json_size _ = 1"

text \<open>The values a range-for loop visits: a scalar is visited once.\<close>

fun json_items :: "json \<Rightarrow> json list" where
  "json_items JNull = []"
| "json_items (JArr js) = js"
| "json_items (JObj kvs) = map snd kvs"
| "json_items j = [j]"

fun json_get_string :: "json \<Rightarrow> exn + string" where
  "json_get_string (JStr s) = Inr s"
| "json_get_string _ = Inl JsonError"

fun json_get_bool :: "json \<Rightarrow> exn + bool" where
  "json_get_bool (JBool b) = Inr b"
| "json_get_bool _ = Inl JsonError"

text \<open>\<open>j.value(key, default)\<close>.\<close>

definition json_value :: "(json \<Rightarrow> exn + 'a) \<Rightarrow> json \<Rightarrow> string \<Rightarrow> 'a \<Rightarrow> exn + 'a" where
  "json_value conv j k dflt =
     (case j of
        JObj kvs \<Rightarrow> (case map_of kvs k of None \<Rightarrow> Inr dflt | Some v \<Rightarrow> conv v)
      | _ \<Rightarrow> Inl JsonError)"

text \<open>\<open>j.get<std::vector<T>>()\<close>, and the loops that push \<open>v.get<T>()\<close> for each element.\<close>

fun map_result :: "('a \<Rightarrow> exn + 'b) \<Rightarrow> 'a list \<Rightarrow> exn + 'b list" where
  "map_result f [] = Inr []"
| "map_result f (x # xs) = bindR (f x) (\<lambda>y. bindR (map_result f xs) (\<lambda>ys. Inr (y # ys)))"

lemma map_result_Inr:
  "map_result f xs = Inr ys \<longleftrightarrow> list_all2 (\<lambda>x y. f x = Inr y) xs ys"
proof (induction xs arbitrary: ys)
  case Nil
  then show ?case by auto
next
  case (Cons x xs)
  then show ?case by (cases ys) (auto simp: bindR_eq_Inr)
qed

lemma map_result_length: "map_result f xs = Inr ys \<Longrightarrow> length ys = length xs"
  by (simp add: map_result_Inr list_all2_lengthD)

section \<open>Updates\<close>

fun kv_insert :: "string \<Rightarrow> json \<Rightarrow> (string \<times> json) list \<Rightarrow> (string \<times> json) list" where
  "kv_insert k v [] = [(k, v)]"
| "kv_insert k v ((k', v') # kvs) =
     (if k < k' then (k, v) # (k', v') # kvs
      else if k = k' then (k, v) # kvs
      else (k', v') # kv_insert k v kvs)"

text \<open>\<open>j[key] = v\<close>.\<close>

fun json_set_field :: "json \<Rightarrow> string \<Rightarrow> json \<Rightarrow> exn + json" where
  "json_set_field (JObj kvs) k v = Inr (JObj (kv_insert k v kvs))"
| "json_set_field JNull k v = Inr (JObj [(k, v)])"
| "json_set_field _ k v = Inl JsonError"

text \<open>An object literal \<open>{{k1, v1}, ...}\<close>.\<close>

definition json_object :: "(string \<times> json) list \<Rightarrow> json" where
  "json_object kvs = JObj (foldl (\<lambda>m (k, v). kv_insert k v m) [] kvs)"

lemma map_of_kv_insert [simp]:
  assumes "sorted (map fst kvs)"
  shows "map_of (kv_insert k v kvs) = (map_of kvs)(k \<mapsto> v)"
  using assms
proof (induction kvs)
  case Nil
  then show ?case by simp
next
  case (Cons kv kvs)
  obtain k' v' where kv: "kv = (k', v')" by (cases kv)
  consider "k < k'" | "k = k'" | "k' < k" by (rule linorder_cases)
  then show ?case
  proof cases
    case 1
    then show ?thesis by (simp add: kv fun_eq_iff)
  next
    case 2
    then show ?thesis by (simp add: kv fun_eq_iff)
  next
    case 3
    then have "\<not> k < k'" and "k \<noteq> k'" by auto
    with Cons show ?thesis by (auto simp: kv fun_eq_iff)
  qed
qed

lemma set_kv_insert: "set (map fst (kv_insert k v kvs)) = insert k (set (map fst kvs))"
proof (induction kvs)
  case Nil
  then show ?case by simp
next
  case (Cons kv kvs)
  obtain k' v' where kv: "kv = (k', v')" by (cases kv)
  show ?case
    using Cons.IH by (cases "k < k'"; cases "k = k'") (simp_all add: kv insert_commute)
qed

lemma sorted_kv_insert: "sorted (map fst kvs) \<Longrightarrow> sorted (map fst (kv_insert k v kvs))"
proof (induction kvs)
  case Nil
  then show ?case by simp
next
  case (Cons kv kvs)
  obtain k' v' where kv: "kv = (k', v')" by (cases kv)
  have hd: "\<forall>x \<in> set (map fst kvs). k' \<le> x" and tl: "sorted (map fst kvs)"
    using Cons.prems by (auto simp: kv)
  show ?case
    using Cons.IH [OF tl] hd tl set_kv_insert [of k v kvs]
    by (cases "k < k'"; cases "k = k'") (auto simp: kv)
qed

lemma json_lookup_set_field:
  assumes "json_set_field j k v = Inr j'" and "\<And>kvs. j = JObj kvs \<Longrightarrow> sorted (map fst kvs)"
  shows "json_lookup j' x = (if x = k then Some v else json_lookup j x)"
  using assms by (cases j) auto

text \<open>The exceptions of the element accesses.\<close>

lemma or_json_error_simps [simp]:
  "or_json_error None = Inl JsonError" "or_json_error (Some x) = Inr x"
  by (simp_all add: or_json_error_def)

lemma map_result_Inl: "map_result f xs = Inl e \<Longrightarrow> \<exists>x \<in> set xs. f x = Inl e"
  by (induction xs) (auto simp: bindR_eq_Inl)

lemma json_width_exceptions:
  "json_get_u8 J j = Inl e \<Longrightarrow> e = JsonError" "json_get_u16 J j = Inl e \<Longrightarrow> e = JsonError"
  by (auto simp: json_get_u8_def json_get_u16_def or_json_error_def split: option.splits)

lemma json_exceptions:
  "json_dump J i j = Inl e \<Longrightarrow> e = JsonError" "json_get_int J j = Inl e \<Longrightarrow> e = JsonError"
  "json_get_u32 J j = Inl e \<Longrightarrow> e = JsonError" "json_get_string j = Inl e \<Longrightarrow> e = JsonError"
  "json_get_bool j = Inl e \<Longrightarrow> e = JsonError" "json_field j k = Inl e \<Longrightarrow> e = JsonError"
  "json_set_field j k v = Inl e \<Longrightarrow> e = JsonError"
  by (auto simp: json_dump_def json_get_int_def json_get_u32_def or_json_error_def
      split: option.splits)
    (cases j; simp)+

lemma json_value_exceptions:
  "(\<And>v e. conv v = Inl e \<Longrightarrow> e = JsonError) \<Longrightarrow> json_value conv j k d = Inl e \<Longrightarrow> e = JsonError"
  by (auto simp: json_value_def split: json.splits option.splits)

text \<open>Lookups in an object literal: the last pair with the key counts.\<close>

lemma json_object_fold:
  assumes "sorted (map fst m)"
  shows "sorted (map fst (foldl (\<lambda>m (k, v). kv_insert k v m) m kvs))
    \<and> map_of (foldl (\<lambda>m (k, v). kv_insert k v m) m kvs) = map_of m ++ map_of (rev kvs)"
  using assms
proof (induction kvs arbitrary: m)
  case Nil
  then show ?case by simp
next
  case (Cons kv kvs)
  obtain k v where kv: "kv = (k, v)" by (cases kv)
  show ?case
    using Cons.IH [OF sorted_kv_insert [OF Cons.prems, of k v]] Cons.prems
    by (simp add: kv) (simp add: fun_upd_def)
qed

lemma json_lookup_object: "json_lookup (json_object kvs) k = map_of (rev kvs) k"
  using json_object_fold [of "[]" kvs] by (simp add: json_object_def)

lemma json_value_object:
  "json_value conv (json_object kvs) k d =
     (case map_of (rev kvs) k of None \<Rightarrow> Inr d | Some v \<Rightarrow> conv v)"
  using json_object_fold [of "[]" kvs] by (simp add: json_value_def json_object_def)

lemma json_object_kind [simp]: "json_object kvs \<noteq> JDiscarded" "json_object kvs \<noteq> JNull"
  by (simp_all add: json_object_def)

end
