(* ===== verification/World.thy ===== *)
theory World
  imports Json IpmiStats
begin

text \<open>
  The world outside the daemons, and the state of the event-filtering daemon.

  The record \<open>env\<close> collects what the daemons call and the repository does not contain: the D-Bus
  with the services behind it, the resolver, the network interfaces, the clock, OpenSSL, net-snmp
  and the JSON library.  Everything whose answer may change over time works on a state \<open>'w\<close> of its
  own choice.  A call of the outside is a value of type \<open>ecall\<close>; the state of a daemon records the
  calls it has made, in order, in the ghost field \<open>trace\<close>.
\<close>

section \<open>D-Bus values and calls\<close>

datatype dval =
    DU8 u8
  | DU16 u16
  | DU32 u32
  | DU64 "64 word"
  | DI32 int
  | DBool bool
  | DStr string
  | DU8s "u8 list"
  | DU16s "u16 list"
  | DStrs "string list"
  | DAssociations "(string \<times> string \<times> string) list"
  | DStrMap "(string \<times> string) list"
  | DChanMap "(u8 \<times> string) list"
  | DProps "(string \<times> dval) list"
  | DObject "(string \<times> string list) list"
  | DSubTree "(string \<times> (string \<times> string list) list) list"
  | DManaged "(string \<times> (string \<times> (string \<times> dval) list) list) list"

datatype snmp_version = SNMP_VERSION_1 | SNMP_VERSION_2c | SNMP_VERSION_3

datatype auth_proto = usmHMAC256SHA384 | usmHMAC384SHA512 | SNMP_DEFAULT_AUTH
datatype priv_proto = usmAES256 | SNMP_DEFAULT_PRIV

record snmp_session =
  peername :: string
  localname :: string
  ss_version :: snmp_version
  ss_community :: string
  securityName :: string
  securityEngineID :: string
  securityAuthProto :: auth_proto
  securityAuthKey :: string
  securityPrivProto :: priv_proto
  securityPrivKey :: string

datatype asn_type = ASN_INTEGER | ASN_UNSIGNED | ASN_OPAQUE_U64 | ASN_OCTET_STR | ASN_OTHER

datatype snmp_value = VUInt32 u32 | VUInt64 "64 word" | VInt32 "32 word" | VString string | VOid "nat list"

datatype pdu_command = SNMP_MSG_TRAP | SNMP_MSG_TRAP2

record snmp_pdu =
  command :: pdu_command
  enterprise_specific :: bool
  varbinds :: "(nat list \<times> snmp_value) list"

text \<open>
  \<open>OpenBus\<close> is \<open>sdbusplus::bus::new_default()\<close>, \<open>OpenSystemBus\<close> is \<open>sd_bus_default_system()\<close>,
  \<open>Method\<close> is \<open>new_method_call\<close> with its arguments followed by \<open>call\<close>.
\<close>

datatype ecall =
    OpenBus
  | OpenSystemBus
  | Method string string string string "dval list"
  | Sleep nat
  | SnmpOpen string
  | SnmpSend snmp_session snmp_pdu

text \<open>
  What comes back: the call throws, or a reply with its error flag and the value that
  \<open>message::read\<close> puts in the variable.
\<close>

datatype breply = BusError | Reply bool dval

definition PROP_INTF :: string where
  "PROP_INTF = ''org.freedesktop.DBus.Properties''"

definition METHOD_GET :: string where "METHOD_GET = ''Get''"
definition METHOD_GET_ALL :: string where "METHOD_GET_ALL = ''GetAll''"
definition METHOD_SET :: string where "METHOD_SET = ''Set''"

definition MAPPER_BUSNAME :: string where "MAPPER_BUSNAME = ''xyz.openbmc_project.ObjectMapper''"
definition MAPPER_INTERFACE :: string where "MAPPER_INTERFACE = ''xyz.openbmc_project.ObjectMapper''"
definition MAPPER_PATH :: string where "MAPPER_PATH = ''/xyz/openbmc_project/object_mapper''"

definition get_property :: "string \<Rightarrow> string \<Rightarrow> string \<Rightarrow> string \<Rightarrow> ecall" where
  "get_property svc path iface prop = Method svc path PROP_INTF METHOD_GET [DStr iface, DStr prop]"

definition get_all_properties :: "string \<Rightarrow> string \<Rightarrow> string \<Rightarrow> ecall" where
  "get_all_properties svc path iface = Method svc path PROP_INTF METHOD_GET_ALL [DStr iface]"

definition set_property :: "string \<Rightarrow> string \<Rightarrow> string \<Rightarrow> string \<Rightarrow> dval \<Rightarrow> ecall" where
  "set_property svc path iface prop v =
     Method svc path PROP_INTF METHOD_SET [DStr iface, DStr prop, v]"

section \<open>The environment\<close>

text \<open>The crypto library: base64 in both directions (\<open>None\<close>: the text does not decode), and AES-256-CBC
  by key and initialisation vector (\<open>None\<close>: one of the steps of the cipher context fails).\<close>

record crypto_lib =
  cl_b64_encode :: "string \<Rightarrow> string"
  cl_b64_decode :: "string \<Rightarrow> string option"
  cl_encrypt :: "string \<Rightarrow> string \<Rightarrow> string \<Rightarrow> string option"
  cl_decrypt :: "string \<Rightarrow> string \<Rightarrow> string \<Rightarrow> string option"

record ifaddr =
  ifa_name :: string
  ifa_inet :: "string option"

datatype ip_family = AF_INET | AF_INET6

text \<open>\<open>e_inet_pton\<close> says whether \<open>inet_pton\<close> returns 1, \<open>e_getaddrinfo\<close> whether \<open>getaddrinfo\<close> returns 0
  for a stream socket of the family.\<close>

record 'w env =
  e_bus :: "'w \<Rightarrow> ecall \<Rightarrow> breply \<times> 'w"
  e_writable :: "string \<Rightarrow> bool"
  e_time :: "'w \<Rightarrow> string"
  e_monotonic :: "'w \<Rightarrow> (nat \<times> nat) option"
  e_rand :: "'w \<Rightarrow> nat \<Rightarrow> string option \<times> 'w"
  e_ifaddrs :: "'w \<Rightarrow> ifaddr list"
  e_resolves :: "'w \<Rightarrow> string \<Rightarrow> bool"
  e_inet_pton :: "ip_family \<Rightarrow> string \<Rightarrow> bool"
  e_getaddrinfo :: "'w \<Rightarrow> ip_family \<Rightarrow> string \<Rightarrow> bool"
  e_snmp_group :: "'w \<Rightarrow> string list option"
  e_engine_id :: string
  e_generate_Ku :: "auth_proto \<Rightarrow> string \<Rightarrow> string option"
  e_add_variable :: "nat list \<Rightarrow> snmp_value \<Rightarrow> bool"
  e_json :: json_lib
  e_crypto :: crypto_lib

section \<open>The state of the daemon\<close>

text \<open>
  The globals of \<open>pef_action.cpp\<close>, the function-local statics of \<open>sdrutils.hpp\<close> (the cached sensor
  tree, the cached sensor-number map, the two update indices and the table of statistics), the file
  system, and the world.
\<close>

type_synonym sensor_tree = "(string \<times> (string \<times> string list) list) list"
type_synonym sensor_num_map = "(u16 \<times> string) list"

record 'w sys =
  world :: 'w
  trace :: "ecall list"
  files :: "string \<Rightarrow> string option"
  retryEnable :: bool
  retryCount :: u8
  timeInterval :: u32
  alertsLimit :: u8
  sensorTreePtr :: "sensor_tree option"
  sensorUpdatedIndex :: u16
  sensorNumMapPtr :: "sensor_num_map option"
  prevSensorUpdatedIndex :: u16
  sdrStatsTable :: "IPMIStatsEntry list"

type_synonym ('w, 'a) act = "('w sys, 'a) prog"

section \<open>Calling the outside\<close>

definition ext_call :: "'w env \<Rightarrow> ecall \<Rightarrow> ('w, breply) act" where
  "ext_call E c = (\<lambda>s. case e_bus E (world s) c of
      (r, w') \<Rightarrow> (Inr r, s\<lparr>world := w', trace := trace s @ [c]\<rparr>))"

text \<open>\<open>conn->call(method)\<close>: a failing call throws.\<close>

definition bus_call :: "'w env \<Rightarrow> ecall \<Rightarrow> ('w, bool \<times> dval) act" where
  "bus_call E c = bindE (ext_call E c)
     (\<lambda>r. case r of BusError \<Rightarrow> throwE DBusError | Reply err v \<Rightarrow> ret (err, v))"

text \<open>\<open>reply.read(x)\<close> throws when the content has another signature than \<open>x\<close>.\<close>

fun read_props :: "dval \<Rightarrow> exn + (string \<times> dval) list" where
  "read_props (DProps m) = Inr m"
| "read_props _ = Inl DBusError"

fun read_strings :: "dval \<Rightarrow> exn + string list" where
  "read_strings (DStrs xs) = Inr xs"
| "read_strings _ = Inl DBusError"

fun read_channels :: "dval \<Rightarrow> exn + (u8 \<times> string) list" where
  "read_channels (DChanMap m) = Inr m"
| "read_channels _ = Inl DBusError"

fun read_bool :: "dval \<Rightarrow> exn + bool" where
  "read_bool (DBool b) = Inr b"
| "read_bool _ = Inl DBusError"

fun read_u16 :: "dval \<Rightarrow> exn + u16" where
  "read_u16 (DU16 x) = Inr x"
| "read_u16 _ = Inl DBusError"

fun read_subtree :: "dval \<Rightarrow> exn + sensor_tree" where
  "read_subtree (DSubTree t) = Inr t"
| "read_subtree _ = Inl DBusError"

fun read_object :: "dval \<Rightarrow> exn + (string \<times> string list) list" where
  "read_object (DObject t) = Inr t"
| "read_object _ = Inl DBusError"

fun read_managed :: "dval \<Rightarrow> exn + (string \<times> (string \<times> (string \<times> dval) list) list) list" where
  "read_managed (DManaged t) = Inr t"
| "read_managed _ = Inl DBusError"

text \<open>\<open>std::get<T>(variant)\<close>.\<close>

fun get_u8 :: "dval \<Rightarrow> exn + u8" where
  "get_u8 (DU8 x) = Inr x"
| "get_u8 _ = Inl BadVariantAccess"

fun get_u16 :: "dval \<Rightarrow> exn + u16" where
  "get_u16 (DU16 x) = Inr x"
| "get_u16 _ = Inl BadVariantAccess"

fun get_u64 :: "dval \<Rightarrow> exn + 64 word" where
  "get_u64 (DU64 x) = Inr x"
| "get_u64 _ = Inl BadVariantAccess"

fun get_associations :: "dval \<Rightarrow> exn + (string \<times> string \<times> string) list" where
  "get_associations (DAssociations x) = Inr x"
| "get_associations _ = Inl BadVariantAccess"

fun get_bool :: "dval \<Rightarrow> exn + bool" where
  "get_bool (DBool x) = Inr x"
| "get_bool _ = Inl BadVariantAccess"

fun get_str :: "dval \<Rightarrow> exn + string" where
  "get_str (DStr x) = Inr x"
| "get_str _ = Inl BadVariantAccess"

fun get_u8s :: "dval \<Rightarrow> exn + u8 list" where
  "get_u8s (DU8s x) = Inr x"
| "get_u8s _ = Inl BadVariantAccess"

fun get_u16s :: "dval \<Rightarrow> exn + u16 list" where
  "get_u16s (DU16s x) = Inr x"
| "get_u16s _ = Inl BadVariantAccess"

fun get_strs :: "dval \<Rightarrow> exn + string list" where
  "get_strs (DStrs x) = Inr x"
| "get_strs _ = Inl BadVariantAccess"

section \<open>Frame relations of the daemon\<close>

text \<open>The calls made between two states all satisfy \<open>P\<close>, and no earlier call is forgotten.\<close>

definition calls_only :: "(ecall \<Rightarrow> bool) \<Rightarrow> 'w sys \<Rightarrow> 'w sys \<Rightarrow> bool" where
  "calls_only P s s' \<longleftrightarrow> (\<exists>t. trace s' = trace s @ t \<and> list_all P t)"

text \<open>The retry settings are untouched.\<close>

definition same_retry :: "'w sys \<Rightarrow> 'w sys \<Rightarrow> bool" where
  "same_retry s s' \<longleftrightarrow> retryEnable s' = retryEnable s \<and> retryCount s' = retryCount s
     \<and> timeInterval s' = timeInterval s \<and> alertsLimit s' = alertsLimit s"

definition same_files :: "'w sys \<Rightarrow> 'w sys \<Rightarrow> bool" where
  "same_files s s' \<longleftrightarrow> files s' = files s"

interpretation calls: frame_relation "calls_only P" for P
proof unfold_locales
  show "calls_only P s s" for s :: "'w sys" by (simp add: calls_only_def)
next
  fix s t u :: "'w sys"
  assume "calls_only P s t" and "calls_only P t u"
  then show "calls_only P s u" by (auto simp: calls_only_def)
qed

interpretation retry_frame: frame_relation same_retry
  by unfold_locales (simp_all add: same_retry_def)

interpretation file_frame: frame_relation same_files
  by unfold_locales (simp_all add: same_files_def)

lemma calls_only_mono: "calls_only P s s' \<Longrightarrow> (\<And>c. P c \<Longrightarrow> Q c) \<Longrightarrow> calls_only Q s s'"
  by (auto simp: calls_only_def intro: list.pred_mono_strong)

lemma sat_calls_mono: "sat (calls_only P) m \<Longrightarrow> (\<And>c. P c \<Longrightarrow> Q c) \<Longrightarrow> sat (calls_only Q) m"
  by (auto intro: sat_mono calls_only_mono)

lemma calls_ext_call [frame_intros]: "P c \<Longrightarrow> sat (calls_only P) (ext_call E c)"
  by (auto simp: sat_def ext_call_def calls_only_def split: prod.splits)

lemma calls_bus_call [frame_intros]: "P c \<Longrightarrow> sat (calls_only P) (bus_call E c)"
  unfolding bus_call_def
  by (auto intro!: calls.sat_bind calls_ext_call calls.sat_basic split: breply.splits)

lemma retry_ext_call [frame_intros]: "sat same_retry (ext_call E c)"
  by (auto simp: sat_def ext_call_def same_retry_def split: prod.splits)

lemma retry_bus_call [frame_intros]: "sat same_retry (bus_call E c)"
  unfolding bus_call_def
  by (auto intro!: retry_frame.sat_bind retry_ext_call retry_frame.sat_basic split: breply.splits)

lemma files_ext_call [frame_intros]: "sat same_files (ext_call E c)"
  by (auto simp: sat_def ext_call_def same_files_def split: prod.splits)

lemma files_bus_call [frame_intros]: "sat same_files (bus_call E c)"
  unfolding bus_call_def
  by (auto intro!: file_frame.sat_bind files_ext_call file_frame.sat_basic split: breply.splits)

text \<open>An invariant that a call does not touch.\<close>

lemma keep_ext_call:
  assumes "\<And>s w t. I s \<Longrightarrow> I (s\<lparr>world := w, trace := t\<rparr>)"
  shows "sat (keeps I) (ext_call E c)"
  using assms by (auto simp: sat_def keeps_def ext_call_def split: prod.splits)

lemma keep_bus_call:
  assumes "\<And>s w t. I s \<Longrightarrow> I (s\<lparr>world := w, trace := t\<rparr>)"
  shows "sat (keeps I) (bus_call E c)"
  unfolding bus_call_def
  by (auto intro!: keep.sat_bind keep_ext_call assms keep.sat_basic split: breply.splits)

lemma raises_ext_call: "raises P (ext_call E c)"
  by (simp add: raises_def ext_call_def split: prod.split)

lemma raises_bus_call: "P DBusError \<Longrightarrow> raises P (bus_call E c)"
  by (auto simp: raises_def bus_call_def bindE_def ext_call_def split: prod.splits breply.splits)

text \<open>The exceptions of the readers.\<close>

lemma read_exceptions:
  "read_props v = Inl e \<Longrightarrow> e = DBusError" "read_strings v = Inl e \<Longrightarrow> e = DBusError"
  "read_channels v = Inl e \<Longrightarrow> e = DBusError" "read_bool v = Inl e \<Longrightarrow> e = DBusError"
  "read_u16 v = Inl e \<Longrightarrow> e = DBusError" "read_subtree v = Inl e \<Longrightarrow> e = DBusError"
  "read_managed v = Inl e \<Longrightarrow> e = DBusError" "read_object v = Inl e \<Longrightarrow> e = DBusError"
  by (cases v; simp)+

lemma get_exceptions:
  "get_u8 v = Inl e \<Longrightarrow> e = BadVariantAccess" "get_u16 v = Inl e \<Longrightarrow> e = BadVariantAccess"
  "get_bool v = Inl e \<Longrightarrow> e = BadVariantAccess" "get_str v = Inl e \<Longrightarrow> e = BadVariantAccess"
  "get_u8s v = Inl e \<Longrightarrow> e = BadVariantAccess" "get_u16s v = Inl e \<Longrightarrow> e = BadVariantAccess"
  "get_strs v = Inl e \<Longrightarrow> e = BadVariantAccess" "get_u64 v = Inl e \<Longrightarrow> e = BadVariantAccess"
  "get_associations v = Inl e \<Longrightarrow> e = BadVariantAccess"
  by (cases v; simp)+

lemmas pure_exceptions = read_exceptions get_exceptions access_exceptions

lemmas calls_sat = calls.sat_basic calls.sat_compound sat_branch calls_bus_call calls_ext_call
lemmas retry_sat =
  retry_frame.sat_basic retry_frame.sat_compound sat_branch retry_bus_call retry_ext_call
lemmas files_sat =
  file_frame.sat_basic file_frame.sat_compound sat_branch files_bus_call files_ext_call

lemma ext_call_apply:
  "ext_call E c s = (Inr (fst (e_bus E (world s) c)),
     s\<lparr>world := snd (e_bus E (world s) c), trace := trace s @ [c]\<rparr>)"
  by (simp add: ext_call_def split: prod.splits)

text \<open>The state after a call, and the outcome of a call that is answered.\<close>

definition after_call :: "'w env \<Rightarrow> ecall \<Rightarrow> 'w sys \<Rightarrow> 'w sys" where
  "after_call E c s = s\<lparr>world := snd (e_bus E (world s) c), trace := trace s @ [c]\<rparr>"

lemma bus_call_Reply [prog_simps]:
  "fst (e_bus E (world s) c) = Reply err v \<Longrightarrow> bus_call E c s = (Inr (err, v), after_call E c s)"
  by (simp add: bus_call_def bindE_def ext_call_apply after_call_def)

lemma bus_call_BusError [prog_simps]:
  "fst (e_bus E (world s) c) = BusError \<Longrightarrow> bus_call E c s = (Inl DBusError, after_call E c s)"
  by (simp add: bus_call_def bindE_def ext_call_apply after_call_def)

lemma bus_call_eq:
  "bus_call E c s =
     (case fst (e_bus E (world s) c) of
        BusError \<Rightarrow> (Inl DBusError, after_call E c s)
      | Reply err v \<Rightarrow> (Inr (err, v), after_call E c s))"
  by (simp add: bus_call_Reply bus_call_BusError split: breply.split)

lemma after_call_simps [simp]:
  "trace (after_call E c s) = trace s @ [c]"
  "world (after_call E c s) = snd (e_bus E (world s) c)"
  "files (after_call E c s) = files s"
  "retryEnable (after_call E c s) = retryEnable s"
  "sensorTreePtr (after_call E c s) = sensorTreePtr s"
  "sensorNumMapPtr (after_call E c s) = sensorNumMapPtr s"
  "sensorUpdatedIndex (after_call E c s) = sensorUpdatedIndex s"
  "prevSensorUpdatedIndex (after_call E c s) = prevSensorUpdatedIndex s"
  by (simp_all add: after_call_def)

lemma bus_call_cases:
  obtains (error) "bus_call E c s = (Inl DBusError, after_call E c s)"
  | (reply) err v where "bus_call E c s = (Inr (err, v), after_call E c s)"
  by (cases "fst (e_bus E (world s) c)") (auto simp: prog_simps)

text \<open>Calls that only read: property reads and the queries of the object mapper and of the user
  manager.\<close>

definition is_read_call :: "ecall \<Rightarrow> bool" where
  "is_read_call c \<longleftrightarrow> (case c of
      Method svc path iface member args \<Rightarrow>
        (iface = PROP_INTF \<and> (member = METHOD_GET \<or> member = METHOD_GET_ALL))
        \<or> (svc = MAPPER_BUSNAME \<and> iface = MAPPER_INTERFACE)
        \<or> member = ''GetChannelInterfaceMap''
    | OpenBus \<Rightarrow> True
    | OpenSystemBus \<Rightarrow> True
    | _ \<Rightarrow> False)"

lemma is_read_call_get [simp]:
  "is_read_call (get_property a b c d)" "is_read_call (get_all_properties a b c)"
  by (simp_all add: is_read_call_def get_property_def get_all_properties_def)

lemma is_read_call_set [simp]: "\<not> is_read_call (set_property a b c d e)"
  by (simp add: is_read_call_def set_property_def PROP_INTF_def MAPPER_INTERFACE_def METHOD_SET_def
      METHOD_GET_def METHOD_GET_ALL_def)

section \<open>A concrete environment\<close>

text \<open>
  An environment whose bus answers by a fixed table, and an initial state: the instances at which the
  conditional theorems are applied.
\<close>

definition table_env :: "(ecall \<Rightarrow> breply) \<Rightarrow> unit env" where
  "table_env f =
     \<lparr>e_bus = (\<lambda>w c. (f c, w)), e_writable = (\<lambda>_. True), e_time = (\<lambda>_. ''now''), e_monotonic = (\<lambda>_. Some (0, 0)),
      e_rand = (\<lambda>w n. (Some (replicate n CHR ''r''), w)),
      e_ifaddrs = (\<lambda>_. []), e_resolves = (\<lambda>_ _. True),
      e_inet_pton = (\<lambda>_ _. False), e_getaddrinfo = (\<lambda>_ _ _. False), e_snmp_group = (\<lambda>_. None),
      e_engine_id = [], e_generate_Ku = (\<lambda>_ _. None), e_add_variable = (\<lambda>_ _. True),
      e_json = \<lparr>jl_parse = (\<lambda>_. JDiscarded), jl_dump = (\<lambda>_ _. Some []), jl_int = (\<lambda>_. None),
                jl_u8 = (\<lambda>_. None), jl_u16 = (\<lambda>_. None), jl_u32 = (\<lambda>_. None), jl_merge_patch = (\<lambda>_ p. p)\<rparr>,
      e_crypto = \<lparr>cl_b64_encode = id, cl_b64_decode = Some, cl_encrypt = (\<lambda>_ _ _. None), cl_decrypt = (\<lambda>_ _ _. None)\<rparr>\<rparr>"

definition initial_sys :: "'w \<Rightarrow> 'w sys" where
  "initial_sys w =
     \<lparr>world = w, trace = [], files = (\<lambda>_. None), retryEnable = False, retryCount = 0,
      timeInterval = 0, alertsLimit = 0, sensorTreePtr = None, sensorUpdatedIndex = 0,
      sensorNumMapPtr = None, prevSensorUpdatedIndex = 0, sdrStatsTable = []\<rparr>"

lemma table_env_simps [simp]:
  "e_bus (table_env f) w c = (f c, w)"
  "e_time (table_env f) w = ''now''"
  "e_ifaddrs (table_env f) w = []"
  "e_resolves (table_env f) w h = True"
  "e_inet_pton (table_env f) fam a = False" "e_getaddrinfo (table_env f) w fam h = False"
  "e_snmp_group (table_env f) w = None"
  by (simp_all add: table_env_def)

lemma initial_sys_simps [simp]:
  "world (initial_sys w) = w" "trace (initial_sys w) = []"
  "sensorTreePtr (initial_sys w) = None" "sensorNumMapPtr (initial_sys w) = None"
  "sensorUpdatedIndex (initial_sys w) = 0" "prevSensorUpdatedIndex (initial_sys w) = 0"
  "retryEnable (initial_sys w) = False" "files (initial_sys w) = (\<lambda>_. None)"
  by (simp_all add: initial_sys_def)

end
