(* ===== verification/JsonEdit.thy ===== *)
theory JsonEdit
  imports World
begin

text \<open>
  Changing JSON documents in place, and the configuration files they live in: access to a member
  through a reference, assignment to a member of an array element, loops over the elements of a
  container with \<open>break\<close>, and reading and writing a document as a whole.
\<close>

section \<open>References\<close>

text \<open>\<open>auto& x = j[key]\<close>: the referenced value, and the document, in which a missing member has become
  null.\<close>

definition json_ref :: "json \<Rightarrow> string \<Rightarrow> exn + json \<times> json" where
  "json_ref j k = bindR (json_field j k) (\<lambda>v. bindR (json_set_field j k v) (\<lambda>j'. Inr (v, j')))"

text \<open>A change of the member \<open>k\<close> through such a reference.\<close>

definition edit_member :: "(json \<Rightarrow> exn + json) \<Rightarrow> json \<Rightarrow> string \<Rightarrow> exn + json" where
  "edit_member f j k = bindR (json_field j k) (\<lambda>v. bindR (f v) (json_set_field j k))"

text \<open>\<open>j[i][key] = v\<close> with an index \<open>i\<close>: an array grows with null elements when it is too short.\<close>

fun json_set_index :: "json \<Rightarrow> nat \<Rightarrow> string \<Rightarrow> json \<Rightarrow> exn + json" where
  "json_set_index (JArr js) i k v =
     (let js' = js @ replicate (Suc i - length js) JNull
      in bindR (json_set_field (js' ! i) k v) (\<lambda>e. Inr (JArr (js'[i := e]))))"
| "json_set_index JNull i k v =
     bindR (json_set_field JNull k v) (\<lambda>e. Inr (JArr (replicate i JNull @ [e])))"
| "json_set_index _ i k v = Inl JsonError"

section \<open>Loops over a container\<close>

text \<open>\<open>for (auto& value : j)\<close>, where \<open>g\<close> changes the visited values.\<close>

fun with_items :: "(json list \<Rightarrow> exn + json list) \<Rightarrow> json \<Rightarrow> exn + json" where
  "with_items g JNull = Inr JNull"
| "with_items g (JArr js) = bindR (g js) (\<lambda>js'. Inr (JArr js'))"
| "with_items g (JObj kvs) = bindR (g (map snd kvs)) (\<lambda>vs. Inr (JObj (zip (map fst kvs) vs)))"
| "with_items g j = bindR (g [j]) (\<lambda>vs. Inr (hd vs))"

text \<open>A body that gives the changed value and whether it leaves the loop by \<open>break\<close>.\<close>

fun update_until :: "(json \<Rightarrow> exn + json \<times> bool) \<Rightarrow> json list \<Rightarrow> exn + json list" where
  "update_until f [] = Inr []"
| "update_until f (v # vs) =
     bindR (f v) (\<lambda>(v', stop).
       if stop then Inr (v' # vs)
       else bindR (update_until f vs) (\<lambda>vs'. Inr (v' # vs')))"

section \<open>Files\<close>

text \<open>\<open>Json::parse(stream, nullptr, false)\<close> of a file; a file that cannot be opened is parsed as an empty
  stream, which is discarded like any text that is no document.\<close>

definition read_json :: "'w env \<Rightarrow> string \<Rightarrow> ('w, json) act" where
  "read_json E path = getsE (\<lambda>s. case files s path of
     None \<Rightarrow> JDiscarded | Some text \<Rightarrow> jl_parse (e_json E) text)"

text \<open>\<open>stream.open(path, trunc); stream << j.dump(4)\<close>, when the file can be opened: it is empty when the
  printer throws.\<close>

definition write_json :: "'w env \<Rightarrow> string \<Rightarrow> json \<Rightarrow> ('w, unit) act" where
  "write_json E path j =
     thenE (modifyE (\<lambda>s. s\<lparr>files := (files s)(path := Some '''')\<rparr>))
       (bindE (liftE (json_dump (e_json E) 4 j))
          (\<lambda>text. modifyE (\<lambda>s. s\<lparr>files := (files s)(path := Some text)\<rparr>)))"

lemma write_json_printed:
  "jl_dump (e_json E) 4 j = Some text \<Longrightarrow>
   write_json E path j s = (Inr (), s\<lparr>files := (files s)(path := Some text)\<rparr>)"
  by (simp add: write_json_def json_dump_def thenE_def bindE_def)

lemma write_json_failed:
  "jl_dump (e_json E) 4 j = None \<Longrightarrow>
   write_json E path j s = (Inl JsonError, s\<lparr>files := (files s)(path := Some '''')\<rparr>)"
  by (simp add: write_json_def json_dump_def thenE_def bindE_def)

section \<open>Facts\<close>

lemma json_set_index_Inr:
  assumes "i < length js" and "json_set_field (js ! i) k v = Inr e"
  shows "json_set_index (JArr js) i k v = Inr (JArr (js[i := e]))"
  using assms by (simp add: Let_def)

lemma edit_member_object:
  assumes "map_of kvs k = Some v" and "f v = Inr v'"
  shows "edit_member f (JObj kvs) k = Inr (JObj (kv_insert k v' kvs))"
  using assms by (simp add: edit_member_def)

lemma edit_exceptions:
  "json_ref j k = Inl e \<Longrightarrow> e = JsonError" "json_set_index j i k v = Inl e \<Longrightarrow> e = JsonError"
proof -
  show "json_ref j k = Inl e \<Longrightarrow> e = JsonError"
    by (auto simp: json_ref_def bindR_eq_Inl dest: json_exceptions)
  show "json_set_index j i k v = Inl e \<Longrightarrow> e = JsonError"
    by (cases j) (auto simp: bindR_eq_Inl Let_def dest: json_exceptions)
qed

lemma edit_member_exceptions:
  "(\<And>v e. f v = Inl e \<Longrightarrow> e = JsonError) \<Longrightarrow> edit_member f j k = Inl e \<Longrightarrow> e = JsonError"
  by (auto simp: edit_member_def bindR_eq_Inl dest: json_exceptions)

lemma update_until_exceptions:
  "(\<And>v e. f v = Inl e \<Longrightarrow> e = JsonError) \<Longrightarrow> update_until f vs = Inl e \<Longrightarrow> e = JsonError"
  by (induction vs) (auto simp: bindR_eq_Inl split: if_splits prod.splits)

lemma with_items_exceptions:
  "(\<And>vs e. g vs = Inl e \<Longrightarrow> e = JsonError) \<Longrightarrow> with_items g j = Inl e \<Longrightarrow> e = JsonError"
  by (cases j) (auto simp: bindR_eq_Inl)

text \<open>The first value that \<open>P\<close> selects is changed, when no earlier one is touched.\<close>

lemma update_until_first:
  assumes "\<And>v. v \<in> set xs \<Longrightarrow> f v = Inr (v, False)" and "f y = Inr (y', True)"
  shows "update_until f (xs @ y # ys) = Inr (xs @ y' # ys)"
  using assms by (induction xs) simp_all

lemma update_until_none:
  "(\<And>v. v \<in> set xs \<Longrightarrow> f v = Inr (v, False)) \<Longrightarrow> update_until f xs = Inr xs"
  by (induction xs) simp_all

section \<open>Ordered documents\<close>

text \<open>Objects of a document have their members in the order of the keys.\<close>

fun json_sorted :: "json \<Rightarrow> bool" where
  "json_sorted (JObj kvs) \<longleftrightarrow> sorted (map fst kvs) \<and> list_all (json_sorted \<circ> snd) kvs"
| "json_sorted (JArr js) \<longleftrightarrow> list_all json_sorted js"
| "json_sorted _ \<longleftrightarrow> True"

lemma json_sorted_lookup: "json_sorted j \<Longrightarrow> json_lookup j k = Some v \<Longrightarrow> json_sorted v"
  by (cases j) (auto simp: list_all_iff dest!: map_of_SomeD)

lemma json_field_lookup:
  "json_field j k = Inr v \<Longrightarrow> v = (case json_lookup j k of None \<Rightarrow> JNull | Some x \<Rightarrow> x)"
  by (cases j) auto

lemma edit_member_lookup:
  assumes "edit_member f j k = Inr j'" and "json_sorted j"
  shows "\<exists>v v'. v = (case json_lookup j k of None \<Rightarrow> JNull | Some x \<Rightarrow> x) \<and> json_sorted v \<and> f v = Inr v'
    \<and> json_is_object j' \<and> (\<forall>k'. json_lookup j' k' = (if k' = k then Some v' else json_lookup j k'))"
proof -
  obtain v v' where e: "json_field j k = Inr v" "f v = Inr v'" "json_set_field j k v' = Inr j'"
    using assms(1) by (auto simp: edit_member_def bindR_eq_Inr)
  have v: "v = (case json_lookup j k of None \<Rightarrow> JNull | Some x \<Rightarrow> x)" by (rule json_field_lookup [OF e(1)])
  then have "json_sorted v" using json_sorted_lookup [OF assms(2)] by (auto split: option.split)
  moreover have "json_is_object j'" using e(3) by (cases j) auto
  moreover have "json_lookup j' k' = (if k' = k then Some v' else json_lookup j k')" for k'
    by (rule json_lookup_set_field [OF e(3)]) (use assms(2) in simp)
  ultimately show ?thesis using e(2) v by blast
qed

end
