(* ===== verification/PathUtils.thy ===== *)
theory PathUtils
  imports CppString
begin

text \<open>
  The object-path helpers of \<open>include/pef_utils.hpp\<close>, \<open>include/sdrutils.hpp\<close> and
  \<open>include/pef_config_update.hpp\<close>: the type and the name of a sensor from its D-Bus path, and the
  entry number at the end of an object path.
\<close>

definition slash :: char where "slash = CHR ''/''"

definition retrieveSensorTypeFromPath :: "string \<Rightarrow> u8 \<Rightarrow> string" where
  "retrieveSensorTypeFromPath path sensorType =
     (case rfind_char slash path of
        None \<Rightarrow> path
      | Some typeEnd \<Rightarrow>
          (case rfind_char_from slash path (size_sub typeEnd 1) of
             None \<Rightarrow> path
           | Some typeStart \<Rightarrow>
               substr path (typeStart + 1) (size_sub typeEnd (typeStart + 1))))"

definition getSensorNameFromPath :: "string \<Rightarrow> string" where
  "getSensorNameFromPath path =
     (case rfind_char slash path of
        None \<Rightarrow> path
      | Some nameStart \<Rightarrow> drop (nameStart + 1) path)"

definition getSensorTypeStringFromPath :: "string \<Rightarrow> string" where
  "getSensorTypeStringFromPath path =
     (case rfind_char slash path of
        None \<Rightarrow> path
      | Some typeEnd \<Rightarrow>
          (case rfind_char_from slash path (size_sub typeEnd 1) of
             None \<Rightarrow> path
           | Some typeStart \<Rightarrow>
               (let typeStart' = typeStart + 1
                in substr path typeStart' (size_sub typeEnd typeStart'))))"

text \<open>\<open>findEntryNo\<close>: the digits from the first digit of the last path component on.  \<open>atoi\<close> reads the
  digits at the front; a value beyond \<open>int\<close> is undefined there and is not produced here either, the
  model reads the number.\<close>

definition last_component :: "string \<Rightarrow> string" where
  "last_component path = rev (takeWhile (\<lambda>c. c \<noteq> slash \<and> c \<noteq> CHR 0x5C) (rev path))"

definition findEntryNo :: "string \<Rightarrow> nat" where
  "findEntryNo path =
     digits_value (takeWhile is_digit (dropWhile (\<lambda>c. \<not> is_digit c) (last_component path)))"

section \<open>Facts\<close>

lemma not_digit_separators: "\<not> is_digit slash" "\<not> is_digit (CHR 0x5C)"
  by (simp_all add: is_digit_def slash_def)

lemma sensor_path_slashes:
  assumes "slash \<notin> set t" and "slash \<notin> set n"
  shows "rfind_char slash (p @ slash # t @ slash # n) = Some (length p + 1 + length t)"
    and "rfind_char_from slash (p @ slash # t @ slash # n) (length p + length t) = Some (length p)"
proof -
  have "p @ slash # t @ slash # n = (p @ slash # t) @ slash # n" by simp
  moreover have "rfind_char slash ((p @ slash # t) @ slash # n) = Some (length (p @ slash # t))"
    by (rule rfind_char_snoc [OF assms(2)])
  ultimately show "rfind_char slash (p @ slash # t @ slash # n) = Some (length p + 1 + length t)"
    by simp
  have take: "take (Suc (length p + length t)) (p @ slash # t @ slash # n) = p @ slash # t"
    by simp
  have "last_index slash (p @ slash # t) = Some (length p)"
    by (rule last_index_snoc [OF assms(1)])
  with take show
    "rfind_char_from slash (p @ slash # t @ slash # n) (length p + length t) = Some (length p)"
    by (simp add: rfind_char_from_def)
qed

text \<open>The two copies of the type extraction compute the same string.\<close>

lemma type_string_same: "getSensorTypeStringFromPath path = retrieveSensorTypeFromPath path ty"
  by (simp add: getSensorTypeStringFromPath_def retrieveSensorTypeFromPath_def Let_def
      split: option.split)

lemma retrieve_sensor_type:
  assumes "slash \<notin> set t" and "slash \<notin> set n"
  shows "retrieveSensorTypeFromPath (p @ slash # t @ slash # n) ty = t"
proof -
  let ?path = "p @ slash # t @ slash # n"
  have "substr ?path (length p + 1) (length t) = t"
    using substr_mid [of "p @ [slash]" t "slash # n"] by simp
  then show ?thesis
    using sensor_path_slashes [OF assms, of p] by (simp add: retrieveSensorTypeFromPath_def)
qed

lemma sensor_name:
  assumes "slash \<notin> set n"
  shows "getSensorNameFromPath (p @ slash # n) = n"
  using rfind_char_snoc [OF assms, of p] by (simp add: getSensorNameFromPath_def)

text \<open>A sensor path is read back into the parts it was built from: for a path that ends in
  \<open>/type/name\<close>, where neither part holds a slash, both copies of the type extraction return the type
  and the name extraction returns the name.\<close>

theorem sensor_path_roundtrip:
  assumes "slash \<notin> set t" and "slash \<notin> set n"
  shows "retrieveSensorTypeFromPath (p @ slash # t @ slash # n) ty = t
    \<and> getSensorTypeStringFromPath (p @ slash # t @ slash # n) = t
    \<and> getSensorNameFromPath (p @ slash # t @ slash # n) = n"
proof -
  have "getSensorNameFromPath ((p @ slash # t) @ slash # n) = n"
    by (rule sensor_name [OF assms(2)])
  then show ?thesis
    using retrieve_sensor_type [OF assms, of p ty] type_string_same [of "p @ slash # t @ slash # n" ty]
    by simp
qed

lemma fan_path:
  "''/xyz/openbmc_project/sensors/fan_tach/Fan0''
     = ''/xyz/openbmc_project/sensors'' @ slash # ''fan_tach'' @ slash # ''Fan0''"
  by (simp add: slash_def)

lemma fan_parts: "slash \<notin> set ''fan_tach''" "slash \<notin> set ''Fan0''"
  by (simp_all add: slash_def)

theorem sensor_path_roundtrip_witness:
  "retrieveSensorTypeFromPath ''/xyz/openbmc_project/sensors/fan_tach/Fan0'' 0 = ''fan_tach''
    \<and> getSensorTypeStringFromPath ''/xyz/openbmc_project/sensors/fan_tach/Fan0'' = ''fan_tach''
    \<and> getSensorNameFromPath ''/xyz/openbmc_project/sensors/fan_tach/Fan0'' = ''Fan0''"
  unfolding fan_path by (rule sensor_path_roundtrip [OF fan_parts])

text \<open>The entry number of an object path \<open><prefix>/Entry<n>\<close> is read back exactly: printing
  a number at the end of such a path and parsing the path gives the number.\<close>

theorem findEntryNo_roundtrip:
  assumes "\<forall>c \<in> set w. c \<noteq> slash \<and> c \<noteq> CHR 0x5C \<and> \<not> is_digit c"
  shows "findEntryNo (p @ slash # w @ to_string n) = n"
proof -
  have digits: "\<forall>c \<in> set (to_string n). is_digit c" by (rule to_string_digits)
  then have nosl: "\<forall>c \<in> set (w @ to_string n). c \<noteq> slash \<and> c \<noteq> CHR 0x5C"
    using assms not_digit_separators by auto
  have lst: "last_component (p @ slash # w @ to_string n) = w @ to_string n"
  proof -
    have "takeWhile (\<lambda>c. c \<noteq> slash \<and> c \<noteq> CHR 0x5C) (rev (w @ to_string n) @ slash # rev p)
        = rev (w @ to_string n)"
      using nosl by (subst takeWhile_append2) auto
    then show ?thesis by (simp add: last_component_def)
  qed
  have drp: "dropWhile (\<lambda>c. \<not> is_digit c) (w @ to_string n) = to_string n"
  proof -
    have "dropWhile (\<lambda>c. \<not> is_digit c) (to_string n) = to_string n"
      using digits by (cases "to_string n") auto
    then show ?thesis using assms by (subst dropWhile_append2) auto
  qed
  have tak: "takeWhile is_digit (to_string n) = to_string n"
    using digits by simp
  show ?thesis
    unfolding findEntryNo_def lst drp tak by (rule digits_value_to_string)
qed

theorem findEntryNo_roundtrip_witness:
  "findEntryNo (''/xyz/openbmc_project/PefAlertManager/DestinationSelector'' @ slash # ''Entry''
     @ to_string 12) = 12"
  by (rule findEntryNo_roundtrip) (simp add: slash_def is_digit_def)

end
