(* ===== verification/EventMatch.thy ===== *)
theory EventMatch
  imports Prelude
begin

text \<open>
  The matching of an event against one entry of the event filter table: \<open>pefEveDataMatch\<close> and the
  guards of the entry loop in \<open>eventFilteringProcess\<close> (\<open>src/pef_action.cpp\<close>), on the entry of
  \<open>include/pef_utils.hpp\<close> and the event of \<open>include/pef_action.hpp\<close>.
\<close>

section \<open>Data\<close>

record EvtFilterTblEntry =
  FilterConfig :: u8
  EvtFilterAction :: u8
  AlertPolicyNum :: u8
  EventSeverity :: u8
  GenIDByte1 :: u8
  GenIDByte2 :: u8
  SensorType :: u8
  SensorNum :: u8
  EventTrigger :: u8
  EventData1OffsetMask :: u16
  EventData1ANDMask :: u8
  EventData1Cmp1 :: u8
  EventData1Cmp2 :: u8
  EventData2ANDMask :: u8
  EventData2Cmp1 :: u8
  EventData2Cmp2 :: u8
  EventData3ANDMask :: u8
  EventData3Cmp1 :: u8
  EventData3Cmp2 :: u8

record EventMsgData =
  recordId :: u16
  generatorId1 :: u8
  generatorId2 :: u8
  sensorNum :: u8
  sensorType :: u8
  eventType :: u8
  eventData0 :: u8
  eventData1 :: u8
  eventData2 :: u8
  msgStr :: string

definition ALL_BITS_MATCH_EXACT :: u8 where "ALL_BITS_MATCH_EXACT = 0xff"
definition ALL_ZERO_BITS :: u8 where "ALL_ZERO_BITS = 0x00"
definition ALL_ONE_BITS :: u8 where "ALL_ONE_BITS = 0xff"

lemmas match_constants = ALL_BITS_MATCH_EXACT_def ALL_ZERO_BITS_def ALL_ONE_BITS_def

section \<open>The operations\<close>

definition pefEveDataMatch :: "u8 \<Rightarrow> u8 \<Rightarrow> u8 \<Rightarrow> u8 \<Rightarrow> u8" where
  "pefEveDataMatch val andMask cmp1 cmp2 =
     (let temp1 = val AND andMask
      in if temp1 AND cmp1 = cmp2 AND cmp1 then
           (if ALL_BITS_MATCH_EXACT \<noteq> cmp1 then
              (let temp2 = temp1 AND NOT cmp1;
                   (match, cmp2Flag) =
                     (if ALL_ZERO_BITS \<noteq> cmp2 then
                        (if temp2 AND cmp2 = 0 then (0, True) else (1, False))
                      else (1, True))
               in if cmp2Flag \<and> cmp2 \<noteq> ALL_ONE_BITS then
                    (if NOT (temp2 OR cmp1) AND NOT cmp2 = 0 then 0 else 1)
                  else match)
            else 1)
         else 0)"

text \<open>The guards of one iteration of the entry loop, in the order of the code; \<open>True\<close> is the
  \<open>push_back\<close> at its end, \<open>False\<close> a \<open>continue\<close>.\<close>

definition header_mismatch :: "EvtFilterTblEntry \<Rightarrow> EventMsgData \<Rightarrow> bool" where
  "header_mismatch e ev \<longleftrightarrow>
     (GenIDByte1 e \<noteq> 0xFF \<and> GenIDByte1 e \<noteq> generatorId1 ev)
     \<or> (GenIDByte2 e \<noteq> 0xFF \<and> GenIDByte2 e \<noteq> generatorId2 ev)
     \<or> 0 = sensorType ev
     \<or> (SensorType e \<noteq> 0xFF \<and> SensorType e \<noteq> sensorType ev)
     \<or> (SensorNum e \<noteq> 0xFF \<and> SensorNum e \<noteq> sensorNum ev)
     \<or> (EventTrigger e \<noteq> 0xFF \<and> EventTrigger e \<noteq> eventType ev)"

definition entry_matches :: "EvtFilterTblEntry \<Rightarrow> EventMsgData \<Rightarrow> bool" where
  "entry_matches e ev =
     (if FilterConfig e AND 0x80 = 0 then False
      else if header_mismatch e ev then False
      else if pefEveDataMatch (eventData0 ev) (EventData1ANDMask e) (EventData1Cmp1 e)
                (EventData1Cmp2 e) = 0 then False
      else if pefEveDataMatch (eventData1 ev) (EventData2ANDMask e) (EventData2Cmp1 e)
                (EventData2Cmp2 e) = 0 then False
      else if pefEveDataMatch (eventData2 ev) (EventData3ANDMask e) (EventData3Cmp1 e)
                (EventData3Cmp2 e) = 0 then False
      else
        let OffsetMask = push_bit (unat (eventData0 ev AND 0x0F)) (1 :: u16)
        in if OffsetMask AND EventData1OffsetMask e = 0 then False else True)"

section \<open>Specification\<close>

text \<open>
  The comparison the two compare bytes describe, bit by bit on the masked event byte.  A bit of
  \<open>cmp1\<close> that is 1 asks for an exact match with the bit of \<open>cmp2\<close>; the other bits form a group of
  which at least one has to agree with \<open>cmp2\<close>, unless the group is empty.
\<close>

definition data_spec :: "u8 \<Rightarrow> u8 \<Rightarrow> u8 \<Rightarrow> u8 \<Rightarrow> bool" where
  "data_spec val andMask cmp1 cmp2 \<longleftrightarrow>
     (\<forall>n < 8. bit cmp1 n \<longrightarrow> bit (val AND andMask) n = bit cmp2 n)
     \<and> ((\<forall>n < 8. bit cmp1 n)
        \<or> (\<exists>n < 8. \<not> bit cmp1 n \<and> bit (val AND andMask) n = bit cmp2 n))"

definition wild_or_eq :: "u8 \<Rightarrow> u8 \<Rightarrow> bool" where
  "wild_or_eq pat x \<longleftrightarrow> pat = 0xFF \<or> pat = x"

definition filter_spec :: "EvtFilterTblEntry \<Rightarrow> EventMsgData \<Rightarrow> bool" where
  "filter_spec e ev \<longleftrightarrow>
     bit (FilterConfig e) 7
     \<and> sensorType ev \<noteq> 0
     \<and> wild_or_eq (GenIDByte1 e) (generatorId1 ev)
     \<and> wild_or_eq (GenIDByte2 e) (generatorId2 ev)
     \<and> wild_or_eq (SensorType e) (sensorType ev)
     \<and> wild_or_eq (SensorNum e) (sensorNum ev)
     \<and> wild_or_eq (EventTrigger e) (eventType ev)
     \<and> data_spec (eventData0 ev) (EventData1ANDMask e) (EventData1Cmp1 e) (EventData1Cmp2 e)
     \<and> data_spec (eventData1 ev) (EventData2ANDMask e) (EventData2Cmp1 e) (EventData2Cmp2 e)
     \<and> data_spec (eventData2 ev) (EventData3ANDMask e) (EventData3Cmp1 e) (EventData3Cmp2 e)
     \<and> bit (EventData1OffsetMask e) (unat (eventData0 ev) mod 16)"

section \<open>Bit-level facts\<close>

lemma u8_eq_0_iff: "(w :: u8) = 0 \<longleftrightarrow> (\<forall>n < 8. \<not> bit w n)"
  by (auto simp: bit_eq_iff dest: bit_imp_le_length)

lemma u16_eq_0_iff: "(w :: u16) = 0 \<longleftrightarrow> (\<forall>n < 16. \<not> bit w n)"
  by (auto simp: bit_eq_iff [of w 0] dest: bit_imp_le_length)

lemma u8_eq_iff: "(v :: u8) = w \<longleftrightarrow> (\<forall>n < 8. bit v n = bit w n)"
  by (auto simp: bit_eq_iff dest: bit_imp_le_length)

lemma u8_ff: "(0xff :: u8) = NOT 0"
  by simp

lemma u8_eq_ff_iff: "(w :: u8) = 0xff \<longleftrightarrow> (\<forall>n < 8. bit w n)"
  unfolding u8_ff u8_eq_iff by (simp add: bit_simps)

lemma exact_part:
  "(t AND c1 = c2 AND (c1 :: u8)) \<longleftrightarrow> (\<forall>n < 8. bit c1 n \<longrightarrow> bit t n = bit c2 n)"
  by (auto simp: u8_eq_iff bit_simps)

lemma both_one:
  "((t AND NOT c1) AND c2 = (0 :: u8)) \<longleftrightarrow> \<not> (\<exists>n < 8. \<not> bit c1 n \<and> bit t n \<and> bit c2 n)"
  by (auto simp: u8_eq_0_iff bit_simps)

lemma both_zero:
  "(NOT ((t AND NOT c1) OR c1) AND NOT c2 = (0 :: u8)) \<longleftrightarrow>
     \<not> (\<exists>n < 8. \<not> bit c1 n \<and> \<not> bit t n \<and> \<not> bit c2 n)"
  by (auto simp: u8_eq_0_iff bit_simps)

lemma match_is_flag: "pefEveDataMatch v m c1 c2 = 0 \<or> pefEveDataMatch v m c1 c2 = 1"
  by (simp add: pefEveDataMatch_def Let_def)

lemma pefEveDataMatch_bits:
  "pefEveDataMatch v m c1 c2 = 1 \<longleftrightarrow> data_spec v m c1 c2"
proof -
  let ?t = "v AND m"
  let ?one = "\<exists>n < 8. \<not> bit c1 n \<and> bit ?t n \<and> bit c2 n"
  let ?zero = "\<exists>n < 8. \<not> bit c1 n \<and> \<not> bit ?t n \<and> \<not> bit c2 n"
  have ff: "c2 = 0xff \<Longrightarrow> \<not> ?zero" by (auto simp: u8_eq_ff_iff)
  have zz: "c2 = 0 \<Longrightarrow> \<not> ?one" by (auto simp: u8_eq_0_iff)
  have split: "(\<exists>n < 8. \<not> bit c1 n \<and> bit ?t n = bit c2 n) \<longleftrightarrow> ?one \<or> ?zero" by auto
  have "pefEveDataMatch v m c1 c2 = 1 \<longleftrightarrow>
      ?t AND c1 = c2 AND c1 \<and> (c1 = 0xff \<or> ?one \<or> ?zero)"
    unfolding pefEveDataMatch_def Let_def match_constants both_one both_zero
    using ff zz by auto
  also have "\<dots> \<longleftrightarrow> data_spec v m c1 c2"
    unfolding data_spec_def exact_part split u8_eq_ff_iff by blast
  finally show ?thesis .
qed

lemma pefEveDataMatch_zero: "pefEveDataMatch v m c1 c2 = 0 \<longleftrightarrow> \<not> data_spec v m c1 c2"
  using match_is_flag [of v m c1 c2] pefEveDataMatch_bits [of v m c1 c2] by auto

lemma enabled_bit: "((c :: u8) AND 0x80 = 0) \<longleftrightarrow> \<not> bit c 7"
proof -
  have e: "(0x80 :: u8) = push_bit 7 1" by simp
  have b: "bit (0x80 :: u8) n \<longleftrightarrow> n = 7" if "n < 8" for n
    unfolding e bit_push_bit_iff bit_1_iff using that by auto
  show ?thesis
    unfolding u8_eq_0_iff bit_and_iff using b by (auto dest: spec [of _ 7])
qed

lemma low_nibble: "unat ((x :: u8) AND 0x0F) = unat x mod 16"
proof -
  have "(15 :: u8) = mask 4" by (simp add: mask_eq_exp_minus_1)
  then have "unat (x AND 15) = unat (take_bit 4 x)" by (simp only: take_bit_eq_mask)
  also have "\<dots> = take_bit 4 (unat x)" by (rule unsigned_take_bit_eq)
  also have "\<dots> = unat x mod 16" by (simp add: take_bit_eq_mod)
  finally show ?thesis .
qed

lemma offset_bit:
  assumes "n < 16"
  shows "(push_bit n (1 :: u16) AND w = 0) \<longleftrightarrow> \<not> bit w n"
proof -
  have "bit (push_bit n (1 :: u16)) k \<longleftrightarrow> k = n" if "k < 16" for k
    unfolding bit_push_bit_iff bit_1_iff using that by auto
  then show ?thesis
    unfolding u16_eq_0_iff bit_and_iff using assms by auto
qed

lemma entry_matches_filter: "entry_matches e ev \<longleftrightarrow> filter_spec e ev"
proof -
  have off: "(push_bit (unat (eventData0 ev AND 0x0F)) (1 :: u16) AND EventData1OffsetMask e = 0)
      \<longleftrightarrow> \<not> bit (EventData1OffsetMask e) (unat (eventData0 ev) mod 16)"
    unfolding low_nibble by (rule offset_bit) simp
  have hd: "header_mismatch e ev \<longleftrightarrow> \<not> (sensorType ev \<noteq> 0
     \<and> wild_or_eq (GenIDByte1 e) (generatorId1 ev) \<and> wild_or_eq (GenIDByte2 e) (generatorId2 ev)
     \<and> wild_or_eq (SensorType e) (sensorType ev) \<and> wild_or_eq (SensorNum e) (sensorNum ev)
     \<and> wild_or_eq (EventTrigger e) (eventType ev))"
    by (auto simp: header_mismatch_def wild_or_eq_def)
  show ?thesis
    unfolding entry_matches_def filter_spec_def enabled_bit pefEveDataMatch_zero hd Let_def off
    by auto
qed

section \<open>Properties\<close>

text \<open>C7. \<open>pefEveDataMatch\<close> computes exactly the bitwise comparison of the specification, for
  every event byte, mask and pair of compare bytes: the branches over \<open>temp2\<close> and \<open>cmp2Flag\<close> are
  the statement that some bit outside the exact-match group agrees with \<open>cmp2\<close>.\<close>

theorem pefEveDataMatch_spec:
  "pefEveDataMatch v andMask cmp1 cmp2 = (if data_spec v andMask cmp1 cmp2 then 1 else 0)"
  using pefEveDataMatch_bits [of v andMask cmp1 cmp2]
    pefEveDataMatch_zero [of v andMask cmp1 cmp2] by auto

text \<open>C1. One iteration of the entry loop keeps an entry exactly if the event satisfies the
  declarative filter specification: enabled, all five header fields equal or wildcards, a sensor type,
  the three data comparisons, and the bit of the offset mask that the event offset selects.\<close>

theorem entry_matches_spec: "entry_matches e ev \<longleftrightarrow> filter_spec e ev"
  by (rule entry_matches_filter)

end
