(* ===== verification/DaemonCalls.thy ===== *)
theory DaemonCalls
  imports World
begin

text \<open>
  The helpers of \<open>src/pef_action.cpp\<close> that talk to other services: the channel map and the mail
  address of the user manager, the PEF settings of the configuration daemon, power state and power
  transitions, the SEL entry, the mail configuration, and the local network address.  Each is a
  program over the bus; which exceptions a helper absorbs and which it lets through is as in the code.
\<close>

section \<open>Names\<close>

definition pefBus :: string where "pefBus = ''xyz.openbmc_project.pef.alert.manager''"
definition pefObj :: string where "pefObj = ''/xyz/openbmc_project/PefAlertManager''"
definition pefConfInfoIntf :: string where "pefConfInfoIntf = ''xyz.openbmc_project.pef.PEFConfInfo''"
definition userAccPolicyIntf :: string where
  "userAccPolicyIntf = ''xyz.openbmc_project.User.AccountPolicy''"
definition userManagerBus :: string where "userManagerBus = ''xyz.openbmc_project.User.Manager''"
definition userMgrObjPath :: string where "userMgrObjPath = ''/xyz/openbmc_project/user''"
definition getMapMethod :: string where "getMapMethod = ''GetChannelInterfaceMap''"
definition userObjPathPrefix :: string where "userObjPathPrefix = ''/xyz/openbmc_project/user/''"
definition userAttributesIface :: string where
  "userAttributesIface = ''xyz.openbmc_project.User.Attributes''"
definition mailService :: string where "mailService = ''xyz.openbmc_project.mail''"
definition mailObjPath :: string where "mailObjPath = ''/xyz/openbmc_project/mail/alert''"
definition mailIface :: string where "mailIface = ''xyz.openbmc_project.mail.alert''"
definition sendMailMethod :: string where "sendMailMethod = ''SendMail''"
definition pendtaskService :: string where "pendtaskService = ''xyz.openbmc_project.Pendtask''"
definition pendtaskPath :: string where "pendtaskPath = ''/xyz/openbmc_project/Pendtask/pef''"
definition pendtaskIface :: string where "pendtaskIface = ''xyz.openbmc_project.Pendtask.pef''"
definition pwrService :: string where "pwrService = ''xyz.openbmc_project.Chassis.Buttons''"
definition pwrStateObjPath :: string where
  "pwrStateObjPath = ''/xyz/openbmc_project/state/chassis0''"
definition pwrStateIface :: string where "pwrStateIface = ''xyz.openbmc_project.State.Chassis''"
definition pwrStateReset :: string where
  "pwrStateReset = ''xyz.openbmc_project.State.Host.Transition.Reboot''"
definition pwrCtlObjPath :: string where "pwrCtlObjPath = ''/xyz/openbmc_project/state/host0''"
definition pwrCtlIface :: string where "pwrCtlIface = ''xyz.openbmc_project.State.Host''"
definition pwrCtlOff :: string where
  "pwrCtlOff = ''xyz.openbmc_project.State.Chassis.Transition.Off''"
definition networkService :: string where "networkService = ''xyz.openbmc_project.Network''"
definition networkObjPath :: string where
  "networkObjPath = ''/xyz/openbmc_project/network/config''"
definition networkIface :: string where
  "networkIface = ''xyz.openbmc_project.Network.SystemConfiguration''"

section \<open>Channel map\<close>

type_synonym eth_channel_map = "(u8 \<times> string) list"

definition getEthChannelInterfaceMap :: "'w env \<Rightarrow> ('w, eth_channel_map) act" where
  "getEthChannelInterfaceMap E =
     catchE any_exception
       (bindE (bus_call E (Method userManagerBus userMgrObjPath userAccPolicyIntf getMapMethod []))
          (\<lambda>(err, v). bindE (liftE (read_channels v))
             (\<lambda>channelMap. ret (filter (\<lambda>(channel, iface). starts_with ''eth'' iface) channelMap))))
       (ret [])"

fun getInterfaceNameForChannel :: "u8 \<Rightarrow> eth_channel_map \<Rightarrow> string" where
  "getInterfaceNameForChannel channelNo [] = ''''"
| "getInterfaceNameForChannel channelNo ((channel, iface) # ethMap) =
     (if channel = channelNo then iface else getInterfaceNameForChannel channelNo ethMap)"

fun getChannelForInterfaceName :: "string \<Rightarrow> eth_channel_map \<Rightarrow> int" where
  "getChannelForInterfaceName ifaceName [] = -1"
| "getChannelForInterfaceName ifaceName ((channel, iface) # ethMap) =
     (if iface = ifaceName then uint channel else getChannelForInterfaceName ifaceName ethMap)"

section \<open>SEL entries\<close>

definition toHexStr :: "u8 list \<Rightarrow> string" where
  "toHexStr data =
     concat (map (\<lambda>v. [hex_digit (unat v div 16), hex_digit (unat v mod 16)]) data)"

definition selData :: "u8 \<Rightarrow> u8 list" where
  "selData Action = [0xC4, Action, 0xFF]"

definition selJournalMsg :: "u8 \<Rightarrow> string" where
  "selJournalMsg Action =
     ''SEL Entry For Pef Action'' @ '': '' @ '' RecordType='' @ to_string 2 @
     '', GeneratorID='' @ to_string 0x2000 @ '', EventDir='' @ to_string 0x6F @
     '', EventData='' @ toHexStr (selData Action)"

definition selAddData :: "u8 \<Rightarrow> (string \<times> string) list" where
  "selAddData Action =
     [(''EVENT_DIR'', to_string 1), (''EVENT_TYPE'', to_string 0x6F),
      (''GENERATOR_ID'', to_string 0x20), (''RECORD_TYPE'', to_string 2),
      (''SENSOR_DATA'', toHexStr (selData Action)), (''SENSOR_PATH'', ''''),
      (''SENSOR_TYPE'', to_string 0x12)]"

definition sel_call :: "u8 \<Rightarrow> ecall" where
  "sel_call Action =
     Method ''xyz.openbmc_project.Logging'' ''/xyz/openbmc_project/logging''
       ''xyz.openbmc_project.Logging.Create'' ''Create''
       [DStr (selJournalMsg Action), DStr ''xyz.openbmc_project.Logging.Entry.Level.Informational'',
        DStrMap (selAddData Action)]"

definition PEFActionSELLOG :: "'w env \<Rightarrow> u8 \<Rightarrow> ('w, unit) act" where
  "PEFActionSELLOG E Action =
     thenE (bus_call E OpenBus)
       (catchE sdbus_exception
          (thenE (bus_call E (sel_call Action)) (ret ()))
          (ret ()))"

section \<open>Time and address\<close>

definition getCurrentTime :: "'w env \<Rightarrow> ('w, string) act" where
  "getCurrentTime E = getsE (\<lambda>s. e_time E (world s))"

text \<open>The first IPv4 address of the wanted interface that is not the loopback.\<close>

fun first_address :: "string option \<Rightarrow> ifaddr list \<Rightarrow> string" where
  "first_address ifaceName [] = ''''"
| "first_address ifaceName (ifa # ifas) =
     (case ifa_inet ifa of
        None \<Rightarrow> first_address ifaceName ifas
      | Some addr \<Rightarrow>
          (if (\<exists>n \<in> set_option ifaceName. ifa_name ifa \<noteq> n) then first_address ifaceName ifas
           else if ifa_name ifa \<noteq> ''lo'' then addr
           else first_address ifaceName ifas))"

definition getIPAddress :: "'w env \<Rightarrow> string option \<Rightarrow> ('w, string) act" where
  "getIPAddress E ifaceName = getsE (\<lambda>s. first_address ifaceName (e_ifaddrs E (world s)))"

section \<open>Power\<close>

definition getPowerStatus :: "'w env \<Rightarrow> ('w, bool) act" where
  "getPowerStatus E =
     bindE
       (catchE sdbus_exception
          (bindE (bus_call E (get_property pwrService pwrStateObjPath pwrStateIface ''CurrentPowerState''))
             (\<lambda>(err, v). bindE (liftE (get_str v)) (\<lambda>x. ret (Some x))))
          (ret None))
       (\<lambda>pwrStatus. case pwrStatus of
           None \<Rightarrow> ret False
         | Some st \<Rightarrow> ret (st = ''xyz.openbmc_project.State.Chassis.PowerState.On''))"

definition host_transition_call :: "string \<Rightarrow> ecall" where
  "host_transition_call powerAction =
     set_property pwrService pwrCtlObjPath pwrCtlIface ''RequestedHostTransition'' (DStr powerAction)"

definition chassis_transition_call :: "string \<Rightarrow> ecall" where
  "chassis_transition_call powerAction =
     set_property pwrService pwrStateObjPath pwrStateIface ''RequestedPowerTransition''
       (DStr powerAction)"

definition initiateStateTransition :: "'w env \<Rightarrow> string \<Rightarrow> ('w, int) act" where
  "initiateStateTransition E powerAction =
     bindE (bus_call E (host_transition_call powerAction))
       (\<lambda>(err, v). if err then ret (-1) else ret 0)"

definition initiateChassisStateTransition :: "'w env \<Rightarrow> string \<Rightarrow> ('w, int) act" where
  "initiateChassisStateTransition E powerAction =
     bindE (bus_call E (chassis_transition_call powerAction))
       (\<lambda>(err, v). if err then ret (-1) else ret 0)"

section \<open>PEF settings and users\<close>

record pefConfInfo =
  PEFControl :: u8
  PEFActionGblControl :: u8
  PEFStartupDly :: u8
  PEFAlertStartupDly :: u8

definition prop_u8 :: "(string \<times> dval) list \<Rightarrow> string \<Rightarrow> exn + u8" where
  "prop_u8 m k = bindR (map_at m k) get_u8"

definition getPefConfInfo :: "'w env \<Rightarrow> ('w, pefConfInfo option) act" where
  "getPefConfInfo E =
     catchE sdbus_exception
       (bindE (bus_call E (get_all_properties pefBus pefObj pefConfInfoIntf))
          (\<lambda>(err, v).
             if err then ret None
             else bindE (liftE (read_props v)) (\<lambda>m.
               bindE (liftE (prop_u8 m ''PEFControl'')) (\<lambda>ctl.
               bindE (liftE (prop_u8 m ''PEFActionGblControl'')) (\<lambda>gbl.
               bindE (liftE (prop_u8 m ''PEFStartupDly'')) (\<lambda>dly.
               bindE (liftE (prop_u8 m ''PEFAlertStartupDly'')) (\<lambda>alertDly.
               ret (Some \<lparr>PEFControl = ctl, PEFActionGblControl = gbl, PEFStartupDly = dly,
                     PEFAlertStartupDly = alertDly\<rparr>))))))))
       (ret None)"

definition getSmtpMailID :: "'w env \<Rightarrow> string \<Rightarrow> ('w, string option) act" where
  "getSmtpMailID E selectedUserName =
     (if selectedUserName = '''' then ret None
      else catchE any_exception
        (bindE (bus_call E (get_property userManagerBus (userObjPathPrefix @ selectedUserName)
                              userAttributesIface ''SMTPMailID''))
           (\<lambda>(err, v). if err then ret None
              else bindE (liftE (get_str v)) (\<lambda>mailId. ret (Some mailId))))
        (ret None))"

section \<open>Mail configuration\<close>

definition resolveHost :: "'w env \<Rightarrow> string \<Rightarrow> ('w, bool) act" where
  "resolveHost E host = getsE (\<lambda>s. e_resolves E (world s) host)"

text \<open>One of the two mail services: enabled, and its host resolves.\<close>

definition mail_service_ready :: "'w env \<Rightarrow> string \<Rightarrow> ('w, bool) act" where
  "mail_service_ready E ifc =
     catchE sdbus_exception
       (bindE (bus_call E (get_property mailService mailObjPath ifc ''Enable'')) (\<lambda>(err, v).
        bindE (liftE (get_bool v)) (\<lambda>enable.
        if enable then
          bindE (bus_call E (get_property mailService mailObjPath ifc ''Host'')) (\<lambda>(err, hv).
          bindE (liftE (get_str hv)) (\<lambda>host. resolveHost E host))
        else ret False)))
       (ret False)"

definition isMailAlertConfigured :: "'w env \<Rightarrow> ('w, bool) act" where
  "isMailAlertConfigured E =
     thenE (bus_call E OpenBus)
       (bindE (mail_service_ready E ''xyz.openbmc_project.mail.alert.primary'') (\<lambda>primary.
        if primary then ret True
        else mail_service_ready E ''xyz.openbmc_project.mail.alert.secondary''))"

section \<open>Counting child objects\<close>

definition subtree_paths_call :: "string \<Rightarrow> ecall" where
  "subtree_paths_call parentPath =
     Method MAPPER_BUSNAME MAPPER_PATH MAPPER_INTERFACE ''GetSubTreePaths''
       [DStr parentPath, DI32 1, DStrs []]"

definition getImmediateChildObjectPathCount :: "'w env \<Rightarrow> string \<Rightarrow> ('w, nat) act" where
  "getImmediateChildObjectPathCount E parentPath =
     catchE sdbus_exception
       (bindE (bus_call E (subtree_paths_call parentPath)) (\<lambda>(err, v).
        bindE (liftE (read_strings v)) (\<lambda>objPaths.
        ret (length (filter (\<lambda>path. starts_with (parentPath @ ''/'') path) objPaths)))))
       (ret 0)"

section \<open>Frame conditions\<close>

lemma read_query_calls [simp]:
  "is_read_call (subtree_paths_call p)"
  "is_read_call (Method a b c getMapMethod [])"
  "is_read_call OpenBus"
  "is_read_call OpenSystemBus"
  by (simp_all add: is_read_call_def subtree_paths_call_def getMapMethod_def)

lemma sel_call_not_read [simp]: "\<not> is_read_call (sel_call a)"
  by (simp add: is_read_call_def sel_call_def PROP_INTF_def MAPPER_INTERFACE_def)

lemma reads_getEthChannelInterfaceMap:
  "sat (calls_only is_read_call) (getEthChannelInterfaceMap E)"
  unfolding getEthChannelInterfaceMap_def by (intro calls_sat) simp_all

lemma reads_getPefConfInfo: "sat (calls_only is_read_call) (getPefConfInfo E)"
  unfolding getPefConfInfo_def by (intro calls_sat) simp_all

lemma reads_getPowerStatus: "sat (calls_only is_read_call) (getPowerStatus E)"
  unfolding getPowerStatus_def by (intro calls_sat) simp_all

lemma reads_getSmtpMailID: "sat (calls_only is_read_call) (getSmtpMailID E u)"
  unfolding getSmtpMailID_def by (intro calls_sat) simp_all

lemma reads_mail_service_ready: "sat (calls_only is_read_call) (mail_service_ready E i)"
  unfolding mail_service_ready_def resolveHost_def by (intro calls_sat) simp_all

lemma reads_isMailAlertConfigured: "sat (calls_only is_read_call) (isMailAlertConfigured E)"
  unfolding isMailAlertConfigured_def
  by (intro calls_sat reads_mail_service_ready) simp_all

lemma reads_getImmediateChildObjectPathCount:
  "sat (calls_only is_read_call) (getImmediateChildObjectPathCount E p)"
  unfolding getImmediateChildObjectPathCount_def by (intro calls_sat) simp_all

lemmas helper_reads =
  reads_getEthChannelInterfaceMap reads_getPefConfInfo reads_getPowerStatus reads_getSmtpMailID
  reads_mail_service_ready reads_isMailAlertConfigured reads_getImmediateChildObjectPathCount

lemma calls_SELLOG:
  "P OpenBus \<Longrightarrow> P (sel_call a) \<Longrightarrow> sat (calls_only P) (PEFActionSELLOG E a)"
  unfolding PEFActionSELLOG_def by (intro calls_sat) simp_all

lemma calls_initiateStateTransition:
  "P (host_transition_call a) \<Longrightarrow> sat (calls_only P) (initiateStateTransition E a)"
  unfolding initiateStateTransition_def by (intro calls_sat) simp_all

lemma calls_initiateChassisStateTransition:
  "P (chassis_transition_call a) \<Longrightarrow> sat (calls_only P) (initiateChassisStateTransition E a)"
  unfolding initiateChassisStateTransition_def by (intro calls_sat) simp_all

lemma same_getEthChannelInterfaceMap:
  "sat same_retry (getEthChannelInterfaceMap E)" "sat same_files (getEthChannelInterfaceMap E)"
  unfolding getEthChannelInterfaceMap_def by (intro retry_sat files_sat)+

section \<open>Hexadecimal round trip\<close>

fun fromHexStr :: "string \<Rightarrow> u8 list" where
  "fromHexStr (a # b # cs) = of_nat (16 * hex_value a + hex_value b) # fromHexStr cs"
| "fromHexStr _ = []"

lemma toHexStr_Cons:
  "toHexStr (v # vs) = hex_digit (unat v div 16) # hex_digit (unat v mod 16) # toHexStr vs"
  by (simp add: toHexStr_def)

lemma unat_u8_div: "unat (v :: u8) div 16 < 16"
proof -
  have "unat v < 256" using unsigned_less [of v] by simp
  then show ?thesis by auto
qed

lemma fromHexStr_toHexStr: "fromHexStr (toHexStr data) = data"
proof (induction data)
  case Nil
  then show ?case by (simp add: toHexStr_def)
next
  case (Cons v vs)
  have "16 * (unat v div 16) + unat v mod 16 = unat v" by simp
  then show ?case
    using Cons.IH unat_u8_div [of v] by (simp add: toHexStr_Cons)
qed

lemma length_toHexStr: "length (toHexStr data) = 2 * length data"
  by (induction data) (simp_all add: toHexStr_def)

text \<open>The SEL data string is a faithful upper-case hexadecimal rendering: it has two digits
  per byte, and reading the digits back in pairs gives exactly the bytes.\<close>

theorem toHexStr_roundtrip:
  "fromHexStr (toHexStr data) = data \<and> length (toHexStr data) = 2 * length data"
  by (simp add: fromHexStr_toHexStr length_toHexStr)

end
