(* ===== verification/SensorMap.thy ===== *)
theory SensorMap
  imports World PathUtils
begin

text \<open>
  Sensor discovery and numbering of \<open>include/sdrutils.hpp\<close>: the cached sensor tree, the cached
  two-way map between IPMI sensor numbers and object paths in the default build, where numbers are
  dealt out in the order of the tree, the lookups in both directions for any way of numbering, and the
  sensor-type table.  The
  function-local statics of the source are fields of the daemon state.
\<close>

section \<open>The sensor tree\<close>

definition filterSensors :: "sensor_tree \<Rightarrow> sensor_tree" where
  "filterSensors subtree =
     filter (\<lambda>(path, serviceToIfaces). serviceToIfaces \<noteq> [])
       (map (\<lambda>(path, serviceToIfaces).
               (path, filter (\<lambda>(service, ifaces). service \<noteq> ''xyz.openbmc_project.Pmt'')
                        serviceToIfaces)) subtree)"

definition mapper_subtree_call :: ecall where
  "mapper_subtree_call =
     Method ''xyz.openbmc_project.ObjectMapper'' ''/xyz/openbmc_project/object_mapper''
       ''xyz.openbmc_project.ObjectMapper'' ''GetSubTree''
       [DStr ''/xyz/openbmc_project/sensors'', DI32 2,
        DStrs [''xyz.openbmc_project.Sensor.Value'', ''xyz.openbmc_project.Sensor.State'',
               ''xyz.openbmc_project.Sensor.EventOnly'',
               ''xyz.openbmc_project.Sensor.Threshold.Warning'',
               ''xyz.openbmc_project.Sensor.Threshold.Critical'',
               ''xyz.openbmc_project.Sensor.Threshold.NonRecoverable'']]"

text \<open>\<open>details::getSensorSubtree\<close>: the pointer it leaves in \<open>subtree\<close> (the caller passes a null one)
  and the update index it returns.\<close>

definition getSensorSubtree :: "'w env \<Rightarrow> ('w, sensor_tree option \<times> u16) act" where
  "getSensorSubtree E =
     bindE (ext_call E OpenSystemBus) (\<lambda>r.
       case r of
         BusError \<Rightarrow> getsE (\<lambda>s. (None, sensorUpdatedIndex s))
       | Reply _ _ \<Rightarrow>
           bindE (getsE sensorTreePtr) (\<lambda>cached.
           case cached of
             Some tree \<Rightarrow> getsE (\<lambda>s. (Some tree, sensorUpdatedIndex s))
           | None \<Rightarrow>
               thenE (modifyE (\<lambda>s. s\<lparr>sensorTreePtr := Some []\<rparr>))
               (bindE
                 (catchE sdbus_exception
                   (bindE (bus_call E mapper_subtree_call) (\<lambda>(err, v).
                    bindE (liftE (read_subtree v)) (\<lambda>t. ret (Some t))))
                   (ret None))
                 (\<lambda>reply. case reply of
                    None \<Rightarrow> getsE (\<lambda>s. (None, sensorUpdatedIndex s))
                  | Some t \<Rightarrow>
                      thenE (modifyE (\<lambda>s. s\<lparr>sensorTreePtr := Some (filterSensors t),
                                            sensorUpdatedIndex := sensorUpdatedIndex s + 1,
                                            sdrStatsTable := wipeTable (sdrStatsTable s)\<rparr>))
                        (getsE (\<lambda>s. (sensorTreePtr s, sensorUpdatedIndex s)))))))"

text \<open>The wrapper that copies the tree; \<open>None\<close> is the result false.\<close>

definition copySensorSubtree :: "'w env \<Rightarrow> ('w, sensor_tree option) act" where
  "copySensorSubtree E = bindE (getSensorSubtree E) (\<lambda>(sensorTree, index). ret sensorTree)"

text \<open>The handlers of \<open>InterfacesAdded\<close> and \<open>InterfacesRemoved\<close>.\<close>

definition sensorAdded :: "('w, unit) act" where
  "sensorAdded = modifyE (\<lambda>s. s\<lparr>sensorTreePtr := None\<rparr>)"

definition sensorRemoved :: "('w, unit) act" where
  "sensorRemoved = modifyE (\<lambda>s. s\<lparr>sensorTreePtr := None\<rparr>)"

section \<open>Sensor numbers\<close>

definition maxSensorsPerLUN :: u16 where "maxSensorsPerLUN = 255"
definition lun1Sensor0 :: u16 where "lun1Sensor0 = 0x100"
definition lun3Sensor0 :: u16 where "lun3Sensor0 = 0x300"
definition invalidSensorNumber :: u16 where "invalidSensorNumber = 0xFFFF"
definition reservedSensorNumber :: u8 where "reservedSensorNumber = 0xFF"
definition osCriticalStop :: u8 where "osCriticalStop = 0x20"

text \<open>\<open>boost::bimap::insert\<close>: refused when either side is present; iteration is in the order of the
  left keys.\<close>

fun insort_num :: "u16 \<Rightarrow> string \<Rightarrow> sensor_num_map \<Rightarrow> sensor_num_map" where
  "insort_num n p [] = [(n, p)]"
| "insort_num n p ((n', p') # m) =
     (if n < n' then (n, p) # (n', p') # m else (n', p') # insort_num n p m)"

definition bimap_insert :: "u16 \<Rightarrow> string \<Rightarrow> sensor_num_map \<Rightarrow> sensor_num_map" where
  "bimap_insert n p m = (if n \<in> fst ` set m \<or> p \<in> snd ` set m then m else insort_num n p m)"

text \<open>The end of the loop body: the next index, or \<open>None\<close> where the code throws.\<close>

definition next_sensor_index :: "u16 \<Rightarrow> u16 option" where
  "next_sensor_index sensorIndex =
     (let sensorIndex' = sensorIndex + 1
      in if sensorIndex' = maxSensorsPerLUN then Some lun1Sensor0
         else if sensorIndex' = lun1Sensor0 OR maxSensorsPerLUN then Some lun3Sensor0
         else if sensorIndex' = lun3Sensor0 OR maxSensorsPerLUN then None
         else Some sensorIndex')"

text \<open>The loop: its outcome, and what it has put in the static map.\<close>

fun number_sensors ::
  "u16 \<Rightarrow> u16 \<Rightarrow> sensor_tree \<Rightarrow> sensor_num_map \<Rightarrow> (exn + unit) \<times> sensor_num_map" where
  "number_sensors sensorNum sensorIndex [] m = (Inr (), m)"
| "number_sensors sensorNum sensorIndex ((path, services) # tree) m =
     (let m' = bimap_insert sensorNum path m
      in case next_sensor_index sensorIndex of
           None \<Rightarrow> (Inl OutOfRange, m')
         | Some i \<Rightarrow> number_sensors i i tree m')"

definition getSensorNumMap :: "'w env \<Rightarrow> ('w, sensor_num_map option \<times> bool) act" where
  "getSensorNumMap E =
     bindE (getSensorSubtree E) (\<lambda>(sensorTree, curSensorUpdatedIndex).
       case sensorTree of
         None \<Rightarrow> ret (None, False)
       | Some tree \<Rightarrow>
           bindE (getsE (\<lambda>s. (prevSensorUpdatedIndex s, sensorNumMapPtr s))) (\<lambda>(prev, cached).
           if curSensorUpdatedIndex = prev \<and> cached \<noteq> None then ret (cached, False)
           else
             (let (outcome, m) = number_sensors 0 0 tree []
              in thenE (modifyE (\<lambda>s. s\<lparr>prevSensorUpdatedIndex := curSensorUpdatedIndex,
                                       sensorNumMapPtr := Some m\<rparr>))
                   (thenE (liftE outcome) (ret (Some m, True))))))"

definition path_number :: "string \<Rightarrow> sensor_num_map \<Rightarrow> u16 option" where
  "path_number path m = map_of (map (\<lambda>(n, p). (p, n)) m) path"

text \<open>The two lookups, for either way of building the map.\<close>

definition lookup_number :: "('w, sensor_num_map option \<times> bool) act \<Rightarrow> string \<Rightarrow> ('w, u16) act" where
  "lookup_number numbering path =
     bindE numbering (\<lambda>(sensorNumMapPtr, updated).
       case sensorNumMapPtr of
         None \<Rightarrow> ret invalidSensorNumber
       | Some m \<Rightarrow> (case path_number path m of
             None \<Rightarrow> ret invalidSensorNumber
           | Some n \<Rightarrow> ret n))"

definition number_path :: "u16 \<Rightarrow> u8 \<Rightarrow> sensor_num_map \<Rightarrow> string" where
  "number_path sensorNum senType m =
     (case (if senType = osCriticalStop
            then find (\<lambda>(n, p). contains_str ''/os/'' p) m else None) of
        Some (n, p) \<Rightarrow> p
      | None \<Rightarrow> (case map_of m sensorNum of None \<Rightarrow> '''' | Some p \<Rightarrow> p))"

definition lookup_path :: "('w, sensor_num_map option \<times> bool) act \<Rightarrow> u16 \<Rightarrow> u8 \<Rightarrow> ('w, string) act" where
  "lookup_path numbering sensorNum senType =
     bindE numbering (\<lambda>(sensorNumMapPtr, updated).
       case sensorNumMapPtr of
         None \<Rightarrow> ret ''''
       | Some m \<Rightarrow> ret (number_path sensorNum senType m))"

definition getSensorNumberFromPath :: "'w env \<Rightarrow> string \<Rightarrow> ('w, u16) act" where
  "getSensorNumberFromPath E path = lookup_number (getSensorNumMap E) path"

definition getPathFromSensorNumber :: "'w env \<Rightarrow> u16 \<Rightarrow> u8 \<Rightarrow> ('w, string) act" where
  "getPathFromSensorNumber E sensorNum senType = lookup_path (getSensorNumMap E) sensorNum senType"

text \<open>Both written out.\<close>

lemmas lookup_defs = getSensorNumberFromPath_def lookup_number_def getPathFromSensorNumber_def lookup_path_def

section \<open>Sensor types\<close>

definition sensorTypes :: "(string \<times> u8 \<times> u8) list" where
  "sensorTypes =
     [(''temperature'', 0x01, 0x01), (''voltage'', 0x02, 0x01), (''current'', 0x03, 0x01),
      (''fan_tach'', 0x04, 0x01), (''fan_pwm'', 0x04, 0x01), (''cpu'', 0x07, 0x6f),
      (''powersupply'', 0x08, 0x6f), (''powerunit'', 0x09, 0x6f), (''logging'', 0x10, 0x6f),
      (''os'', 0x20, 0x6f), (''acpisystem'', 0x22, 0x6f), (''watchdog'', 0x23, 0x6f),
      (''battery'', 0x29, 0x6f), (''power'', 0x0B, 0x01), (''chassisstate'', 0x09, 0x03),
      (''tach'', 0x0B, 0x01), (''pwm'', 0x0B, 0x01), (''humidity'', 0x0B, 0x01),
      (''utilization'', 0x0B, 0x01), (''airflow'', 0x0A, 0x01), (''flowrate'', 0x0A, 0x01),
      (''pressurekpa'', 0x0A, 0x01), (''discrete'', 0x0B, 0x03), (''hours'', 0x0B, 0x01),
      (''count'', 0x0B, 0x01), (''bmcfirmwarehealth'', 0x28, 0x6f), (''acpidevice'', 0x08, 0x0c)]"

definition getSensorTypeFromPath :: "string \<Rightarrow> u8" where
  "getSensorTypeFromPath path =
     (case map_of sensorTypes (c_str (getSensorTypeStringFromPath path)) of
        Some (ty, ev) \<Rightarrow> ty
      | None \<Rightarrow> 0)"

definition getSensorEventTypeFromPath :: "string \<Rightarrow> u8" where
  "getSensorEventTypeFromPath path =
     (case map_of sensorTypes (c_str (getSensorTypeStringFromPath path)) of
        Some (ty, ev) \<Rightarrow> ev
      | None \<Rightarrow> 0x1)"

definition getEventType :: "u8 \<Rightarrow> u8" where
  "getEventType sensorType =
     (if sensorType \<in> {0x00, 0x01, 0x02, 0x03, 0x04} then 0x01 else 0x6f)"

section \<open>Numbering facts\<close>

text \<open>The number that the \<open>k\<close>-th sensor of the tree gets.\<close>

definition nth_sensor_number :: "nat \<Rightarrow> nat" where
  "nth_sensor_number k =
     (if k < 255 then k else if k < 510 then 0x100 + (k - 255) else 0x300 + (k - 510))"

definition valid_number :: "u16 \<Rightarrow> bool" where
  "valid_number n \<longleftrightarrow> unat n mod 256 \<noteq> 255 \<and> unat n div 256 \<in> {0, 1, 3}"

lemma lun_masks: "lun1Sensor0 OR maxSensorsPerLUN = 0x1FF" "lun3Sensor0 OR maxSensorsPerLUN = 0x3FF"
  by (simp_all add: lun1Sensor0_def lun3Sensor0_def maxSensorsPerLUN_def)

lemma nth_sensor_number_bound: "k < 765 \<Longrightarrow> nth_sensor_number k < 0x3FF"
  by (simp add: nth_sensor_number_def)

lemma nth_sensor_number_strict: "i < j \<Longrightarrow> nth_sensor_number i < nth_sensor_number j"
  by (auto simp: nth_sensor_number_def)

abbreviation snum :: "nat \<Rightarrow> u16" where
  "snum k \<equiv> of_nat (nth_sensor_number k)"

lemma unat_u16_of_nat: "n < 2 ^ 16 \<Longrightarrow> unat (of_nat n :: u16) = n"
  by (simp add: unsigned_of_nat take_bit_nat_eq_self)

lemma unat_snum: "k < 765 \<Longrightarrow> unat (snum k) = nth_sensor_number k"
  using nth_sensor_number_bound [of k] by (simp add: unat_u16_of_nat)

lemma snum_less: "i < j \<Longrightarrow> j < 765 \<Longrightarrow> snum i < snum j"
  by (simp add: word_less_nat_alt unat_snum nth_sensor_number_strict)

text \<open>The \<open>k\<close>-th number is \<open>slot\<close> in the LUN \<open>lun\<close>.\<close>

lemma nth_sensor_number_lun:
  assumes "k < 765"
  obtains lun slot where "nth_sensor_number k = 256 * lun + slot" "slot < 255" "lun \<in> {0, 1, 3}"
proof -
  consider "k < 255" | "255 \<le> k" "k < 510" | "510 \<le> k" by linarith
  then show ?thesis
  proof cases
    case 1
    then show ?thesis by (intro that [of 0 k]) (simp_all add: nth_sensor_number_def)
  next
    case 2
    then show ?thesis by (intro that [of 1 "k - 255"]) (simp_all add: nth_sensor_number_def)
  next
    case 3
    then show ?thesis using assms
      by (intro that [of 3 "k - 510"]) (simp_all add: nth_sensor_number_def)
  qed
qed

lemma snum_valid:
  assumes "k < 765"
  shows "valid_number (snum k)"
proof -
  obtain lun slot where n: "nth_sensor_number k = 256 * lun + slot" "slot < 255" "lun \<in> {0, 1, 3}"
    by (rule nth_sensor_number_lun [OF assms])
  have u: "unat (snum k) = 256 * lun + slot" by (rule trans [OF unat_snum [OF assms] n(1)])
  have "(256 * lun + slot) div 256 = lun" and "(256 * lun + slot) mod 256 = slot"
    using n(2) by simp_all
  then show ?thesis unfolding valid_number_def u using n(2,3) by auto
qed

lemma u16_eq_numeral: "n < 2 ^ 16 \<Longrightarrow> c < 2 ^ 16 \<Longrightarrow> (of_nat n :: u16) = of_nat c \<longleftrightarrow> n = c"
  by (metis unat_u16_of_nat)

lemma next_sensor_index_snum:
  assumes "k < 765"
  shows "next_sensor_index (snum k) = (if k = 764 then None else Some (snum (Suc k)))"
proof -
  let ?n = "Suc (nth_sensor_number k)"
  have bound: "?n < 2 ^ 16" using nth_sensor_number_bound [OF assms] by simp
  have inc: "snum k + 1 = (of_nat ?n :: u16)" by simp
  have eqs: "((of_nat ?n :: u16) = 255) = (?n = 255)" "((of_nat ?n :: u16) = 0x1FF) = (?n = 0x1FF)"
    "((of_nat ?n :: u16) = 0x3FF) = (?n = 0x3FF)"
    using u16_eq_numeral [where n = ?n and c = 255] u16_eq_numeral [where n = ?n and c = "0x1FF"]
      u16_eq_numeral [where n = ?n and c = "0x3FF"] bound by simp_all
  have "next_sensor_index (snum k) =
      (if ?n = 255 then Some 0x100 else if ?n = 0x1FF then Some 0x300
       else if ?n = 0x3FF then None else Some (of_nat ?n))"
    unfolding next_sensor_index_def Let_def inc lun_masks
    by (simp only: eqs maxSensorsPerLUN_def lun1Sensor0_def lun3Sensor0_def)
  then show ?thesis
    using assms by (auto simp: nth_sensor_number_def)
qed

text \<open>The numbers and paths dealt out so far, and the loop.\<close>

definition dealt :: "nat \<Rightarrow> string list \<Rightarrow> sensor_num_map" where
  "dealt k ps = zip (map snum [k..<k + length ps]) ps"

lemma dealt_Cons: "dealt k (p # ps) = (snum k, p) # dealt (Suc k) ps"
  by (simp add: dealt_def upt_conv_Cons del: upt_Suc)

lemma insort_num_last:
  "(\<forall>n' \<in> fst ` set m. n' < n) \<Longrightarrow> insort_num n p m = m @ [(n, p)]"
  by (induction n p m rule: insort_num.induct) auto

lemma bimap_insert_last:
  assumes "\<forall>n' \<in> fst ` set m. n' < n" and "p \<notin> snd ` set m"
  shows "bimap_insert n p m = m @ [(n, p)]"
proof -
  have "n \<notin> fst ` set m" using assms(1) by auto
  then show ?thesis using assms by (simp add: bimap_insert_def insort_num_last)
qed

lemma number_sensors_dealt:
  assumes "distinct (map fst tree)" and "k + length tree \<le> 764"
    and "\<forall>n \<in> fst ` set m. n < snum k" and "snd ` set m \<inter> set (map fst tree) = {}"
  shows "number_sensors (snum k) (snum k) tree m = (Inr (), m @ dealt k (map fst tree))"
  using assms
proof (induction tree arbitrary: k m)
  case Nil
  then show ?case by (simp add: dealt_def)
next
  case (Cons x tree)
  obtain path services where x: "x = (path, services)" by (cases x)
  have ins: "bimap_insert (snum k) path m = m @ [(snum k, path)]"
    using Cons.prems(3,4) by (intro bimap_insert_last) (auto simp: x)
  have "snum k < snum (Suc k)" using Cons.prems(2) by (intro snum_less) simp_all
  then have keys: "\<forall>n \<in> fst ` set (m @ [(snum k, path)]). n < snum (Suc k)"
    using Cons.prems(3) by fastforce
  have paths: "snd ` set (m @ [(snum k, path)]) \<inter> set (map fst tree) = {}"
    using Cons.prems(1,4) by (auto simp: x)
  have "next_sensor_index (snum k) = Some (snum (Suc k))"
    using Cons.prems(2) by (simp add: next_sensor_index_snum)
  then show ?case
    using Cons.IH [OF _ _ keys paths] Cons.prems(1,2)
    by (simp add: x ins Let_def dealt_Cons)
qed

lemma number_sensors_overflow:
  assumes "distinct (map fst tree)" and "k < 765" and "765 \<le> k + length tree"
    and "\<forall>n \<in> fst ` set m. n < snum k" and "snd ` set m \<inter> set (map fst tree) = {}"
  shows "number_sensors (snum k) (snum k) tree m
    = (Inl OutOfRange, m @ dealt k (take (765 - k) (map fst tree)))"
  using assms
proof (induction tree arbitrary: k m)
  case Nil
  then show ?case by simp
next
  case (Cons x tree)
  obtain path services where x: "x = (path, services)" by (cases x)
  have ins: "bimap_insert (snum k) path m = m @ [(snum k, path)]"
    using Cons.prems(4,5) by (intro bimap_insert_last) (auto simp: x)
  have dealt1: "765 - k = Suc (764 - k)" using Cons.prems(2) by simp
  show ?case
  proof (cases "k = 764")
    case True
    then have "next_sensor_index (snum k) = None" by (simp add: next_sensor_index_snum)
    moreover have "764 - k = 0" using True by simp
    ultimately show ?thesis unfolding dealt1 by (simp add: x ins Let_def dealt_def del: of_nat_Suc)
  next
    case False
    with Cons.prems(2) have k: "Suc k < 765" by simp
    have "snum k < snum (Suc k)" using k by (intro snum_less) simp_all
    then have keys: "\<forall>n \<in> fst ` set (m @ [(snum k, path)]). n < snum (Suc k)"
      using Cons.prems(4) by fastforce
    have paths: "snd ` set (m @ [(snum k, path)]) \<inter> set (map fst tree) = {}"
      using Cons.prems(1,5) by (auto simp: x)
    have nxt: "next_sensor_index (snum k) = Some (snum (Suc k))"
      using k by (simp add: next_sensor_index_snum)
    show ?thesis unfolding dealt1
      using nxt Cons.IH [OF _ k _ keys paths] Cons.prems(1,3)
      by (simp add: x ins Let_def dealt_Cons)
  qed
qed

section \<open>The two-way map\<close>

text \<open>The invariant of the map: no number and no path twice, and every number is one of a LUN that
  holds sensors and not the reserved one.\<close>

definition num_map_ok :: "sensor_num_map \<Rightarrow> bool" where
  "num_map_ok m \<longleftrightarrow>
     distinct (map fst m) \<and> distinct (map snd m) \<and> (\<forall>n \<in> fst ` set m. valid_number n)"

lemma set_insort_num: "set (insort_num n p m) = insert (n, p) (set m)"
  by (induction n p m rule: insort_num.induct) auto

lemma distinct_insort_num:
  "distinct (map fst m) \<Longrightarrow> n \<notin> fst ` set m \<Longrightarrow> distinct (map fst (insort_num n p m))"
  "distinct (map snd m) \<Longrightarrow> p \<notin> snd ` set m \<Longrightarrow> distinct (map snd (insort_num n p m))"
  by (induction n p m rule: insort_num.induct) (auto simp: set_insort_num)

lemma num_map_ok_insert:
  "num_map_ok m \<Longrightarrow> valid_number n \<Longrightarrow> num_map_ok (bimap_insert n p m)"
  by (auto simp: num_map_ok_def bimap_insert_def set_insort_num distinct_insort_num)

lemma num_map_ok_number_sensors:
  "num_map_ok m \<Longrightarrow> k < 765 \<Longrightarrow> num_map_ok (snd (number_sensors (snum k) (snum k) tree m))"
proof (induction tree arbitrary: k m)
  case Nil
  then show ?case by simp
next
  case (Cons x tree)
  obtain path services where x: "x = (path, services)" by (cases x)
  have ok: "num_map_ok (bimap_insert (snum k) path m)"
    using Cons.prems by (simp add: num_map_ok_insert snum_valid)
  show ?case
  proof (cases "k = 764")
    case True
    then have "next_sensor_index (snum k) = None" by (simp add: next_sensor_index_snum)
    then show ?thesis using ok by (simp add: x Let_def)
  next
    case False
    then have "next_sensor_index (snum k) = Some (snum (Suc k))"
      using Cons.prems(2) by (simp add: next_sensor_index_snum)
    then show ?thesis using Cons.IH [OF ok, of "Suc k"] Cons.prems(2) False
      by (simp add: x Let_def)
  qed
qed

lemma snum_0: "snum 0 = 0"
  by (simp add: nth_sensor_number_def)

lemma num_map_ok_fresh: "num_map_ok (snd (number_sensors 0 0 tree []))"
  using num_map_ok_number_sensors [of "[]" 0 tree] by (simp add: snum_0 num_map_ok_def)

lemma num_map_lookup:
  assumes "num_map_ok m"
  shows "map_of m n = Some p \<longleftrightarrow> (n, p) \<in> set m"
    and "path_number p m = Some n \<longleftrightarrow> (n, p) \<in> set m"
proof -
  let ?m = "map (\<lambda>(n, p). (p, n)) m"
  have "map fst ?m = map snd m" by auto
  then have "distinct (map fst ?m)" using assms by (simp only: num_map_ok_def)
  moreover have "(p, n) \<in> set ?m \<longleftrightarrow> (n, p) \<in> set m" by auto
  ultimately show "path_number p m = Some n \<longleftrightarrow> (n, p) \<in> set m"
    unfolding path_number_def by (metis map_of_eq_Some_iff)
  show "map_of m n = Some p \<longleftrightarrow> (n, p) \<in> set m"
    using assms by (simp add: num_map_ok_def)
qed

section \<open>The cached map\<close>

definition num_map_inv :: "'w sys \<Rightarrow> bool" where
  "num_map_inv s \<longleftrightarrow> (\<forall>m. sensorNumMapPtr s = Some m \<longrightarrow> num_map_ok m)"

lemma keep_getSensorSubtree: "sat (keeps num_map_inv) (getSensorSubtree E)"
  unfolding getSensorSubtree_def
  by (intro keep_sat keep_ext_call keep_bus_call keep.sat_modify)
    (auto intro!: keep_sat keep_bus_call keep.sat_modify
      simp: num_map_inv_def keeps_def split: breply.split)

lemma keep_getSensorNumMap: "sat (keeps num_map_inv) (getSensorNumMap E)"
  unfolding getSensorNumMap_def Let_def
proof (intro keep_sat keep_getSensorSubtree keep.sat_modify)
  fix x :: "sensor_tree option \<times> u16" and a b y and xa :: "u16 \<times> sensor_num_map option"
    and aa ba outcome m and s :: "'a sys"
  assume "number_sensors 0 0 y [] = (outcome, m)"
  then have "num_map_ok m" using num_map_ok_fresh [of y] by simp
  then show "keeps num_map_inv s (s\<lparr>prevSensorUpdatedIndex := b, sensorNumMapPtr := Some m\<rparr>)"
    by (simp add: keeps_def num_map_inv_def)
qed

lemma keep_getSensorNumberFromPath: "sat (keeps num_map_inv) (getSensorNumberFromPath E path)"
  unfolding lookup_defs by (intro keep_sat keep_getSensorNumMap)

lemma keep_getPathFromSensorNumber: "sat (keeps num_map_inv) (getPathFromSensorNumber E n ty)"
  unfolding lookup_defs by (intro keep_sat keep_getSensorNumMap)

text \<open>The system bus can be opened in the present state of the world.\<close>

definition bus_opens :: "'w env \<Rightarrow> 'w \<Rightarrow> bool" where
  "bus_opens E w \<longleftrightarrow> fst (e_bus E w OpenSystemBus) \<noteq> BusError"

lemma getSensorSubtree_unopened:
  "\<not> bus_opens E (world s) \<Longrightarrow>
   getSensorSubtree E s = (Inr (None, sensorUpdatedIndex s), after_call E OpenSystemBus s)"
  by (simp add: getSensorSubtree_def bus_opens_def ext_call_apply bindE_def after_call_def)

lemma getSensorSubtree_cached:
  assumes "bus_opens E (world s)" and "sensorTreePtr s = Some t"
  shows "getSensorSubtree E s
    = (Inr (Some t, sensorUpdatedIndex s), after_call E OpenSystemBus s)"
proof -
  obtain err v where "fst (e_bus E (world s) OpenSystemBus) = Reply err v"
    using assms(1) by (cases "fst (e_bus E (world s) OpenSystemBus)") (auto simp: bus_opens_def)
  then show ?thesis
    using assms(2) by (simp add: getSensorSubtree_def ext_call_apply bindE_def after_call_def)
qed

text \<open>The state in which the object mapper is asked, and what its answer leads to.\<close>

definition rescanning :: "'w env \<Rightarrow> 'w sys \<Rightarrow> 'w sys" where
  "rescanning E s = (after_call E OpenSystemBus s)\<lparr>sensorTreePtr := Some []\<rparr>"

lemma getSensorSubtree_rescan:
  assumes "bus_opens E (world s)" and "sensorTreePtr s = None"
  shows "getSensorSubtree E s =
    (let s1 = rescanning E s; s2 = after_call E mapper_subtree_call s1
     in case fst (e_bus E (world s1) mapper_subtree_call) of
          Reply err (DSubTree t) \<Rightarrow>
            (Inr (Some (filterSensors t), sensorUpdatedIndex s + 1),
             s2\<lparr>sensorTreePtr := Some (filterSensors t),
                sensorUpdatedIndex := sensorUpdatedIndex s + 1, sdrStatsTable := []\<rparr>)
        | _ \<Rightarrow> (Inr (None, sensorUpdatedIndex s), s2))"
proof -
  obtain err v where "fst (e_bus E (world s) OpenSystemBus) = Reply err v"
    using assms(1) by (cases "fst (e_bus E (world s) OpenSystemBus)") (auto simp: bus_opens_def)
  then show ?thesis
    using assms(2)
    by (simp add: getSensorSubtree_def rescanning_def ext_call_apply bindE_def thenE_def
        after_call_def catchE_def bus_call_def Let_def wipeTable_def split: breply.split dval.split)
qed

text \<open>When the map is handed out, the tree is cached and the two update indices agree.\<close>

definition map_current :: "sensor_num_map \<Rightarrow> 'w sys \<Rightarrow> bool" where
  "map_current m s \<longleftrightarrow> sensorNumMapPtr s = Some m \<and> sensorTreePtr s \<noteq> None
     \<and> prevSensorUpdatedIndex s = sensorUpdatedIndex s"

lemma getSensorSubtree_some:
  assumes "getSensorSubtree E s = (Inr (Some t, i), s')"
  shows "sensorTreePtr s' = Some t \<and> sensorUpdatedIndex s' = i"
proof (cases "bus_opens E (world s)")
  case False
  then show ?thesis using assms by (simp add: getSensorSubtree_unopened)
next
  case True
  show ?thesis
  proof (cases "sensorTreePtr s")
    case None
    then show ?thesis using assms getSensorSubtree_rescan [OF True None]
      by (auto simp: Let_def split: breply.splits dval.splits)
  next
    case (Some t')
    then show ?thesis using assms getSensorSubtree_cached [OF True Some] by auto
  qed
qed

lemma getSensorNumMap_current:
  assumes "getSensorNumMap E s = (Inr (Some m, u), s')"
  shows "map_current m s'"
proof -
  obtain t i s1 where t: "getSensorSubtree E s = (Inr (Some t, i), s1)"
    using assms
    by (auto simp: getSensorNumMap_def bindE_def split: prod.splits sum.splits option.splits)
  note s1 = getSensorSubtree_some [OF t]
  show ?thesis
  proof (cases "i = prevSensorUpdatedIndex s1 \<and> sensorNumMapPtr s1 \<noteq> None")
    case True
    then show ?thesis using assms s1 t by (auto simp: getSensorNumMap_def map_current_def)
  next
    case False
    then show ?thesis using assms s1 t
      by (auto simp: getSensorNumMap_def map_current_def Let_def thenE_def bindE_def
          split: prod.splits sum.splits if_splits)
  qed
qed

lemma getSensorNumMap_hit:
  assumes "bus_opens E (world s)" and "map_current m s"
  shows "getSensorNumMap E s = (Inr (Some m, False), after_call E OpenSystemBus s)"
proof -
  obtain t where t: "sensorTreePtr s = Some t" using assms(2) by (auto simp: map_current_def)
  show ?thesis
    using getSensorSubtree_cached [OF assms(1) t] assms(2)
    by (simp add: getSensorNumMap_def map_current_def)
qed

section \<open>What every numbering promises\<close>

text \<open>The interface between a way of numbering the sensors and the two lookups: the map stays a bijection
  onto usable numbers, a map that is handed out is the current one, and the current one is handed out.\<close>

locale sensor_numbering =
  fixes numbering :: "'w env \<Rightarrow> ('w, sensor_num_map option \<times> bool) act"
  assumes keeps_map: "sat (keeps num_map_inv) (numbering E)"
    and hands_out: "numbering E s = (Inr (Some m, u), s') \<Longrightarrow> map_current m s'"
    and cached: "bus_opens E (world s) \<Longrightarrow> map_current m s \<Longrightarrow>
      numbering E s = (Inr (Some m, False), after_call E OpenSystemBus s)"
begin

lemma lookup_roundtrip:
  assumes "num_map_inv s" and "lookup_number (numbering E) path s = (Inr n, s')"
    and "n \<noteq> invalidSensorNumber" and "bus_opens E (world s')" and "ty \<noteq> osCriticalStop"
  shows "valid_number n \<and> fst (lookup_path (numbering E) n ty s') = Inr path"
proof -
  obtain m u where m: "numbering E s = (Inr (Some m, u), s')" "path_number path m = Some n"
    using assms(2,3) by (auto simp: lookup_number_def bindE_def split: prod.splits sum.splits option.splits)
  note cur = hands_out [OF m(1)]
  have "num_map_inv s'" using sat_keepsD [OF keeps_map assms(1) m(1)] .
  then have ok: "num_map_ok m" using cur by (simp add: num_map_inv_def map_current_def)
  then have inm: "(n, path) \<in> set m" using m(2) by (simp add: num_map_lookup)
  then have "valid_number n" using ok by (force simp: num_map_ok_def)
  moreover have "number_path n ty m = path"
    using ok inm num_map_lookup(1) [OF ok, of n path] assms(5) by (simp add: number_path_def)
  then have "fst (lookup_path (numbering E) n ty s') = Inr path"
    using cached [OF assms(4) cur] by (simp add: lookup_path_def)
  ultimately show ?thesis ..
qed

end

interpretation dealt_numbers: sensor_numbering getSensorNumMap
  by unfold_locales (rule keep_getSensorNumMap getSensorNumMap_current getSensorNumMap_hit; assumption)+

section \<open>Frame conditions\<close>

lemma mapper_subtree_call_read [simp]: "is_read_call mapper_subtree_call"
  by (simp add: is_read_call_def mapper_subtree_call_def MAPPER_INTERFACE_def
      MAPPER_BUSNAME_def)

lemma is_read_call_open [simp]: "is_read_call OpenSystemBus" "is_read_call OpenBus"
  by (simp_all add: is_read_call_def)

lemma calls_read_modify:
  "(\<And>s. trace (f s) = trace s) \<Longrightarrow> sat (calls_only P) (modifyE f)"
  by (simp add: sat_def calls_only_def)

lemma sat_breply:
  "sat R m \<Longrightarrow> (\<And>e v. sat R (f e v)) \<Longrightarrow> sat R (case r of BusError \<Rightarrow> m | Reply e v \<Rightarrow> f e v)"
  by (cases r) auto

lemma reads_getSensorSubtree: "sat (calls_only is_read_call) (getSensorSubtree E)"
  unfolding getSensorSubtree_def by (intro sat_breply calls_sat calls_read_modify) simp_all

lemma reads_getSensorNumMap: "sat (calls_only is_read_call) (getSensorNumMap E)"
  unfolding getSensorNumMap_def Let_def
  by (intro calls_sat reads_getSensorSubtree calls_read_modify) simp_all

lemma reads_getPathFromSensorNumber:
  "sat (calls_only is_read_call) (getPathFromSensorNumber E n ty)"
  unfolding lookup_defs by (intro calls_sat reads_getSensorNumMap)

lemma same_getSensorNumMap:
  "sat same_retry (getSensorNumMap E)" "sat same_files (getSensorNumMap E)"
  unfolding getSensorNumMap_def getSensorSubtree_def Let_def
  by (intro sat_breply retry_sat files_sat retry_frame.sat_modify file_frame.sat_modify;
      simp add: same_retry_def same_files_def)+

lemma same_getPathFromSensorNumber:
  "sat same_retry (getPathFromSensorNumber E n ty)" "sat same_files (getPathFromSensorNumber E n ty)"
  unfolding lookup_defs
  by (intro retry_sat files_sat same_getSensorNumMap)+

section \<open>Properties\<close>

text \<open>A tree of \<open>n\<close> sensors, for the instances.\<close>

definition plain_tree :: "nat \<Rightarrow> sensor_tree" where
  "plain_tree n = map (\<lambda>k. (to_string k, [(''svc'', [''xyz.openbmc_project.Sensor.Value''])])) [0..<n]"

definition open_env :: "unit env" where
  "open_env = table_env (\<lambda>c. Reply False (DBool True))"

definition tree_sys :: "nat \<Rightarrow> unit sys" where
  "tree_sys n = (initial_sys ())\<lparr>sensorTreePtr := Some (plain_tree n)\<rparr>"

lemma plain_tree_paths: "map fst (plain_tree n) = map to_string [0..<n]"
  by (simp add: plain_tree_def)

lemma plain_tree_distinct: "distinct (map fst (plain_tree n))"
  by (simp add: plain_tree_paths distinct_map inj_on_def to_string_inject)

lemma length_plain_tree [simp]: "length (plain_tree n) = n"
  by (simp add: plain_tree_def)

lemma open_env_opens [simp]: "bus_opens open_env w"
  by (simp add: open_env_def bus_opens_def)

lemma tree_sys_simps [simp]:
  "sensorTreePtr (tree_sys n) = Some (plain_tree n)" "sensorNumMapPtr (tree_sys n) = None"
  "num_map_inv (tree_sys n)"
  by (simp_all add: tree_sys_def num_map_inv_def)

text \<open>A stale map is rebuilt from the cached tree.\<close>

lemma getSensorNumMap_build:
  assumes "bus_opens E (world s)" and "sensorTreePtr s = Some t" and "sensorNumMapPtr s = None"
    and "number_sensors 0 0 t [] = (outcome, m)"
  shows "getSensorNumMap E s =
    (case outcome of Inl e \<Rightarrow> Inl e | Inr _ \<Rightarrow> Inr (Some m, True),
     (after_call E OpenSystemBus s)\<lparr>prevSensorUpdatedIndex := sensorUpdatedIndex s,
        sensorNumMapPtr := Some m\<rparr>)"
  using getSensorSubtree_cached [OF assms(1,2)] assms(3,4)
  by (cases outcome) (simp_all add: getSensorNumMap_def Let_def bindE_def thenE_def)

lemma dealt_lookup:
  assumes "distinct ps" and "k < length ps"
  shows "path_number (ps ! k) (dealt 0 ps) = Some (snum k)"
proof -
  have swap: "map (\<lambda>(n, p). (p, n)) (dealt 0 ps) = zip ps (map snum [0..<length ps])"
    by (simp add: dealt_def zip_commute [of ps])
  show ?thesis
    unfolding path_number_def swap using assms by (simp add: map_of_zip_nth)
qed

lemma plain_lookup:
  assumes "k < n" and "n < 765"
  shows "fst (getSensorNumberFromPath open_env (to_string k) (tree_sys n)) = Inr (snum k)"
proof -
  have "number_sensors 0 0 (plain_tree n) [] = (Inr (), dealt 0 (map to_string [0..<n]))"
    using number_sensors_dealt [OF plain_tree_distinct, of 0 n "[]"] assms(2)
    by (simp add: snum_0 plain_tree_paths)
  note build = getSensorNumMap_build [OF open_env_opens tree_sys_simps(1,2) this]
  have "path_number (map to_string [0..<n] ! k) (dealt 0 (map to_string [0..<n])) = Some (snum k)"
    by (rule dealt_lookup) (use assms plain_tree_distinct [of n] in \<open>simp_all add: plain_tree_paths\<close>)
  then show ?thesis using build assms by (simp add: lookup_defs)
qed

text \<open>C22. Numbers handed out for sensor paths are usable and lead back: a number that
  \<open>getSensorNumberFromPath\<close> finds for a path lies in LUN 0, 1 or 3 and is not the reserved slot, and
  looking it up at once with \<open>getPathFromSensorNumber\<close> (the system bus still opening) returns the
  same path.\<close>

theorem sensor_number_roundtrip:
  assumes "num_map_inv s" and "getSensorNumberFromPath E path s = (Inr n, s')"
    and "n \<noteq> invalidSensorNumber" and "bus_opens E (world s')" and "ty \<noteq> osCriticalStop"
  shows "valid_number n \<and> fst (getPathFromSensorNumber E n ty s') = Inr path"
  using dealt_numbers.lookup_roundtrip [OF assms(1) _ assms(3-5)] assms(2)
  by (simp add: getSensorNumberFromPath_def getPathFromSensorNumber_def)

theorem sensor_number_roundtrip_witness:
  "valid_number 1 \<and> fst (getPathFromSensorNumber open_env 1 0
     (snd (getSensorNumberFromPath open_env (to_string 1) (tree_sys 3)))) = Inr (to_string 1)"
proof (rule sensor_number_roundtrip)
  have "fst (getSensorNumberFromPath open_env (to_string 1) (tree_sys 3)) = Inr 1"
    using plain_lookup [of 1 3] by (simp add: nth_sensor_number_def)
  then show "getSensorNumberFromPath open_env (to_string 1) (tree_sys 3)
      = (Inr 1, snd (getSensorNumberFromPath open_env (to_string 1) (tree_sys 3)))"
    by (metis prod.collapse)
qed (simp_all add: invalidSensorNumber_def osCriticalStop_def)





text \<open>A failed query of the object mapper is remembered as a success: the empty tree stays
  cached, so that later calls return it as a valid tree and do not ask the mapper again, until a
  sensor is added or removed.\<close>

theorem mapper_failure_cached:
  assumes "bus_opens E (world s)" and "sensorTreePtr s = None"
    and "fst (e_bus E (world (rescanning E s)) mapper_subtree_call) = BusError"
    and "getSensorSubtree E s = (r, s')" and "bus_opens E (world s')"
  shows "r = Inr (None, sensorUpdatedIndex s)
    \<and> getSensorSubtree E s' = (Inr (Some [], sensorUpdatedIndex s), after_call E OpenSystemBus s')
    \<and> sensorTreePtr (snd (sensorAdded s')) = None"
proof -
  have r: "r = Inr (None, sensorUpdatedIndex s)"
    and s': "s' = after_call E mapper_subtree_call (rescanning E s)"
    using assms(3,4) getSensorSubtree_rescan [OF assms(1,2)] by (simp_all add: Let_def)
  have "sensorTreePtr s' = Some []" "sensorUpdatedIndex s' = sensorUpdatedIndex s"
    by (simp_all add: s' rescanning_def)
  then show ?thesis
    using getSensorSubtree_cached [OF assms(5)] r by (simp add: sensorAdded_def)
qed

definition mapper_down_env :: "unit env" where
  "mapper_down_env =
     table_env (\<lambda>c. if c = mapper_subtree_call then BusError else Reply False (DBool True))"

theorem mapper_failure_cached_witness:
  "fst (getSensorSubtree mapper_down_env (snd (getSensorSubtree mapper_down_env (initial_sys ()))))
     = Inr (Some [], 0)"
proof -
  have "bus_opens mapper_down_env w" for w
    by (simp add: bus_opens_def mapper_down_env_def mapper_subtree_call_def)
  moreover have "fst (e_bus mapper_down_env w mapper_subtree_call) = BusError" for w
    by (simp add: mapper_down_env_def)
  ultimately show ?thesis
    using mapper_failure_cached [of mapper_down_env "initial_sys ()", OF _ _ _ prod.collapse [symmetric]]
    by simp
qed

end
