(* ===== verification/Encryption.thy ===== *)
theory Encryption
  imports DaemonCalls
begin

text \<open>
  The string encryption of \<open>src/Encryption.cpp\<close>: the key and IV files, their creation on first use,
  and \<open>encryptString\<close>/\<open>decryptString\<close>.  Files are the field \<open>files\<close> of the daemon state; the cipher,
  base64 and the random source are those of the environment.
\<close>

section \<open>Files\<close>

definition aesKeyFile :: string where "aesKeyFile = ''/etc/snmp/AESKey''"
definition aesIVFile :: string where "aesIVFile = ''/etc/snmp/AESIV''"
definition AES_MAX_KEY_LENGTH :: nat where "AES_MAX_KEY_LENGTH = 32"
definition AES_MAX_IV_LENGTH :: nat where "AES_MAX_IV_LENGTH = 16"

text \<open>\<open>fopen(path, "wb")\<close> empties the file at once; \<open>fopen(path, "rb")\<close> finds it or not.\<close>

definition fopen_wb :: "'w env \<Rightarrow> string \<Rightarrow> ('w, bool) act" where
  "fopen_wb E path =
     (if e_writable E path
      then thenE (modifyE (\<lambda>s. s\<lparr>files := (files s)(path := Some '''')\<rparr>)) (ret True)
      else ret False)"

definition fwrite :: "string \<Rightarrow> string \<Rightarrow> ('w, unit) act" where
  "fwrite path content = modifyE (\<lambda>s. s\<lparr>files := (files s)(path := Some content)\<rparr>)"

definition fopen_rb :: "string \<Rightarrow> ('w, bool) act" where
  "fopen_rb path = getsE (\<lambda>s. files s path \<noteq> None)"

definition RAND_bytes :: "'w env \<Rightarrow> nat \<Rightarrow> ('w, string option) act" where
  "RAND_bytes E n = (\<lambda>s. case e_rand E (world s) n of (r, w) \<Rightarrow> (Inr r, s\<lparr>world := w\<rparr>))"

section \<open>Base64\<close>

definition base64_encode :: "'w env \<Rightarrow> string \<Rightarrow> string" where
  "base64_encode E input = c_str (cl_b64_encode (e_crypto E) input)"

definition base64_decode :: "'w env \<Rightarrow> string \<Rightarrow> string option" where
  "base64_decode E input =
     (case cl_b64_decode (e_crypto E) (c_str input) of
        None \<Rightarrow> None
      | Some decoded \<Rightarrow> (if decoded = '''' then None else Some decoded))"

section \<open>Keys\<close>

definition AES_GenerateAndSaveKeys :: "'w env \<Rightarrow> string \<Rightarrow> string \<Rightarrow> ('w, bool) act" where
  "AES_GenerateAndSaveKeys E keyFile ivFile =
     bindE (RAND_bytes E AES_MAX_KEY_LENGTH) (\<lambda>rkey. case rkey of
       None \<Rightarrow> ret False
     | Some key \<Rightarrow>
         bindE (RAND_bytes E AES_MAX_IV_LENGTH) (\<lambda>riv. case riv of
           None \<Rightarrow> ret False
         | Some iv \<Rightarrow>
             bindE (fopen_wb E keyFile) (\<lambda>fkey.
             bindE (fopen_wb E ivFile) (\<lambda>fiv.
               if \<not> fkey \<or> \<not> fiv then ret False
               else thenE (fwrite keyFile (base64_encode E key))
                      (thenE (fwrite ivFile (base64_encode E iv)) (ret True))))))"

text \<open>\<open>None\<close> is the return value -1; \<open>Some\<close> the bytes copied to the buffer.\<close>

definition AES_GetKeyFromFile :: "'w env \<Rightarrow> string \<Rightarrow> nat \<Rightarrow> ('w, string option) act" where
  "AES_GetKeyFromFile E filename buffer_size =
     bindE (getsE (\<lambda>s. files s filename)) (\<lambda>f. case f of
       None \<Rightarrow> ret None
     | Some encoded \<Rightarrow>
         (case base64_decode E encoded of
            None \<Rightarrow> ret None
          | Some decoded \<Rightarrow>
              if length decoded \<noteq> buffer_size then ret None else ret (Some decoded)))"

section \<open>Encrypting\<close>

definition ensure_keys :: "'w env \<Rightarrow> ('w, bool) act" where
  "ensure_keys E =
     bindE (fopen_rb aesKeyFile) (\<lambda>keyFile.
     bindE (fopen_rb aesIVFile) (\<lambda>ivFile.
       if \<not> keyFile \<or> \<not> ivFile then AES_GenerateAndSaveKeys E aesKeyFile aesIVFile
       else ret True))"

definition encryptString :: "'w env \<Rightarrow> string \<Rightarrow> ('w, string) act" where
  "encryptString E plaintext =
     bindE (ensure_keys E) (\<lambda>ok.
     if \<not> ok then ret ''''
     else bindE (AES_GetKeyFromFile E aesKeyFile AES_MAX_KEY_LENGTH) (\<lambda>rkey. case rkey of
       None \<Rightarrow> ret ''''
     | Some key \<Rightarrow>
         bindE (AES_GetKeyFromFile E aesIVFile AES_MAX_IV_LENGTH) (\<lambda>riv. case riv of
           None \<Rightarrow> ret ''''
         | Some iv \<Rightarrow>
             (case cl_encrypt (e_crypto E) key iv plaintext of
                None \<Rightarrow> ret ''''
              | Some ciphertext \<Rightarrow> ret (base64_encode E ciphertext)))))"

text \<open>The result and the length it stores through the out-parameter.\<close>

definition decryptString :: "'w env \<Rightarrow> string \<Rightarrow> ('w, string \<times> nat) act" where
  "decryptString E b64Ciphertext =
     (if b64Ciphertext = '''' then ret ('''', 0)
      else bindE (fopen_rb aesKeyFile) (\<lambda>keyFile.
        if \<not> keyFile then ret ('''', 0)
        else bindE (fopen_rb aesIVFile) (\<lambda>ivFile.
        if \<not> ivFile then ret ('''', 0)
        else bindE (AES_GetKeyFromFile E aesKeyFile AES_MAX_KEY_LENGTH) (\<lambda>rkey. case rkey of
          None \<Rightarrow> ret ('''', 0)
        | Some key \<Rightarrow>
            bindE (AES_GetKeyFromFile E aesIVFile AES_MAX_IV_LENGTH) (\<lambda>riv. case riv of
              None \<Rightarrow> ret ('''', 0)
            | Some iv \<Rightarrow>
                (case base64_decode E b64Ciphertext of
                   None \<Rightarrow> ret ('''', 0)
                 | Some ciphertext \<Rightarrow>
                     (case cl_decrypt (e_crypto E) key iv ciphertext of
                        None \<Rightarrow> ret ('''', 0)
                      | Some plaintext \<Rightarrow> ret (plaintext, length plaintext))))))))"

section \<open>Facts\<close>

text \<open>Documented behaviour of the crypto library: base64 decodes what it encoded and produces text
  without zero bytes, and AES-CBC decrypts what it encrypted under the same key and vector.  The
  ciphertext is never empty, because the cipher pads.\<close>

definition base64_law :: "crypto_lib \<Rightarrow> bool" where
  "base64_law C \<longleftrightarrow> (\<forall>x. x \<noteq> '''' \<longrightarrow>
     CHR 0x00 \<notin> set (cl_b64_encode C x) \<and> cl_b64_decode C (cl_b64_encode C x) = Some x)"

definition cipher_law :: "crypto_lib \<Rightarrow> bool" where
  "cipher_law C \<longleftrightarrow> (\<forall>key iv p c. cl_encrypt C key iv p = Some c \<longrightarrow>
     c \<noteq> '''' \<and> cl_decrypt C key iv c = Some p)"

lemma base64_roundtrip:
  "base64_law (e_crypto E) \<Longrightarrow> x \<noteq> '''' \<Longrightarrow> base64_decode E (base64_encode E x) = Some x"
  by (simp add: base64_law_def base64_decode_def base64_encode_def c_str_id)

text \<open>The stored key material, as both directions read it.\<close>

definition stored_key :: "'w env \<Rightarrow> 'w sys \<Rightarrow> string \<Rightarrow> nat \<Rightarrow> string option" where
  "stored_key E s path n =
     (case files s path of
        None \<Rightarrow> None
      | Some encoded \<Rightarrow>
          (case base64_decode E encoded of
             None \<Rightarrow> None
           | Some decoded \<Rightarrow> if length decoded \<noteq> n then None else Some decoded))"

lemma AES_GetKeyFromFile_eq: "AES_GetKeyFromFile E path n s = (Inr (stored_key E s path n), s)"
  by (simp add: AES_GetKeyFromFile_def stored_key_def bindE_def split: option.split)

lemma fopen_rb_eq: "fopen_rb path s = (Inr (files s path \<noteq> None), s)"
  by (simp add: fopen_rb_def)

lemma stored_key_file: "stored_key E s path n = Some k \<Longrightarrow> files s path \<noteq> None"
  by (auto simp: stored_key_def split: option.splits)

lemma ensure_keys_present:
  "files s aesKeyFile \<noteq> None \<Longrightarrow> files s aesIVFile \<noteq> None \<Longrightarrow> ensure_keys E s = (Inr True, s)"
  by (auto simp: ensure_keys_def bindE_def fopen_rb_eq)

text \<open>What a successful encryption rests on, and what it does with a key in place.\<close>

lemma encryptString_cases:
  assumes "encryptString E p s = (Inr c, s')" and "c \<noteq> ''''"
  obtains key iv raw where "stored_key E s' aesKeyFile 32 = Some key"
    and "stored_key E s' aesIVFile 16 = Some iv"
    and "cl_encrypt (e_crypto E) key iv p = Some raw" and "c = base64_encode E raw"
  using assms
  by (auto simp: encryptString_def bindE_def AES_GetKeyFromFile_eq AES_MAX_KEY_LENGTH_def
      AES_MAX_IV_LENGTH_def split: prod.splits sum.splits option.splits if_splits)

lemma decryptString_eq:
  assumes "stored_key E s aesKeyFile 32 = Some key" and "stored_key E s aesIVFile 16 = Some iv"
    and "b64 \<noteq> ''''"
  shows "decryptString E b64 s =
    (case base64_decode E b64 of
       None \<Rightarrow> (Inr ('''', 0), s)
     | Some raw \<Rightarrow>
         (case cl_decrypt (e_crypto E) key iv raw of
            None \<Rightarrow> (Inr ('''', 0), s)
          | Some plain \<Rightarrow> (Inr (plain, length plain), s)))"
  using assms stored_key_file [OF assms(1)] stored_key_file [OF assms(2)]
  by (auto simp: decryptString_def bindE_def fopen_rb_eq AES_GetKeyFromFile_eq
      AES_MAX_KEY_LENGTH_def AES_MAX_IV_LENGTH_def split: option.split)

lemma decryptString_no_key:
  assumes "stored_key E s aesKeyFile 32 = None \<or> stored_key E s aesIVFile 16 = None"
  shows "decryptString E b64 s = (Inr ('''', 0), s)"
  using assms
  by (auto simp: decryptString_def bindE_def fopen_rb_eq AES_GetKeyFromFile_eq
      AES_MAX_KEY_LENGTH_def AES_MAX_IV_LENGTH_def split: option.split)

lemma decryptString_same_state: "snd (decryptString E b64 s) = s"
  by (simp add: decryptString_def bindE_def fopen_rb_eq AES_GetKeyFromFile_eq split: option.split)

lemma aes_files_differ [simp]: "aesKeyFile \<noteq> aesIVFile" "aesIVFile \<noteq> aesKeyFile"
  by (simp_all add: aesKeyFile_def aesIVFile_def)

section \<open>Properties\<close>

lemma encryptString_eq:
  assumes "stored_key E s aesKeyFile 32 = Some key" and "stored_key E s aesIVFile 16 = Some iv"
  shows "encryptString E p s =
    (Inr (case cl_encrypt (e_crypto E) key iv p of
            None \<Rightarrow> '''' | Some raw \<Rightarrow> base64_encode E raw), s)"
  using assms ensure_keys_present [OF stored_key_file [OF assms(1)] stored_key_file [OF assms(2)]]
  by (simp add: encryptString_def bindE_def AES_GetKeyFromFile_eq AES_MAX_KEY_LENGTH_def
      AES_MAX_IV_LENGTH_def split: option.split)

text \<open>A library that satisfies the laws, for the instances: hexadecimal text, and a cipher that marks
  its output.\<close>

definition hex_crypto :: crypto_lib where
  "hex_crypto =
     \<lparr>cl_b64_encode = (\<lambda>x. toHexStr (map (\<lambda>c. of_nat (of_char c)) x)),
      cl_b64_decode = (\<lambda>t. Some (map (\<lambda>b. char_of (unat b)) (fromHexStr t))),
      cl_encrypt = (\<lambda>key iv p. Some (CHR ''#'' # p)),
      cl_decrypt = (\<lambda>key iv c. case c of [] \<Rightarrow> None | _ # p \<Rightarrow> Some p)\<rparr>"

definition hex_env :: "(string \<Rightarrow> bool) \<Rightarrow> unit env" where
  "hex_env writable =
     (table_env (\<lambda>_. BusError))\<lparr>e_crypto := hex_crypto, e_writable := writable\<rparr>"

definition keyed_sys :: "unit sys" where
  "keyed_sys = (initial_sys ())\<lparr>files :=
     [aesKeyFile \<mapsto> cl_b64_encode hex_crypto (replicate 32 CHR ''k''),
      aesIVFile \<mapsto> cl_b64_encode hex_crypto (replicate 16 CHR ''i'')]\<rparr>"

lemma byte_char: "char_of (unat (of_nat (of_char c) :: u8)) = c"
proof -
  have "of_char c < (256 :: nat)" by simp
  then have "unat (of_nat (of_char c) :: u8) = of_char c"
    by (simp add: unsigned_of_nat take_bit_nat_eq_self)
  then show ?thesis by simp
qed

lemma hex_digits_not_zero: "CHR 0x00 \<notin> set (toHexStr data)"
proof (induction data)
  case Nil
  then show ?case by (simp add: toHexStr_def)
next
  case (Cons v vs)
  have "hex_digit (unat v div 16) \<noteq> CHR 0x00" "hex_digit (unat v mod 16) \<noteq> CHR 0x00"
    using unat_u8_div [of v] by (simp_all add: hex_digit_not_zero)
  then show ?case using Cons.IH by (simp add: toHexStr_Cons eq_commute)
qed

lemma hex_base64_law: "base64_law hex_crypto"
  by (simp add: base64_law_def hex_crypto_def hex_digits_not_zero fromHexStr_toHexStr comp_def byte_char)

lemma hex_cipher_law: "cipher_law hex_crypto"
  by (simp add: cipher_law_def hex_crypto_def)

lemma hex_env_simps [simp]:
  "e_crypto (hex_env wr) = hex_crypto" "e_writable (hex_env wr) = wr"
  "e_rand (hex_env wr) u n = (Some (replicate n CHR ''r''), u)"
  by (simp_all add: hex_env_def table_env_def)

lemma keyed_sys_keys:
  "stored_key (hex_env wr) keyed_sys aesKeyFile 32 = Some (replicate 32 CHR ''k'')"
  "stored_key (hex_env wr) keyed_sys aesIVFile 16 = Some (replicate 16 CHR ''i'')"
proof -
  have "base64_decode (hex_env wr) (cl_b64_encode hex_crypto x) = Some x" if "x \<noteq> ''''" for x
    using hex_base64_law that by (simp add: base64_law_def base64_decode_def c_str_id)
  then show "stored_key (hex_env wr) keyed_sys aesKeyFile 32 = Some (replicate 32 CHR ''k'')"
    and "stored_key (hex_env wr) keyed_sys aesIVFile 16 = Some (replicate 16 CHR ''i'')"
    by (simp_all add: stored_key_def keyed_sys_def)
qed

text \<open>C31. Decryption inverts encryption as long as the key files stay: if \<open>encryptString\<close> returned a
  non-empty text, then in any later state with the same key and IV files \<open>decryptString\<close> of that text
  returns the plaintext and its length.\<close>

theorem encryption_roundtrip:
  assumes "base64_law (e_crypto E)" and "cipher_law (e_crypto E)"
    and "encryptString E p s = (Inr c, s')" and "c \<noteq> ''''"
    and "files t aesKeyFile = files s' aesKeyFile" and "files t aesIVFile = files s' aesIVFile"
  shows "decryptString E c t = (Inr (p, length p), t)"
proof -
  obtain key iv raw where k: "stored_key E s' aesKeyFile 32 = Some key"
    "stored_key E s' aesIVFile 16 = Some iv"
    and raw: "cl_encrypt (e_crypto E) key iv p = Some raw" "c = base64_encode E raw"
    by (rule encryptString_cases [OF assms(3,4)])
  have kt: "stored_key E t aesKeyFile 32 = Some key" "stored_key E t aesIVFile 16 = Some iv"
    using k assms(5,6) by (simp_all add: stored_key_def)
  have "raw \<noteq> ''''" and dec: "cl_decrypt (e_crypto E) key iv raw = Some p"
    using assms(2) raw(1) by (auto simp: cipher_law_def)
  then have "base64_decode E c = Some raw"
    using base64_roundtrip [OF assms(1)] raw(2) by simp
  then show ?thesis using decryptString_eq [OF kt assms(4)] dec by simp
qed

theorem encryption_roundtrip_witness:
  "decryptString (hex_env (\<lambda>_. True)) (base64_encode (hex_env (\<lambda>_. True)) ''#secret'') keyed_sys
     = (Inr (''secret'', 6), keyed_sys)"
proof -
  let ?E = "hex_env (\<lambda>_. True)"
  have enc: "encryptString ?E ''secret'' keyed_sys = (Inr (base64_encode ?E ''#secret''), keyed_sys)"
    using encryptString_eq [OF keyed_sys_keys, of "\<lambda>_. True" "''secret''"]
    by (simp add: hex_crypto_def)
  have ne: "base64_encode ?E ''#secret'' \<noteq> ''''"
    using base64_roundtrip [of ?E "''#secret''"] hex_base64_law
    by (auto simp: base64_decode_def c_str_def hex_crypto_def)
  show ?thesis
    using encryption_roundtrip [OF _ _ enc ne refl refl] hex_base64_law hex_cipher_law by simp
qed

text \<open>Keys appear on first use: with a random source that delivers, both files writable and at
  least one of them missing, \<open>encryptString\<close> leaves a fresh 32-byte key and a 16-byte vector in the two
  files, whatever they held before.\<close>

theorem encryptString_creates_keys:
  assumes "base64_law (e_crypto E)" and "e_writable E aesKeyFile" and "e_writable E aesIVFile"
    and "files s aesKeyFile = None \<or> files s aesIVFile = None"
    and "e_rand E (world s) 32 = (Some key, w)" and "length key = 32"
    and "e_rand E w 16 = (Some iv, w')" and "length iv = 16"
  shows "stored_key E (snd (encryptString E p s)) aesKeyFile 32 = Some key
    \<and> stored_key E (snd (encryptString E p s)) aesIVFile 16 = Some iv"
proof -
  let ?t = "s\<lparr>world := w', files := (files s)(aesKeyFile := Some (base64_encode E key),
               aesIVFile := Some (base64_encode E iv))\<rparr>"
  have "ensure_keys E s = (Inr True, ?t)"
    using assms(2-5,7)
    by (auto simp: ensure_keys_def bindE_def thenE_def fopen_rb_eq AES_GenerateAndSaveKeys_def
        RAND_bytes_def AES_MAX_KEY_LENGTH_def AES_MAX_IV_LENGTH_def fopen_wb_def fwrite_def
        fun_upd_twist)
  then have "snd (encryptString E p s) = ?t"
    by (simp add: encryptString_def bindE_def AES_GetKeyFromFile_eq split: option.split)
  moreover have "key \<noteq> ''''" "iv \<noteq> ''''" using assms(6,8) by auto
  ultimately show ?thesis
    using base64_roundtrip [OF assms(1)] assms(6,8) by (simp add: stored_key_def)
qed

theorem encryptString_creates_keys_witness:
  "stored_key (hex_env (\<lambda>_. True)) (snd (encryptString (hex_env (\<lambda>_. True)) ''pw'' (initial_sys ())))
     aesKeyFile 32 = Some (replicate 32 CHR ''r'')"
  using encryptString_creates_keys [of "hex_env (\<lambda>_. True)" "initial_sys ()" "replicate 32 CHR ''r''" "()"
      "replicate 16 CHR ''r''" "()" "''pw''"] hex_base64_law
  by (simp)

text \<open>A lost IV file can cost the key: when the IV file is missing and cannot be created,
  \<open>encryptString\<close> fails with the empty text and leaves the key file empty, so that texts encrypted
  before can no longer be decrypted.\<close>

theorem encryptString_truncates_key:
  assumes "e_writable E aesKeyFile" and "\<not> e_writable E aesIVFile" and "files s aesIVFile = None"
    and "e_rand E (world s) 32 = (Some key, w)" and "e_rand E w 16 = (Some iv, w')"
    and "encryptString E p s = (r, s')"
  shows "r = Inr '''' \<and> files s' aesKeyFile = Some ''''
    \<and> (\<forall>c. decryptString E c s' = (Inr ('''', 0), s'))"
proof -
  have "ensure_keys E s = (Inr False, s\<lparr>world := w', files := (files s)(aesKeyFile := Some '''')\<rparr>)"
    using assms(1-5)
    by (auto simp: ensure_keys_def bindE_def thenE_def fopen_rb_eq AES_GenerateAndSaveKeys_def
        RAND_bytes_def AES_MAX_KEY_LENGTH_def AES_MAX_IV_LENGTH_def fopen_wb_def)
  then have r: "r = Inr ''''" and s': "s' = s\<lparr>world := w', files := (files s)(aesKeyFile := Some '''')\<rparr>"
    using assms(6) by (simp_all add: encryptString_def bindE_def)
  have "stored_key E s' aesIVFile 16 = None" using assms(3) by (simp add: s' stored_key_def)
  then show ?thesis using decryptString_no_key r by (auto simp: s')
qed

theorem encryptString_truncates_key_witness:
  "files (snd (encryptString (hex_env (\<lambda>p. p = aesKeyFile)) ''pw''
            ((initial_sys ())\<lparr>files := [aesKeyFile \<mapsto> ''old key'']\<rparr>))) aesKeyFile = Some ''''"
  using encryptString_truncates_key [of "hex_env (\<lambda>p. p = aesKeyFile)"
      "(initial_sys ())\<lparr>files := [aesKeyFile \<mapsto> ''old key'']\<rparr>" _ _ _ _ "''pw''",
      OF _ _ _ _ _ prod.collapse [symmetric]]
  by simp

end
