(* ===== verification/SnmpNotify.thy ===== *)
theory SnmpNotify
  imports Encryption
begin

text \<open>
  The SNMP traps of \<open>src/snmp_notification.cpp\<close>: the two configuration files that switch traps and
  protocol versions, the manager that a channel and a destination selector designate in the LAN
  configuration, the session of each protocol version, and the trap itself.
\<close>

section \<open>Names\<close>

definition PEF_SNMP_CONF_FILE_PATH :: string where
  "PEF_SNMP_CONF_FILE_PATH = ''/etc/snmp/snmp.conf''"
definition PEF_SNMP_TRAP_STATUS_FILE_PATH :: string where
  "PEF_SNMP_TRAP_STATUS_FILE_PATH = ''/etc/snmp/SnmpTrapStatus''"
definition SNMP_CONF_SERVICE :: string where "SNMP_CONF_SERVICE = ''xyz.openbmc_project.Snmp.Conf''"
definition SNMP_USER_MANAGER_INTF :: string where
  "SNMP_USER_MANAGER_INTF = ''xyz.openbmc_project.Snmp.UserManager''"
definition SNMP_USER_MANAGER_ROOT :: string where
  "SNMP_USER_MANAGER_ROOT = ''/xyz/openbmc_project/snmp/UserManager/''"
definition SNMP_TRAP_PORT :: nat where "SNMP_TRAP_PORT = 162"
definition pefLanParamConfFile :: string where
  "pefLanParamConfFile = ''/var/lib/pef-alert-manager/pef-lan-param-config.json''"

record ManagerProperty =
  mp_ipaddress :: string
  mp_version :: string
  mp_community :: string
  mp_userName :: string
  mp_algorithm :: string
  mp_encryption :: string
  mp_password :: string

section \<open>Configuration\<close>

definition formatPeerAddress :: "string \<Rightarrow> u8 \<Rightarrow> string" where
  "formatPeerAddress address addressType =
     (if address = '''' then ''''
      else if (addressType = 1 \<and> address = ''0.0.0.0'')
          \<or> (addressType = 2 \<and> address = ''0000:0000:0000:0000:0000:0000:0000:0000'') then ''''
      else if addressType = 2 \<and> hd address \<noteq> CHR ''['' then
        ''['' @ address @ '']:'' @ to_string SNMP_TRAP_PORT
      else address @ '':'' @ to_string SNMP_TRAP_PORT)"

type_synonym disable_status = "string \<Rightarrow> bool option"

definition disable_key :: "string \<Rightarrow> string" where
  "disable_key key =
     (if key = ''disableSNMPv1'' then ''v1''
      else if key = ''disableSNMPv2c'' then ''v2c''
      else if key = ''disableSNMPv3'' then ''v3''
      else key)"

definition disable_line :: "string \<Rightarrow> disable_status \<Rightarrow> disable_status" where
  "disable_line line disableStatus =
     (case words_of line of
        key # val # _ \<Rightarrow>
          (let key' = disable_key key
           in if key' = ''v1'' \<or> key' = ''v2c'' \<or> key' = ''v3''
              then disableStatus(key' \<mapsto> (val = ''1'' \<or> val = ''true'' \<or> val = ''yes''))
              else disableStatus)
      | _ \<Rightarrow> disableStatus)"

definition no_version_disabled :: disable_status where
  "no_version_disabled = [''v1'' \<mapsto> False, ''v2c'' \<mapsto> False, ''v3'' \<mapsto> False]"

definition getSNMPDisableStatus :: "('w, disable_status) act" where
  "getSNMPDisableStatus = getsE (\<lambda>s.
     case files s PEF_SNMP_CONF_FILE_PATH of
       None \<Rightarrow> no_version_disabled
     | Some text \<Rightarrow> fold disable_line (lines_of text) no_version_disabled)"

text \<open>\<open>stream >> std::boolalpha >> flag\<close>: leading white space is skipped, and the flag becomes true
  exactly when the text goes on with \<open>true\<close>.\<close>

definition getTrapEnabled :: "('w, bool) act" where
  "getTrapEnabled = getsE (\<lambda>s.
     case files s PEF_SNMP_TRAP_STATUS_FILE_PATH of
       None \<Rightarrow> False
     | Some text \<Rightarrow> starts_with ''true'' (dropWhile is_space text))"

definition version_disabled :: "disable_status \<Rightarrow> string \<Rightarrow> bool" where
  "version_disabled st ver \<longleftrightarrow> st ver = Some True"

section \<open>The manager\<close>

definition prop_str :: "(string \<times> dval) list \<Rightarrow> string \<Rightarrow> exn + string" where
  "prop_str m k = bindR (map_at m k) get_str"

text \<open>The algorithm, the encryption and the decrypted password, when the code returns true.\<close>

definition loadSnmpV3UserFromDBus ::
  "'w env \<Rightarrow> string \<Rightarrow> ('w, (string \<times> string \<times> string) option) act" where
  "loadSnmpV3UserFromDBus E userName =
     bindE
       (catchE any_exception
         (bindE (bus_call E (get_all_properties SNMP_CONF_SERVICE (SNMP_USER_MANAGER_ROOT @ userName)
                               SNMP_USER_MANAGER_INTF)) (\<lambda>(err, v).
          bindE (liftE (read_props v)) (\<lambda>props. ret (Some props))))
         (ret None))
       (\<lambda>userProps. case userProps of
          None \<Rightarrow> ret None
        | Some props \<Rightarrow>
            catchE any_exception
              (bindE (liftE (prop_str props ''Algorithm'')) (\<lambda>algorithm.
               bindE (liftE (prop_str props ''Encryption'')) (\<lambda>encryption.
               bindE (liftE (prop_str props ''Password'')) (\<lambda>encryptedPassword.
               bindE (decryptString E encryptedPassword) (\<lambda>(password, outLen).
               if password = '''' then ret None
               else ret (Some (algorithm, encryption, password)))))))
              (ret None))"

text \<open>The section of the LAN configuration file that belongs to an interface; \<open>JNull\<close> when there is
  none.\<close>

definition lan_section :: "json \<Rightarrow> string \<Rightarrow> json" where
  "lan_section mergedData iface =
     (case json_lookup mergedData ''Interfaces'' of
        Some (JObj kvs) \<Rightarrow>
          (if json_contains (JObj kvs) iface then the (map_of kvs iface)
           else case json_lookup mergedData iface of None \<Rightarrow> JNull | Some j \<Rightarrow> j)
      | _ \<Rightarrow> (case json_lookup mergedData iface of None \<Rightarrow> JNull | Some j \<Rightarrow> j))"

definition lan_data :: "'w env \<Rightarrow> string \<Rightarrow> string \<Rightarrow> json" where
  "lan_data E text iface =
     (let mergedData = jl_parse (e_json E) text
      in if mergedData = JDiscarded then JNull else lan_section mergedData iface)"

text \<open>\<open>if (cfg.contains(k) && cfg[k].is_array()) ...\<close>: the array converted by \<open>conv\<close>, or empty.\<close>

definition cfg_array :: "(json \<Rightarrow> exn + 'a) \<Rightarrow> json \<Rightarrow> string \<Rightarrow> exn + 'a list" where
  "cfg_array conv cfg k =
     (case json_lookup cfg k of Some (JArr js) \<Rightarrow> map_result conv js | _ \<Rightarrow> Inr [])"

definition json_u8 :: "json_lib \<Rightarrow> json \<Rightarrow> exn + u8" where
  "json_u8 J j = bindR (json_get_u32 J j) (\<lambda>x. Inr (ucast x))"

record lan_destinations =
  ld_type :: "u8 list"
  ld_addressType :: "u8 list"
  ld_ipv4 :: "string list"
  ld_ipv6 :: "string list"
  ld_userName :: "string list"
  ld_community :: string

definition read_destinations :: "json_lib \<Rightarrow> json \<Rightarrow> exn + lan_destinations" where
  "read_destinations J cfg =
     bindR (cfg_array (json_u8 J) cfg ''Type'') (\<lambda>type.
     bindR (cfg_array (json_u8 J) cfg ''AddressType'') (\<lambda>addressType.
     bindR (cfg_array json_get_string cfg ''IPv4'') (\<lambda>ipv4.
     bindR (cfg_array json_get_string cfg ''IPv6'') (\<lambda>ipv6.
     bindR (cfg_array json_get_string cfg ''UserName'') (\<lambda>userName.
     bindR (json_value json_get_string cfg ''CommunityString'' '''') (\<lambda>community.
       Inr \<lparr>ld_type = type, ld_addressType = addressType, ld_ipv4 = ipv4, ld_ipv6 = ipv6,
            ld_userName = userName, ld_community = community\<rparr>))))))"

definition raw_address :: "lan_destinations \<Rightarrow> nat \<Rightarrow> u8 \<Rightarrow> exn + string option" where
  "raw_address d selectedIndex addressTypeValue =
     (if addressTypeValue = 1 then bindR (vector_at (ld_ipv4 d) selectedIndex) (\<lambda>a. Inr (Some a))
      else if addressTypeValue = 2 then
        bindR (vector_at (ld_ipv6 d) selectedIndex) (\<lambda>a. Inr (Some a))
      else Inr None)"

definition build_manager ::
  "'w env \<Rightarrow> lan_destinations \<Rightarrow> nat \<Rightarrow> u8 \<Rightarrow> string \<Rightarrow> ('w, ManagerProperty list) act" where
  "build_manager E d selectedIndex typeValue peer =
     (if typeValue = 0 \<or> typeValue = 1 then
        (if ld_community d = '''' then ret []
         else ret [\<lparr>mp_ipaddress = peer, mp_version = (if typeValue = 0 then ''v1'' else ''v2c''),
                    mp_community = ld_community d, mp_userName = '''', mp_algorithm = '''',
                    mp_encryption = '''', mp_password = ''''\<rparr>])
      else if typeValue = 2 then
        bindE (liftE (vector_at (ld_userName d) selectedIndex)) (\<lambda>selectedUserName.
        if selectedUserName = '''' then ret []
        else bindE (loadSnmpV3UserFromDBus E selectedUserName) (\<lambda>user. case user of
          None \<Rightarrow> ret []
        | Some (algorithm, encryption, password) \<Rightarrow>
            ret [\<lparr>mp_ipaddress = peer, mp_version = ''v3'', mp_community = '''',
                  mp_userName = selectedUserName, mp_algorithm = algorithm,
                  mp_encryption = encryption, mp_password = password\<rparr>]))
      else ret [])"

definition select_manager ::
  "'w env \<Rightarrow> lan_destinations \<Rightarrow> u8 option \<Rightarrow> ('w, ManagerProperty list) act" where
  "select_manager E d destinationSelFilter =
     (case destinationSelFilter of
        None \<Rightarrow> ret []
      | Some sel \<Rightarrow>
          (let selectedIndex = size_sub (unat sel) 1
           in if length (ld_type d) \<le> selectedIndex then ret []
              else
                bindE (liftE (vector_at (ld_type d) selectedIndex)) (\<lambda>typeValue.
                bindE (liftE (vector_at (ld_addressType d) selectedIndex)) (\<lambda>addressTypeValue.
                if typeValue = 3 then ret []
                else bindE (liftE (raw_address d selectedIndex addressTypeValue)) (\<lambda>raw.
                  case raw of
                    None \<Rightarrow> ret []
                  | Some rawAddress \<Rightarrow>
                      (let peer = formatPeerAddress rawAddress addressTypeValue
                       in if peer = '''' then ret []
                          else build_manager E d selectedIndex typeValue peer))))))"

text \<open>The file has its own copy of the channel map, which does what that of the daemon does, and a
  query of all objects of a service.\<close>

definition snmp_channel_map :: "'w env \<Rightarrow> ('w, eth_channel_map) act" where
  "snmp_channel_map E =
     catchE any_exception
       (bindE (bus_call E (Method ''xyz.openbmc_project.User.Manager'' ''/xyz/openbmc_project/user''
                 ''xyz.openbmc_project.User.AccountPolicy'' ''GetChannelInterfaceMap'' []))
          (\<lambda>(err, v). bindE (liftE (read_channels v)) (\<lambda>channelMap.
             ret (filter (\<lambda>(channel, iface). starts_with ''eth'' iface) channelMap))))
       (ret [])"

lemma snmp_channel_map_eq [simp]: "snmp_channel_map E = getEthChannelInterfaceMap E"
  by (simp add: snmp_channel_map_def getEthChannelInterfaceMap_def userManagerBus_def userMgrObjPath_def
      userAccPolicyIntf_def getMapMethod_def)

definition getManagedObjects ::
  "'w env \<Rightarrow> string \<Rightarrow> string \<Rightarrow> ('w, (string \<times> (string \<times> (string \<times> dval) list) list) list) act" where
  "getManagedObjects E service objPath =
     bindE (bus_call E (Method (c_str service) (c_str objPath) ''org.freedesktop.DBus.ObjectManager''
                          ''GetManagedObjects'' [])) (\<lambda>(err, v). liftE (read_managed v))"

definition getManagers :: "'w env \<Rightarrow> u8 option \<Rightarrow> u8 option \<Rightarrow> ('w, ManagerProperty list) act" where
  "getManagers E channelNoFilter destinationSelFilter =
     thenE (bus_call E OpenBus)
       (bindE (snmp_channel_map E) (\<lambda>ethMap.
        case channelNoFilter of
          None \<Rightarrow> ret []
        | Some channel \<Rightarrow>
            (case map_of ethMap channel of
               None \<Rightarrow> ret []
             | Some iface \<Rightarrow>
                 bindE (getsE (\<lambda>s. files s pefLanParamConfFile)) (\<lambda>file. case file of
                   None \<Rightarrow> ret []
                 | Some text \<Rightarrow>
                     (case json_lookup (lan_data E text iface) ''Config'' of
                        None \<Rightarrow> ret []
                      | Some cfg \<Rightarrow>
                          catchE any_exception
                            (bindE (liftE (read_destinations (e_json E) cfg))
                               (\<lambda>d. select_manager E d destinationSelFilter))
                            (ret []))))))"

section \<open>The trap\<close>

definition getSystemUptimeTicks :: "'w env \<Rightarrow> ('w, u32) act" where
  "getSystemUptimeTicks E = getsE (\<lambda>s.
     case e_monotonic E (world s) of
       None \<Rightarrow> 0
     | Some (sec, nsec) \<Rightarrow>
         (let ticks = (of_nat sec * 100 + of_nat (nsec div 10000000) :: 64 word)
          in if ticks > 0xFFFFFFFF then 0xFFFFFFFF else ucast ticks))"

record notification =
  obmcErrorID :: u32
  obmcErrorTimestamp :: string
  obmcErrorSeverity :: string
  obmcErrorMessage :: string
  obmcEventID :: string
  obmcEventStatus :: string
  obmcEventSubjectSN :: string
  obmcAddData :: string
  obmcIP :: string

definition SNMPTrapOID :: "nat list" where "SNMPTrapOID = [1, 3, 6, 1, 6, 3, 1, 1, 4, 1, 0]"
definition sysuptimeOID :: "nat list" where "sysuptimeOID = [1, 3, 6, 1, 2, 1, 1, 3, 0]"

definition getTrapOID :: "nat list" where
  "getTrapOID = [1, 3, 6, 1, 4, 1, 49871, 1, 0, 0, 1]"

definition getASNType :: "snmp_value \<Rightarrow> asn_type" where
  "getASNType v =
     (case v of VUInt32 _ \<Rightarrow> ASN_UNSIGNED | VUInt64 _ \<Rightarrow> ASN_OPAQUE_U64 | VInt32 _ \<Rightarrow> ASN_INTEGER
        | VString _ \<Rightarrow> ASN_OCTET_STR | VOid _ \<Rightarrow> ASN_OTHER)"

definition field_oid :: "nat \<Rightarrow> nat list" where
  "field_oid k = [1, 3, 6, 1, 4, 1, 49871, 1, 0, 1, k]"

definition field_object :: "nat \<Rightarrow> snmp_value \<Rightarrow> nat list \<times> asn_type \<times> snmp_value" where
  "field_object k v = (field_oid k, getASNType v, v)"

definition getFieldOIDList :: "notification \<Rightarrow> (nat list \<times> asn_type \<times> snmp_value) list" where
  "getFieldOIDList n =
     [field_object 1 (VUInt32 (obmcErrorID n)),
      field_object 2 (VString (obmcErrorTimestamp n)),
      field_object 3 (VString (obmcEventID n)),
      field_object 4 (VString (obmcErrorSeverity n)),
      field_object 5 (VString (obmcErrorMessage n)),
      field_object 6 (VString (obmcIP n)),
      field_object 7 (VString (obmcEventStatus n)),
      field_object 8 (VString (obmcEventSubjectSN n)),
      field_object 9 (VString (obmcAddData n))]"

text \<open>\<open>addPDUVar\<close>: the type tag selects the member that \<open>std::get\<close> reads; the result is the PDU with
  the variable added, or \<open>None\<close> when the library refuses it.\<close>

definition value_has_type :: "asn_type \<Rightarrow> snmp_value \<Rightarrow> bool" where
  "value_has_type ty v \<longleftrightarrow>
     (case (ty, v) of
        (ASN_INTEGER, VInt32 _) \<Rightarrow> True
      | (ASN_UNSIGNED, VUInt32 _) \<Rightarrow> True
      | (ASN_OPAQUE_U64, VUInt64 _) \<Rightarrow> True
      | (ASN_OCTET_STR, VString _) \<Rightarrow> True
      | _ \<Rightarrow> False)"

definition addPDUVar ::
  "'w env \<Rightarrow> snmp_pdu \<Rightarrow> nat list \<Rightarrow> asn_type \<Rightarrow> snmp_value \<Rightarrow> exn + snmp_pdu option" where
  "addPDUVar E pdu objID ty val =
     (if ty = ASN_OTHER then Inr None
      else if \<not> value_has_type ty val then Inl BadVariantAccess
      else if e_add_variable E objID val then
        Inr (Some (pdu\<lparr>varbinds := varbinds pdu @ [(objID, val)]\<rparr>))
      else Inr None)"

fun add_fields ::
  "'w env \<Rightarrow> snmp_pdu \<Rightarrow> (nat list \<times> asn_type \<times> snmp_value) list \<Rightarrow> exn + snmp_pdu option" where
  "add_fields E pdu [] = Inr (Some pdu)"
| "add_fields E pdu ((objID, ty, val) # objs) =
     bindR (addPDUVar E pdu objID ty val) (\<lambda>r.
       case r of None \<Rightarrow> Inr None | Some pdu' \<Rightarrow> add_fields E pdu' objs)"

definition build_pdu :: "'w env \<Rightarrow> string \<Rightarrow> u32 \<Rightarrow> notification \<Rightarrow> exn + snmp_pdu option" where
  "build_pdu E ver uptime n =
     (let pdu = \<lparr>command = (if ver = ''v1'' then SNMP_MSG_TRAP else SNMP_MSG_TRAP2),
                 enterprise_specific = False, varbinds = []\<rparr>;
          uptimeStr = VString (to_string (unat uptime))
      in if \<not> e_add_variable E sysuptimeOID uptimeStr then Inr None
         else
           let pdu1 = pdu\<lparr>varbinds := [(sysuptimeOID, uptimeStr)], enterprise_specific := True\<rparr>
           in if \<not> e_add_variable E SNMPTrapOID (VOid getTrapOID) then Inr None
              else add_fields E (pdu1\<lparr>varbinds := varbinds pdu1 @ [(SNMPTrapOID, VOid getTrapOID)]\<rparr>)
                     (getFieldOIDList n))"

section \<open>The session\<close>

definition empty_session :: "string \<Rightarrow> string \<Rightarrow> snmp_session" where
  "empty_session peer local =
     \<lparr>peername = peer, localname = local, ss_version = SNMP_VERSION_1, ss_community = '''',
      securityName = '''', securityEngineID = '''', securityAuthProto = SNMP_DEFAULT_AUTH,
      securityAuthKey = '''', securityPrivProto = SNMP_DEFAULT_PRIV, securityPrivKey = ''''\<rparr>"

definition auth_proto_of :: "string \<Rightarrow> auth_proto" where
  "auth_proto_of algorithm =
     (if algorithm = ''SHA-384'' then usmHMAC256SHA384
      else if algorithm = ''SHA-512'' then usmHMAC384SHA512
      else SNMP_DEFAULT_AUTH)"

definition priv_proto_of :: "string \<Rightarrow> priv_proto" where
  "priv_proto_of encryption = (if encryption = ''AES'' then usmAES256 else SNMP_DEFAULT_PRIV)"

text \<open>\<open>None\<close> is a \<open>continue\<close>: the manager is skipped.\<close>

definition configure_session ::
  "'w env \<Rightarrow> string list option \<Rightarrow> string \<Rightarrow> ManagerProperty \<Rightarrow> snmp_session option" where
  "configure_session E snmpGroup bmcIPAddress m =
     (let session = empty_session (mp_ipaddress m) bmcIPAddress
      in if mp_version m = ''v1'' then
           Some (session\<lparr>ss_version := SNMP_VERSION_1, ss_community := mp_community m\<rparr>)
         else if mp_version m = ''v2c'' then
           Some (session\<lparr>ss_version := SNMP_VERSION_2c, ss_community := mp_community m\<rparr>)
         else if mp_version m = ''v3'' then
           (if c_str (mp_userName m) \<notin> (case snmpGroup of None \<Rightarrow> {} | Some us \<Rightarrow> set us) then None
            else
              let proto = auth_proto_of (mp_algorithm m)
              in case e_generate_Ku E proto (mp_password m) of
                   None \<Rightarrow> None
                 | Some authKey \<Rightarrow>
                     (case e_generate_Ku E proto (mp_password m) of
                        None \<Rightarrow> None
                      | Some privKey \<Rightarrow>
                          Some (session\<lparr>ss_version := SNMP_VERSION_3, securityName := mp_userName m,
                                  securityEngineID := e_engine_id E, securityAuthProto := proto,
                                  securityAuthKey := authKey,
                                  securityPrivProto := priv_proto_of (mp_encryption m),
                                  securityPrivKey := privKey\<rparr>)))
         else None)"

text \<open>The body of the loop over the managers; the result says whether a trap went out.\<close>

definition send_to_manager ::
  "'w env \<Rightarrow> notification \<Rightarrow> string \<Rightarrow> disable_status \<Rightarrow> ManagerProperty \<Rightarrow> ('w, bool) act" where
  "send_to_manager E n bmcIPAddress disableStatus m =
     (if version_disabled disableStatus (mp_version m) then ret False
      else bindE (getsE (\<lambda>s. e_snmp_group E (world s))) (\<lambda>snmpGroup.
        case configure_session E snmpGroup bmcIPAddress m of
          None \<Rightarrow> ret False
        | Some session \<Rightarrow>
            bindE (ext_call E (SnmpOpen (mp_ipaddress m))) (\<lambda>ss. case ss of
              BusError \<Rightarrow> ret False
            | Reply _ _ \<Rightarrow>
                bindE (getSystemUptimeTicks E) (\<lambda>uptime.
                bindE (liftE (build_pdu E (mp_version m) uptime n)) (\<lambda>pdu. case pdu of
                  None \<Rightarrow> ret False
                | Some p \<Rightarrow>
                    bindE (ext_call E (SnmpSend session p)) (\<lambda>retval.
                      ret (retval \<noteq> BusError)))))))"

fun send_to_managers ::
  "'w env \<Rightarrow> notification \<Rightarrow> string \<Rightarrow> disable_status \<Rightarrow> ManagerProperty list \<Rightarrow> bool \<Rightarrow> ('w, bool) act" where
  "send_to_managers E n ip st [] trapSent = ret trapSent"
| "send_to_managers E n ip st (m # ms) trapSent =
     bindE (send_to_manager E n ip st m) (\<lambda>sent. send_to_managers E n ip st ms (sent \<or> trapSent))"

definition local_address :: "string \<Rightarrow> string" where
  "local_address eventSubjectSN =
     (case rfind_char (CHR '':'') eventSubjectSN of
        None \<Rightarrow> eventSubjectSN
      | Some hostSep \<Rightarrow> drop (hostSep + 1) eventSubjectSN)"

definition sendTrap :: "'w env \<Rightarrow> notification \<Rightarrow> u8 option \<Rightarrow> u8 option \<Rightarrow> ('w, bool) act" where
  "sendTrap E n channelNoFilter destinationSelFilter =
     bindE getTrapEnabled (\<lambda>enabled.
     if \<not> enabled then ret False
     else
       (let bmcIPAddress = local_address (obmcEventSubjectSN n)
        in bindE getSNMPDisableStatus (\<lambda>snmpDisableStatus.
           bindE (catchE any_exception
                    (bindE (getManagers E channelNoFilter destinationSelFilter) (\<lambda>ms. ret (Some ms)))
                    (ret None)) (\<lambda>managers.
             case managers of
               None \<Rightarrow> ret False
             | Some ms \<Rightarrow> send_to_managers E n bmcIPAddress snmpDisableStatus ms False))))"

definition sendOBMCErrorNotification ::
  "'w env \<Rightarrow> u32 \<Rightarrow> string \<Rightarrow> string \<Rightarrow> string \<Rightarrow> string \<Rightarrow> string \<Rightarrow> string \<Rightarrow> string \<Rightarrow> string
    \<Rightarrow> u8 \<Rightarrow> u8 \<Rightarrow> ('w, bool) act" where
  "sendOBMCErrorNotification E errorId ts sev msg eventID eventStatus eventSubjectSN addData ip channelNo
     destinationSel =
     sendTrap E
       \<lparr>obmcErrorID = errorId, obmcErrorTimestamp = ts, obmcErrorSeverity = sev, obmcErrorMessage = msg,
        obmcEventID = eventID, obmcEventStatus = eventStatus, obmcEventSubjectSN = eventSubjectSN,
        obmcAddData = addData, obmcIP = ip\<rparr>
       (Some channelNo) (Some destinationSel)"

section \<open>The selected manager\<close>

definition manager_ok :: "ManagerProperty \<Rightarrow> bool" where
  "manager_ok m \<longleftrightarrow> mp_ipaddress m \<noteq> '''' \<and>
     (mp_version m \<in> {''v1'', ''v2c''} \<and> mp_community m \<noteq> ''''
      \<or> mp_version m = ''v3'' \<and> mp_userName m \<noteq> '''' \<and> mp_password m \<noteq> '''')"

definition at_most_one_ok :: "ManagerProperty list \<Rightarrow> bool" where
  "at_most_one_ok ms \<longleftrightarrow> ms = [] \<or> (\<exists>m. ms = [m] \<and> manager_ok m)"

lemma yields_loadSnmpV3UserFromDBus:
  "yields (\<lambda>r. case r of None \<Rightarrow> True | Some (a, e, password) \<Rightarrow> password \<noteq> '''')
     (loadSnmpV3UserFromDBus E u)"
  unfolding loadSnmpV3UserFromDBus_def by (intro yields_intros) simp_all

lemma yields_build_manager:
  "peer \<noteq> '''' \<Longrightarrow> yields at_most_one_ok (build_manager E d i ty peer)"
  unfolding build_manager_def
  by (intro yields_if yields_bind_via [OF yields_loadSnmpV3UserFromDBus] yields_intros)
    (auto simp: at_most_one_ok_def manager_ok_def)

lemma yields_select_manager: "yields at_most_one_ok (select_manager E d sel)"
  unfolding select_manager_def Let_def
  by (intro yields_intros yields_build_manager) (simp_all add: at_most_one_ok_def)

lemma yields_getManagers: "yields at_most_one_ok (getManagers E ch sel)"
  unfolding getManagers_def snmp_channel_map_eq
  by (intro yields_intros yields_select_manager) (simp_all add: at_most_one_ok_def)

section \<open>The calls\<close>

lemma decryptString_frame: "(\<And>s. R s s) \<Longrightarrow> sat R (decryptString E b)"
  by (simp add: sat_def decryptString_same_state)

lemma calls_decryptString: "sat (calls_only P) (decryptString E b)"
  by (rule decryptString_frame) (simp add: calls_only_def)

lemma reads_loadSnmpV3UserFromDBus:
  "sat (calls_only is_read_call) (loadSnmpV3UserFromDBus E u)"
  unfolding loadSnmpV3UserFromDBus_def by (intro calls_sat calls_decryptString) simp_all

lemma reads_getManagers: "sat (calls_only is_read_call) (getManagers E ch sel)"
  unfolding getManagers_def snmp_channel_map_eq select_manager_def build_manager_def Let_def
  by (intro calls_sat helper_reads reads_loadSnmpV3UserFromDBus) simp_all

section \<open>The contents of a trap\<close>

lemma value_has_type_getASNType: "getASNType v \<noteq> ASN_OTHER \<Longrightarrow> value_has_type (getASNType v) v"
  by (cases v) (simp_all add: getASNType_def value_has_type_def)

lemma add_fields_objects:
  assumes "\<forall>(objID, ty, v) \<in> set objs. ty \<noteq> ASN_OTHER \<and> value_has_type ty v"
  shows "add_fields E pdu objs =
    Inr (if \<forall>(objID, ty, v) \<in> set objs. e_add_variable E objID v
         then Some (pdu\<lparr>varbinds := varbinds pdu @ map (\<lambda>(objID, ty, v). (objID, v)) objs\<rparr>)
         else None)"
  using assms
  by (induction E pdu objs rule: add_fields.induct) (auto simp: addPDUVar_def)

definition notification_fields :: "notification \<Rightarrow> (nat list \<times> snmp_value) list" where
  "notification_fields n =
     [(field_oid 1, VUInt32 (obmcErrorID n)), (field_oid 2, VString (obmcErrorTimestamp n)),
      (field_oid 3, VString (obmcEventID n)), (field_oid 4, VString (obmcErrorSeverity n)),
      (field_oid 5, VString (obmcErrorMessage n)), (field_oid 6, VString (obmcIP n)),
      (field_oid 7, VString (obmcEventStatus n)), (field_oid 8, VString (obmcEventSubjectSN n)),
      (field_oid 9, VString (obmcAddData n))]"

definition trap_varbinds :: "u32 \<Rightarrow> notification \<Rightarrow> (nat list \<times> snmp_value) list" where
  "trap_varbinds uptime n =
     (sysuptimeOID, VString (to_string (unat uptime))) # (SNMPTrapOID, VOid getTrapOID)
       # notification_fields n"

lemma build_pdu_cases:
  "build_pdu E ver uptime n = Inr None \<or> build_pdu E ver uptime n =
     Inr (Some \<lparr>command = (if ver = ''v1'' then SNMP_MSG_TRAP else SNMP_MSG_TRAP2),
                enterprise_specific = True, varbinds = trap_varbinds uptime n\<rparr>)"
proof -
  have typed: "\<forall>(objID, ty, v) \<in> set (getFieldOIDList n). ty \<noteq> ASN_OTHER \<and> value_has_type ty v"
    by (simp add: getFieldOIDList_def field_object_def getASNType_def value_has_type_def)
  have "map (\<lambda>(objID, ty, v). (objID, v)) (getFieldOIDList n) = notification_fields n"
    by (simp add: getFieldOIDList_def field_object_def notification_fields_def)
  then show ?thesis
    by (simp add: build_pdu_def Let_def add_fields_objects [OF typed] trap_varbinds_def)
qed

text \<open>A trap for the notification \<open>n\<close>: a session of a version that is switched on, and the PDU that
  goes with it.\<close>

definition trap_for :: "notification \<Rightarrow> disable_status \<Rightarrow> snmp_session \<Rightarrow> snmp_pdu \<Rightarrow> bool" where
  "trap_for n st session p \<longleftrightarrow>
     (\<exists>ver. \<not> version_disabled st ver
        \<and> (ver, ss_version session) \<in> {(''v1'', SNMP_VERSION_1), (''v2c'', SNMP_VERSION_2c),
             (''v3'', SNMP_VERSION_3)}
        \<and> command p = (if ver = ''v1'' then SNMP_MSG_TRAP else SNMP_MSG_TRAP2))
     \<and> enterprise_specific p
     \<and> (\<exists>uptime. varbinds p = trap_varbinds uptime n)"

lemma configure_session_version:
  assumes "configure_session E g ip m = Some session"
  shows "(mp_version m, ss_version session) \<in> {(''v1'', SNMP_VERSION_1), (''v2c'', SNMP_VERSION_2c),
    (''v3'', SNMP_VERSION_3)}"
  using assms
  by (auto simp: configure_session_def Let_def empty_session_def
      split: if_splits option.splits)

lemma send_to_manager_cases:
  assumes "send_to_manager E n ip st m s = (r, s')"
  obtains (skip) "r = Inr False" "trace s' = trace s"
  | (opened) "r = Inr False" "trace s' = trace s @ [SnmpOpen (mp_ipaddress m)]"
  | (sent) sent session p where "r = Inr sent" "trap_for n st session p"
      "trace s' = trace s @ [SnmpOpen (mp_ipaddress m), SnmpSend session p]"
proof (cases "version_disabled st (mp_version m)")
  case True
  then show ?thesis using assms skip by (simp add: send_to_manager_def)
next
  case False
  show ?thesis
  proof (cases "configure_session E (e_snmp_group E (world s)) ip m")
    case None
    then show ?thesis using assms skip False by (simp add: send_to_manager_def)
  next
    case (Some session)
    show ?thesis
    proof (cases "fst (e_bus E (world s) (SnmpOpen (mp_ipaddress m)))")
      case BusError
      then show ?thesis using opened assms False Some
        by (auto simp: send_to_manager_def bindE_def ext_call_apply)
    next
      case (Reply err v)
      obtain uptime where up: "getSystemUptimeTicks E (after_call E (SnmpOpen (mp_ipaddress m)) s)
          = (Inr uptime, after_call E (SnmpOpen (mp_ipaddress m)) s)"
        by (simp add: getSystemUptimeTicks_def)
      show ?thesis
        using build_pdu_cases [of E "mp_version m" uptime n]
      proof
        assume "build_pdu E (mp_version m) uptime n = Inr None"
        then show ?thesis using opened assms False Some Reply up
          by (auto simp: send_to_manager_def bindE_def ext_call_apply after_call_def)
      next
        assume p: "build_pdu E (mp_version m) uptime n =
          Inr (Some \<lparr>command = (if mp_version m = ''v1'' then SNMP_MSG_TRAP else SNMP_MSG_TRAP2),
                enterprise_specific = True, varbinds = trap_varbinds uptime n\<rparr>)"
        let ?p = "\<lparr>command = (if mp_version m = ''v1'' then SNMP_MSG_TRAP else SNMP_MSG_TRAP2),
                enterprise_specific = True, varbinds = trap_varbinds uptime n\<rparr>"
        have "trap_for n st session ?p"
          using configure_session_version [OF Some] False by (auto simp: trap_for_def)
        moreover have "\<exists>sent. r = Inr sent"
          "trace s' = trace s @ [SnmpOpen (mp_ipaddress m), SnmpSend session ?p]"
          using assms False Some Reply up p
          by (auto simp: send_to_manager_def bindE_def ext_call_apply after_call_def)
        ultimately show ?thesis using sent by blast
      qed
    qed
  qed
qed

section \<open>No exception leaves a notification\<close>

lemma raises_decryptString: "raises P (decryptString E b)"
  by (auto simp: raises_def decryptString_def bindE_def fopen_rb_eq AES_GetKeyFromFile_eq
      split: if_splits option.splits)

lemma raises_getEthChannelInterfaceMap: "raises P (getEthChannelInterfaceMap E)"
  unfolding getEthChannelInterfaceMap_def
  by (intro raises_catch_any raises_intros raises_bus_call raises_lift) (auto dest: pure_exceptions)

lemma prop_str_exceptions: "prop_str m k = Inl e \<Longrightarrow> any_exception e"
  by (auto simp: prop_str_def bindR_eq_Inl dest: pure_exceptions)

lemma raises_loadSnmpV3UserFromDBus: "raises P (loadSnmpV3UserFromDBus E u)"
  unfolding loadSnmpV3UserFromDBus_def
  by (intro raises_catch_any raises_intros raises_bus_call raises_lift raises_decryptString)
    (auto dest: pure_exceptions prop_str_exceptions)

lemma cfg_array_exceptions:
  "(\<And>j e. conv j = Inl e \<Longrightarrow> e = JsonError) \<Longrightarrow> cfg_array conv cfg k = Inl e \<Longrightarrow> e = JsonError"
  by (auto simp: cfg_array_def dest!: map_result_Inl split: option.splits json.splits)

lemma read_destinations_exceptions: "read_destinations J cfg = Inl e \<Longrightarrow> e = JsonError"
  by (auto simp: read_destinations_def bindR_eq_Inl json_u8_def
      dest!: json_value_exceptions [rotated] cfg_array_exceptions [rotated] dest: json_exceptions)

lemma raw_address_exceptions: "raw_address d i ty = Inl e \<Longrightarrow> any_exception e"
  by (auto simp: raw_address_def bindR_eq_Inl dest: pure_exceptions split: if_splits)

lemma raises_select_manager: "raises any_exception (select_manager E d sel)"
  unfolding select_manager_def build_manager_def Let_def
  by (intro raises_intros raises_lift raises_loadSnmpV3UserFromDBus)
    (auto dest: pure_exceptions raw_address_exceptions)

lemma raises_getManagers: "raises any_exception (getManagers E ch sel)"
  unfolding getManagers_def snmp_channel_map_eq
  by (intro raises_catch_any raises_intros raises_bus_call raises_lift raises_select_manager
      raises_getEthChannelInterfaceMap)
    (auto dest: read_destinations_exceptions)

lemma raises_send_to_manager: "raises P (send_to_manager E n ip st m)"
  unfolding raises_def
proof (intro allI impI)
  fix s e s'
  assume "send_to_manager E n ip st m s = (Inl e, s')"
  then show "P e" by (rule send_to_manager_cases) simp_all
qed

lemma raises_send_to_managers: "raises P (send_to_managers E n ip st ms sent)"
  by (induction ms arbitrary: sent) (simp_all add: raises_ret raises_bind raises_send_to_manager)

lemma raises_sendTrap: "raises P (sendTrap E n ch sel)"
  unfolding sendTrap_def Let_def getTrapEnabled_def getSNMPDisableStatus_def
  by (intro raises_catch_any raises_intros raises_getManagers raises_send_to_managers)

section \<open>One trap at most\<close>

text \<open>The calls that prepare a trap: property reads, queries, and opening the session.\<close>

definition prepares_trap :: "ecall \<Rightarrow> bool" where
  "prepares_trap c \<longleftrightarrow> is_read_call c \<or> (\<exists>peer. c = SnmpOpen peer)"

lemma prepares_trap_simps [simp]:
  "prepares_trap (SnmpOpen peer)" "\<not> prepares_trap (SnmpSend ss pdu)" "prepares_trap OpenBus"
  by (simp_all add: prepares_trap_def is_read_call_def)

lemma read_prepares_trap: "is_read_call c \<Longrightarrow> prepares_trap c"
  by (simp add: prepares_trap_def)

text \<open>What \<open>sendTrap\<close> does to the trace.\<close>

lemma sendTrap_cases:
  assumes "sendTrap E n ch sel s = (r, s')" and "getSNMPDisableStatus s = (Inr st, s)"
  obtains (quiet) t where "r = Inr False" "trace s' = trace s @ t" "list_all prepares_trap t"
  | (sent) t sent session p where "r = Inr sent" "getTrapEnabled s = (Inr True, s)"
      "trap_for n st session p" "trace s' = trace s @ t @ [SnmpSend session p]"
      "list_all prepares_trap t"
proof (cases "getTrapEnabled s = (Inr True, s)")
  case False
  then have "getTrapEnabled s = (Inr False, s)" by (auto simp: getTrapEnabled_def)
  then show ?thesis using assms(1) quiet [of "[]"] by (simp add: sendTrap_def bindE_def)
next
  case True
  obtain rm s1 where gm: "getManagers E ch sel s = (rm, s1)" by (cases "getManagers E ch sel s")
  have "sat (calls_only prepares_trap) (getManagers E ch sel)"
    by (rule sat_calls_mono [OF reads_getManagers read_prepares_trap])
  then have "calls_only prepares_trap s s1" using gm by (rule satD')
  then obtain t where t: "trace s1 = trace s @ t" "list_all prepares_trap t"
    by (auto simp: calls_only_def)
  let ?ip = "local_address (obmcEventSubjectSN n)"
  show ?thesis
  proof (cases rm)
    case (Inl e)
    then have "any_exception e" using raisesD [OF raises_getManagers] gm by blast
    then have "r = Inr False" "s' = s1"
      using assms True gm Inl by (simp_all add: sendTrap_def Let_def bindE_def catchE_def)
    then show ?thesis using quiet t by simp
  next
    case (Inr ms)
    then have run: "send_to_managers E n ?ip st ms False s1 = (r, s')"
      using assms True gm by (simp add: sendTrap_def Let_def bindE_def catchE_def)
    have "at_most_one_ok ms" using yieldsD [OF yields_getManagers] gm Inr by blast
    then consider "ms = []" | m where "ms = [m]" by (auto simp: at_most_one_ok_def)
    then show ?thesis
    proof cases
      case 1
      then show ?thesis using run quiet t by simp
    next
      case 2
      obtain r1 s2 where one: "send_to_manager E n ?ip st m s1 = (r1, s2)"
        by (cases "send_to_manager E n ?ip st m s1")
      then have same: "r = r1" "s' = s2" using run 2 by (cases r1; simp add: bindE_def)+
      from one show ?thesis
      proof (cases rule: send_to_manager_cases)
        case skip
        then show ?thesis using same quiet t by simp
      next
        case opened
        then show ?thesis
          using same quiet [of "t @ [SnmpOpen (mp_ipaddress m)]"] t by simp
      next
        case (sent b session p)
        then show ?thesis
          using same True t that(2) [of b session p "t @ [SnmpOpen (mp_ipaddress m)]"] by simp
      qed
    qed
  qed
qed

section \<open>Properties\<close>

text \<open>An environment with one SNMPv2c destination on channel 1, for the instances.\<close>

definition trap_document :: json where
  "trap_document =
     JObj [(''Interfaces'', JObj [(''eth0'', JObj [(''Config'', JObj
       [(''AddressType'', JArr [JInt 1]), (''CommunityString'', JStr ''public''),
        (''IPv4'', JArr [JStr ''10.0.0.9'']), (''Type'', JArr [JInt 1])])])])]"

definition trap_json :: json_lib where
  "trap_json =
     \<lparr>jl_parse = (\<lambda>_. trap_document), jl_dump = (\<lambda>_ _. None), jl_int = plain_int,
      jl_u8 = plain_word, jl_u16 = plain_word, jl_u32 = plain_word, jl_merge_patch = (\<lambda>_ p. p)\<rparr>"

definition trap_env :: "unit env" where
  "trap_env = (table_env (\<lambda>c. Reply False (DChanMap [(1, ''eth0'')])))\<lparr>e_json := trap_json\<rparr>"

definition trap_sys :: "unit sys" where
  "trap_sys = (initial_sys ())\<lparr>files :=
     [PEF_SNMP_TRAP_STATUS_FILE_PATH \<mapsto> ''true'', pefLanParamConfFile \<mapsto> ''{...}'']\<rparr>"

definition trap_manager :: ManagerProperty where
  "trap_manager =
     \<lparr>mp_ipaddress = ''10.0.0.9:162'', mp_version = ''v2c'', mp_community = ''public'',
      mp_userName = '''', mp_algorithm = '''', mp_encryption = '''', mp_password = ''''\<rparr>"

lemma trap_files:
  "files trap_sys PEF_SNMP_TRAP_STATUS_FILE_PATH = Some ''true''"
  "files trap_sys pefLanParamConfFile = Some ''{...}''"
  "files trap_sys PEF_SNMP_CONF_FILE_PATH = None"
  by (simp_all add: trap_sys_def PEF_SNMP_TRAP_STATUS_FILE_PATH_def pefLanParamConfFile_def
      PEF_SNMP_CONF_FILE_PATH_def)

lemma trap_destinations:
  "read_destinations trap_json (JObj
       [(''AddressType'', JArr [JInt 1]), (''CommunityString'', JStr ''public''),
        (''IPv4'', JArr [JStr ''10.0.0.9'']), (''Type'', JArr [JInt 1])])
   = Inr \<lparr>ld_type = [1], ld_addressType = [1], ld_ipv4 = [''10.0.0.9''], ld_ipv6 = [],
          ld_userName = [], ld_community = ''public''\<rparr>"
  by (simp add: read_destinations_def cfg_array_def json_u8_def json_get_u32_def trap_json_def
      json_value_def)

lemma trap_port_text: "to_string SNMP_TRAP_PORT = ''162''"
  by code_simp

lemma trap_getManagers:
  assumes "files s = files trap_sys"
  shows "getManagers trap_env (Some 1) (Some 1) s
     = (Inr [trap_manager], snd (getManagers trap_env (Some 1) (Some 1) s))"
proof -
  let ?d = "\<lparr>ld_type = [1], ld_addressType = [1], ld_ipv4 = [''10.0.0.9''], ld_ipv6 = [],
          ld_userName = [], ld_community = ''public''\<rparr>"
  have sel: "select_manager trap_env ?d (Some 1) = ret [trap_manager]"
    by (simp add: select_manager_def raw_address_def build_manager_def formatPeerAddress_def
        trap_port_text trap_manager_def fun_eq_iff)
  have data: "lan_data trap_env t ''eth0'' = JObj [(''Config'', JObj
       [(''AddressType'', JArr [JInt 1]), (''CommunityString'', JStr ''public''),
        (''IPv4'', JArr [JStr ''10.0.0.9'']), (''Type'', JArr [JInt 1])])]" for t
    by (simp add: lan_data_def lan_section_def trap_env_def trap_json_def trap_document_def json_contains_def)
  have bus: "bus_call trap_env c s = (Inr (False, DChanMap [(1, ''eth0'')]), after_call trap_env c s)"
    for c s
    by (rule bus_call_Reply) (simp add: trap_env_def table_env_def)
  have json: "e_json trap_env = trap_json" by (simp add: trap_env_def)
  have "getEthChannelInterfaceMap trap_env s
      = (Inr [(1, ''eth0'')],
         after_call trap_env (Method userManagerBus userMgrObjPath userAccPolicyIntf getMapMethod []) s)"
    for s
    by (simp add: getEthChannelInterfaceMap_def bus starts_with_def bindE_def catchE_def)
  then show ?thesis
    by (simp add: getManagers_def snmp_channel_map_eq bus data json trap_destinations sel assms trap_files bindE_def thenE_def
        catchE_def)
qed

text \<open>The manager list never holds more than the one designated destination, which is usable:
  it has a peer address, and a community for SNMPv1 and v2c or a user and a password for SNMPv3.\<close>

theorem getManagers_at_most_one:
  assumes "getManagers E ch sel s = (Inr ms, s')"
  shows "ms = [] \<or> (\<exists>m. ms = [m] \<and> manager_ok m)"
  using yieldsD [OF yields_getManagers assms] by (simp add: at_most_one_ok_def)

theorem getManagers_at_most_one_witness:
  "manager_ok trap_manager"
  using getManagers_at_most_one [OF trap_getManagers] by simp

text \<open>Destinations are counted from one: selector \<open>k\<close> between 1 and the number of entries picks
  entry \<open>k - 1\<close> of each table, and for an SNMPv1 or v2c entry with an IPv4 address the manager is that
  address at port 162 with the configured community.\<close>

theorem select_manager_one_based:
  assumes "sel \<noteq> 0" and "unat sel \<le> length (ld_type d)"
    and "length (ld_addressType d) = length (ld_type d)" and "length (ld_ipv4 d) = length (ld_type d)"
    and "ld_type d ! (unat sel - 1) \<in> {0, 1}" and "ld_addressType d ! (unat sel - 1) = 1"
    and "ld_ipv4 d ! (unat sel - 1) \<notin> {'''', ''0.0.0.0''}" and "ld_community d \<noteq> ''''"
  shows "select_manager E d (Some sel) s =
    (Inr [\<lparr>mp_ipaddress = ld_ipv4 d ! (unat sel - 1) @ '':162'',
           mp_version = (if ld_type d ! (unat sel - 1) = 0 then ''v1'' else ''v2c''),
           mp_community = ld_community d, mp_userName = '''', mp_algorithm = '''',
           mp_encryption = '''', mp_password = ''''\<rparr>], s)"
proof -
  have pos: "1 \<le> unat sel" using assms(1) by (simp add: Suc_le_eq unat_gt_0)
  define i where "i = unat sel - 1"
  have i: "size_sub (unat sel) 1 = i" "i < length (ld_type d)"
    using pos assms(2) by (simp_all add: i_def)
  note entry = assms(5-7) [folded i_def]
  have peer: "formatPeerAddress (ld_ipv4 d ! i) 1 = ld_ipv4 d ! i @ '':162''"
    using entry(3) by (simp add: formatPeerAddress_def trap_port_text)
  have raw: "raw_address d i 1 = Inr (Some (ld_ipv4 d ! i))"
    using i assms(4) by (simp add: raw_address_def)
  have "select_manager E d (Some sel)
      = build_manager E d i (ld_type d ! i) (ld_ipv4 d ! i @ '':162'')"
    using i assms(3) entry(1,2) peer raw by (auto simp: select_manager_def)
  then show ?thesis
    unfolding i_def [symmetric] using entry(1) assms(8) by (auto simp: build_manager_def)
qed

theorem select_manager_one_based_witness:
  "fst (select_manager trap_env
      \<lparr>ld_type = [1, 0], ld_addressType = [1, 1], ld_ipv4 = [''10.0.0.9'', ''10.0.0.7''], ld_ipv6 = [],
       ld_userName = [], ld_community = ''public''\<rparr> (Some 2) trap_sys)
    = Inr [\<lparr>mp_ipaddress = ''10.0.0.7:162'', mp_version = ''v1'', mp_community = ''public'',
            mp_userName = '''', mp_algorithm = '''', mp_encryption = '''', mp_password = ''''\<rparr>]"
  using select_manager_one_based [of 2
      "\<lparr>ld_type = [1, 0], ld_addressType = [1, 1], ld_ipv4 = [''10.0.0.9'', ''10.0.0.7''], ld_ipv6 = [],
       ld_userName = [], ld_community = ''public''\<rparr>" trap_env trap_sys]
  by simp

text \<open>C27. \<open>sendTrap\<close> is total and sends at most one trap: it never throws, and among the calls it makes
  there is a trap only as the very last one, behind calls that read or open the session; it is for this
  notification, over a session whose protocol version is not disabled, and with the trap switch on.  Without that call the result is false.\<close>

theorem sendTrap_sound:
  assumes "sendTrap E n ch sel s = (r, s')" and "getSNMPDisableStatus s = (Inr st, s)"
  shows "\<exists>sent t. r = Inr sent \<and>
    (trace s' = trace s @ t \<and> list_all prepares_trap t \<and> \<not> sent
     \<or> (\<exists>session p. trace s' = trace s @ t @ [SnmpSend session p] \<and> list_all prepares_trap t
          \<and> getTrapEnabled s = (Inr True, s) \<and> trap_for n st session p))"
proof (cases rule: sendTrap_cases [OF assms])
  case (1 t)
  then show ?thesis by blast
next
  case (2 t sent session p)
  then show ?thesis by blast
qed

lemma trap_sent:
  assumes "files s = files trap_sys"
  shows "fst (sendTrap trap_env n (Some 1) (Some 1) s) = Inr True"
proof -
  have "e_bus trap_env w c = (Reply False (DChanMap [(1, ''eth0'')]), w)" for w c
    by (simp add: trap_env_def table_env_def)
  moreover have "e_add_variable trap_env i v" "e_snmp_group trap_env w = None" for i v w
    by (simp_all add: trap_env_def table_env_def)
  moreover have "getTrapEnabled s = (Inr True, s)"
    by (simp add: getTrapEnabled_def assms trap_files starts_with_def is_space_def)
  moreover have "getSNMPDisableStatus s = (Inr no_version_disabled, s)"
    by (simp add: getSNMPDisableStatus_def assms trap_files)
  moreover have "\<not> version_disabled no_version_disabled ''v2c''"
    by (simp add: version_disabled_def no_version_disabled_def)
  moreover have "configure_session trap_env g ip trap_manager = Some ((empty_session ''10.0.0.9:162'' ip)
      \<lparr>ss_version := SNMP_VERSION_2c, ss_community := ''public''\<rparr>)" for g ip
    by (simp add: configure_session_def trap_manager_def)
  moreover have "mp_version trap_manager = ''v2c''" by (simp add: trap_manager_def)
  moreover have "build_pdu trap_env ver up n \<noteq> Inr None" for ver up
    by (simp add: build_pdu_def Let_def getFieldOIDList_def field_object_def getASNType_def
        addPDUVar_def value_has_type_def calculation)
  ultimately show ?thesis
    using trap_getManagers [OF assms] build_pdu_cases [of trap_env "''v2c''" _ n]
    by (auto simp: sendTrap_def Let_def bindE_def catchE_def send_to_manager_def ext_call_apply
        getSystemUptimeTicks_def split: prod.splits sum.splits)
qed

definition trap_note :: notification where
  "trap_note =
     \<lparr>obmcErrorID = 7, obmcErrorTimestamp = ''now'', obmcErrorSeverity = ''Critical'',
      obmcErrorMessage = ''upperCritGoingHigh'', obmcEventID = ''CPU_Temp'',
      obmcEventStatus = ''Asserted'', obmcEventSubjectSN = '''', obmcAddData = '''',
      obmcIP = ''bmc:10.0.0.2''\<rparr>"

theorem sendTrap_sound_witness:
  "fst (sendTrap trap_env trap_note (Some 1) (Some 1) trap_sys) = Inr True \<and>
     (\<exists>t session p. trace (snd (sendTrap trap_env trap_note (Some 1) (Some 1) trap_sys))
        = t @ [SnmpSend session p] \<and> trap_for trap_note no_version_disabled session p)"
proof -
  have "getSNMPDisableStatus trap_sys = (Inr no_version_disabled, trap_sys)"
    by (simp add: getSNMPDisableStatus_def trap_files)
  from sendTrap_sound [OF prod.collapse [symmetric] this, of trap_env trap_note "Some 1" "Some 1"] trap_sent [of trap_sys trap_note]
  show ?thesis by auto
qed

text \<open>Every protocol version has a setting after the configuration file is read, and the last line
  that names a version decides: a file whose last line is \<open>key value\<close> disables the version of the
  key exactly when the value is \<open>1\<close>, \<open>true\<close> or \<open>yes\<close>.\<close>

theorem last_line_decides:
  assumes "files s PEF_SNMP_CONF_FILE_PATH = Some text" and "lines_of text = ls @ [line]"
    and "words_of line = key # val # rest" and "disable_key key \<in> {''v1'', ''v2c'', ''v3''}"
  shows "\<exists>st. getSNMPDisableStatus s = (Inr st, s) \<and> dom st = {''v1'', ''v2c'', ''v3''}
    \<and> version_disabled st (disable_key key) = (val \<in> {''1'', ''true'', ''yes''})"
proof -
  have dom_line: "dom (disable_line l m) = {''v1'', ''v2c'', ''v3''}"
    if "dom m = {''v1'', ''v2c'', ''v3''}" for l m
    using that by (auto simp: disable_line_def Let_def split: list.split)
  have dom_fold: "dom (fold disable_line xs m) = {''v1'', ''v2c'', ''v3''}"
    if "dom m = {''v1'', ''v2c'', ''v3''}" for xs m
    using that by (induction xs arbitrary: m) (simp_all add: dom_line)
  have "dom no_version_disabled = {''v1'', ''v2c'', ''v3''}"
    by (auto simp: no_version_disabled_def)
  note dom = dom_fold [OF this, of "ls @ [line]"]
  show ?thesis
    using assms dom by (auto simp: getSNMPDisableStatus_def disable_line_def Let_def version_disabled_def)
qed

theorem last_line_decides_witness:
  "\<exists>st. getSNMPDisableStatus (trap_sys\<lparr>files := [PEF_SNMP_CONF_FILE_PATH \<mapsto>
        ''disableSNMPv1 no'' @ [CHR 0x0A] @ ''disableSNMPv1 yes'']\<rparr>) = (Inr st, trap_sys\<lparr>files :=
        [PEF_SNMP_CONF_FILE_PATH \<mapsto> ''disableSNMPv1 no'' @ [CHR 0x0A] @ ''disableSNMPv1 yes'']\<rparr>)
     \<and> version_disabled st ''v1''"
  using last_line_decides [of "trap_sys\<lparr>files := [PEF_SNMP_CONF_FILE_PATH \<mapsto>
        ''disableSNMPv1 no'' @ [CHR 0x0A] @ ''disableSNMPv1 yes'']\<rparr>" _ "[''disableSNMPv1 no'']"
        "''disableSNMPv1 yes''" "''disableSNMPv1''" "''yes''" "[]"]
  by (simp add: lines_of_def words_of_def is_space_def disable_key_def) auto

end
