(* ===== verification/Alerts.thy ===== *)
theory Alerts
  imports SensorMap SnmpNotify EventMatch
begin

text \<open>
  The two alerts of \<open>src/pef_action.cpp\<close>: the severity and the description of an event, the SNMP alert
  (handed to the retry queue or sent as a trap) and the mail alert (subject, body, retry queue or
  direct sending), with the event tables of \<open>include/pef_action.hpp\<close>.
\<close>

section \<open>Event tables\<close>

definition EventTypeCode_threshold :: u8 where "EventTypeCode_threshold = 0x1"
definition EventTypeCode_generic :: u8 where "EventTypeCode_generic = 0x3"
definition EventTypeCode_sensor_specific :: u8 where "EventTypeCode_sensor_specific = 0x6f"

lemmas event_type_codes =
  EventTypeCode_threshold_def EventTypeCode_generic_def EventTypeCode_sensor_specific_def

definition THRESHOLD_EVENT_TABLE :: "(u8 \<times> string) list" where
  "THRESHOLD_EVENT_TABLE =
     [(0x00, ''lowerNonCritGoingLow''), (0x01, ''lowerNonCritGoingHigh''),
      (0x02, ''lowerCritGoingLow''), (0x03, ''lowerCritGoingHigh''),
      (0x06, ''upperNonCritGoingLow''), (0x07, ''upperNonCritGoingHigh''),
      (0x08, ''upperCritGoingLow''), (0x09, ''upperCritGoingHigh'')]"

definition SENSOR_SPECIFIC_EVENT_TABLE :: "(u8 \<times> (u8 \<times> string) list) list" where
  "SENSOR_SPECIFIC_EVENT_TABLE =
     [(0x0C, [(0x00, ''CorrectableECC''), (0x01, ''UncorrectableECC''), (0x02, ''Parity''),
              (0x03, ''MemoryScrubFailed''), (0x04, ''MemoryDeviceDisabled''),
              (0x05, ''CorrectableECClogging''), (0x06, ''PresenceDetected''),
              (0x07, ''ConfigurationError''), (0x08, ''Spare''), (0x09, ''Throttled''),
              (0x0a, ''CriticalOvertemp'')]),
      (0x0D, [(0x00, ''DrivePresent''), (0x01, ''DriveFault''), (0x02, ''PredictiveFailure''),
              (0x03, ''HotSpare''), (0x04, ''ParityCheck''), (0x05, ''InCriticalArray''),
              (0x06, ''InFailedArray''), (0x07, ''RebuildInProgress''), (0x08, ''RebuildAborted'')]),
      (0x05, [(0x00, ''GenChassisIntrusion''), (0x01, ''DriveBayIntrusion''),
              (0x02, ''IOCardAreaIntrusion''), (0x03, ''ProcessorAreaIntrusion''),
              (0x04, ''LanLost''), (0x05, ''UnauthorizedDock''), (0x06, ''FanAreaIntrusion'')]),
      (0x07, [(0x00, ''Ierr''), (0x01, ''ThermalTrip''), (0x02, ''Frb1''), (0x03, ''Frb2''),
              (0x04, ''Frb3''), (0x05, ''ConfigurationError''),
              (0x06, ''UncorrectableCpuComplexError''), (0x07, ''ProcessorPresenceDetected''),
              (0x08, ''ProcessorDisabled''), (0x09, ''TerminatorPresenceDetected''),
              (0x0a, ''ProcessorAutomaticallyThrottled''), (0x0b, ''MachineCheckException''),
              (0x0c, ''CorrectableMachineCheck'')]),
      (0x10, [(0x00, ''Correctablememoryerror''), (0x01, ''Eventloggingdisabled''),
              (0x02, ''Logareareset''), (0x03, ''Alleventloggingdisabled''), (0x04, ''Logfull''),
              (0x05, ''Logalmostfull'')]),
      (0x22, [(0x00, ''S0_G0''), (0x01, ''S1''), (0x02, ''S2''), (0x03, ''S3''), (0x04, ''S4''),
              (0x05, ''S5_G2''), (0x06, ''S4_S5''), (0x07, ''G3''), (0x08, ''S1_S2_S3''),
              (0x09, ''G1''), (0x0a, ''S5''), (0x0b, ''LegacyOn''), (0x0c, ''LegacyOff''),
              (0x0e, ''ACPI_Unknown'')]),
      (0x23, [(0x00, ''Timerexpired''), (0x01, ''Hardreset''), (0x02, ''Powerdown''),
              (0x03, ''Powercycle''), (0x08, ''Timerinterrupt'')])]"

definition GENERIC_EVENT_TABLE :: "(u8 \<times> (u8 \<times> string) list) list" where
  "GENERIC_EVENT_TABLE =
     [(0x07, [(0x00, ''ActiveStateLow''), (0x01, ''ActiveStateHigh'')]),
      (0x01, [(0x00, ''ActiveStateLow''), (0x01, ''ActiveStateHigh'')])]"

definition table_entry :: "(u8 \<times> (u8 \<times> string) list) list \<Rightarrow> u8 \<Rightarrow> u8 \<Rightarrow> string option" where
  "table_entry table sensor offset =
     (case map_of table sensor of None \<Rightarrow> None | Some offsets \<Rightarrow> map_of offsets offset)"

section \<open>Severity and description\<close>

definition EVENT_TYPE :: u8 where "EVENT_TYPE = 0x7f"
definition EVENT_DIRECTION :: u8 where "EVENT_DIRECTION = 0x80"
definition EVENT_STATE :: u8 where "EVENT_STATE = 0x0f"

definition event_type_code :: "EventMsgData \<Rightarrow> u8" where
  "event_type_code ev = eventType ev AND EVENT_TYPE"

definition event_offset :: "EventMsgData \<Rightarrow> u8" where
  "event_offset ev = eventData0 ev AND EVENT_STATE"

definition event_assert :: "EventMsgData \<Rightarrow> bool" where
  "event_assert ev \<longleftrightarrow> eventType ev AND EVENT_DIRECTION = 0"

definition snmp_severity :: "EventMsgData \<Rightarrow> string \<times> string" where
  "snmp_severity ev =
     (if event_type_code ev \<noteq> EventTypeCode_sensor_specific then
        (let severity =
               (if event_offset ev = 0x02 \<or> event_offset ev = 0x09 then ''Critical''
                else if event_offset ev = 0x00 \<or> event_offset ev = 0x07 then ''Warning''
                else '''')
         in if \<not> event_assert ev then (''OK'', ''Deasserted'') else (severity, ''Asserted''))
      else (''Information'', ''Asserted''))"

definition snmp_event_text :: "EventMsgData \<Rightarrow> string \<Rightarrow> string \<Rightarrow> string" where
  "snmp_event_text ev sensorName direction =
     (if msgStr ev \<noteq> '''' then msgStr ev
      else if event_type_code ev = EventTypeCode_threshold then
        (case map_of THRESHOLD_EVENT_TABLE (event_offset ev) of
           Some t \<Rightarrow> t | None \<Rightarrow> ''unknown event'')
      else if event_type_code ev = EventTypeCode_generic then
        (case table_entry GENERIC_EVENT_TABLE (sensorType ev) (event_offset ev) of
           Some t \<Rightarrow> t | None \<Rightarrow> ''unknown event'')
      else if event_type_code ev = EventTypeCode_sensor_specific then
        (case table_entry SENSOR_SPECIFIC_EVENT_TABLE (sensorType ev) (event_offset ev) of
           Some t \<Rightarrow> sensorName @ '' '' @ direction @ '' '' @ t | None \<Rightarrow> ''unknown event'')
      else ''unknown event'')"

definition smtp_severity :: "EventMsgData \<Rightarrow> string" where
  "smtp_severity ev =
     (if event_type_code ev \<noteq> EventTypeCode_sensor_specific then
        (let severity =
               (if event_offset ev = 0x02 \<or> event_offset ev = 0x09 then ''Critical''
                else if event_offset ev = 0x00 \<or> event_offset ev = 0x07 then ''Warning''
                else if event_offset ev = 0x04 \<or> event_offset ev = 0x0B then ''Non-Recoverable''
                else '''')
         in if \<not> event_assert ev then ''Ok'' else severity)
      else ''Information'')"

definition smtp_event_text :: "EventMsgData \<Rightarrow> string" where
  "smtp_event_text ev =
     (if msgStr ev \<noteq> '''' then msgStr ev
      else if event_type_code ev = EventTypeCode_threshold then
        (case map_of THRESHOLD_EVENT_TABLE (event_offset ev) of
           Some t \<Rightarrow> t | None \<Rightarrow> ''unknown event'')
      else if event_type_code ev = EventTypeCode_generic then
        (case table_entry GENERIC_EVENT_TABLE (sensorType ev) (event_offset ev) of
           Some t \<Rightarrow> t | None \<Rightarrow> ''unknown event'')
      else if event_type_code ev = EventTypeCode_sensor_specific then
        (case table_entry SENSOR_SPECIFIC_EVENT_TABLE (sensorType ev) (event_offset ev) of
           Some t \<Rightarrow> t | None \<Rightarrow> ''unknown event'')
      else ''unknown event'')"

definition checkSampleEvent :: "EventMsgData \<Rightarrow> bool" where
  "checkSampleEvent ev =
     (if sensorNum ev = 0x30 \<and> sensorType ev = 0x01 \<and> eventType ev AND 0x7f = 0x01
         \<and> eventData0 ev = 0x09 \<and> eventData1 ev = 0xff \<and> eventData2 ev = 0xff then True
      else if sensorNum ev = 0x60 \<and> sensorType ev = 0x02 \<and> eventType ev AND 0x7f = 0x01
         \<and> eventData0 ev = 0x02 \<and> eventData1 ev = 0xff \<and> eventData2 ev = 0xff then True
      else if sensorNum ev = 0x53 \<and> sensorType ev = 0x0c \<and> eventType ev AND 0x7f = 0x6f
         \<and> eventData0 ev = 0x00 \<and> eventData1 ev = 0xff \<and> eventData2 ev = 0xff then True
      else False)"

section \<open>The SNMP alert\<close>

definition retry_call :: "string \<Rightarrow> string \<Rightarrow> string \<Rightarrow> ecall" where
  "retry_call kind identifier payload =
     Method pendtaskService pendtaskPath pendtaskIface ''retryAlert''
       [DStr kind, DStr identifier, DStr payload]"

definition snmp_payload ::
  "string \<Rightarrow> string \<Rightarrow> string \<Rightarrow> string \<Rightarrow> string \<Rightarrow> string \<Rightarrow> string \<Rightarrow> json" where
  "snmp_payload timeStamp severity eventDataMsg sensorName sensorTypeName direction hostName =
     json_object
       [(''timeStamp'', JStr timeStamp), (''severity'', JStr severity),
        (''eventDataMsg'', JStr eventDataMsg), (''sensorName'', JStr sensorName),
        (''sensorType'', JStr sensorTypeName), (''direction'', JStr direction),
        (''eventSubjectSN'', JStr ''''), (''additionalData'', JStr ''''),
        (''hostName'', JStr hostName)]"

definition queue_snmp :: "'w env \<Rightarrow> EventMsgData \<Rightarrow> json \<Rightarrow> ('w, u16) act" where
  "queue_snmp E ev payloadJson =
     bindE (liftE (json_dump (e_json E) (-1) payloadJson)) (\<lambda>payload.
     bindE (bus_call E (retry_call ''snmp'' (to_string (unat (recordId ev))) payload)) (\<lambda>(err, v).
     bindE (liftE (read_bool v)) (\<lambda>retryQueued.
       if retryQueued then ret 0 else ret 0xFFFF)))"

definition hostname_call :: ecall where
  "hostname_call = get_property networkService networkObjPath networkIface ''HostName''"

definition bmc_address :: "'w env \<Rightarrow> string \<Rightarrow> ('w, string) act" where
  "bmc_address E ifaceName =
     bindE (getIPAddress E (Some ifaceName)) (\<lambda>bmcIPAddress.
       if bmcIPAddress = '''' then getIPAddress E None else ret bmcIPAddress)"

definition sendSNMPAlert :: "'w env \<Rightarrow> EventMsgData \<Rightarrow> u8 \<Rightarrow> u8 \<Rightarrow> ('w, u16) act" where
  "sendSNMPAlert E eventMsg channelNo destinationSel =
     bindE (getPathFromSensorNumber E (ucast (sensorNum eventMsg)) 0xff) (\<lambda>sensorPath.
     (let sensorTypeName = retrieveSensorTypeFromPath sensorPath (sensorType eventMsg);
          sensorName = getSensorNameFromPath sensorPath
      in bindE (getEthChannelInterfaceMap E) (\<lambda>ethMap.
         let ifaceName = getInterfaceNameForChannel channelNo ethMap
         in if ifaceName = '''' then ret 0xFFFF
            else
              bindE (bmc_address E ifaceName) (\<lambda>bmcIPAddress.
              let (severity, direction) = snmp_severity eventMsg;
                  eventDataMsg = snmp_event_text eventMsg sensorName direction
              in bindE (getCurrentTime E) (\<lambda>timeStamp.
                 bindE (bus_call E hostname_call) (\<lambda>(err, v).
                 bindE (liftE (get_str v)) (\<lambda>host.
                 let hostName = host @ '':'' @ bmcIPAddress
                 in catchE sdbus_exception
                      (bindE (getsE retryEnable) (\<lambda>retry.
                       if retry then
                         queue_snmp E eventMsg
                           (snmp_payload timeStamp severity eventDataMsg sensorName sensorTypeName
                              direction hostName)
                       else
                         thenE
                           (sendOBMCErrorNotification E (ucast (recordId eventMsg)) timeStamp severity
                              eventDataMsg sensorName direction '''' '''' hostName channelNo
                              destinationSel)
                           (ret 0)))
                      (ret 0xFFFF))))))))"

section \<open>The mail alert\<close>

definition crlf :: string where "crlf = [CHR 0x0D, CHR 0x0A]"

definition subject_call :: ecall where
  "subject_call = get_property pefBus pefObj pefConfInfoIntf ''Subject''"

definition message_call :: ecall where
  "message_call = get_property pefBus pefObj pefConfInfoIntf ''Message''"

text \<open>One \<open>Get\<close> of a string property.\<close>

definition get_string :: "'w env \<Rightarrow> ecall \<Rightarrow> ('w, string) act" where
  "get_string E c = bindE (bus_call E c) (\<lambda>(err, v). liftE (get_str v))"

definition alert_subject :: "'w env \<Rightarrow> string \<Rightarrow> ('w, string) act" where
  "alert_subject E severity =
     bindE (catchE sdbus_exception (get_string E subject_call) (ret '''')) (\<lambda>Subject.
       catchE sdbus_exception
         (bindE (get_string E hostname_call) (\<lambda>hostName.
            if Subject = '''' then
              (if severity = ''Ok'' then ret (''Message from '' @ hostName)
               else ret (''Alert from '' @ hostName))
            else ret Subject))
         (ret ''PEF Alert''))"

definition body_text :: "EventMsgData \<Rightarrow> string \<Rightarrow> string \<Rightarrow> string \<Rightarrow> string" where
  "body_text ev sensorName sensorTypeName smtpMailID =
     (if checkSampleEvent ev then ''Sensor Name : Not Found''
      else ''Sensor Name : '' @ sensorName @ crlf @ ''Sensor Type : '' @ sensorTypeName @ '' '' @ crlf
        @ ''Severity    : '' @ smtp_severity ev @ crlf @ ''Description : '' @ smtp_event_text ev)
     @ (if smtpMailID \<noteq> '''' then crlf @ ''Mail ID     : '' @ smtpMailID else '''')"

definition alert_body :: "'w env \<Rightarrow> string \<Rightarrow> ('w, string) act" where
  "alert_body E text =
     bindE (catchE sdbus_exception
              (bindE (get_string E message_call) (\<lambda>Message. ret (Message @ crlf)))
              (ret ''''))
       (\<lambda>alertBody. ret (alertBody @ text))"

definition send_mail_call :: "string \<Rightarrow> string \<Rightarrow> ecall" where
  "send_mail_call alertSubject alertBody =
     Method mailService mailObjPath mailIface sendMailMethod
       [DStr (c_str alertSubject), DStr (c_str alertBody)]"

definition deliver_mail :: "'w env \<Rightarrow> string \<Rightarrow> string \<Rightarrow> ('w, u16) act" where
  "deliver_mail E alertSubject alertBody =
     catchE sdbus_exception
       (bindE (getsE retryEnable) (\<lambda>retry.
        if retry then
          bindE (isMailAlertConfigured E) (\<lambda>configured.
          if configured then
            bindE (bus_call E (retry_call ''smtp'' alertSubject alertBody)) (\<lambda>(err, v).
            bindE (liftE (read_bool v)) (\<lambda>retryQueued. ret 0))
          else ret 0xFFFF)
        else
          bindE (bus_call E (send_mail_call alertSubject alertBody)) (\<lambda>(err, v).
          if err then ret 0xFFFF else liftE (read_u16 v))))
       (ret 0xFFFF)"

definition sendSmtpAlert :: "'w env \<Rightarrow> EventMsgData \<Rightarrow> string \<Rightarrow> ('w, u16) act" where
  "sendSmtpAlert E eveMsg smtpMailID =
     bindE (getPathFromSensorNumber E (ucast (sensorNum eveMsg)) 0xff) (\<lambda>sensorPath.
     (let sensorTypeName = retrieveSensorTypeFromPath sensorPath (sensorType eveMsg);
          sensorName = getSensorNameFromPath sensorPath
      in bindE (alert_subject E (smtp_severity eveMsg)) (\<lambda>alertSubject.
         bindE (alert_body E (body_text eveMsg sensorName sensorTypeName smtpMailID)) (\<lambda>alertBody.
         if smtpMailID = '''' then ret 0xFFFF
         else deliver_mail E alertSubject alertBody))))"

section \<open>The calls of an alert\<close>

text \<open>Calls that hand an alert to somebody: a trap, a queued retry, a mail.\<close>

definition is_alert_call :: "ecall \<Rightarrow> bool" where
  "is_alert_call c \<longleftrightarrow> (case c of
      SnmpSend _ _ \<Rightarrow> True
    | Method svc path iface member args \<Rightarrow>
        (svc = pendtaskService \<and> member = ''retryAlert'') \<or> (svc = mailService \<and> member = sendMailMethod)
    | _ \<Rightarrow> False)"

definition alerting_call :: "ecall \<Rightarrow> bool" where
  "alerting_call c \<longleftrightarrow> is_read_call c \<or> is_alert_call c \<or> (case c of SnmpOpen _ \<Rightarrow> True | _ \<Rightarrow> False)"

lemma is_alert_call_simps [simp]:
  "is_alert_call (retry_call k i p)" "is_alert_call (send_mail_call a b)"
  "is_alert_call (SnmpSend ss pdu)" "\<not> is_alert_call (SnmpOpen peer)"
  by (simp_all add: is_alert_call_def retry_call_def send_mail_call_def)

lemma alert_not_read [simp]:
  "\<not> is_read_call (retry_call k i p)" "\<not> is_read_call (send_mail_call a b)"
  "\<not> is_read_call (SnmpSend ss pdu)" "\<not> is_read_call (SnmpOpen peer)"
  by (simp_all add: is_read_call_def retry_call_def send_mail_call_def pendtaskIface_def mailIface_def
      sendMailMethod_def PROP_INTF_def MAPPER_INTERFACE_def)

lemma read_not_alert: "is_read_call c \<Longrightarrow> \<not> is_alert_call c"
  by (auto simp: is_read_call_def is_alert_call_def sendMailMethod_def METHOD_GET_def
      METHOD_GET_ALL_def pendtaskService_def mailService_def MAPPER_BUSNAME_def split: ecall.splits)

lemma alert_queries_read [simp]:
  "is_read_call hostname_call" "is_read_call subject_call" "is_read_call message_call"
  by (simp_all add: hostname_call_def subject_call_def message_call_def)

lemma alerting_simps [simp]:
  "is_read_call c \<Longrightarrow> alerting_call c" "is_alert_call c \<Longrightarrow> alerting_call c"
  "alerting_call (SnmpOpen peer)"
  by (simp_all add: alerting_call_def)

lemma calls_send_to_manager: "sat (calls_only alerting_call) (send_to_manager E n ip st m)"
  unfolding send_to_manager_def getSystemUptimeTicks_def
  by (intro sat_breply calls_sat) simp_all

lemma calls_send_to_managers: "sat (calls_only alerting_call) (send_to_managers E n ip st ms b)"
  by (induction ms arbitrary: b) (auto intro!: calls_sat calls_send_to_manager)

lemma calls_sendOBMCErrorNotification:
  "sat (calls_only alerting_call) (sendOBMCErrorNotification E i ts sev msg eid est sn ad ip ch sel)"
proof -
  have "sat (calls_only alerting_call) (getManagers E ch' sel')" for ch' sel'
    by (rule sat_calls_mono [OF reads_getManagers]) simp
  then show ?thesis
    unfolding sendOBMCErrorNotification_def sendTrap_def Let_def getTrapEnabled_def
      getSNMPDisableStatus_def
    by (intro calls_sat calls_send_to_managers)
qed

lemma alerting_reads: "sat (calls_only is_read_call) m \<Longrightarrow> sat (calls_only alerting_call) m"
  by (erule sat_calls_mono) simp

lemma reads_bmc_address: "sat (calls_only is_read_call) (bmc_address E i)"
  unfolding bmc_address_def getIPAddress_def by (intro calls_sat)

lemma calls_sendSNMPAlert: "sat (calls_only alerting_call) (sendSNMPAlert E ev ch sel)"
  unfolding sendSNMPAlert_def Let_def queue_snmp_def getCurrentTime_def
  by (intro calls_sat alerting_reads [OF reads_getPathFromSensorNumber]
      alerting_reads [OF reads_getEthChannelInterfaceMap] alerting_reads [OF reads_bmc_address]
      calls_sendOBMCErrorNotification) simp_all

lemma reads_alert_subject: "sat (calls_only is_read_call) (alert_subject E sev)"
  unfolding alert_subject_def get_string_def by (intro calls_sat) simp_all

lemma reads_alert_body: "sat (calls_only is_read_call) (alert_body E t)"
  unfolding alert_body_def get_string_def by (intro calls_sat) simp_all

lemma calls_deliver_mail: "sat (calls_only alerting_call) (deliver_mail E a b)"
  unfolding deliver_mail_def
  by (intro calls_sat alerting_reads [OF reads_isMailAlertConfigured]) simp_all

lemma calls_sendSmtpAlert: "sat (calls_only alerting_call) (sendSmtpAlert E ev m)"
  unfolding sendSmtpAlert_def Let_def
  by (intro calls_sat alerting_reads [OF reads_getPathFromSensorNumber]
      alerting_reads [OF reads_alert_subject] alerting_reads [OF reads_alert_body] calls_deliver_mail)

lemma reads_sendSmtpAlert_no_address: "sat (calls_only is_read_call) (sendSmtpAlert E ev '''')"
  unfolding sendSmtpAlert_def Let_def
  by (simp add: calls_sat reads_getPathFromSensorNumber reads_alert_subject reads_alert_body)

section \<open>Properties\<close>

text \<open>A host that answers every \<open>Get\<close> with a name, accepts mail with status 0 and retries, and has no
  sensors; and a threshold event.\<close>

definition mail_table :: "bool \<Rightarrow> ecall \<Rightarrow> breply" where
  "mail_table accepts c =
     (case c of
        Method svc path iface member args \<Rightarrow>
          (if member = sendMailMethod then Reply False (DU16 0)
           else if member = ''retryAlert'' then Reply False (DBool accepts)
           else if member = getMapMethod then Reply False (DChanMap [(1, ''eth0'')])
           else if args = [DStr ''xyz.openbmc_project.mail.alert.primary'', DStr ''Enable'']
             then Reply False (DBool True)
           else Reply False (DStr ''bmc''))
      | OpenSystemBus \<Rightarrow> BusError
      | _ \<Rightarrow> Reply False (DBool True))"

definition mail_env :: "bool \<Rightarrow> unit env" where
  "mail_env accepts = table_env (mail_table accepts)"

definition fan_event :: EventMsgData where
  "fan_event =
     \<lparr>recordId = 7, generatorId1 = 0x20, generatorId2 = 0, sensorNum = 5, sensorType = 4, eventType = 1,
      eventData0 = 0x02, eventData1 = 0, eventData2 = 0, msgStr = ''''\<rparr>"

lemma mail_env_bus [simp]: "e_bus (mail_env accepts) w c = (mail_table accepts c, w)"
  by (simp add: mail_env_def)

lemma mail_table_simps [simp]:
  "mail_table a (send_mail_call x y) = Reply False (DU16 0)"
  "mail_table a (retry_call k i p) = Reply False (DBool a)"
  "mail_table a hostname_call = Reply False (DStr ''bmc'')"
  "mail_table a subject_call = Reply False (DStr ''bmc'')"
  "mail_table a message_call = Reply False (DStr ''bmc'')"
  "mail_table a OpenSystemBus = BusError" "mail_table a OpenBus = Reply False (DBool True)"
  by (simp_all add: mail_table_def send_mail_call_def retry_call_def hostname_call_def
      subject_call_def message_call_def get_property_def METHOD_GET_def sendMailMethod_def
      getMapMethod_def)

lemma mail_no_sensor:
  "getPathFromSensorNumber (mail_env a) n ty s
     = (Inr '''', after_call (mail_env a) OpenSystemBus s)"
  using getSensorSubtree_unopened [of "mail_env a" s]
  by (simp add: bus_opens_def lookup_defs getSensorNumMap_def bindE_def)

lemma mail_call [simp]:
  "bus_call (mail_env a) c s =
     (case mail_table a c of
        BusError \<Rightarrow> (Inl DBusError, after_call (mail_env a) c s)
      | Reply err v \<Rightarrow> (Inr (err, v), after_call (mail_env a) c s))"
  by (simp add: bus_call_eq)

text \<open>The two alerts grade an event alike, with two exceptions: the mail calls the offsets
  \<open>0x4\<close> and \<open>0xB\<close> of a threshold event \<open>Non-Recoverable\<close> where the trap carries an empty severity, and
  a deasserted event is \<open>Ok\<close> in the mail and \<open>OK\<close> in the trap.\<close>

theorem severities_agree:
  "fst (snmp_severity ev) =
     (if smtp_severity ev = ''Ok'' then ''OK''
      else if smtp_severity ev = ''Non-Recoverable'' then ''''
      else smtp_severity ev)
   \<and> (snd (snmp_severity ev) = ''Deasserted'' \<longleftrightarrow> fst (snmp_severity ev) = ''OK'')"
  by (simp add: snmp_severity_def smtp_severity_def Let_def)

text \<open>Nobody is mailed without an address: with an empty mail address \<open>sendSmtpAlert\<close> makes only
  reading calls, and if it returns, it returns the failure status.\<close>

theorem no_address_no_mail:
  "calls_only is_read_call s (snd (sendSmtpAlert E ev '''' s))
   \<and> (case fst (sendSmtpAlert E ev '''' s) of Inl e \<Rightarrow> True | Inr st \<Rightarrow> st = 0xFFFF)"
proof -
  have "yields (\<lambda>st. st = 0xFFFF) (sendSmtpAlert E ev '''')"
    unfolding sendSmtpAlert_def Let_def by (intro yields_intros) simp_all
  moreover obtain r s' where run: "sendSmtpAlert E ev '''' s = (r, s')"
    by (cases "sendSmtpAlert E ev '''' s")
  ultimately show ?thesis
    using satD' [OF reads_sendSmtpAlert_no_address run] by (auto simp: yields_def split: sum.split)
qed

lemma deliver_mail_direct:
  assumes "deliver_mail E a b s = (Inr st, s')" and "\<not> retryEnable s" and "st \<noteq> 0xFFFF"
  shows "s' = after_call E (send_mail_call a b) s
    \<and> fst (e_bus E (world s) (send_mail_call a b)) = Reply False (DU16 st)"
proof (cases "fst (e_bus E (world s) (send_mail_call a b))")
  case BusError
  then show ?thesis using assms by (simp add: deliver_mail_def bus_call_BusError bindE_def catchE_def)
next
  case (Reply err v)
  then show ?thesis using assms
    by (cases err; cases v) (auto simp: deliver_mail_def bus_call_Reply bindE_def catchE_def)
qed

lemma same_alert_texts:
  "sat same_retry (alert_subject E sev)" "sat same_retry (alert_body E t)"
  unfolding alert_subject_def alert_body_def get_string_def by (intro retry_sat)+

text \<open>A mail status other than failure is the mail service's own: in direct mode, when
  \<open>sendSmtpAlert\<close> returns a status that is not the failure status, its last call is \<open>SendMail\<close>, and
  the status is what the service replied.\<close>

theorem mail_status_is_the_reply:
  assumes "sendSmtpAlert E ev address s = (Inr st, s')" and "\<not> retryEnable s" and "st \<noteq> 0xFFFF"
  shows "\<exists>t subject body. calls_only is_read_call s t
    \<and> fst (e_bus E (world t) (send_mail_call subject body)) = Reply False (DU16 st)
    \<and> s' = after_call E (send_mail_call subject body) t"
proof -
  obtain path s1 where p: "getPathFromSensorNumber E (ucast (sensorNum ev)) 0xff s = (Inr path, s1)"
    using assms(1) by (auto simp: sendSmtpAlert_def bindE_def split: prod.splits sum.splits)
  obtain subject s2 where u: "alert_subject E (smtp_severity ev) s1 = (Inr subject, s2)"
    using assms(1) p by (auto simp: sendSmtpAlert_def Let_def bindE_def split: prod.splits sum.splits)
  let ?text = "body_text ev (getSensorNameFromPath path)
      (retrieveSensorTypeFromPath path (sensorType ev)) address"
  obtain body s3 where b: "alert_body E ?text s2 = (Inr body, s3)"
    using assms(1) p u by (auto simp: sendSmtpAlert_def Let_def bindE_def split: prod.splits sum.splits)
  have d: "deliver_mail E subject body s3 = (Inr st, s')"
    using assms(1,3) p u b by (auto simp: sendSmtpAlert_def Let_def split: if_splits)
  have "same_retry s s1" "same_retry s1 s2" "same_retry s2 s3"
    using satD' [OF same_getPathFromSensorNumber(1) p] satD' [OF same_alert_texts(1) u]
      satD' [OF same_alert_texts(2) b] by simp_all
  then have "\<not> retryEnable s3" using assms(2) by (simp add: same_retry_def)
  note direct = deliver_mail_direct [OF d this assms(3)]
  have "calls_only is_read_call s s1" "calls_only is_read_call s1 s2" "calls_only is_read_call s2 s3"
    using satD' [OF reads_getPathFromSensorNumber p] satD' [OF reads_alert_subject u]
      satD' [OF reads_alert_body b] by simp_all
  then have "calls_only is_read_call s s3" using calls.trans by metis
  then show ?thesis using direct by blast
qed

theorem mail_status_is_the_reply_witness:
  "\<exists>t subject body. calls_only is_read_call (initial_sys ()) t
    \<and> fst (e_bus (mail_env True) (world t) (send_mail_call subject body)) = Reply False (DU16 0)
    \<and> snd (sendSmtpAlert (mail_env True) fan_event ''ops'' (initial_sys ()))
        = after_call (mail_env True) (send_mail_call subject body) t"
proof (rule mail_status_is_the_reply)
  show "sendSmtpAlert (mail_env True) fan_event ''ops'' (initial_sys ())
      = (Inr 0, snd (sendSmtpAlert (mail_env True) fan_event ''ops'' (initial_sys ())))"
    by (simp add: sendSmtpAlert_def mail_no_sensor Let_def alert_subject_def alert_body_def
        get_string_def deliver_mail_def bindE_def catchE_def)
qed simp_all

text \<open>A rejected retry counts as sent: with retries enabled and mail configured, the status of the
  mail alert is success whether the queue accepts the request or not.\<close>

theorem rejected_mail_retry_is_success:
  assumes "retryEnable s" and "isMailAlertConfigured E s = (Inr True, t)"
    and "fst (e_bus E (world t) (retry_call ''smtp'' subject body)) = Reply err (DBool queued)"
  shows "fst (deliver_mail E subject body s) = Inr 0"
  using assms by (simp add: deliver_mail_def bindE_def catchE_def bus_call_Reply)

theorem rejected_mail_retry_is_success_witness:
  "fst (deliver_mail (mail_env False) ''subject'' ''body'' ((initial_sys ())\<lparr>retryEnable := True\<rparr>))
     = Inr 0"
proof -
  let ?s = "(initial_sys ())\<lparr>retryEnable := True\<rparr>"
  have "mail_table a (get_property mailService mailObjPath
          ''xyz.openbmc_project.mail.alert.primary'' ''Enable'') = Reply False (DBool True)"
    "mail_table a (get_property mailService mailObjPath
          ''xyz.openbmc_project.mail.alert.primary'' ''Host'') = Reply False (DStr ''bmc'')" for a
    by (simp_all add: mail_table_def get_property_def METHOD_GET_def sendMailMethod_def getMapMethod_def)
  then have "fst (isMailAlertConfigured (mail_env False) ?s) = Inr True"
    by (simp add: isMailAlertConfigured_def mail_service_ready_def resolveHost_def bindE_def
        catchE_def thenE_def) (simp add: mail_env_def)
  then have "isMailAlertConfigured (mail_env False) ?s
      = (Inr True, snd (isMailAlertConfigured (mail_env False) ?s))"
    by (metis prod.collapse)
  from rejected_mail_retry_is_success [OF _ this, where err = False and queued = False]
  show ?thesis by simp
qed

text \<open>A missing host name costs the configured subject: when the subject is configured and the
  host name cannot be read, the mail is sent with the subject \<open>PEF Alert\<close>.\<close>

theorem hostname_failure_drops_subject:
  assumes "fst (e_bus E (world s) subject_call) = Reply err (DStr configured)"
    and "fst (e_bus E (world (after_call E subject_call s)) hostname_call) = BusError"
  shows "fst (alert_subject E sev s) = Inr ''PEF Alert''"
  using assms
  by (simp add: alert_subject_def get_string_def bindE_def catchE_def bus_call_Reply bus_call_BusError)

theorem hostname_failure_drops_subject_witness:
  "fst (alert_subject (table_env (\<lambda>c. if c = hostname_call then BusError else Reply False (DStr ''Rack 7'')))
     ''Critical'' (initial_sys ())) = Inr ''PEF Alert''"
  by (rule hostname_failure_drops_subject [where err = False and configured = "''Rack 7''"])
    (simp_all add: hostname_call_def subject_call_def get_property_def networkService_def pefBus_def)

lemma snmp_alert_switched_off:
  assumes "files s PEF_SNMP_TRAP_STATUS_FILE_PATH = None"
  shows "sendOBMCErrorNotification E i ts sev msg eid est sn ad ip ch sel s = (Inr False, s)"
  using assms by (simp add: sendOBMCErrorNotification_def sendTrap_def getTrapEnabled_def)

lemma bmc_address_pure: "\<exists>a. bmc_address E i s = (Inr a, s)"
  by (simp add: bmc_address_def getIPAddress_def bindE_def)

text \<open>The status of an SNMP alert does not tell whether a trap went out: in direct mode, once the
  interface is known and the host name is read, the status is success, even when the trap switch is
  off and no trap is sent at all.\<close>

theorem snmp_success_without_trap:
  assumes "\<not> retryEnable s" and "files s PEF_SNMP_TRAP_STATUS_FILE_PATH = None"
    and "getPathFromSensorNumber E (ucast (sensorNum ev)) 0xff s = (Inr path, s1)"
    and "getEthChannelInterfaceMap E s1 = (Inr ethMap, s2)"
    and "getInterfaceNameForChannel ch ethMap \<noteq> ''''"
    and "fst (e_bus E (world s2) hostname_call) = Reply err (DStr host)"
    and "sendSNMPAlert E ev ch sel s = (r, s')"
  shows "r = Inr 0 \<and> calls_only is_read_call s s'"
proof -
  have "same_retry s s2" "same_files s s2"
    using satD' [OF same_getPathFromSensorNumber(1) assms(3)]
      satD' [OF same_getEthChannelInterfaceMap(1) assms(4)]
      satD' [OF same_getPathFromSensorNumber(2) assms(3)]
      satD' [OF same_getEthChannelInterfaceMap(2) assms(4)]
    by (simp_all add: same_retry_def same_files_def)
  then have off: "files (after_call E hostname_call s2) PEF_SNMP_TRAP_STATUS_FILE_PATH = None"
    and "\<not> retryEnable (after_call E hostname_call s2)"
    using assms(1,2) by (simp_all add: same_retry_def same_files_def)
  moreover obtain a where "bmc_address E (getInterfaceNameForChannel ch ethMap) s2 = (Inr a, s2)"
    using bmc_address_pure by blast
  ultimately have r: "r = Inr 0" and s': "s' = after_call E hostname_call s2"
    using assms(3-7) snmp_alert_switched_off [OF off]
    by (auto simp: sendSNMPAlert_def Let_def bindE_def catchE_def thenE_def getCurrentTime_def
        bus_call_Reply split: prod.splits)
  have "calls_only is_read_call s s1" "calls_only is_read_call s1 s2"
    using satD' [OF reads_getPathFromSensorNumber assms(3)]
      satD' [OF reads_getEthChannelInterfaceMap assms(4)] by simp_all
  then have "calls_only is_read_call s s2" using calls.trans by metis
  then show ?thesis using r by (auto simp: s' calls_only_def)
qed

theorem snmp_success_without_trap_witness:
  "fst (sendSNMPAlert (mail_env True) fan_event 1 1 (initial_sys ())) = Inr 0"
proof -
  let ?E = "mail_env True"
  have "mail_table True (Method userManagerBus userMgrObjPath userAccPolicyIntf getMapMethod [])
      = Reply False (DChanMap [(1, ''eth0'')])"
    by (simp add: mail_table_def getMapMethod_def sendMailMethod_def)
  then have "getEthChannelInterfaceMap ?E s = (Inr [(1, ''eth0'')], after_call ?E
      (Method userManagerBus userMgrObjPath userAccPolicyIntf getMapMethod []) s)" for s
    by (simp add: getEthChannelInterfaceMap_def bindE_def catchE_def starts_with_def)
  from snmp_success_without_trap [OF _ _ mail_no_sensor this, where ev = fan_event and ch = 1
      and err = False and host = "''bmc''" and sel = 1, OF _ _ _ _ prod.collapse [symmetric]]
  show ?thesis by simp
qed

end
