(* ===== verification/AlertPolicy.thy ===== *)
theory AlertPolicy
  imports DaemonCalls
begin

text \<open>
  The alert policy table (\<open>checkAlertPoicyTbl\<close> in \<open>src/pef_action.cpp\<close>): the rows of all policy
  objects that belong to a policy number and are enabled.  A policy object holds its rows as columns
  of equal kind; a column that is absent or too short leaves the default in the row.
\<close>

section \<open>Data\<close>

record AlertPolicyTbl =
  AlertPolicyEntry :: u8
  AlertPolicyGroupNum :: u8
  EnableAlert :: u8
  PolicyAction :: u8
  ChannelNo :: u8
  DestinationSel :: u8
  EventSpecificAlertStr :: string
  AlertStingkey :: u8

definition alertPolicyTableObj :: string where
  "alertPolicyTableObj = ''/xyz/openbmc_project/PefAlertManager/AlertPolicyTable''"
definition alertPolicyTableIntf :: string where
  "alertPolicyTableIntf = ''xyz.openbmc_project.pef.AlertPolicyTable''"

text \<open>The columns of one policy object; only the group numbers must be there.\<close>

record policy_columns =
  pc_group :: "u8 list"
  pc_enable :: "u8 list option"
  pc_action :: "u8 list option"
  pc_channel :: "u8 list option"
  pc_dest :: "u8 list option"
  pc_str :: "string list option"

section \<open>Operations\<close>

text \<open>\<open>if (values.count(k)) ... std::get<T>(values.at(k))\<close>.\<close>

definition opt_column ::
  "(dval \<Rightarrow> exn + 'a list) \<Rightarrow> (string \<times> dval) list \<Rightarrow> string \<Rightarrow> exn + 'a list option" where
  "opt_column get m k =
     (case map_of m k of None \<Rightarrow> Inr None | Some v \<Rightarrow> bindR (get v) (\<lambda>xs. Inr (Some xs)))"

definition read_policy_columns :: "(string \<times> dval) list \<Rightarrow> exn + policy_columns" where
  "read_policy_columns m =
     bindR (bindR (map_at m ''AlertPolicyGroupNum'') get_u8s) (\<lambda>group.
     bindR (opt_column get_u8s m ''EnableAlert'') (\<lambda>enable.
     bindR (opt_column get_u8s m ''PolicyAction'') (\<lambda>act.
     bindR (opt_column get_u8s m ''ChannelNo'') (\<lambda>channel.
     bindR (opt_column get_u8s m ''DestinationSel'') (\<lambda>dest.
     bindR (opt_column get_strs m ''EventSpecificAlertStr'') (\<lambda>str.
       Inr \<lparr>pc_group = group, pc_enable = enable, pc_action = act, pc_channel = channel,
            pc_dest = dest, pc_str = str\<rparr>))))))"

definition column_at :: "'a list option \<Rightarrow> nat \<Rightarrow> 'a \<Rightarrow> 'a" where
  "column_at col i dflt =
     (case col of None \<Rightarrow> dflt | Some xs \<Rightarrow> if i < length xs then xs ! i else dflt)"

text \<open>One pass of the loop over the rows: \<open>None\<close> is a \<open>continue\<close>.\<close>

definition policy_row :: "policy_columns \<Rightarrow> u8 \<Rightarrow> nat \<Rightarrow> AlertPolicyTbl option" where
  "policy_row c alertPolicyNo entryIndex =
     (if (case pc_enable c of
            None \<Rightarrow> False
          | Some enableVals \<Rightarrow>
              length enableVals \<le> entryIndex \<or> enableVals ! entryIndex \<noteq> 1) then None
      else let groupNum = pc_group c ! entryIndex
        in if groupNum \<noteq> alertPolicyNo then None
           else Some \<lparr>AlertPolicyEntry = 0, AlertPolicyGroupNum = groupNum,
                      EnableAlert = column_at (pc_enable c) entryIndex 0,
                      PolicyAction = column_at (pc_action c) entryIndex 0,
                      ChannelNo = column_at (pc_channel c) entryIndex 0,
                      DestinationSel = column_at (pc_dest c) entryIndex 0,
                      EventSpecificAlertStr = column_at (pc_str c) entryIndex '''',
                      AlertStingkey = 0\<rparr>)"

definition policy_rows :: "policy_columns \<Rightarrow> u8 \<Rightarrow> AlertPolicyTbl list" where
  "policy_rows c alertPolicyNo =
     List.map_filter (policy_row c alertPolicyNo) [0..<length (pc_group c)]"

definition policy_object :: "'w env \<Rightarrow> u8 \<Rightarrow> string \<Rightarrow> ('w, AlertPolicyTbl list) act" where
  "policy_object E alertPolicyNo policyObj =
     catchE sdbus_exception
       (bindE (bus_call E (get_all_properties pefBus policyObj alertPolicyTableIntf)) (\<lambda>(err, v).
        if err then ret []
        else
          bindE (liftE (read_props v)) (\<lambda>alertPolicyValues.
          bindE (liftE (read_policy_columns alertPolicyValues)) (\<lambda>c.
            ret (policy_rows c alertPolicyNo)))))
       (ret [])"

definition checkAlertPoicyTbl :: "'w env \<Rightarrow> int \<Rightarrow> ('w, AlertPolicyTbl list) act" where
  "checkAlertPoicyTbl E alertPolicyNo =
     (if alertPolicyNo \<le> 0 then ret []
      else
        bindE
          (catchE sdbus_exception
             (bindE (bus_call E (subtree_paths_call alertPolicyTableObj)) (\<lambda>(err, v).
              bindE (liftE (read_strings v)) (\<lambda>objs. ret (Some objs))))
             (ret None))
          (\<lambda>policyObjs. case policyObjs of
             None \<Rightarrow> ret []
           | Some objs \<Rightarrow>
               collectE objs (\<lambda>policyObj.
                 if \<not> starts_with (alertPolicyTableObj @ ''/'') policyObj then ret []
                 else policy_object E (of_int alertPolicyNo) policyObj)))"

section \<open>Facts\<close>

lemma set_map_filter: "set (List.map_filter f xs) = {y. \<exists>x \<in> set xs. f x = Some y}"
  by (induction xs) (auto simp: List.map_filter_simps split: option.splits)

lemma set_policy_rows:
  "set (policy_rows c no) = {r. \<exists>i < length (pc_group c). policy_row c no i = Some r}"
  by (auto simp: policy_rows_def set_map_filter)

lemma policy_row_Some:
  "policy_row c no i = Some r \<longleftrightarrow>
     (\<forall>xs \<in> set_option (pc_enable c). i < length xs \<and> xs ! i = 1) \<and> pc_group c ! i = no
     \<and> r = \<lparr>AlertPolicyEntry = 0, AlertPolicyGroupNum = no,
            EnableAlert = (if pc_enable c = None then 0 else 1),
            PolicyAction = column_at (pc_action c) i 0, ChannelNo = column_at (pc_channel c) i 0,
            DestinationSel = column_at (pc_dest c) i 0,
            EventSpecificAlertStr = column_at (pc_str c) i '''', AlertStingkey = 0\<rparr>"
  by (auto simp: policy_row_def Let_def column_at_def split: option.splits)

lemma reads_checkAlertPoicyTbl: "sat (calls_only is_read_call) (checkAlertPoicyTbl E no)"
  unfolding checkAlertPoicyTbl_def policy_object_def by (intro calls_sat) simp_all

lemma read_policy_columns_exceptions: "read_policy_columns m = Inl e \<Longrightarrow> e \<noteq> Undefined"
  by (auto simp: read_policy_columns_def opt_column_def bindR_eq_Inl dest: pure_exceptions
      split: option.splits)

lemma raises_checkAlertPoicyTbl: "raises (\<lambda>e. e \<noteq> Undefined) (checkAlertPoicyTbl E no)"
  unfolding checkAlertPoicyTbl_def policy_object_def
  by (intro raises_catch [where Q = "\<lambda>e. e \<noteq> Undefined"] raises_intros raises_bus_call raises_lift)
    (auto dest: pure_exceptions read_policy_columns_exceptions)

lemma yields_collect:
  "(\<And>x. yields (list_all P) (f x)) \<Longrightarrow> yields (list_all P) (collectE xs f)"
proof (induction xs)
  case Nil
  show ?case unfolding collectE.simps by (rule yields_ret) simp
next
  case (Cons x xs)
  then show ?case
    by (auto intro!: yields_bind_via [where Q = "list_all P"] yields_ret)
qed

section \<open>Properties\<close>

text \<open>The policy lookup returns only rows of the asked policy that may alert: every row has the
  wanted group number and is enabled, except that rows of an object without the \<open>EnableAlert\<close>
  column come back with the value 0; for a number that is not positive nothing is asked of anybody.\<close>

theorem policies_of_the_group:
  "if no \<le> 0 then checkAlertPoicyTbl E no s = (Inr [], s)
   else case fst (checkAlertPoicyTbl E no s) of
      Inl e \<Rightarrow> e \<noteq> Undefined
    | Inr rows \<Rightarrow> list_all (\<lambda>r. AlertPolicyGroupNum r = of_int no \<and> EnableAlert r \<in> {0, 1}) rows"
proof -
  let ?P = "\<lambda>r. AlertPolicyGroupNum r = of_int no \<and> EnableAlert r \<in> {0, 1}"
  have rows: "list_all ?P (policy_rows c (of_int no))" for c
    by (auto simp: list_all_iff set_policy_rows policy_row_Some)
  have "yields (list_all ?P) (checkAlertPoicyTbl E no)"
    unfolding checkAlertPoicyTbl_def policy_object_def
    by (intro yields_intros yields_collect rows) simp_all
  moreover obtain r s' where "checkAlertPoicyTbl E no s = (r, s')" by (cases "checkAlertPoicyTbl E no s")
  ultimately have "case fst (checkAlertPoicyTbl E no s) of
      Inl e \<Rightarrow> e \<noteq> Undefined | Inr rows \<Rightarrow> list_all ?P rows"
    using raisesD [OF raises_checkAlertPoicyTbl, of E no s] by (auto simp: yields_def split: sum.split)
  moreover have "no \<le> 0 \<Longrightarrow> checkAlertPoicyTbl E no s = (Inr [], s)"
    by (simp add: checkAlertPoicyTbl_def)
  ultimately show ?thesis by simp
qed

text \<open>The rows of a policy object are read column by column: row \<open>i\<close> is returned exactly when its
  group number is the wanted one and the \<open>EnableAlert\<close> column, if there is one, has 1 at \<open>i\<close>; its
  fields are those of row \<open>i\<close>, with 0 or the empty text where a column is absent or ends before \<open>i\<close>.\<close>

theorem policy_rows_exact:
  "r \<in> set (policy_rows c no) \<longleftrightarrow>
     (\<exists>i < length (pc_group c).
        pc_group c ! i = no
        \<and> (case pc_enable c of None \<Rightarrow> True | Some xs \<Rightarrow> i < length xs \<and> xs ! i = 1)
        \<and> r = \<lparr>AlertPolicyEntry = 0, AlertPolicyGroupNum = no,
               EnableAlert = (if pc_enable c = None then 0 else 1),
               PolicyAction = column_at (pc_action c) i 0, ChannelNo = column_at (pc_channel c) i 0,
               DestinationSel = column_at (pc_dest c) i 0,
               EventSpecificAlertStr = column_at (pc_str c) i '''', AlertStingkey = 0\<rparr>)"
  by (auto simp: set_policy_rows policy_row_Some split: option.splits)

end
