(* ===== verification/PefAction.thy ===== *)
theory PefAction
  imports Alerts AlertPolicy
begin

text \<open>
  The actions on a matched event (\<open>performPefAction\<close> in \<open>src/pef_action.cpp\<close>): the power actions that
  the entry and the global control both allow, and the alerts to the destinations of the enabled
  policies of the entry.
\<close>

section \<open>Constants\<close>

definition ALERT_ACTION :: u8 where "ALERT_ACTION = 0x01"
definition POWER_OFF_ACTION :: u8 where "POWER_OFF_ACTION = 0x02"
definition RESET_ACTION :: u8 where "RESET_ACTION = 0x04"
definition POWER_CYCLE_ACTION :: u8 where "POWER_CYCLE_ACTION = 0x08"

lemmas action_constants =
  ALERT_ACTION_def POWER_OFF_ACTION_def RESET_ACTION_def POWER_CYCLE_ACTION_def

definition has_action :: "u8 \<Rightarrow> u8 \<Rightarrow> bool" where
  "has_action bits act \<longleftrightarrow> bits AND act = act"

text \<open>The entry asks for the action and the global control allows it.\<close>

definition allowed :: "EvtFilterTblEntry \<Rightarrow> pefConfInfo \<Rightarrow> u8 \<Rightarrow> bool" where
  "allowed e cfg act \<longleftrightarrow>
     has_action (EvtFilterAction e) act \<and> has_action (PEFActionGblControl cfg) act"

definition log_action :: "'w env \<Rightarrow> pefConfInfo \<Rightarrow> u8 \<Rightarrow> ('w, unit) act" where
  "log_action E cfg act = whenE (PEFControl cfg AND 0x02 \<noteq> 0) (PEFActionSELLOG E act)"

section \<open>Power\<close>

definition power_action :: "'w env \<Rightarrow> EvtFilterTblEntry \<Rightarrow> pefConfInfo \<Rightarrow> ('w, unit) act" where
  "power_action E e cfg =
     whenE (has_action (EvtFilterAction e) POWER_OFF_ACTION
            \<or> has_action (EvtFilterAction e) POWER_CYCLE_ACTION
            \<or> has_action (EvtFilterAction e) RESET_ACTION)
       (if allowed e cfg POWER_OFF_ACTION then
          thenE (log_action E cfg POWER_OFF_ACTION)
            (thenE (initiateChassisStateTransition E pwrCtlOff) (ret ()))
        else if allowed e cfg POWER_CYCLE_ACTION \<or> allowed e cfg RESET_ACTION then
          thenE (whenE (PEFControl cfg AND 0x02 \<noteq> 0)
                  (if allowed e cfg POWER_CYCLE_ACTION then PEFActionSELLOG E POWER_CYCLE_ACTION
                   else whenE (allowed e cfg RESET_ACTION) (PEFActionSELLOG E RESET_ACTION)))
            (bindE (getPowerStatus E) (\<lambda>power.
               if power then thenE (initiateStateTransition E pwrStateReset) (ret ()) else ret ()))
        else ret ())"

section \<open>Alerts\<close>

definition lanObjPath :: "string \<Rightarrow> string" where
  "lanObjPath ifaceName = ''/xyz/openbmc_project/PefAlertManager/Interface_'' @ ifaceName"

definition lan_params_call :: "string \<Rightarrow> ecall" where
  "lan_params_call ifaceName =
     get_all_properties pefBus (lanObjPath ifaceName) ''xyz.openbmc_project.pef.LanParamConfig''"

text \<open>The destination type and the user of the selected destination, from the properties; \<open>None\<close> is a
  \<open>continue\<close>.\<close>

definition chosen_destination ::
  "(string \<times> dval) list \<Rightarrow> nat \<Rightarrow> exn + (u8 \<times> string) option" where
  "chosen_destination lanParamValues destinationIndex =
     (case map_of lanParamValues ''Type'' of
        None \<Rightarrow> Inr None
      | Some tv \<Rightarrow>
          bindR (get_u8s tv) (\<lambda>typeEntries.
          if typeEntries = [] then Inr None
          else if \<not> destinationIndex < length typeEntries then Inr None
          else
            let selectedIndex = size_sub destinationIndex 1
            in bindR (index_unchecked typeEntries selectedIndex) (\<lambda>DestinationType.
               bindR (opt_column get_strs lanParamValues ''userName'') (\<lambda>userNameEntries.
               let selectedUserName = column_at userNameEntries selectedIndex ''''
               in if DestinationType = 3 \<and> selectedUserName = '''' then Inr None
                  else Inr (Some (DestinationType, selectedUserName))))))"

definition select_destination ::
  "'w env \<Rightarrow> eth_channel_map \<Rightarrow> AlertPolicyTbl \<Rightarrow> ('w, (u8 \<times> string) option) act" where
  "select_destination E ethMap row =
     catchE sdbus_exception
       (let ifaceName = getInterfaceNameForChannel (ChannelNo row) ethMap
        in if ifaceName = '''' then ret None
           else
             bindE (bus_call E (lan_params_call ifaceName)) (\<lambda>(err, v).
             if err then ret None
             else
               bindE (liftE (read_props v)) (\<lambda>lanParamValues.
                 liftE (chosen_destination lanParamValues (unat (DestinationSel row))))))
       (ret None)"

definition set_last_event_call :: "EventMsgData \<Rightarrow> ecall" where
  "set_last_event_call ev =
     set_property pefBus pefObj pefConfInfoIntf ''LastBMCProcessedEventID'' (DU16 (recordId ev))"

definition smtp_alert ::
  "'w env \<Rightarrow> pefConfInfo \<Rightarrow> EventMsgData \<Rightarrow> string \<Rightarrow> ('w, unit) act" where
  "smtp_alert E cfg ev selectedUserName =
     thenE (log_action E cfg ALERT_ACTION)
       (bindE (getSmtpMailID E selectedUserName) (\<lambda>smtpMailIdOpt.
        bindE (sendSmtpAlert E ev (case smtpMailIdOpt of None \<Rightarrow> '''' | Some m \<Rightarrow> m)) (\<lambda>alertStatus.
          whenE (alertStatus = 0)
            (catchE any_exception (thenE (bus_call E (set_last_event_call ev)) (ret ())) (ret ())))))"

definition snmp_alert ::
  "'w env \<Rightarrow> pefConfInfo \<Rightarrow> EventMsgData \<Rightarrow> AlertPolicyTbl \<Rightarrow> ('w, unit) act" where
  "snmp_alert E cfg ev row =
     thenE (log_action E cfg ALERT_ACTION)
       (thenE (sendSNMPAlert E ev (ChannelNo row) (DestinationSel row)) (ret ()))"

definition alert_policy ::
  "'w env \<Rightarrow> pefConfInfo \<Rightarrow> eth_channel_map \<Rightarrow> EventMsgData \<Rightarrow> AlertPolicyTbl \<Rightarrow> ('w, unit) act" where
  "alert_policy E cfg ethMap ev row =
     whenE (AlertPolicyGroupNum row \<noteq> 0)
       (bindE (select_destination E ethMap row) (\<lambda>dest. case dest of
          None \<Rightarrow> ret ()
        | Some (DestinationType, selectedUserName) \<Rightarrow>
            thenE (whenE (DestinationType = 3) (smtp_alert E cfg ev selectedUserName))
                  (whenE (DestinationType \<le> 2) (snmp_alert E cfg ev row))))"

definition alert_action ::
  "'w env \<Rightarrow> EvtFilterTblEntry \<Rightarrow> EventMsgData \<Rightarrow> eth_channel_map \<Rightarrow> pefConfInfo \<Rightarrow> ('w, unit) act" where
  "alert_action E e ev ethMap cfg =
     whenE (allowed e cfg ALERT_ACTION)
       (bindE (checkAlertPoicyTbl E (uint (AlertPolicyNum e AND 0x0F))) (\<lambda>Alertpolicy.
          forE Alertpolicy (alert_policy E cfg ethMap ev)))"

definition performPefAction ::
  "'w env \<Rightarrow> EvtFilterTblEntry list \<Rightarrow> EventMsgData \<Rightarrow> eth_channel_map \<Rightarrow> pefConfInfo
    \<Rightarrow> ('w, unit) act" where
  "performPefAction E matEveFltEntries ev ethMap cfg =
     forE matEveFltEntries (\<lambda>e.
       thenE (power_action E e cfg) (alert_action E e ev ethMap cfg))"

section \<open>The calls that an entry permits\<close>

definition is_sel_call :: "ecall \<Rightarrow> bool" where
  "is_sel_call c \<longleftrightarrow> (case c of
      Method svc path iface member args \<Rightarrow> svc = ''xyz.openbmc_project.Logging''
    | _ \<Rightarrow> False)"

text \<open>What each kind of call needs: a power transition or an alert needs its action bit in both the
  entry and the global control.\<close>

definition permitted :: "EvtFilterTblEntry \<Rightarrow> pefConfInfo \<Rightarrow> ecall \<Rightarrow> bool" where
  "permitted e cfg c \<longleftrightarrow>
     is_read_call c \<or> is_sel_call c
     \<or> (c = chassis_transition_call pwrCtlOff \<and> allowed e cfg POWER_OFF_ACTION)
     \<or> (c = host_transition_call pwrStateReset \<and> \<not> allowed e cfg POWER_OFF_ACTION
          \<and> (allowed e cfg POWER_CYCLE_ACTION \<or> allowed e cfg RESET_ACTION))
     \<or> ((alerting_call c \<or> (\<exists>ev. c = set_last_event_call ev)) \<and> allowed e cfg ALERT_ACTION)"

lemma permitted_simps [simp]:
  "is_read_call c \<Longrightarrow> permitted e cfg c" "permitted e cfg (sel_call a)"
  by (simp_all add: permitted_def is_sel_call_def sel_call_def)

lemma permitted_transitions:
  "allowed e cfg POWER_OFF_ACTION \<Longrightarrow> permitted e cfg (chassis_transition_call pwrCtlOff)"
  "\<not> allowed e cfg POWER_OFF_ACTION \<Longrightarrow>
   allowed e cfg POWER_CYCLE_ACTION \<or> allowed e cfg RESET_ACTION \<Longrightarrow>
   permitted e cfg (host_transition_call pwrStateReset)"
  "allowed e cfg ALERT_ACTION \<Longrightarrow> permitted e cfg (set_last_event_call ev)"
  by (auto simp: permitted_def)

lemma calls_log_action: "sat (calls_only (permitted e cfg)) (log_action E cfg' a)"
  unfolding log_action_def by (intro calls_sat calls_SELLOG) simp_all

lemma permitted_reads: "sat (calls_only is_read_call) m \<Longrightarrow> sat (calls_only (permitted e cfg)) m"
  by (erule sat_calls_mono) simp

lemma permitted_alerts:
  "allowed e cfg ALERT_ACTION \<Longrightarrow> sat (calls_only alerting_call) m \<Longrightarrow>
   sat (calls_only (permitted e cfg)) m"
  by (erule sat_calls_mono) (simp add: permitted_def)

lemma calls_power_action: "sat (calls_only (permitted e cfg)) (power_action E e cfg)"
  unfolding power_action_def
  by (intro calls_sat calls_log_action calls_SELLOG permitted_reads [OF reads_getPowerStatus]
      calls_initiateStateTransition calls_initiateChassisStateTransition)
    (simp_all add: permitted_transitions)

lemma reads_select_destination: "sat (calls_only is_read_call) (select_destination E ethMap row)"
  unfolding select_destination_def Let_def lan_params_call_def by (intro calls_sat) simp_all

lemma calls_alert_policy:
  assumes "allowed e cfg ALERT_ACTION"
  shows "sat (calls_only (permitted e cfg)) (alert_policy E cfg' ethMap ev row)"
  unfolding alert_policy_def smtp_alert_def snmp_alert_def
  by (intro calls_sat calls_log_action permitted_reads [OF reads_select_destination]
      permitted_reads [OF reads_getSmtpMailID] permitted_alerts [OF assms calls_sendSmtpAlert]
      permitted_alerts [OF assms calls_sendSNMPAlert])
    (use assms in \<open>simp_all add: permitted_transitions\<close>)

lemma calls_alert_action: "sat (calls_only (permitted e cfg)) (alert_action E e ev ethMap cfg)"
  unfolding alert_action_def
  by (intro calls_sat permitted_reads [OF reads_checkAlertPoicyTbl] calls_alert_policy)

lemma calls_performPefAction:
  "sat (calls_only (\<lambda>c. is_read_call c \<or> (\<exists>e \<in> set es. permitted e cfg c)))
     (performPefAction E es ev ethMap cfg)"
  unfolding performPefAction_def
proof (rule calls.sat_for)
  fix e
  assume e: "e \<in> set es"
  have "sat (calls_only (permitted e cfg))
      (thenE (power_action E e cfg) (alert_action E e ev ethMap cfg))"
    by (intro calls_sat calls_power_action calls_alert_action)
  then show "sat (calls_only (\<lambda>c. is_read_call c \<or> (\<exists>e \<in> set es. permitted e cfg c)))
      (thenE (power_action E e cfg) (alert_action E e ev ethMap cfg))"
    by (rule sat_calls_mono) (use e in blast)
qed

section \<open>Facts for the properties\<close>

lemma transitions_distinct [simp]:
  "\<not> is_read_call (chassis_transition_call x)" "\<not> is_read_call (host_transition_call y)"
  "chassis_transition_call x \<noteq> host_transition_call y"
  "\<not> is_sel_call (chassis_transition_call x)" "\<not> is_sel_call (host_transition_call y)"
  "\<not> alerting_call (chassis_transition_call x)" "\<not> alerting_call (host_transition_call y)"
  "chassis_transition_call x \<noteq> set_last_event_call ev"
  "host_transition_call y \<noteq> set_last_event_call ev"
  by (simp_all add: chassis_transition_call_def host_transition_call_def set_property_def is_sel_call_def
      set_last_event_call_def pwrService_def pefBus_def pwrStateObjPath_def pwrCtlObjPath_def
      alerting_call_def is_alert_call_def pendtaskService_def mailService_def is_read_call_def
      PROP_INTF_def METHOD_SET_def METHOD_GET_def METHOD_GET_ALL_def MAPPER_BUSNAME_def)

lemma alert_calls_distinct:
  "is_alert_call c \<Longrightarrow> \<not> is_sel_call c"
  by (auto simp: is_alert_call_def is_sel_call_def pendtaskService_def mailService_def split: ecall.splits)

lemma permitted_cases:
  "permitted e cfg (chassis_transition_call x) \<Longrightarrow> allowed e cfg POWER_OFF_ACTION"
  "permitted e cfg (host_transition_call y) \<Longrightarrow>
   \<not> allowed e cfg POWER_OFF_ACTION \<and> (allowed e cfg POWER_CYCLE_ACTION \<or> allowed e cfg RESET_ACTION)"
  "permitted e cfg c \<Longrightarrow> is_alert_call c \<Longrightarrow> allowed e cfg ALERT_ACTION"
  using read_not_alert alert_calls_distinct transitions_distinct
  by (auto simp: permitted_def dest: sym)
    (auto simp: is_alert_call_def chassis_transition_call_def host_transition_call_def set_property_def
      pwrService_def pendtaskService_def mailService_def)

text \<open>Answered calls.\<close>

definition bus_answers :: "'w env \<Rightarrow> bool" where
  "bus_answers E \<longleftrightarrow> (\<forall>w c. fst (e_bus E w c) \<noteq> BusError)"

lemma bus_answers_call:
  assumes "bus_answers E"
  obtains err v where "bus_call E c s = (Inr (err, v), after_call E c s)"
  using assms by (cases "fst (e_bus E (world s) c)") (auto simp: bus_answers_def bus_call_eq)

definition log_trace :: "pefConfInfo \<Rightarrow> u8 \<Rightarrow> ecall list" where
  "log_trace cfg act = (if PEFControl cfg AND 0x02 \<noteq> 0 then [OpenBus, sel_call act] else [])"

lemma SELLOG_answered:
  assumes "bus_answers E"
  shows "PEFActionSELLOG E a s = (Inr (), after_call E (sel_call a) (after_call E OpenBus s))"
proof -
  obtain e1 v1 where "bus_call E OpenBus s = (Inr (e1, v1), after_call E OpenBus s)"
    by (rule bus_answers_call [OF assms])
  moreover obtain e2 v2 where "bus_call E (sel_call a) (after_call E OpenBus s)
      = (Inr (e2, v2), after_call E (sel_call a) (after_call E OpenBus s))"
    by (rule bus_answers_call [OF assms])
  ultimately show ?thesis by (simp add: PEFActionSELLOG_def thenE_def bindE_def catchE_def)
qed

lemma log_action_answered:
  assumes "bus_answers E"
  obtains s' where "log_action E cfg a s = (Inr (), s')" and "trace s' = trace s @ log_trace cfg a"
  using assms that
  by (cases "PEFControl cfg AND 0x02 = 0") (simp_all add: log_action_def log_trace_def SELLOG_answered)

lemma initiate_answered:
  assumes "bus_answers E"
  shows "thenE (initiateChassisStateTransition E a) (ret ()) s
      = (Inr (), after_call E (chassis_transition_call a) s)"
    and "thenE (initiateStateTransition E a) (ret ()) s
      = (Inr (), after_call E (host_transition_call a) s)"
proof -
  obtain e1 v1 where "bus_call E (chassis_transition_call a) s
      = (Inr (e1, v1), after_call E (chassis_transition_call a) s)"
    by (rule bus_answers_call [OF assms])
  then show "thenE (initiateChassisStateTransition E a) (ret ()) s
      = (Inr (), after_call E (chassis_transition_call a) s)"
    by (simp add: initiateChassisStateTransition_def thenE_def bindE_def)
  obtain e2 v2 where "bus_call E (host_transition_call a) s
      = (Inr (e2, v2), after_call E (host_transition_call a) s)"
    by (rule bus_answers_call [OF assms])
  then show "thenE (initiateStateTransition E a) (ret ()) s
      = (Inr (), after_call E (host_transition_call a) s)"
    by (simp add: initiateStateTransition_def thenE_def bindE_def)
qed

definition power_state_call :: ecall where
  "power_state_call = get_property pwrService pwrStateObjPath pwrStateIface ''CurrentPowerState''"

definition host_on :: string where
  "host_on = ''xyz.openbmc_project.State.Chassis.PowerState.On''"

lemma getPowerStatus_answered:
  assumes "\<And>w. fst (e_bus E w power_state_call) = Reply False (DStr st)"
  shows "getPowerStatus E s = (Inr (st = host_on), after_call E power_state_call s)"
  using assms
  by (simp add: getPowerStatus_def bindE_def catchE_def bus_call_eq host_on_def
      power_state_call_def [symmetric])

text \<open>The calls that the power part of an entry makes on a bus that answers.\<close>

definition power_trace :: "EvtFilterTblEntry \<Rightarrow> pefConfInfo \<Rightarrow> bool \<Rightarrow> ecall list" where
  "power_trace e cfg on =
     (if allowed e cfg POWER_OFF_ACTION then
        log_trace cfg POWER_OFF_ACTION @ [chassis_transition_call pwrCtlOff]
      else if allowed e cfg POWER_CYCLE_ACTION \<or> allowed e cfg RESET_ACTION then
        log_trace cfg (if allowed e cfg POWER_CYCLE_ACTION then POWER_CYCLE_ACTION else RESET_ACTION)
        @ [power_state_call] @ (if on then [host_transition_call pwrStateReset] else [])
      else [])"

section \<open>Properties\<close>

text \<open>An event filter entry and a host for the instances.\<close>

definition entry_with :: "u8 \<Rightarrow> EvtFilterTblEntry" where
  "entry_with act =
     \<lparr>FilterConfig = 0x80, EvtFilterAction = act, AlertPolicyNum = 1, EventSeverity = 0,
      GenIDByte1 = 0xFF, GenIDByte2 = 0xFF, SensorType = 0xFF, SensorNum = 0xFF, EventTrigger = 0xFF,
      EventData1OffsetMask = 0xFFFF, EventData1ANDMask = 0, EventData1Cmp1 = 0, EventData1Cmp2 = 0,
      EventData2ANDMask = 0, EventData2Cmp1 = 0, EventData2Cmp2 = 0, EventData3ANDMask = 0,
      EventData3Cmp1 = 0, EventData3Cmp2 = 0\<rparr>"

definition conf_with :: "u8 \<Rightarrow> u8 \<Rightarrow> pefConfInfo" where
  "conf_with ctl gbl =
     \<lparr>PEFControl = ctl, PEFActionGblControl = gbl, PEFStartupDly = 0, PEFAlertStartupDly = 0\<rparr>"

definition on_env :: "unit env" where
  "on_env = table_env (\<lambda>_. Reply False (DStr host_on))"

lemma on_env_answers:
  "bus_answers on_env" "fst (e_bus on_env w power_state_call) = Reply False (DStr host_on)"
  by (simp_all add: bus_answers_def on_env_def)

lemma example_allowed:
  "allowed (entry_with 0x0A) (conf_with 3 0x0A) POWER_OFF_ACTION"
  "\<not> allowed (entry_with 0x0C) (conf_with 3 0x04) POWER_OFF_ACTION"
  "\<not> allowed (entry_with 0x0C) (conf_with 3 0x04) POWER_CYCLE_ACTION"
  "allowed (entry_with 0x0C) (conf_with 3 0x04) RESET_ACTION"
  "\<not> allowed (entry_with 0x0A) (conf_with 3 0x0A) ALERT_ACTION"
  by (simp_all add: allowed_def has_action_def entry_with_def conf_with_def action_constants)



text \<open>The power part of an entry, on a bus that answers: power-off comes first and excludes the
  others; a power cycle or reset is logged under its own code, asks for the power state, and resets the
  host only when it is on; log entries are written only when the PEF control enables them, before the
  action.\<close>

theorem power_action_trace:
  assumes "bus_answers E" and "\<And>w. fst (e_bus E w power_state_call) = Reply False (DStr st)"
  shows "fst (power_action E e cfg s) = Inr ()
    \<and> trace (snd (power_action E e cfg s)) = trace s @ power_trace e cfg (st = host_on)"
proof -
  have off: ?thesis if "allowed e cfg POWER_OFF_ACTION"
  proof -
    obtain s1 where "log_action E cfg POWER_OFF_ACTION s = (Inr (), s1)"
      "trace s1 = trace s @ log_trace cfg POWER_OFF_ACTION"
      by (rule log_action_answered [OF assms(1)])
    then show ?thesis using that initiate_answered(1) [OF assms(1), of pwrCtlOff s1]
      by (simp add: power_action_def power_trace_def allowed_def)
  qed
  let ?act = "if allowed e cfg POWER_CYCLE_ACTION then POWER_CYCLE_ACTION else RESET_ACTION"
  have reset: ?thesis if no: "\<not> allowed e cfg POWER_OFF_ACTION"
    and yes: "allowed e cfg POWER_CYCLE_ACTION \<or> allowed e cfg RESET_ACTION"
  proof -
    obtain s1 where l: "log_action E cfg ?act s = (Inr (), s1)" "trace s1 = trace s @ log_trace cfg ?act"
      by (rule log_action_answered [OF assms(1)])
    have "power_action E e cfg = thenE (log_action E cfg ?act)
        (bindE (getPowerStatus E) (\<lambda>power.
           if power then thenE (initiateStateTransition E pwrStateReset) (ret ()) else ret ()))"
      using no yes by (auto simp: power_action_def log_action_def allowed_def whenE_def)
    then show ?thesis
      using l no yes getPowerStatus_answered [OF assms(2), of s1]
        initiate_answered(2) [OF assms(1), of pwrStateReset "after_call E power_state_call s1"]
      by (simp add: power_trace_def)
  qed
  have none: ?thesis if "\<not> allowed e cfg POWER_OFF_ACTION" "\<not> allowed e cfg POWER_CYCLE_ACTION"
    "\<not> allowed e cfg RESET_ACTION"
    using that by (simp add: power_action_def power_trace_def whenE_def)
  show ?thesis using off reset none by blast
qed

theorem power_action_trace_witness:
  "trace (snd (power_action on_env (entry_with 0x0C) (conf_with 3 0x04) (initial_sys ())))
     = [OpenBus, sel_call RESET_ACTION, power_state_call, host_transition_call pwrStateReset]"
  using power_action_trace [OF on_env_answers, of "entry_with 0x0C" "conf_with 3 0x04" "initial_sys ()"]
    example_allowed
  by (simp add: power_trace_def log_trace_def conf_with_def)

section \<open>Destinations\<close>

lemma opt_column_exceptions:
  "opt_column get_strs m k = Inl e \<Longrightarrow> e = BadVariantAccess"
  by (auto simp: opt_column_def bindR_eq_Inl dest: pure_exceptions split: option.splits)

lemma chosen_destination_safe:
  assumes "chosen_destination m k = Inl e" and "k \<noteq> 0"
  shows "e \<noteq> Undefined"
proof -
  have "index_unchecked xs (k - 1) \<noteq> Inl e'" if "k < length xs" for xs :: "u8 list" and e'
    using that by (auto simp: index_unchecked_def)
  then show ?thesis
    using assms
    by (auto simp: chosen_destination_def Let_def bindR_eq_Inl
        dest: get_exceptions opt_column_exceptions split: option.splits if_splits)
qed

lemma chosen_destination_defined:
  "sel \<noteq> (0 :: u8) \<Longrightarrow> chosen_destination m (unat sel) \<noteq> Inl Undefined"
  using chosen_destination_safe [of m "unat sel" Undefined] unat_eq_zero [of sel] by auto

lemma raises_select_destination:
  "DestinationSel row \<noteq> 0 \<Longrightarrow> raises (\<lambda>e. e \<noteq> Undefined) (select_destination E ethMap row)"
  unfolding select_destination_def Let_def
  by (intro raises_catch [where Q = "\<lambda>e. e \<noteq> Undefined"] raises_intros raises_bus_call raises_lift)
    (auto dest: pure_exceptions simp: chosen_destination_defined)

lemma raises_SELLOG: "raises (\<lambda>e. e \<noteq> Undefined) (PEFActionSELLOG E a)"
  unfolding PEFActionSELLOG_def
  by (intro raises_catch [where Q = "\<lambda>e. e \<noteq> Undefined"] raises_intros raises_bus_call) simp_all

lemma number_sensors_exception: "fst (number_sensors n i tree m) = Inl e \<Longrightarrow> e = OutOfRange"
  by (induction n i tree m rule: number_sensors.induct) (auto simp: Let_def split: option.splits)

lemma raises_breply:
  "raises P m \<Longrightarrow> (\<And>e v. raises P (f e v)) \<Longrightarrow>
   raises P (case r of BusError \<Rightarrow> m | Reply e v \<Rightarrow> f e v)"
  by (cases r) auto

lemma raises_getSensorSubtree: "raises (\<lambda>e. e \<noteq> Undefined) (getSensorSubtree E)"
  unfolding getSensorSubtree_def
  by (intro raises_breply raises_catch [where Q = "\<lambda>e. e = DBusError"] raises_intros raises_ext_call
      raises_bus_call raises_lift) (auto dest: pure_exceptions)

lemma raises_getPathFromSensorNumber: "raises (\<lambda>e. e \<noteq> Undefined) (getPathFromSensorNumber E n ty)"
proof -
  have "outcome \<noteq> Inl Undefined" if "number_sensors 0 0 tree [] = (outcome, m)" for tree outcome m
    using number_sensors_exception [of 0 0 tree "[]"] that by auto
  then show ?thesis
    unfolding lookup_defs getSensorNumMap_def Let_def
    by (intro raises_intros raises_lift raises_getSensorSubtree) auto
qed

lemma raises_sendSNMPAlert: "raises (\<lambda>e. e \<noteq> Undefined) (sendSNMPAlert E ev ch sel)"
  unfolding sendSNMPAlert_def Let_def queue_snmp_def bmc_address_def getIPAddress_def getCurrentTime_def
    sendOBMCErrorNotification_def
  by (intro raises_catch [where Q = "\<lambda>e. e \<noteq> Undefined"] raises_intros raises_bus_call raises_lift
      raises_getPathFromSensorNumber raises_getEthChannelInterfaceMap raises_sendTrap)
    (auto dest: pure_exceptions json_exceptions)

lemma raises_mail_service_ready: "raises (\<lambda>e. e \<noteq> Undefined) (mail_service_ready E i)"
  unfolding mail_service_ready_def resolveHost_def
  by (intro raises_catch [where Q = "\<lambda>e. e \<noteq> Undefined"] raises_intros raises_bus_call raises_lift)
    (auto dest: pure_exceptions)

lemma raises_sendSmtpAlert: "raises (\<lambda>e. e \<noteq> Undefined) (sendSmtpAlert E ev m)"
  unfolding sendSmtpAlert_def Let_def alert_subject_def alert_body_def get_string_def deliver_mail_def
    isMailAlertConfigured_def
  by (intro raises_catch [where Q = "\<lambda>e. e \<noteq> Undefined"] raises_intros raises_bus_call raises_lift
      raises_getPathFromSensorNumber raises_mail_service_ready)
    (auto dest: pure_exceptions)

lemma raises_getSmtpMailID: "raises P (getSmtpMailID E u)"
  unfolding getSmtpMailID_def
  by (intro raises_catch_any raises_intros raises_bus_call raises_lift) (auto dest: pure_exceptions)

lemma raises_alert_policy:
  assumes "DestinationSel row \<noteq> 0"
  shows "raises (\<lambda>e. e \<noteq> Undefined) (alert_policy E cfg ethMap ev row)"
  unfolding alert_policy_def smtp_alert_def snmp_alert_def log_action_def
  by (intro raises_catch_any raises_intros raises_bus_call raises_SELLOG raises_getSmtpMailID
      raises_sendSmtpAlert raises_sendSNMPAlert raises_select_destination [OF assms]) simp_all

text \<open>C18. Destinations are read one short: for a selector \<open>k\<close> from 1 to one less than the number of
  destinations the type and user of entry \<open>k - 1\<close> are used (and a mail destination without a user is
  skipped); the last destination is never used, because a selector equal to the number of destinations
  is already treated as out of range.\<close>

theorem destination_one_short:
  assumes "map_of m ''Type'' = Some (DU8s types)" and "map_of m ''userName'' = Some (DStrs users)"
    and "length users = length types" and "k \<noteq> 0"
  shows "chosen_destination m k =
    (if k < length types then
       (if types ! (k - 1) = 3 \<and> users ! (k - 1) = '''' then Inr None
        else Inr (Some (types ! (k - 1), users ! (k - 1))))
     else Inr None)"
proof (cases "k < length types")
  case True
  moreover have "k - 1 < length types" using True by simp
  ultimately show ?thesis
    using assms
    by (cases "types = []") (simp_all add: chosen_destination_def opt_column_def column_at_def Let_def)
next
  case False
  then show ?thesis using assms by (simp add: chosen_destination_def)
qed

theorem destination_one_short_witness:
  "chosen_destination [(''Type'', DU8s [1, 3]), (''userName'', DStrs [''trap'', ''ops''])] 1
      = Inr (Some (1, ''trap''))
   \<and> chosen_destination [(''Type'', DU8s [1, 3]), (''userName'', DStrs [''trap'', ''ops''])] 2 = Inr None"
  using destination_one_short [of "[(''Type'', DU8s [1, 3]), (''userName'', DStrs [''trap'', ''ops''])]"
      "[1, 3]" "[''trap'', ''ops'']" 1]
    destination_one_short [of "[(''Type'', DU8s [1, 3]), (''userName'', DStrs [''trap'', ''ops''])]"
      "[1, 3]" "[''trap'', ''ops'']" 2]
  by simp

text \<open>A zero selector is undefined behaviour: for an enabled policy row with \<open>DestinationSel\<close> 0
  on a channel with an interface whose LAN parameters list any destination types, the handler reads the
  type vector far out of range.\<close>

theorem zero_selector_undefined:
  assumes "DestinationSel row = 0" and "AlertPolicyGroupNum row \<noteq> 0"
    and "getInterfaceNameForChannel (ChannelNo row) ethMap = iface" and "iface \<noteq> ''''"
    and "fst (e_bus E (world s) (lan_params_call iface)) = Reply False (DProps m)"
    and "map_of m ''Type'' = Some (DU8s types)" and "types \<noteq> []" and "length types < 2 ^ 64"
  shows "fst (alert_policy E cfg ethMap ev row s) = Inl Undefined"
proof -
  have "index_unchecked types (size_sub 0 1) = Inl Undefined"
    using assms(8) by (simp add: index_unchecked_def size_sub_def)
  then have "chosen_destination m 0 = Inl Undefined"
    using assms(6,7) by (simp add: chosen_destination_def)
  then have "fst (select_destination E ethMap row s) = Inl Undefined"
    using assms(1,3-5) by (simp add: select_destination_def Let_def bus_call_Reply bindE_def catchE_def)
  then show ?thesis
    using assms(2) by (cases "select_destination E ethMap row s") (simp add: alert_policy_def)
qed

theorem zero_selector_undefined_witness:
  "fst (alert_policy (table_env (\<lambda>_. Reply False (DProps [(''Type'', DU8s [1])]))) (conf_with 3 1)
     [(1, ''eth0'')] fan_event
     \<lparr>AlertPolicyEntry = 0, AlertPolicyGroupNum = 1, EnableAlert = 1, PolicyAction = 0, ChannelNo = 1,
      DestinationSel = 0, EventSpecificAlertStr = '''', AlertStingkey = 0\<rparr> (initial_sys ()))
   = Inl Undefined"
  by (rule zero_selector_undefined [where iface = "''eth0''" and m = "[(''Type'', DU8s [1])]"
        and types = "[1]"]) simp_all

text \<open>C19. Zero is the only selector that can do that: with any other selector, handling a policy row
  never leaves defined behaviour, whatever the services answer.\<close>

theorem nonzero_selector_defined:
  assumes "DestinationSel row \<noteq> 0"
  shows "fst (alert_policy E cfg ethMap ev row s) \<noteq> Inl Undefined"
  using raisesD [OF raises_alert_policy [OF assms], of E cfg ethMap ev s]
  by (cases "alert_policy E cfg ethMap ev row s") auto

theorem nonzero_selector_defined_witness:
  "fst (alert_policy (table_env (\<lambda>_. Reply False (DProps [(''Type'', DU8s [1])]))) (conf_with 3 1)
     [(1, ''eth0'')] fan_event
     \<lparr>AlertPolicyEntry = 0, AlertPolicyGroupNum = 1, EnableAlert = 1, PolicyAction = 0, ChannelNo = 1,
      DestinationSel = 1, EventSpecificAlertStr = '''', AlertStingkey = 0\<rparr> (initial_sys ()))
   \<noteq> Inl Undefined"
  by (rule nonzero_selector_defined) simp

end
