(* ===== verification/EventFilter.thy ===== *)
theory EventFilter
  imports PefAction
begin

text \<open>
  The event filter table and the entry point of the daemon (\<open>eventFilteringProcess\<close> and \<open>pefTask\<close> in
  \<open>src/pef_action.cpp\<close>): the columns of each filter list are read from the configuration daemon, the
  entries that match the event are collected over all lists, and the actions are performed on them.
\<close>

section \<open>Filter lists\<close>

definition eventFilterTableIntf :: string where
  "eventFilterTableIntf = ''xyz.openbmc_project.pef.EventFilterTable''"
definition eventFilterTableRoot :: string where
  "eventFilterTableRoot = ''/xyz/openbmc_project/PefAlertManager/EventFilterTable''"
definition pefPostponeTmrObj :: string where
  "pefPostponeTmrObj = ''/xyz/openbmc_project/PefAlertManager/ArmPostponeTimer''"
definition pefPostponeTmrIface :: string where
  "pefPostponeTmrIface = ''xyz.openbmc_project.pef.PEFPostponeTimer''"

text \<open>One filter list, by columns.\<close>

record filter_columns =
  fc_FilterConfig :: "u8 list"
  fc_GenIDByte1 :: "u8 list"
  fc_GenIDByte2 :: "u8 list"
  fc_SensorType :: "u8 list"
  fc_SensorNum :: "u8 list"
  fc_EventTrigger :: "u8 list"
  fc_EventData1ANDMask :: "u8 list"
  fc_EventData1Cmp1 :: "u8 list"
  fc_EventData1Cmp2 :: "u8 list"
  fc_EventData2ANDMask :: "u8 list"
  fc_EventData2Cmp1 :: "u8 list"
  fc_EventData2Cmp2 :: "u8 list"
  fc_EventData3ANDMask :: "u8 list"
  fc_EventData3Cmp1 :: "u8 list"
  fc_EventData3Cmp2 :: "u8 list"
  fc_EventData1OffsetMask :: "u16 list"
  fc_EvtFilterAction :: "u8 list"
  fc_AlertPolicyNum :: "u8 list"
  fc_EventSeverity :: "u8 list"

text \<open>\<open>std::get<std::vector<uint8_t>>(values.at(name))\<close>, and the same for 16 bits.\<close>

definition col8 :: "(string \<times> dval) list \<Rightarrow> string \<Rightarrow> exn + u8 list" where
  "col8 values name = bindR (map_at values name) get_u8s"

definition col16 :: "(string \<times> dval) list \<Rightarrow> string \<Rightarrow> exn + u16 list" where
  "col16 values name = bindR (map_at values name) get_u16s"

definition read_filter_columns :: "(string \<times> dval) list \<Rightarrow> exn + filter_columns" where
  "read_filter_columns values =
     bindR (col8 values ''FilterConfig'') (\<lambda>c1.
     bindR (col8 values ''GenIDByte1'') (\<lambda>c2.
     bindR (col8 values ''GenIDByte2'') (\<lambda>c3.
     bindR (col8 values ''SensorType'') (\<lambda>c4.
     bindR (col8 values ''SensorNum'') (\<lambda>c5.
     bindR (col8 values ''EventTrigger'') (\<lambda>c6.
     bindR (col8 values ''EventData1ANDMask'') (\<lambda>c7.
     bindR (col8 values ''EventData1Cmp1'') (\<lambda>c8.
     bindR (col8 values ''EventData1Cmp2'') (\<lambda>c9.
     bindR (col8 values ''EventData2ANDMask'') (\<lambda>c10.
     bindR (col8 values ''EventData2Cmp1'') (\<lambda>c11.
     bindR (col8 values ''EventData2Cmp2'') (\<lambda>c12.
     bindR (col8 values ''EventData3ANDMask'') (\<lambda>c13.
     bindR (col8 values ''EventData3Cmp1'') (\<lambda>c14.
     bindR (col8 values ''EventData3Cmp2'') (\<lambda>c15.
     bindR (col16 values ''EventData1OffsetMask'') (\<lambda>c16.
     bindR (col8 values ''EvtFilterAction'') (\<lambda>c17.
     bindR (col8 values ''AlertPolicyNum'') (\<lambda>c18.
     bindR (col8 values ''EventSeverity'') (\<lambda>c19.
       Inr \<lparr>fc_FilterConfig = c1, fc_GenIDByte1 = c2, fc_GenIDByte2 = c3, fc_SensorType = c4,
            fc_SensorNum = c5, fc_EventTrigger = c6, fc_EventData1ANDMask = c7,
            fc_EventData1Cmp1 = c8, fc_EventData1Cmp2 = c9, fc_EventData2ANDMask = c10,
            fc_EventData2Cmp1 = c11, fc_EventData2Cmp2 = c12, fc_EventData3ANDMask = c13,
            fc_EventData3Cmp1 = c14, fc_EventData3Cmp2 = c15, fc_EventData1OffsetMask = c16,
            fc_EvtFilterAction = c17, fc_AlertPolicyNum = c18, fc_EventSeverity = c19\<rparr>)))))))))))))))))))"

text \<open>One row of the list: \<open>None\<close> is the \<open>continue\<close> for a row that some column does not reach.\<close>

definition row_complete :: "filter_columns \<Rightarrow> nat \<Rightarrow> bool" where
  "row_complete c idx \<longleftrightarrow>
     idx < length (fc_FilterConfig c)
     \<and> idx < length (fc_GenIDByte1 c)
     \<and> idx < length (fc_GenIDByte2 c)
     \<and> idx < length (fc_SensorType c)
     \<and> idx < length (fc_SensorNum c)
     \<and> idx < length (fc_EventTrigger c)
     \<and> idx < length (fc_EventData1ANDMask c)
     \<and> idx < length (fc_EventData1Cmp1 c)
     \<and> idx < length (fc_EventData1Cmp2 c)
     \<and> idx < length (fc_EventData2ANDMask c)
     \<and> idx < length (fc_EventData2Cmp1 c)
     \<and> idx < length (fc_EventData2Cmp2 c)
     \<and> idx < length (fc_EventData3ANDMask c)
     \<and> idx < length (fc_EventData3Cmp1 c)
     \<and> idx < length (fc_EventData3Cmp2 c)
     \<and> idx < length (fc_EventData1OffsetMask c)
     \<and> idx < length (fc_EvtFilterAction c)
     \<and> idx < length (fc_AlertPolicyNum c)
     \<and> idx < length (fc_EventSeverity c)"

definition row_entry :: "filter_columns \<Rightarrow> nat \<Rightarrow> EvtFilterTblEntry" where
  "row_entry c idx =
     \<lparr>FilterConfig = fc_FilterConfig c ! idx,
      EvtFilterAction = fc_EvtFilterAction c ! idx,
      AlertPolicyNum = fc_AlertPolicyNum c ! idx,
      EventSeverity = fc_EventSeverity c ! idx,
      GenIDByte1 = fc_GenIDByte1 c ! idx,
      GenIDByte2 = fc_GenIDByte2 c ! idx,
      SensorType = fc_SensorType c ! idx,
      SensorNum = fc_SensorNum c ! idx,
      EventTrigger = fc_EventTrigger c ! idx,
      EventData1OffsetMask = fc_EventData1OffsetMask c ! idx,
      EventData1ANDMask = fc_EventData1ANDMask c ! idx,
      EventData1Cmp1 = fc_EventData1Cmp1 c ! idx,
      EventData1Cmp2 = fc_EventData1Cmp2 c ! idx,
      EventData2ANDMask = fc_EventData2ANDMask c ! idx,
      EventData2Cmp1 = fc_EventData2Cmp1 c ! idx,
      EventData2Cmp2 = fc_EventData2Cmp2 c ! idx,
      EventData3ANDMask = fc_EventData3ANDMask c ! idx,
      EventData3Cmp1 = fc_EventData3Cmp1 c ! idx,
      EventData3Cmp2 = fc_EventData3Cmp2 c ! idx\<rparr>"

definition filter_row :: "filter_columns \<Rightarrow> nat \<Rightarrow> EvtFilterTblEntry option" where
  "filter_row c idx = (if row_complete c idx then Some (row_entry c idx) else None)"

definition list_rows :: "filter_columns \<Rightarrow> EvtFilterTblEntry list" where
  "list_rows c = List.map_filter (filter_row c) [0..<length (fc_FilterConfig c)]"

definition filter_list_call :: "nat \<Rightarrow> ecall" where
  "filter_list_call groupIndex =
     get_all_properties pefBus (eventFilterTableRoot @ ''/List'' @ to_string groupIndex)
       eventFilterTableIntf"

definition filter_list ::
  "'w env \<Rightarrow> EventMsgData \<Rightarrow> nat \<Rightarrow> ('w, EvtFilterTblEntry list) act" where
  "filter_list E ev groupIndex =
     catchE sdbus_exception
       (bindE (bus_call E (filter_list_call groupIndex)) (\<lambda>(err, v).
        bindE (liftE (read_props v)) (\<lambda>values.
        bindE (liftE (read_filter_columns values)) (\<lambda>c.
          ret (filter (\<lambda>e. entry_matches e ev) (list_rows c))))))
       (ret [])"

section \<open>Filtering\<close>

text \<open>The entries that match, over all lists; none when there is no list.\<close>

definition matched_entries :: "'w env \<Rightarrow> EventMsgData \<Rightarrow> ('w, EvtFilterTblEntry list) act" where
  "matched_entries E ev =
     bindE (getImmediateChildObjectPathCount E eventFilterTableRoot) (\<lambda>eventFilterChildPathCount.
       if eventFilterChildPathCount = 0 then ret []
       else collectE [1..<Suc eventFilterChildPathCount] (filter_list E ev))"

definition eventFilteringProcess :: "'w env \<Rightarrow> EventMsgData \<Rightarrow> ('w, unit) act" where
  "eventFilteringProcess E ev =
     bindE (matched_entries E ev) (\<lambda>matched.
       if matched \<noteq> [] then
         bindE (getEthChannelInterfaceMap E) (\<lambda>ethMap.
         bindE (getPefConfInfo E) (\<lambda>pefCfgInfo.
           case pefCfgInfo of
             None \<Rightarrow> ret ()
           | Some cfg \<Rightarrow> performPefAction E matched ev ethMap cfg))
       else ret ())"

section \<open>The task\<close>

definition pef_control_call :: ecall where
  "pef_control_call = get_property pefBus pefObj pefConfInfoIntf ''PEFControl''"

definition postpone_timer_call :: ecall where
  "postpone_timer_call = get_property pefBus pefPostponeTmrObj pefPostponeTmrIface ''ArmPEFPostponeTmr''"

definition task_event ::
  "u16 \<Rightarrow> u8 \<Rightarrow> u8 \<Rightarrow> u8 \<Rightarrow> u8 \<Rightarrow> u8 \<Rightarrow> u8 \<Rightarrow> u16 \<Rightarrow> string \<Rightarrow> EventMsgData" where
  "task_event recId senType senNum eveType eveData1 eveData2 eveData3 genId text =
     \<lparr>recordId = recId, generatorId1 = ucast (drop_bit 8 genId AND 0xff),
      generatorId2 = ucast (genId AND 0xff), sensorNum = senNum, sensorType = senType,
      eventType = eveType, eventData0 = eveData1, eventData1 = eveData2, eventData2 = eveData3,
      msgStr = text\<rparr>"

text \<open>A \<open>Get\<close> of one byte; \<open>None\<close> is the early return of the handler.\<close>

definition get_byte :: "'w env \<Rightarrow> ecall \<Rightarrow> ('w, u8 option) act" where
  "get_byte E c =
     catchE sdbus_exception
       (bindE (bus_call E c) (\<lambda>(err, v). bindE (liftE (get_u8 v)) (\<lambda>x. ret (Some x))))
       (ret None)"

definition pefTask ::
  "'w env \<Rightarrow> u16 \<Rightarrow> u8 \<Rightarrow> u8 \<Rightarrow> u8 \<Rightarrow> u8 \<Rightarrow> u8 \<Rightarrow> u8 \<Rightarrow> u16 \<Rightarrow> string \<Rightarrow> ('w, unit) act" where
  "pefTask E recId senType senNum eveType eveData1 eveData2 eveData3 genId text =
     bindE (get_byte E pef_control_call) (\<lambda>ctl. case ctl of
       None \<Rightarrow> ret ()
     | Some pefCtl \<Rightarrow>
         bindE (get_byte E postpone_timer_call) (\<lambda>tmr. case tmr of
           None \<Rightarrow> ret ()
         | Some pefPostponeTimer \<Rightarrow>
             if pefPostponeTimer = 0xFE \<or> (pefPostponeTimer \<noteq> 0x00 \<and> pefPostponeTimer \<noteq> 0xFF)
             then ret ()
             else if pefCtl AND 0x01 = 0 then ret ()
             else eventFilteringProcess E
                    (task_event recId senType senNum eveType eveData1 eveData2 eveData3 genId text)))"

section \<open>Facts\<close>

lemma set_list_rows:
  "list_rows c = map (row_entry c) (filter (row_complete c) [0..<length (fc_FilterConfig c)])"
proof -
  have "List.map_filter (filter_row c) xs = map (row_entry c) (filter (row_complete c) xs)" for xs
    by (induction xs) (simp_all add: List.map_filter_simps filter_row_def)
  then show ?thesis by (simp add: list_rows_def)
qed

lemma matching_rows:
  "filter (\<lambda>e. entry_matches e ev) (list_rows c) =
     map (row_entry c) (filter (\<lambda>i. row_complete c i \<and> filter_spec (row_entry c i) ev)
       [0..<length (fc_FilterConfig c)])"
  by (simp add: set_list_rows filter_map comp_def entry_matches_filter conj_commute)

lemma filter_list_call_read [simp]: "is_read_call (filter_list_call n)"
  by (simp add: filter_list_call_def)

lemma reads_filter_list: "sat (calls_only is_read_call) (filter_list E ev g)"
  unfolding filter_list_def by (intro calls_sat) simp_all

lemma reads_matched_entries: "sat (calls_only is_read_call) (matched_entries E ev)"
  unfolding matched_entries_def
  by (intro calls_sat reads_filter_list reads_getImmediateChildObjectPathCount)

lemma yields_filter_list: "yields (list_all (\<lambda>e. filter_spec e ev)) (filter_list E ev g)"
  unfolding filter_list_def by (intro yields_intros) (auto simp: list_all_iff entry_matches_filter)

lemma yields_matched_entries: "yields (list_all (\<lambda>e. filter_spec e ev)) (matched_entries E ev)"
  unfolding matched_entries_def by (intro yields_intros yields_collect yields_filter_list) simp_all

lemma read_filter_columns_exceptions:
  "read_filter_columns values = Inl e \<Longrightarrow> e = OutOfRange \<or> e = BadVariantAccess"
  by (auto simp: read_filter_columns_def col8_def col16_def bindR_eq_Inl dest: pure_exceptions)

lemma get_byte_reply:
  "fst (e_bus E (world s) c) = Reply err (DU8 x) \<Longrightarrow> get_byte E c s = (Inr (Some x), after_call E c s)"
  by (simp add: get_byte_def bus_call_Reply bindE_def catchE_def)

lemma task_guard:
  "(pefPostponeTimer = 0xFE \<or> (pefPostponeTimer \<noteq> 0x00 \<and> pefPostponeTimer \<noteq> (0xFF :: u8)))
     \<longleftrightarrow> pefPostponeTimer \<notin> {0x00, 0xFF}"
  by auto

lemma low_bit_clear: "((c :: u8) AND 0x01 = 0) \<longleftrightarrow> \<not> bit c 0"
  by (simp add: and_one_eq mod_2_eq_odd bit_0)

lemma ucast_low_byte:
  "ucast ((x :: u16) AND 0xff) = (ucast x :: u8)"
  "ucast (drop_bit 8 (x :: u16) AND 0xff) = (ucast (drop_bit 8 x) :: u8)"
proof -
  have m: "(0xff :: u16) = mask 8" by (simp add: mask_eq_exp_minus_1)
  have "ucast (y AND mask 8) = (ucast y :: u8)" for y :: u16
    by (rule bit_word_eqI) (auto simp: bit_simps)
  then show "ucast ((x :: u16) AND 0xff) = (ucast x :: u8)"
    "ucast (drop_bit 8 (x :: u16) AND 0xff) = (ucast (drop_bit 8 x) :: u8)"
    unfolding m by blast+
qed

text \<open>A configuration daemon with one filter list of one row, for the instances.\<close>

definition list_values :: "u8 \<Rightarrow> (string \<times> dval) list" where
  "list_values act =
     [(''AlertPolicyNum'', DU8s [1]), (''EventData1ANDMask'', DU8s [0]), (''EventData1Cmp1'', DU8s [0]),
      (''EventData1Cmp2'', DU8s [0]), (''EventData1OffsetMask'', DU16s [0xFFFF]),
      (''EventData2ANDMask'', DU8s [0]), (''EventData2Cmp1'', DU8s [0]), (''EventData2Cmp2'', DU8s [0]),
      (''EventData3ANDMask'', DU8s [0]), (''EventData3Cmp1'', DU8s [0]), (''EventData3Cmp2'', DU8s [0]),
      (''EventSeverity'', DU8s [0]), (''EventTrigger'', DU8s [0xFF]), (''EvtFilterAction'', DU8s [act]),
      (''FilterConfig'', DU8s [0x80]), (''GenIDByte1'', DU8s [0xFF]), (''GenIDByte2'', DU8s [0xFF]),
      (''SensorNum'', DU8s [0xFF]), (''SensorType'', DU8s [0xFF])]"

definition list_columns :: "u8 \<Rightarrow> filter_columns" where
  "list_columns act =
     \<lparr>fc_FilterConfig = [0x80], fc_GenIDByte1 = [0xFF], fc_GenIDByte2 = [0xFF], fc_SensorType = [0xFF],
      fc_SensorNum = [0xFF], fc_EventTrigger = [0xFF], fc_EventData1ANDMask = [0],
      fc_EventData1Cmp1 = [0], fc_EventData1Cmp2 = [0], fc_EventData2ANDMask = [0],
      fc_EventData2Cmp1 = [0], fc_EventData2Cmp2 = [0], fc_EventData3ANDMask = [0],
      fc_EventData3Cmp1 = [0], fc_EventData3Cmp2 = [0], fc_EventData1OffsetMask = [0xFFFF],
      fc_EvtFilterAction = [act], fc_AlertPolicyNum = [1], fc_EventSeverity = [0]\<rparr>"

lemma read_list_values: "read_filter_columns (list_values act) = Inr (list_columns act)"
  by (simp add: read_filter_columns_def col8_def col16_def map_at_def list_values_def list_columns_def)

definition task_table :: "(string \<times> dval) list \<Rightarrow> u8 \<Rightarrow> ecall \<Rightarrow> breply" where
  "task_table values tmr c =
     (if c = subtree_paths_call eventFilterTableRoot
        then Reply False (DStrs [eventFilterTableRoot @ ''/List1''])
      else if c = filter_list_call 1 then Reply False (DProps values)
      else if c = pef_control_call then Reply False (DU8 1)
      else if c = postpone_timer_call then Reply False (DU8 tmr)
      else if c = get_all_properties pefBus pefObj pefConfInfoIntf then
        Reply False (DProps [(''PEFActionGblControl'', DU8 2), (''PEFAlertStartupDly'', DU8 0),
          (''PEFControl'', DU8 1), (''PEFStartupDly'', DU8 0)])
      else if c = Method userManagerBus userMgrObjPath userAccPolicyIntf getMapMethod [] then
        Reply False (DChanMap [(1, ''eth0'')])
      else Reply False (DStr ''ok''))"

definition task_env :: "(string \<times> dval) list \<Rightarrow> u8 \<Rightarrow> unit env" where
  "task_env values tmr = table_env (task_table values tmr)"

lemma task_calls_distinct [simp]:
  "filter_list_call n \<noteq> subtree_paths_call p" "pef_control_call \<noteq> subtree_paths_call p"
  "postpone_timer_call \<noteq> subtree_paths_call p" "pef_control_call \<noteq> filter_list_call n"
  "postpone_timer_call \<noteq> filter_list_call n" "postpone_timer_call \<noteq> pef_control_call"
  by (simp_all add: filter_list_call_def subtree_paths_call_def pef_control_call_def
      postpone_timer_call_def get_property_def get_all_properties_def METHOD_GET_def METHOD_GET_ALL_def
      MAPPER_BUSNAME_def pefBus_def pefObj_def pefPostponeTmrObj_def)

lemma task_env_bus [simp]: "e_bus (task_env values tmr) w c = (task_table values tmr c, w)"
  by (simp add: task_env_def)

lemma task_table_simps [simp]:
  "task_table values tmr (subtree_paths_call eventFilterTableRoot)
     = Reply False (DStrs [eventFilterTableRoot @ ''/List1''])"
  "task_table values tmr (filter_list_call (Suc 0)) = Reply False (DProps values)"
  "task_table values tmr pef_control_call = Reply False (DU8 1)"
  "task_table values tmr postpone_timer_call = Reply False (DU8 tmr)"
  by (simp_all add: task_table_def)

lemma task_list_count:
  "getImmediateChildObjectPathCount (task_env values tmr) eventFilterTableRoot s
     = (Inr 1, after_call (task_env values tmr) (subtree_paths_call eventFilterTableRoot) s)"
proof -
  have "starts_with (eventFilterTableRoot @ ''/'') (eventFilterTableRoot @ ''/List1'')"
    by (simp add: starts_with_def)
  then show ?thesis
    by (simp add: getImmediateChildObjectPathCount_def bus_call_eq bindE_def catchE_def)
qed

lemma task_filter:
  "filter_list (task_env (list_values 2) 0) fan_event (Suc 0) s
     = (Inr [entry_with 2], after_call (task_env (list_values 2) 0) (filter_list_call (Suc 0)) s)"
proof -
  have "row_entry (list_columns 2) 0 = entry_with 2" by (simp add: row_entry_def list_columns_def entry_with_def)
  moreover have "row_complete (list_columns 2) 0" by (simp add: row_complete_def list_columns_def)
  moreover have "entry_matches (entry_with 2) fan_event" by code_simp
  moreover have "length (fc_FilterConfig (list_columns 2)) = 1" by (simp add: list_columns_def)
  ultimately show ?thesis
    by (simp add: filter_list_def bus_call_eq bindE_def catchE_def read_list_values set_list_rows)
qed

text \<open>In that environment the event powers the chassis off.\<close>

lemma task_powers_off:
  "\<exists>s'. eventFilteringProcess (task_env (list_values 2) 0) fan_event (initial_sys ()) = (Inr (), s')
     \<and> (\<exists>t. trace s' = t \<and> chassis_transition_call pwrCtlOff \<in> set t)"
proof -
  let ?E = "task_env (list_values 2) 0"
  have m: "matched_entries ?E fan_event s = (Inr [entry_with 2],
      after_call ?E (filter_list_call (Suc 0))
        (after_call ?E (subtree_paths_call eventFilterTableRoot) s))" for s
    by (simp add: matched_entries_def bindE_def task_list_count task_filter)
  have map: "fst (getEthChannelInterfaceMap ?E s) = Inr [(1, ''eth0'')]" for s
    by (simp add: getEthChannelInterfaceMap_def bus_call_eq bindE_def catchE_def task_table_def
        starts_with_def filter_list_call_def subtree_paths_call_def pef_control_call_def
        postpone_timer_call_def get_property_def get_all_properties_def METHOD_GET_def
        METHOD_GET_ALL_def getMapMethod_def)
  have cfg: "fst (getPefConfInfo ?E s) = Inr (Some (conf_with 1 2))" for s
    by (simp add: getPefConfInfo_def bus_call_eq bindE_def catchE_def task_table_def prop_u8_def
        filter_list_call_def subtree_paths_call_def pef_control_call_def postpone_timer_call_def
        get_property_def get_all_properties_def METHOD_GET_def METHOD_GET_ALL_def MAPPER_BUSNAME_def
        pefBus_def pefObj_def map_at_def conf_with_def eventFilterTableRoot_def)
  have chassis: "task_table (list_values 2) 0 (chassis_transition_call pwrCtlOff) = Reply False (DStr ''ok'')"
    by (simp add: task_table_def chassis_transition_call_def set_property_def filter_list_call_def
        subtree_paths_call_def pef_control_call_def postpone_timer_call_def get_property_def
        get_all_properties_def METHOD_GET_def METHOD_GET_ALL_def METHOD_SET_def getMapMethod_def)
  have bits: "has_action (EvtFilterAction (entry_with 2)) POWER_OFF_ACTION"
    "has_action (PEFActionGblControl (conf_with 1 2)) POWER_OFF_ACTION"
    "\<not> has_action (EvtFilterAction (entry_with 2)) ALERT_ACTION" "PEFControl (conf_with 1 2) AND 2 = 0"
    by (simp_all add: has_action_def entry_with_def conf_with_def action_constants)
  have act: "performPefAction ?E [entry_with 2] fan_event em (conf_with 1 2) s
      = (Inr (), after_call ?E (chassis_transition_call pwrCtlOff) s)" for em s
    using chassis bits
    by (simp add: performPefAction_def power_action_def allowed_def log_action_def alert_action_def
        initiateChassisStateTransition_def bus_call_eq thenE_def bindE_def)
  obtain s1 s2 where "matched_entries ?E fan_event (initial_sys ()) = (Inr [entry_with 2], s1)"
    and "getEthChannelInterfaceMap ?E s1 = (Inr [(1, ''eth0'')], s2)"
    using m map by (metis prod.collapse)
  moreover obtain s3 where "getPefConfInfo ?E s2 = (Inr (Some (conf_with 1 2)), s3)"
    using cfg by (metis prod.collapse)
  ultimately show ?thesis by (simp add: eventFilteringProcess_def act)
qed

section \<open>Properties\<close>

text \<open>C11. A filter list selects exactly its matching rows, in order: when the list can be read, the
  result is the entries of the rows that every column reaches and that the event satisfies.\<close>

theorem filter_list_exact:
  assumes "fst (e_bus E (world s) (filter_list_call g)) = Reply err (DProps values)"
    and "read_filter_columns values = Inr c"
  shows "filter_list E ev g s =
    (Inr (map (row_entry c) (filter (\<lambda>i. row_complete c i \<and> filter_spec (row_entry c i) ev)
            [0..<length (fc_FilterConfig c)])),
     after_call E (filter_list_call g) s)"
  using assms by (simp add: filter_list_def bus_call_Reply bindE_def catchE_def matching_rows)

theorem filter_list_exact_witness:
  "filter (\<lambda>i. row_complete (list_columns 2) i \<and> filter_spec (row_entry (list_columns 2) i) fan_event)
     [0..<length (fc_FilterConfig (list_columns 2))] = [0]"
proof -
  let ?f = "filter (\<lambda>i. row_complete (list_columns 2) i
      \<and> filter_spec (row_entry (list_columns 2) i) fan_event) [0..<length (fc_FilterConfig (list_columns 2))]"
  have "fst (filter_list (task_env (list_values 2) 0) fan_event 1 (initial_sys ()))
      = Inr (map (row_entry (list_columns 2)) ?f)"
    using filter_list_exact [of "task_env (list_values 2) 0" "initial_sys ()" 1 False "list_values 2"
        "list_columns 2" fan_event] read_list_values [of 2]
    by simp
  then have "length ?f = 1" using task_filter [of "initial_sys ()"] by auto
  moreover have "set ?f \<subseteq> {0}" by (auto simp: list_columns_def)
  ultimately show ?thesis by (cases ?f) auto
qed



text \<open>C12. The gate of the task: when the PEF control and the postpone timer can be read, the event is
  filtered exactly if the timer is 0 or \<open>0xFF\<close> and PEF is enabled, with the generator id split into its
  high and low byte; otherwise the two reads are all that happens.\<close>

theorem pefTask_gate:
  assumes "fst (e_bus E (world s) pef_control_call) = Reply err (DU8 ctl)"
    and "fst (e_bus E (world (after_call E pef_control_call s)) postpone_timer_call)
      = Reply err' (DU8 tmr)"
  shows "pefTask E recId senType senNum eveType d1 d2 d3 genId text s =
    (let s2 = after_call E postpone_timer_call (after_call E pef_control_call s)
     in if tmr \<in> {0x00, 0xFF} \<and> bit ctl 0
        then eventFilteringProcess E
               \<lparr>recordId = recId, generatorId1 = ucast (drop_bit 8 genId), generatorId2 = ucast genId,
                sensorNum = senNum, sensorType = senType, eventType = eveType, eventData0 = d1,
                eventData1 = d2, eventData2 = d3, msgStr = text\<rparr> s2
        else (Inr (), s2))"
proof -
  have "task_event recId senType senNum eveType d1 d2 d3 genId text =
      \<lparr>recordId = recId, generatorId1 = ucast (drop_bit 8 genId), generatorId2 = ucast genId,
       sensorNum = senNum, sensorType = senType, eventType = eveType, eventData0 = d1,
       eventData1 = d2, eventData2 = d3, msgStr = text\<rparr>"
    by (simp add: task_event_def ucast_low_byte)
  then show ?thesis
    using get_byte_reply [OF assms(1)] get_byte_reply [OF assms(2)]
    by (simp add: pefTask_def Let_def task_guard low_bit_clear del: insert_iff)
qed

theorem pefTask_gate_witness:
  "pefTask (task_env (list_values 2) 5) 7 4 5 1 2 0 0 0x2000 '''' (initial_sys ())
     = (Inr (), after_call (task_env (list_values 2) 5) postpone_timer_call
         (after_call (task_env (list_values 2) 5) pef_control_call (initial_sys ())))"
  using pefTask_gate [of "task_env (list_values 2) 5" "initial_sys ()" False 1 False 5]
  by (simp add: Let_def)



end
