(* ===== verification/RetryConfig.thy ===== *)
theory RetryConfig
  imports JsonEdit
begin

text \<open>
  The retry settings of the event-filtering daemon (\<open>saveConfig\<close> and the first half of \<open>main\<close> in
  \<open>src/pef_action.cpp\<close>): loading from the configuration file, the four writable D-Bus properties with
  their checks, and saving after every accepted write.  Each property obeys the contract of a guarded
  property, stated once as a locale.
\<close>

section \<open>Operations\<close>

definition MAX_ALERTS_LIMIT :: int where "MAX_ALERTS_LIMIT = 100"
definition MAX_RETRY :: int where "MAX_RETRY = 10"
definition MAX_INTERVAL :: int where "MAX_INTERVAL = 3600"

lemmas retry_limits = MAX_ALERTS_LIMIT_def MAX_RETRY_def MAX_INTERVAL_def

definition retryConfigFile :: string where
  "retryConfigFile = ''/var/lib/pef-alert-manager/retryConf.json''"

definition retry_json :: "bool \<Rightarrow> u8 \<Rightarrow> u32 \<Rightarrow> u8 \<Rightarrow> json" where
  "retry_json enable count interval alerts =
     json_object
       [(''retryEnable'', JBool enable), (''retryCount'', JInt (uint count)),
        (''timeInterval'', JInt (uint interval)), (''alertsLimit'', JInt (uint alerts))]"

text \<open>The file is emptied when it is opened; an exception of the printer is swallowed.\<close>

definition saveConfig :: "'w env \<Rightarrow> bool \<Rightarrow> u8 \<Rightarrow> u32 \<Rightarrow> u8 \<Rightarrow> ('w, unit) act" where
  "saveConfig E enable count interval alerts =
     catchE any_exception
       (if \<not> e_writable E retryConfigFile then ret ()
        else write_json E retryConfigFile (retry_json enable count interval alerts))
       (ret ())"

definition save_current :: "'w env \<Rightarrow> ('w, unit) act" where
  "save_current E =
     bindE (getsE (\<lambda>s. (retryEnable s, retryCount s, timeInterval s, alertsLimit s)))
       (\<lambda>(enable, count, interval, alerts). saveConfig E enable count interval alerts)"

text \<open>Loading assigns one global after the other; an exception keeps those assigned before it.\<close>

definition load_retry :: "'w env \<Rightarrow> ('w, unit) act" where
  "load_retry E =
     bindE (getsE (\<lambda>s. files s retryConfigFile)) (\<lambda>file. case file of
       None \<Rightarrow> ret ()
     | Some text \<Rightarrow>
         catchE json_exception
           (let config = jl_parse (e_json E) text;
                int_of = json_get_int (e_json E)
            in if config = JDiscarded then throwE JsonError
               else
                 bindE (liftE (json_value json_get_bool config ''retryEnable'' False)) (\<lambda>b.
                 thenE (modifyE (\<lambda>s. s\<lparr>retryEnable := b\<rparr>))
                 (bindE (liftE (json_value int_of config ''retryCount'' 0)) (\<lambda>n.
                 thenE (modifyE (\<lambda>s. s\<lparr>retryCount := of_int (min n MAX_RETRY)\<rparr>))
                 (bindE (liftE (json_value int_of config ''timeInterval'' 0)) (\<lambda>n.
                 thenE (modifyE (\<lambda>s. s\<lparr>timeInterval := of_int (min n MAX_INTERVAL)\<rparr>))
                 (bindE (liftE (json_value int_of config ''alertsLimit'' 0)) (\<lambda>n.
                 modifyE (\<lambda>s. s\<lparr>alertsLimit := of_int (min n MAX_ALERTS_LIMIT)\<rparr>)))))))))
           (ret ()))"

text \<open>The setters: the new and the shown value come in, the result is \<open>true\<close> and the value shown
  from now on.\<close>

definition set_retryEnable :: "'w env \<Rightarrow> bool \<Rightarrow> bool \<Rightarrow> ('w, bool \<times> bool) act" where
  "set_retryEnable E newVal oldVal =
     thenE (modifyE (\<lambda>s. s\<lparr>retryEnable := newVal\<rparr>))
       (thenE (save_current E) (ret (True, newVal)))"

definition set_retryCount :: "'w env \<Rightarrow> u8 \<Rightarrow> u8 \<Rightarrow> ('w, bool \<times> u8) act" where
  "set_retryCount E newVal oldVal =
     bindE (getsE retryEnable) (\<lambda>enabled.
       if \<not> enabled then throwE DBusError
       else if MAX_RETRY < uint newVal then throwE DBusError
       else thenE (modifyE (\<lambda>s. s\<lparr>retryCount := newVal\<rparr>))
              (thenE (save_current E) (ret (True, newVal))))"

definition set_timeInterval :: "'w env \<Rightarrow> u32 \<Rightarrow> u32 \<Rightarrow> ('w, bool \<times> u32) act" where
  "set_timeInterval E newVal oldVal =
     bindE (getsE retryEnable) (\<lambda>enabled.
       if \<not> enabled then throwE DBusError
       else if MAX_INTERVAL < uint newVal then throwE DBusError
       else thenE (modifyE (\<lambda>s. s\<lparr>timeInterval := newVal\<rparr>))
              (thenE (save_current E) (ret (True, newVal))))"

definition set_alertsLimit :: "'w env \<Rightarrow> u8 \<Rightarrow> u8 \<Rightarrow> ('w, bool \<times> u8) act" where
  "set_alertsLimit E newVal oldVal =
     bindE (getsE retryEnable) (\<lambda>enabled.
       if \<not> enabled then throwE DBusError
       else if MAX_ALERTS_LIMIT < uint newVal then throwE DBusError
       else thenE (modifyE (\<lambda>s. s\<lparr>alertsLimit := newVal\<rparr>))
              (thenE (save_current E) (ret (True, newVal))))"

section \<open>Guarded properties\<close>

text \<open>A client that writes one value after the other and ignores errors: the value shown in the end,
  and the state.\<close>

fun write_all :: "('v \<Rightarrow> 'v \<Rightarrow> ('s, bool \<times> 'v) prog) \<Rightarrow> 'v list \<Rightarrow> 'v \<Rightarrow> 's \<Rightarrow> 'v \<times> 's" where
  "write_all setter [] shown s = (shown, s)"
| "write_all setter (v # vs) shown s =
     (case setter v shown s of
        (Inr (_, shown'), s') \<Rightarrow> write_all setter vs shown' s'
      | (Inl _, s') \<Rightarrow> write_all setter vs shown s')"

text \<open>
  The contract of a writable property: \<open>val\<close> is the global behind it, \<open>ok\<close> the check.  A refused
  value raises a D-Bus error and changes nothing; an accepted one is stored and shown.  Then the
  client of \<open>write_all\<close> always sees the global, and an invariant of the checked values is kept.
\<close>

locale guarded_property =
  fixes setter :: "'v \<Rightarrow> 'v \<Rightarrow> ('s, bool \<times> 'v) prog"
    and val :: "'s \<Rightarrow> 'v"
    and ok :: "'s \<Rightarrow> 'v \<Rightarrow> bool"
  assumes refuses: "\<not> ok s v \<Longrightarrow> setter v old s = (Inl DBusError, s)"
    and accepts: "ok s v \<Longrightarrow> \<exists>s'. setter v old s = (Inr (True, v), s') \<and> val s' = v"
begin

lemma shown_is_the_global:
  "shown = val s \<Longrightarrow> write_all setter vs shown s = (shown', s') \<Longrightarrow> shown' = val s'"
proof (induction vs arbitrary: shown s)
  case Nil
  then show ?case by auto
next
  case (Cons v vs)
  show ?case
  proof (cases "ok s v")
    case True
    then obtain t where t: "setter v shown s = (Inr (True, v), t)" "val t = v"
      using accepts by blast
    then have "write_all setter vs v t = (shown', s')" using Cons.prems(2) by simp
    moreover have "v = val t" using t(2) by simp
    ultimately show ?thesis using Cons.IH by blast
  next
    case False
    then show ?thesis using Cons refuses [of s v shown] by simp
  qed
qed

lemma value_was_checked:
  assumes "\<And>s v. ok s v \<Longrightarrow> P v"
  shows "P (val s) \<Longrightarrow> write_all setter vs shown s = (shown', s') \<Longrightarrow> P (val s')"
proof (induction vs arbitrary: shown s)
  case Nil
  then show ?case by auto
next
  case (Cons v vs)
  show ?case
  proof (cases "ok s v")
    case True
    then obtain t where t: "setter v shown s = (Inr (True, v), t)" "val t = v"
      using accepts by blast
    then have "P (val t)" using assms True by simp
    then show ?thesis using Cons.IH [of t v] Cons.prems(2) t(1) by simp
  next
    case False
    then show ?thesis using Cons refuses [of s v shown] by simp
  qed
qed

end

section \<open>The four properties\<close>

lemma save_current_result:
  "\<exists>f. save_current E s = (Inr (), s\<lparr>files := f\<rparr>)"
proof (cases "json_dump (e_json E) 4
    (retry_json (retryEnable s) (retryCount s) (timeInterval s) (alertsLimit s))")
  case (Inl e)
  then have "e = JsonError" by (rule json_exceptions)
  then show ?thesis using Inl
    by (auto simp: save_current_def saveConfig_def write_json_def thenE_def bindE_def catchE_def
        intro: exI [of _ "files s"])
next
  case (Inr printed)
  then show ?thesis
    by (auto simp: save_current_def saveConfig_def write_json_def thenE_def bindE_def catchE_def
        intro: exI [of _ "files s"])
qed

text \<open>The common shape of the setters.\<close>

lemma store_and_save:
  assumes "\<And>s f. val (s\<lparr>files := f\<rparr>) = val s" and "val (upd s) = v"
  shows "\<exists>s'. thenE (modifyE upd) (thenE (save_current E) (ret (True, v))) s = (Inr (True, v), s')
    \<and> val s' = v"
proof -
  obtain f where "save_current E (upd s) = (Inr (), (upd s)\<lparr>files := f\<rparr>)"
    using save_current_result by blast
  then show ?thesis using assms by simp
qed

interpretation enable_property:
  guarded_property "set_retryEnable E" retryEnable "\<lambda>s v. True" for E
proof unfold_locales
  fix s :: "'a sys" and v old :: bool
  show "\<exists>s'. set_retryEnable E v old s = (Inr (True, v), s') \<and> retryEnable s' = v"
    using store_and_save [of retryEnable "\<lambda>s. s\<lparr>retryEnable := v\<rparr>" s v E]
    by (simp add: set_retryEnable_def)
qed simp

interpretation count_property:
  guarded_property "set_retryCount E" retryCount "\<lambda>s v. retryEnable s \<and> uint v \<le> MAX_RETRY" for E
proof unfold_locales
  fix s :: "'a sys" and v old :: u8
  assume "\<not> (retryEnable s \<and> uint v \<le> MAX_RETRY)"
  then show "set_retryCount E v old s = (Inl DBusError, s)" by (auto simp: set_retryCount_def)
next
  fix s :: "'a sys" and v old :: u8
  assume "retryEnable s \<and> uint v \<le> MAX_RETRY"
  then show "\<exists>s'. set_retryCount E v old s = (Inr (True, v), s') \<and> retryCount s' = v"
    using store_and_save [of retryCount "\<lambda>s. s\<lparr>retryCount := v\<rparr>" s v E]
    by (simp add: set_retryCount_def)
qed

interpretation interval_property:
  guarded_property "set_timeInterval E" timeInterval "\<lambda>s v. retryEnable s \<and> uint v \<le> MAX_INTERVAL" for E
proof unfold_locales
  fix s :: "'a sys" and v old :: u32
  assume "\<not> (retryEnable s \<and> uint v \<le> MAX_INTERVAL)"
  then show "set_timeInterval E v old s = (Inl DBusError, s)" by (auto simp: set_timeInterval_def)
next
  fix s :: "'a sys" and v old :: u32
  assume "retryEnable s \<and> uint v \<le> MAX_INTERVAL"
  then show "\<exists>s'. set_timeInterval E v old s = (Inr (True, v), s') \<and> timeInterval s' = v"
    using store_and_save [of timeInterval "\<lambda>s. s\<lparr>timeInterval := v\<rparr>" s v E]
    by (simp add: set_timeInterval_def)
qed

interpretation alerts_property:
  guarded_property "set_alertsLimit E" alertsLimit "\<lambda>s v. retryEnable s \<and> uint v \<le> MAX_ALERTS_LIMIT"
  for E
proof unfold_locales
  fix s :: "'a sys" and v old :: u8
  assume "\<not> (retryEnable s \<and> uint v \<le> MAX_ALERTS_LIMIT)"
  then show "set_alertsLimit E v old s = (Inl DBusError, s)" by (auto simp: set_alertsLimit_def)
next
  fix s :: "'a sys" and v old :: u8
  assume "retryEnable s \<and> uint v \<le> MAX_ALERTS_LIMIT"
  then show "\<exists>s'. set_alertsLimit E v old s = (Inr (True, v), s') \<and> alertsLimit s' = v"
    using store_and_save [of alertsLimit "\<lambda>s. s\<lparr>alertsLimit := v\<rparr>" s v E]
    by (simp add: set_alertsLimit_def)
qed

section \<open>Bounds\<close>

definition retry_bounds :: "'w sys \<Rightarrow> bool" where
  "retry_bounds s \<longleftrightarrow> uint (retryCount s) \<le> MAX_RETRY \<and> uint (timeInterval s) \<le> MAX_INTERVAL
     \<and> uint (alertsLimit s) \<le> MAX_ALERTS_LIMIT"

lemma retry_bounds_files [simp]: "retry_bounds (s\<lparr>files := f\<rparr>) = retry_bounds s"
  by (simp add: retry_bounds_def)

lemma keep_save_current: "sat (keeps retry_bounds) (save_current E)"
  unfolding sat_def
proof
  fix s :: "'a sys"
  obtain f where "save_current E s = (Inr (), s\<lparr>files := f\<rparr>)" using save_current_result by blast
  then show "keeps retry_bounds s (snd (save_current E s))" by (simp add: keeps_def)
qed

lemma keep_retry_setters:
  "sat (keeps retry_bounds) (set_retryEnable E b old)"
  "sat (keeps retry_bounds) (set_retryCount E c old8)"
  "sat (keeps retry_bounds) (set_timeInterval E i old32)"
  "sat (keeps retry_bounds) (set_alertsLimit E a old8)"
  unfolding set_retryEnable_def set_retryCount_def set_timeInterval_def set_alertsLimit_def
  by (intro keep_sat keep_save_current keep.sat_modify; simp add: keeps_def retry_bounds_def)+

text \<open>Loading, when every member converts.\<close>

lemma load_retry_eq:
  assumes "files s retryConfigFile = Some text" and "jl_parse (e_json E) text = config"
    and "config \<noteq> JDiscarded"
    and "json_value json_get_bool config ''retryEnable'' False = Inr b"
    and "json_value (json_get_int (e_json E)) config ''retryCount'' 0 = Inr n"
    and "json_value (json_get_int (e_json E)) config ''timeInterval'' 0 = Inr i"
    and "json_value (json_get_int (e_json E)) config ''alertsLimit'' 0 = Inr a"
  shows "load_retry E s = (Inr (), s\<lparr>retryEnable := b, retryCount := of_int (min n MAX_RETRY),
    timeInterval := of_int (min i MAX_INTERVAL), alertsLimit := of_int (min a MAX_ALERTS_LIMIT)\<rparr>)"
  using assms by (simp add: load_retry_def Let_def bindE_def thenE_def catchE_def)

lemma uint_capped: "0 \<le> n \<Longrightarrow> uint (of_int (min n 10) :: u8) = min n 10"
  "0 \<le> n \<Longrightarrow> uint (of_int (min n 3600) :: u32) = min n 3600"
  "0 \<le> n \<Longrightarrow> uint (of_int (min n 100) :: u8) = min n 100"
  by (simp_all add: unsigned_of_int take_bit_int_eq_self)

lemma uint_negative:
  assumes "- 245 \<le> n" and "n < 0"
  shows "uint (of_int (min n 10) :: u8) = 256 + n"
proof -
  have "n mod 256 = (n + 256) mod 256" by simp
  also have "\<dots> = n + 256" using assms by (intro mod_pos_pos_trivial) simp_all
  finally show ?thesis using assms by (simp add: unsigned_of_int take_bit_eq_mod)
qed

text \<open>A JSON library that prints and parses one document, for the instances.\<close>

definition one_json :: "json \<Rightarrow> json_lib" where
  "one_json j =
     \<lparr>jl_parse = (\<lambda>_. j), jl_dump = (\<lambda>_ _. Some ''{...}''),
      jl_int = plain_int, jl_u8 = plain_word, jl_u16 = plain_word, jl_u32 = plain_word,
      jl_merge_patch = (\<lambda>_ p. p)\<rparr>"

definition one_json_env :: "json \<Rightarrow> unit env" where
  "one_json_env j = (table_env (\<lambda>_. BusError))\<lparr>e_json := one_json j\<rparr>"

definition retry_sys :: "unit sys" where
  "retry_sys = (initial_sys ())\<lparr>retryEnable := True, retryCount := 3, timeInterval := 60,
     alertsLimit := 50\<rparr>"

lemma one_json_env_simps [simp]:
  "e_json (one_json_env j) = one_json j" "e_writable (one_json_env j) p"
  by (simp_all add: one_json_env_def table_env_def)

lemma one_json_simps [simp]:
  "jl_parse (one_json j) t = j" "jl_dump (one_json j) i d = Some ''{...}''"
  "json_get_int (one_json j) (JInt n) = Inr n"
  by (simp_all add: one_json_def json_get_int_def)

lemma retry_sys_simps [simp]:
  "retryEnable retry_sys" "retryCount retry_sys = 3" "timeInterval retry_sys = 60"
  "alertsLimit retry_sys = 50"
  by (simp_all add: retry_sys_def)

section \<open>Properties\<close>



text \<open>Loading does not enforce the limits: a negative retry count in the file passes the cap from
  above, wraps in the conversion to 8 bits and is stored as a value beyond the limit, which no write
  could have set.\<close>

theorem negative_retry_count_wraps:
  assumes "files s retryConfigFile = Some text" and "jl_parse (e_json E) text = config"
    and "config \<noteq> JDiscarded"
    and "json_value json_get_bool config ''retryEnable'' False = Inr b"
    and "json_value (json_get_int (e_json E)) config ''retryCount'' 0 = Inr n"
    and "json_value (json_get_int (e_json E)) config ''timeInterval'' 0 = Inr i"
    and "json_value (json_get_int (e_json E)) config ''alertsLimit'' 0 = Inr a"
    and "- 245 \<le> n" and "n < 0"
  shows "uint (retryCount (snd (load_retry E s))) = 256 + n \<and> \<not> retry_bounds (snd (load_retry E s))"
  using load_retry_eq [OF assms(1-7)] uint_negative [OF assms(8,9)] assms(8,9)
  by (simp add: retry_bounds_def retry_limits)

theorem negative_retry_count_wraps_witness:
  "uint (retryCount (snd (load_retry (one_json_env (json_object [(''retryCount'', JInt (- 1))]))
     (retry_sys\<lparr>files := [retryConfigFile \<mapsto> ''{...}'']\<rparr>)))) = 255"
  using negative_retry_count_wraps [of "retry_sys\<lparr>files := [retryConfigFile \<mapsto> ''{...}'']\<rparr>" "''{...}''"
      "one_json_env (json_object [(''retryCount'', JInt (- 1))])"
      "json_object [(''retryCount'', JInt (- 1))]" False "- 1" 0 0]
  by (simp add: json_value_object)

text \<open>C30. Saving and loading the retry settings is the identity within the limits: the file written by
  \<open>saveConfig\<close>, loaded into any state, sets the four globals to the saved values.\<close>

theorem retry_settings_roundtrip:
  assumes "e_writable E retryConfigFile" and "retry_bounds s"
    and "json_roundtrips (e_json E)
      (retry_json (retryEnable s) (retryCount s) (timeInterval s) (alertsLimit s))"
    and "json_int_exact (e_json E) (uint (retryCount s))"
    and "json_int_exact (e_json E) (uint (timeInterval s))"
    and "json_int_exact (e_json E) (uint (alertsLimit s))"
    and "files t retryConfigFile = files (snd (save_current E s)) retryConfigFile"
  shows "load_retry E t = (Inr (), t\<lparr>retryEnable := retryEnable s, retryCount := retryCount s,
    timeInterval := timeInterval s, alertsLimit := alertsLimit s\<rparr>)"
proof -
  let ?j = "retry_json (retryEnable s) (retryCount s) (timeInterval s) (alertsLimit s)"
  obtain printed where p: "jl_dump (e_json E) 4 ?j = Some printed" "jl_parse (e_json E) printed = ?j"
    using assms(3) by (auto simp: json_roundtrips_def split: option.splits)
  have "files (snd (save_current E s)) retryConfigFile = Some printed"
    using assms(1) p(1)
    by (simp add: save_current_def saveConfig_def write_json_def json_dump_def thenE_def bindE_def catchE_def)
  then have "files t retryConfigFile = Some printed" using assms(7) by simp
  from load_retry_eq [OF this p(2)] show ?thesis
    using assms(2,4-6)
    by (simp add: retry_json_def json_value_object json_get_int_def json_int_exact_def retry_bounds_def
        min_absorb1 min.absorb1)
qed

theorem retry_settings_roundtrip_witness:
  "load_retry (one_json_env (retry_json True 3 60 50))
      ((initial_sys ())\<lparr>files := files (snd (save_current (one_json_env (retry_json True 3 60 50)) retry_sys))\<rparr>)
     = (Inr (), ((initial_sys ())\<lparr>files := files (snd (save_current (one_json_env (retry_json True 3 60 50))
          retry_sys)), retryEnable := True, retryCount := 3, timeInterval := 60, alertsLimit := 50\<rparr>))"
  using retry_settings_roundtrip [of "one_json_env (retry_json True 3 60 50)" retry_sys
      "(initial_sys ())\<lparr>files := files (snd (save_current (one_json_env (retry_json True 3 60 50)) retry_sys))\<rparr>"]
  by (simp add: retry_bounds_def retry_limits json_roundtrips_def json_int_exact_def one_json_def)

end
