(* ===== verification/PostponeTimer.thy ===== *)
theory PostponeTimer
  imports EventFilter
begin

text \<open>
  The postpone timer (\<open>startArmPefPostponeTimerMonitor\<close> in \<open>include/pef_action.hpp\<close>): the handler that
  runs when the timer property changes, counts the timer down one second at a time, and disarms it.
\<close>

definition pefPostponeCountDownIface :: string where
  "pefPostponeCountDownIface = ''xyz.openbmc_project.pef.CountdownTmr''"

definition set_countdown_call :: "u8 \<Rightarrow> ecall" where
  "set_countdown_call timer =
     set_property pefBus pefPostponeTmrObj pefPostponeCountDownIface ''TmrCountdownValue'' (DU8 timer)"

definition set_arm_call :: "u8 \<Rightarrow> ecall" where
  "set_arm_call timer =
     set_property pefBus pefPostponeTmrObj pefPostponeTmrIface ''ArmPEFPostponeTmr'' (DU8 timer)"

text \<open>A property write whose D-Bus errors are only logged.\<close>

definition try_call :: "'w env \<Rightarrow> ecall \<Rightarrow> ('w, unit) act" where
  "try_call E c = catchE sdbus_exception (thenE (bus_call E c) (ret ())) (ret ())"

function countdown :: "'w env \<Rightarrow> u8 \<Rightarrow> ('w, unit) act" where
  "countdown E timer =
     (if timer = 0 then ret ()
      else thenE (ext_call E (Sleep 1))
             (thenE (try_call E (set_countdown_call (timer - 1))) (countdown E (timer - 1))))"
  by pat_completeness auto

lemma unat_decrement: "(timer :: u8) \<noteq> 0 \<Longrightarrow> Suc (unat (timer - 1)) = unat timer"
  by (metis Suc_pred' unat_gt_0 unat_minus_one)

termination countdown
  by (relation "measure (\<lambda>(E, timer). unat timer)") (auto dest: unat_decrement)

declare countdown.simps [simp del]

text \<open>The handler: \<open>msg.read\<close> throws or leaves the changed properties in a sorted map, whose first entry
  is taken unseen.\<close>

definition armPostponeTimer :: "'w env \<Rightarrow> exn + (string \<times> dval) list \<Rightarrow> ('w, unit) act" where
  "armPostponeTimer E msg =
     bindE (liftE msg) (\<lambda>propertiesChanged. case propertiesChanged of
        [] \<Rightarrow> throwE Undefined
      | (property, v) # _ \<Rightarrow>
          bindE (liftE (get_u8 v)) (\<lambda>timer.
            if timer = 0x00 \<or> timer = 0xFF then ret ()
            else if timer = 0xFE then try_call E (set_countdown_call timer)
            else thenE (countdown E timer) (try_call E (set_arm_call 0))))"

section \<open>Facts\<close>

lemma try_call_eq: "try_call E c s = (Inr (), after_call E c s)"
  by (simp add: try_call_def thenE_def bindE_def catchE_def bus_call_eq split: breply.split)

text \<open>The calls of a countdown from \<open>n\<close>, the last value first announced.\<close>

definition countdown_calls :: "nat \<Rightarrow> ecall list" where
  "countdown_calls n = concat (map (\<lambda>k. [Sleep 1, set_countdown_call (of_nat k)]) (rev [0..<n]))"

lemma countdown_calls_Suc:
  "countdown_calls (Suc n) = Sleep 1 # set_countdown_call (of_nat n) # countdown_calls n"
  by (simp add: countdown_calls_def)

lemma countdown_runs:
  "\<exists>s'. countdown E timer s = (Inr (), s') \<and> trace s' = trace s @ countdown_calls (unat timer)"
proof (induction "unat timer" arbitrary: timer s)
  case 0
  then have "timer = 0" using unat_gt_0 [of timer] by fastforce
  then show ?case by (simp add: countdown.simps [of E 0] countdown_calls_def)
next
  case (Suc n)
  then have nz: "timer \<noteq> 0" by auto
  then have n: "n = unat (timer - 1)" using unat_decrement [of timer] Suc.hyps(2) by simp
  then have k: "(of_nat n :: u8) = timer - 1" by simp
  let ?s = "after_call E (set_countdown_call (timer - 1)) (after_call E (Sleep 1) s)"
  have "countdown E timer s = countdown E (timer - 1) ?s"
    using nz by (subst countdown.simps) (simp add: thenE_def bindE_def ext_call_apply after_call_def
        try_call_eq)
  then show ?case
    using Suc.hyps(1) [OF n, of ?s] Suc.hyps(2) [symmetric] n k
    by (simp add: countdown_calls_Suc)
qed

section \<open>Properties\<close>

text \<open>C32. The countdown terminates and announces every second: for a timer from 1 to 253 the handler
  sleeps one second and writes the next lower countdown value, down to 0, and then disarms the timer,
  even when writes fail; for 254 it only writes the value, and for 0 and 255 it does nothing.\<close>

theorem postpone_countdown:
  "\<exists>s'. armPostponeTimer E (Inr ((property, DU8 timer) # others)) s = (Inr (), s')
     \<and> trace s' = trace s @
         (if timer = 0 \<or> timer = 0xFF then []
          else if timer = 0xFE then [set_countdown_call 0xFE]
          else countdown_calls (unat timer) @ [set_arm_call 0])"
proof -
  obtain s' where "countdown E timer s = (Inr (), s')" "trace s' = trace s @ countdown_calls (unat timer)"
    using countdown_runs by blast
  then show ?thesis by (simp add: armPostponeTimer_def try_call_eq)
qed

end
