(* ===== verification/ConfigUpdate.thy ===== *)
theory ConfigUpdate
  imports JsonEdit PathUtils
begin

text \<open>
  The four monitors of \<open>include/pef_config_update.hpp\<close>, with which the event-filtering daemon saves
  changed properties of the configuration daemon in the configuration file.  A handler gets the path
  of the object and what \<open>msg.read\<close> leaves in the map of changed properties, sorted by name, or the
  exception that it throws.
\<close>

section \<open>The configuration file\<close>

definition pefConfigFile :: string where
  "pefConfigFile = ''/var/lib/pef-alert-manager/pef-alert-manager.json''"

definition updateJsonFile :: "'w env \<Rightarrow> json \<Rightarrow> ('w, bool) act" where
  "updateJsonFile E pefConfiguration =
     (if \<not> e_writable E pefConfigFile then ret False
      else thenE (write_json E pefConfigFile pefConfiguration) (ret True))"

definition parseJsonData :: "'w env \<Rightarrow> string \<Rightarrow> ('w, json) act" where
  "parseJsonData E configFile = read_json E configFile"

text \<open>The two \<open>catch\<close> clauses of the handlers.\<close>

definition update_exception :: "exn \<Rightarrow> bool" where
  "update_exception e \<longleftrightarrow> json_exception e \<or> out_of_range_exception e"

section \<open>Lists in a table\<close>

text \<open>The number of the list that the path names: each list object stands for a range of the rows of
  the table in the file.\<close>

definition find_bucket :: "(nat \<Rightarrow> string) \<Rightarrow> string \<Rightarrow> nat option" where
  "find_bucket listName objPath = List.find (\<lambda>idx. contains_str (listName idx) objPath) [0..<4]"

fun write_column :: "json \<Rightarrow> nat \<Rightarrow> string \<Rightarrow> json list \<Rightarrow> exn + json" where
  "write_column tbl i property [] = Inr tbl"
| "write_column tbl i property (v # vs) =
     bindR (json_set_index tbl i property v) (\<lambda>tbl'. write_column tbl' (Suc i) property vs)"

definition update_rows :: "json \<Rightarrow> nat \<Rightarrow> string \<Rightarrow> json list \<Rightarrow> exn + json" where
  "update_rows tbl start property vals =
     (let maxCount = (if start < json_size tbl then json_size tbl - start else 0);
          count = min (length vals) maxCount
      in write_column tbl start property (take count vals))"

definition json_u :: "'a :: len word \<Rightarrow> json" where
  "json_u x = JInt (uint x)"

section \<open>Event filter table\<close>

definition filterListName :: "nat \<Rightarrow> string" where
  "filterListName idx = ''List'' @ to_string (idx + 1)"

text \<open>The body of the loop over the entries for a single value.\<close>

definition filter_entry_update ::
  "json_lib \<Rightarrow> int \<Rightarrow> string \<Rightarrow> dval \<Rightarrow> json \<Rightarrow> exn + json \<times> bool" where
  "filter_entry_update J entryVal property changedValue entry =
     bindR (json_value (json_get_int J) entry ''EventFilterTableEntry'' 0) (\<lambda>eventFilterEntry.
       if entryVal = eventFilterEntry then
         bindR (case changedValue of
                  DU16 x \<Rightarrow> json_set_field entry property (json_u x)
                | DU8 x \<Rightarrow> json_set_field entry property (json_u x)
                | _ \<Rightarrow> Inr entry)
           (\<lambda>entry'. Inr (entry', True))
       else Inr (entry, False))"

definition filter_table_update ::
  "json_lib \<Rightarrow> string \<Rightarrow> string \<Rightarrow> dval \<Rightarrow> json \<Rightarrow> exn + json" where
  "filter_table_update J objPath property changedValue tbl =
     (case (find_bucket filterListName objPath, changedValue) of
        (Some b, DU8s values) \<Rightarrow> update_rows tbl (b * 10) property (map json_u values)
      | (Some b, DU16s values) \<Rightarrow> update_rows tbl (b * 10) property (map json_u values)
      | _ \<Rightarrow> with_items (update_until
               (filter_entry_update J (int (findEntryNo (c_str objPath))) property changedValue)) tbl)"

definition eventFilterChanged ::
  "'w env \<Rightarrow> string \<Rightarrow> exn + (string \<times> dval) list \<Rightarrow> ('w, unit) act" where
  "eventFilterChanged E objPath msg =
     bindE (liftE msg) (\<lambda>propertiesChanged. case propertiesChanged of
       [] \<Rightarrow> ret ()
     | (property, changedValue) # _ \<Rightarrow>
         catchE update_exception
           (bindE (parseJsonData E pefConfigFile) (\<lambda>data.
            bindE (liftE (edit_member (filter_table_update (e_json E) objPath property changedValue)
                            data ''EventFilterTable'')) (\<lambda>data'.
            thenE (updateJsonFile E data') (ret ()))))
           (ret ()))"

section \<open>Alert policy table\<close>

definition policyListName :: "nat \<Rightarrow> string" where
  "policyListName idx = ''PolicyList_eth'' @ to_string idx"

definition policy_entry_update ::
  "json_lib \<Rightarrow> int \<Rightarrow> string \<Rightarrow> u8 \<Rightarrow> json \<Rightarrow> exn + json \<times> bool" where
  "policy_entry_update J entryVal property val entry =
     (let store = bindR (json_set_field entry property (json_u val)) (\<lambda>entry'. Inr (entry', True))
      in if json_contains entry ''AlertPolicyTableEntry'' then
           bindR (bindR (json_field entry ''AlertPolicyTableEntry'') (json_get_int J)) (\<lambda>alertPolicyEntry.
             if entryVal \<noteq> alertPolicyEntry then Inr (entry, False) else store)
         else if entryVal > 0 then Inr (entry, False)
         else store)"

text \<open>The new table; \<open>None\<close> is the \<open>return\<close> for a value that is neither a list nor a number.\<close>

definition policy_table_update ::
  "json_lib \<Rightarrow> string \<Rightarrow> string \<Rightarrow> dval \<Rightarrow> json \<Rightarrow> exn + json option" where
  "policy_table_update J objPath property changedValue tbl =
     (case (find_bucket policyListName objPath, changedValue) of
        (Some b, DU8s values) \<Rightarrow>
          bindR (update_rows tbl (b * 15) property (map json_u values)) (\<lambda>t. Inr (Some t))
      | (Some b, DStrs values) \<Rightarrow>
          bindR (update_rows tbl (b * 15) property (map JStr values)) (\<lambda>t. Inr (Some t))
      | _ \<Rightarrow>
          (case (case changedValue of DU8 x \<Rightarrow> Some x | DU16 x \<Rightarrow> Some (ucast x) | _ \<Rightarrow> None) of
             None \<Rightarrow> Inr None
           | Some val \<Rightarrow>
               bindR (with_items (update_until
                        (policy_entry_update J (int (findEntryNo (c_str objPath))) property val)) tbl)
                 (\<lambda>t. Inr (Some t))))"

definition alertPolicyChanged ::
  "'w env \<Rightarrow> string \<Rightarrow> exn + (string \<times> dval) list \<Rightarrow> ('w, unit) act" where
  "alertPolicyChanged E objPath msg =
     bindE (liftE msg) (\<lambda>propertiesChanged. case propertiesChanged of
       [] \<Rightarrow> ret ()
     | (property, changedValue) # _ \<Rightarrow>
         catchE update_exception
           (bindE (parseJsonData E pefConfigFile) (\<lambda>data.
            bindE (liftE (json_field data ''AlertPolicyTable'')) (\<lambda>tbl.
            bindE (liftE (policy_table_update (e_json E) objPath property changedValue tbl)) (\<lambda>r.
            case r of
              None \<Rightarrow> ret ()
            | Some tbl' \<Rightarrow>
                bindE (liftE (json_set_field data ''AlertPolicyTable'' tbl')) (\<lambda>data'.
                thenE (updateJsonFile E (jl_merge_patch (e_json E) tbl' data')) (ret ()))))))
           (ret ()))"

section \<open>PEF settings\<close>

definition conf_info_value :: "string \<Rightarrow> dval \<Rightarrow> exn + json" where
  "conf_info_value property v =
     (if property = ''LastSWProcessedEventID'' \<or> property = ''LastBMCProcessedEventID'' then
        bindR (get_u16 v) (\<lambda>selId. Inr (json_u selId))
      else if property = ''Subject'' then bindR (get_str v) (\<lambda>subject. Inr (JStr subject))
      else if property = ''Message'' then bindR (get_str v) (\<lambda>text. Inr (JStr text))
      else bindR (get_u8 v) (\<lambda>x. Inr (json_u x)))"

text \<open>The first changed property is taken unseen, and before the \<open>try\<close> block.\<close>

definition pefConfInfoChanged ::
  "'w env \<Rightarrow> string \<Rightarrow> exn + (string \<times> dval) list \<Rightarrow> ('w, unit) act" where
  "pefConfInfoChanged E objPath msg =
     bindE (liftE msg) (\<lambda>propertiesChanged. case propertiesChanged of
       [] \<Rightarrow> throwE Undefined
     | (property, v) # _ \<Rightarrow>
         bindE (liftE (conf_info_value property v)) (\<lambda>val.
         catchE update_exception
           (bindE (parseJsonData E pefConfigFile) (\<lambda>data.
            bindE (liftE (json_field data ''PEFConfInfo'')) (\<lambda>pefConfData.
            bindE (liftE (with_items (map_result (\<lambda>value. json_set_field value property val)) pefConfData))
              (\<lambda>pefConfData'.
            bindE (liftE (json_set_field data ''PEFConfInfo'' pefConfData')) (\<lambda>data'.
            thenE (updateJsonFile E (jl_merge_patch (e_json E) pefConfData' data')) (ret ()))))))
           (ret ())))"

section \<open>Destination selectors\<close>

definition selector_entry_update ::
  "json_lib \<Rightarrow> int \<Rightarrow> string \<Rightarrow> dval \<Rightarrow> json \<Rightarrow> exn + json \<times> bool" where
  "selector_entry_update J entryVal property variantVal entry =
     bindR (json_ref entry ''LanDestination'') (\<lambda>(v, entry').
     bindR (json_get_int J v) (\<lambda>entryNumber.
       if entryNumber = entryVal then
         bindR (case variantVal of
                  DU8 x \<Rightarrow> json_set_field entry' property (json_u x)
                | DU16 x \<Rightarrow> json_set_field entry' property (json_u x)
                | _ \<Rightarrow> Inr entry')
           (\<lambda>e. Inr (e, True))
       else Inr (entry', False)))"

fun selector_table_update ::
  "json_lib \<Rightarrow> int \<Rightarrow> (string \<times> dval) list \<Rightarrow> json \<Rightarrow> exn + json" where
  "selector_table_update J entryVal [] tbl = Inr tbl"
| "selector_table_update J entryVal ((property, variantVal) # props) tbl =
     bindR (with_items (update_until (selector_entry_update J entryVal property variantVal)) tbl)
       (selector_table_update J entryVal props)"

definition destinationSelectorChanged ::
  "'w env \<Rightarrow> string \<Rightarrow> exn + (string \<times> dval) list \<Rightarrow> ('w, unit) act" where
  "destinationSelectorChanged E objPath msg =
     (case msg of
        Inl e \<Rightarrow> (if any_exception e then ret () else throwE e)
      | Inr propertiesChanged \<Rightarrow>
          catchE update_exception
            (bindE (parseJsonData E pefConfigFile) (\<lambda>data.
             bindE (liftE (edit_member
                      (selector_table_update (e_json E) (int (findEntryNo (c_str objPath))) propertiesChanged)
                      data ''DestinationSelector'')) (\<lambda>data'.
             thenE (updateJsonFile E data') (ret ()))))
            (ret ()))"

section \<open>Facts\<close>

text \<open>What saving a list means for the rows of a table: value \<open>i\<close> of the list goes to the member
  \<open>property\<close> of row \<open>start + i\<close>, as far as there are rows.\<close>

definition set_column ::
  "nat \<Rightarrow> string \<Rightarrow> json list \<Rightarrow> (string \<times> json) list list \<Rightarrow> (string \<times> json) list list" where
  "set_column start property vals rows =
     map (\<lambda>k. if start \<le> k \<and> k < start + length vals
              then kv_insert property (vals ! (k - start)) (rows ! k) else rows ! k)
       [0..<length rows]"

lemma length_set_column [simp]: "length (set_column start property vals rows) = length rows"
  by (simp add: set_column_def)

lemma set_column_none: "length rows \<le> start \<or> vals = [] \<Longrightarrow> set_column start p vals rows = rows"
  by (intro nth_equalityI) (auto simp: set_column_def)

lemma set_column_Cons:
  assumes "start < length rows"
  shows "set_column start p (v # vals) rows =
    set_column (Suc start) p vals (rows[start := kv_insert p v (rows ! start)])"
  using assms by (intro nth_equalityI) (auto simp: set_column_def nth_list_update nth_Cons')

lemma write_column_rows:
  assumes "start + length vals \<le> length rows"
  shows "write_column (JArr (map JObj rows)) start p vals = Inr (JArr (map JObj (set_column start p vals rows)))"
  using assms
proof (induction vals arbitrary: start rows)
  case Nil
  then show ?case by (simp add: set_column_none)
next
  case (Cons v vals)
  then have "json_set_index (JArr (map JObj rows)) start p v
      = Inr (JArr (map JObj (rows[start := kv_insert p v (rows ! start)])))"
    by (simp add: json_set_index_Inr map_update del: json_set_index.simps)
  then show ?case using Cons by (simp add: set_column_Cons del: json_set_index.simps)
qed

lemma set_column_take:
  "set_column start p (take (length rows - start) vals) rows = set_column start p vals rows"
  by (auto simp: set_column_def)

lemma update_rows_objects:
  "update_rows (JArr (map JObj rows)) start p vals = Inr (JArr (map JObj (set_column start p vals rows)))"
proof -
  have "(if start < length rows then length rows - start else 0) = length rows - start" by simp
  moreover have "take (min (length vals) n) vals = take n vals" for n by (simp add: min_def)
  ultimately show ?thesis
    using write_column_rows [of start "take (length rows - start) vals" rows p]
    by (cases "start < length rows")
      (simp_all add: update_rows_def Let_def set_column_take set_column_none)
qed

text \<open>The handlers change nothing but the configuration file, which they write as a whole; it is empty
  when the printer throws.\<close>

definition printed :: "'w env \<Rightarrow> json \<Rightarrow> string" where
  "printed E doc = (case jl_dump (e_json E) 4 doc of None \<Rightarrow> '''' | Some text \<Rightarrow> text)"

definition config_saved :: "'w env \<Rightarrow> 'w sys \<Rightarrow> 'w sys \<Rightarrow> bool" where
  "config_saved E s s' \<longleftrightarrow>
     s' = s \<or> (\<exists>doc. s' = s\<lparr>files := (files s)(pefConfigFile := Some (printed E doc))\<rparr>)"

interpretation config: frame_relation "config_saved E" for E
  by unfold_locales (auto simp: config_saved_def)

lemma config_write_json: "sat (config_saved E) (write_json E pefConfigFile j)"
  unfolding sat_def
proof
  fix s :: "'a sys"
  show "config_saved E s (snd (write_json E pefConfigFile j s))"
    by (cases "jl_dump (e_json E) 4 j")
      (auto simp: write_json_printed write_json_failed config_saved_def printed_def intro!: exI [of _ j])
qed

lemma config_updateJsonFile: "sat (config_saved E) (updateJsonFile E j)"
  unfolding updateJsonFile_def by (intro config.sat_basic config.sat_compound sat_branch config_write_json)

lemmas config_sat =
  config.sat_basic config.sat_compound sat_branch sat_list config_updateJsonFile

lemma config_monitors:
  "sat (config_saved E) (eventFilterChanged E path msg)" "sat (config_saved E) (alertPolicyChanged E path msg)"
  "sat (config_saved E) (pefConfInfoChanged E path msg)"
  "sat (config_saved E) (destinationSelectorChanged E path msg)"
  unfolding eventFilterChanged_def alertPolicyChanged_def pefConfInfoChanged_def
    destinationSelectorChanged_def parseJsonData_def read_json_def
  by (intro config_sat)+

text \<open>The document in the configuration file, discarded when there is none.\<close>

definition config_document :: "'w env \<Rightarrow> 'w sys \<Rightarrow> json" where
  "config_document E s =
     (case files s pefConfigFile of None \<Rightarrow> JDiscarded | Some text \<Rightarrow> jl_parse (e_json E) text)"

lemma parseJsonData_config [simp]: "parseJsonData E pefConfigFile s = (Inr (config_document E s), s)"
  by (simp add: parseJsonData_def read_json_def config_document_def)

lemma update_exception_simps [simp]: "update_exception JsonError" "update_exception OutOfRange"
  by (simp_all add: update_exception_def out_of_range_exception_def)

text \<open>Without a document nothing is written.\<close>

lemma monitors_without_document:
  assumes "config_document E s = JDiscarded"
  shows "snd (eventFilterChanged E path msg s) = s" "snd (alertPolicyChanged E path msg s) = s"
    "snd (pefConfInfoChanged E path msg s) = s" "snd (destinationSelectorChanged E path msg s) = s"
  using assms
  by (auto simp: eventFilterChanged_def alertPolicyChanged_def pefConfInfoChanged_def
      destinationSelectorChanged_def bindE_def catchE_def edit_member_def
      split: list.split prod.split sum.split)

text \<open>Documented behaviour of \<open>merge_patch\<close> (RFC 7396): a target that is no object gives way to a patch
  that is an object, except for the members of the patch that are null, at any depth.\<close>

fun no_null_members :: "json \<Rightarrow> bool" where
  "no_null_members (JObj kvs) \<longleftrightarrow> (\<forall>kv \<in> set kvs. snd kv \<noteq> JNull \<and> no_null_members (snd kv))"
| "no_null_members _ \<longleftrightarrow> True"

definition merge_patch_law :: "json_lib \<Rightarrow> bool" where
  "merge_patch_law J \<longleftrightarrow>
     (\<forall>target kvs. \<not> json_is_object target \<longrightarrow> no_null_members (JObj kvs) \<longrightarrow>
        jl_merge_patch J target (JObj kvs) = JObj kvs)"

text \<open>A file system with one document, and the printer and parser for it and its successor: the instance
  at which the properties are applied.\<close>

definition doc_env :: "json \<Rightarrow> json \<Rightarrow> unit env" where
  "doc_env old new = (table_env (\<lambda>_. BusError))\<lparr>e_json :=
     \<lparr>jl_parse = (\<lambda>t. if t = ''new'' then new else old),
      jl_dump = (\<lambda>_ j. Some (if j = new then ''new'' else ''old'')),
      jl_int = plain_int, jl_u8 = plain_word, jl_u16 = plain_word, jl_u32 = plain_word, jl_merge_patch = (\<lambda>_ p. p)\<rparr>\<rparr>"

definition doc_sys :: "unit sys" where
  "doc_sys = (initial_sys ())\<lparr>files := [pefConfigFile \<mapsto> ''old'']\<rparr>"

definition table_doc :: "string \<Rightarrow> string \<Rightarrow> int list \<Rightarrow> json" where
  "table_doc table property xs = JObj [(table, JArr (map JObj (map (\<lambda>x. [(property, JInt x)]) xs)))]"

lemma doc_env_laws [simp]:
  "config_document (doc_env old new) doc_sys = old" "e_writable (doc_env old new) path"
  "json_roundtrips (e_json (doc_env old new)) new" "merge_patch_law (e_json (doc_env old new))"
  by (simp_all add: config_document_def doc_env_def doc_sys_def table_env_def json_roundtrips_def
      merge_patch_law_def)

section \<open>Properties\<close>



lemma updateJsonFile_saves:
  assumes "e_writable E pefConfigFile" and "json_roundtrips (e_json E) doc"
  shows "\<exists>s'. thenE (updateJsonFile E doc) (ret ()) s = (Inr (), s') \<and> config_document E s' = doc"
proof -
  obtain out where "jl_dump (e_json E) 4 doc = Some out" "jl_parse (e_json E) out = doc"
    using assms(2) by (auto simp: json_roundtrips_def split: option.splits)
  then show ?thesis
    using assms(1)
    by (simp add: updateJsonFile_def thenE_def bindE_def write_json_printed config_document_def)
qed

lemma merge_patch_whole:
  assumes "merge_patch_law J" and "no_null_members (JObj kvs)"
  shows "jl_merge_patch J (JArr js) (JObj kvs) = JObj kvs"
  using assms by (simp add: merge_patch_law_def)

text \<open>A changed filter list is saved in its rows: when the list property \<open>property\<close> of filter list
  \<open>b\<close> changes, the configuration file then holds the same document, except that the entries \<open>10 b\<close>,
  \<open>10 b + 1\<close>, \<dots> of the event filter table have the values of the list as \<open>property\<close>.\<close>

theorem filter_list_saved:
  assumes "config_document E s = JObj kvs"
    and "map_of kvs ''EventFilterTable'' = Some (JArr (map JObj rows))"
    and "find_bucket filterListName path = Some b" and "e_writable E pefConfigFile"
    and "saved = JObj (kv_insert ''EventFilterTable''
      (JArr (map JObj (set_column (10 * b) property (map json_u vals) rows))) kvs)"
    and "json_roundtrips (e_json E) saved"
  shows "\<exists>s'. eventFilterChanged E path (Inr ((property, DU8s vals) # others)) s = (Inr (), s')
    \<and> config_document E s' = saved"
proof -
  have "edit_member (filter_table_update (e_json E) path property (DU8s vals)) (JObj kvs) ''EventFilterTable''
      = Inr saved"
    unfolding assms(5)
    by (rule edit_member_object [OF assms(2)])
      (simp add: filter_table_update_def assms(3) update_rows_objects mult.commute)
  then show ?thesis
    using assms(1) updateJsonFile_saves [OF assms(4,6), of s]
    by (auto simp: eventFilterChanged_def bindE_def catchE_def)
qed

theorem filter_list_saved_witness:
  "\<exists>s'. eventFilterChanged (doc_env (table_doc ''EventFilterTable'' ''SensorNum'' [1, 2, 3])
            (table_doc ''EventFilterTable'' ''SensorNum'' [7, 9, 3]))
          ''/xyz/openbmc_project/PefAlertManager/EventFilterTable/List1''
          (Inr [(''SensorNum'', DU8s [7, 9])]) doc_sys = (Inr (), s')
     \<and> config_document (doc_env (table_doc ''EventFilterTable'' ''SensorNum'' [1, 2, 3])
            (table_doc ''EventFilterTable'' ''SensorNum'' [7, 9, 3])) s'
       = table_doc ''EventFilterTable'' ''SensorNum'' [7, 9, 3]"
  by (rule filter_list_saved [where b = 0 and rows = "map (\<lambda>x. [(''SensorNum'', JInt x)]) [1, 2, 3]"
        and kvs = "[(''EventFilterTable'', JArr (map JObj (map (\<lambda>x. [(''SensorNum'', JInt x)]) [1, 2, 3])))]"])
    (simp add: table_doc_def, simp, code_simp, simp,
      simp add: table_doc_def set_column_def json_u_def upt_rec, simp)

text \<open>A changed policy list is saved in its rows: under the documented behaviour of \<open>merge_patch\<close>, the
  configuration file then holds the same document, except that the 15 entries of the alert policy table
  that belong to interface \<open>eth b\<close> have the values of the list.\<close>

theorem policy_list_saved:
  assumes "config_document E s = JObj kvs"
    and "map_of kvs ''AlertPolicyTable'' = Some (JArr (map JObj rows))"
    and "find_bucket policyListName path = Some b" and "e_writable E pefConfigFile"
    and "saved = JObj (kv_insert ''AlertPolicyTable''
      (JArr (map JObj (set_column (15 * b) property (map json_u vals) rows))) kvs)"
    and "json_roundtrips (e_json E) saved" and "merge_patch_law (e_json E)" and "no_null_members saved"
  shows "\<exists>s'. alertPolicyChanged E path (Inr ((property, DU8s vals) # others)) s = (Inr (), s')
    \<and> config_document E s' = saved"
proof -
  have "policy_table_update (e_json E) path property (DU8s vals) (JArr (map JObj rows))
      = Inr (Some (JArr (map JObj (set_column (15 * b) property (map json_u vals) rows))))"
    by (simp add: policy_table_update_def assms(3) update_rows_objects mult.commute)
  then show ?thesis
    using assms(1,2,5) merge_patch_whole [OF assms(7)] assms(8) updateJsonFile_saves [OF assms(4,6), of s]
    by (auto simp: alertPolicyChanged_def bindE_def catchE_def)
qed

theorem policy_list_saved_witness:
  "\<exists>s'. alertPolicyChanged (doc_env (table_doc ''AlertPolicyTable'' ''ChannelNo'' [1])
            (table_doc ''AlertPolicyTable'' ''ChannelNo'' [8]))
          ''/xyz/openbmc_project/PefAlertManager/AlertPolicyTable/PolicyList_eth0''
          (Inr [(''ChannelNo'', DU8s [8, 9])]) doc_sys = (Inr (), s')
     \<and> config_document (doc_env (table_doc ''AlertPolicyTable'' ''ChannelNo'' [1])
            (table_doc ''AlertPolicyTable'' ''ChannelNo'' [8])) s'
       = table_doc ''AlertPolicyTable'' ''ChannelNo'' [8]"
  by (rule policy_list_saved [where b = 0 and rows = "map (\<lambda>x. [(''ChannelNo'', JInt x)]) [1]"
        and kvs = "[(''AlertPolicyTable'', JArr (map JObj (map (\<lambda>x. [(''ChannelNo'', JInt x)]) [1])))]"])
    (simp add: table_doc_def, simp, code_simp, simp,
      simp add: table_doc_def set_column_def json_u_def upt_rec, simp, simp, simp add: table_doc_def)

text \<open>A changed PEF setting is saved in every entry of \<open>PEFConfInfo\<close>, and nothing else changes in the
  document.\<close>

theorem conf_info_saved:
  assumes "config_document E s = JObj kvs"
    and "map_of kvs ''PEFConfInfo'' = Some (JArr (map JObj rows))"
    and "conf_info_value property v = Inr val" and "e_writable E pefConfigFile"
    and "saved = JObj (kv_insert ''PEFConfInfo'' (JArr (map (\<lambda>r. JObj (kv_insert property val r)) rows)) kvs)"
    and "json_roundtrips (e_json E) saved" and "merge_patch_law (e_json E)" and "no_null_members saved"
  shows "\<exists>s'. pefConfInfoChanged E path (Inr ((property, v) # others)) s = (Inr (), s')
    \<and> config_document E s' = saved"
proof -
  have "map_result (\<lambda>value. json_set_field value property val) (map JObj rows)
      = Inr (map (\<lambda>r. JObj (kv_insert property val r)) rows)"
    by (simp add: map_result_Inr list_all2_conv_all_nth)
  then show ?thesis
    using assms(1,2,3,5) merge_patch_whole [OF assms(7)] assms(8) updateJsonFile_saves [OF assms(4,6), of s]
    by (auto simp: pefConfInfoChanged_def bindE_def catchE_def)
qed

theorem conf_info_saved_witness:
  "\<exists>s'. pefConfInfoChanged (doc_env (table_doc ''PEFConfInfo'' ''PEFControl'' [1])
            (table_doc ''PEFConfInfo'' ''PEFControl'' [3])) ''''
          (Inr [(''PEFControl'', DU8 3)]) doc_sys = (Inr (), s')
     \<and> config_document (doc_env (table_doc ''PEFConfInfo'' ''PEFControl'' [1])
            (table_doc ''PEFConfInfo'' ''PEFControl'' [3])) s'
       = table_doc ''PEFConfInfo'' ''PEFControl'' [3]"
  by (rule conf_info_saved [where val = "JInt 3" and rows = "map (\<lambda>x. [(''PEFControl'', JInt x)]) [1]"
        and kvs = "[(''PEFConfInfo'', JArr (map JObj (map (\<lambda>x. [(''PEFControl'', JInt x)]) [1])))]"])
    (simp_all add: table_doc_def conf_info_value_def json_u_def)

text \<open>The settings monitor trusts the message: without a changed property it reads the first entry of
  an empty map, and a value of another type than the property has ends it with an exception that no
  handler takes.\<close>

theorem conf_info_unchecked:
  "pefConfInfoChanged E path (Inr []) s = (Inl Undefined, s)
   \<and> pefConfInfoChanged E path (Inr ((''PEFControl'', DStrs xs) # others)) s = (Inl BadVariantAccess, s)"
  by (simp add: pefConfInfoChanged_def conf_info_value_def bindE_def)


end
