(* ===== verification/Daemon.thy ===== *)
theory Daemon
  imports RetryConfig PostponeTimer ConfigUpdate
begin

text \<open>
  The event-filtering daemon as a transition system: after \<open>main\<close> has loaded the retry settings, the
  event loop runs one handler at a time, namely \<open>doPefTask\<close>, the four property setters, the postpone
  handler, the four configuration monitors, and the two sensor signals.  Invariants of the reachable states follow by rule induction from
  the frame conditions of the handlers.
\<close>

section \<open>Steps\<close>

inductive daemon_step :: "'w env \<Rightarrow> 'w sys \<Rightarrow> 'w sys \<Rightarrow> bool" for E where
  task: "pefTask E recId senType senNum eveType d1 d2 d3 genId msg s = (r, s') \<Longrightarrow> r \<noteq> Inl Undefined \<Longrightarrow>
    daemon_step E s s'"
| write_retryEnable: "set_retryEnable E b old s = (r, s') \<Longrightarrow> daemon_step E s s'"
| write_retryCount: "set_retryCount E c oldc s = (r, s') \<Longrightarrow> daemon_step E s s'"
| write_timeInterval: "set_timeInterval E i oldi s = (r, s') \<Longrightarrow> daemon_step E s s'"
| write_alertsLimit: "set_alertsLimit E a olda s = (r, s') \<Longrightarrow> daemon_step E s s'"
| postpone: "armPostponeTimer E props s = (r, s') \<Longrightarrow> r \<noteq> Inl Undefined \<Longrightarrow> daemon_step E s s'"
| filter_changed: "eventFilterChanged E path msg s = (r, s') \<Longrightarrow> daemon_step E s s'"
| policy_changed: "alertPolicyChanged E path msg s = (r, s') \<Longrightarrow> daemon_step E s s'"
| settings_changed: "pefConfInfoChanged E path msg s = (r, s') \<Longrightarrow> r \<noteq> Inl Undefined \<Longrightarrow> daemon_step E s s'"
| selector_changed: "destinationSelectorChanged E path msg s = (r, s') \<Longrightarrow> daemon_step E s s'"
| sensor_added: "sensorAdded s = (r, s') \<Longrightarrow> daemon_step E s s'"
| sensor_removed: "sensorRemoved s = (r, s') \<Longrightarrow> daemon_step E s s'"

inductive_cases daemon_stepE: "daemon_step E s s'"

definition daemon_reaches :: "'w env \<Rightarrow> 'w sys \<Rightarrow> 'w sys \<Rightarrow> bool" where
  "daemon_reaches E = (daemon_step E)\<^sup>*\<^sup>*"

section \<open>What the task leaves alone\<close>

text \<open>
  The task touches the state only through the outside world and through the sensor-number map.  Every
  predicate that survives these two survives the whole task.
\<close>

locale task_invariant =
  fixes E :: "'w env" and I :: "'w sys \<Rightarrow> bool"
  assumes outside: "I s \<Longrightarrow> I (s\<lparr>world := w, trace := t\<rparr>)"
    and sensors: "sat (keeps I) (getPathFromSensorNumber E n ty)"
begin

lemma calls: "sat (keeps I) (bus_call E c)" "sat (keeps I) (ext_call E c)"
  by (rule keep_bus_call, erule outside) (rule keep_ext_call, erule outside)

lemma decrypt: "sat (keeps I) (decryptString E b)"
  by (rule decryptString_frame) (simp add: keeps_def)

lemmas keeps = keep_sat sat_breply calls decrypt sensors

lemma keeps_helpers:
  "sat (keeps I) (getEthChannelInterfaceMap E)" "sat (keeps I) (getPefConfInfo E)"
  "sat (keeps I) (getPowerStatus E)" "sat (keeps I) (getSmtpMailID E u)"
  "sat (keeps I) (PEFActionSELLOG E act)" "sat (keeps I) (initiateStateTransition E p)"
  "sat (keeps I) (initiateChassisStateTransition E p)" "sat (keeps I) (isMailAlertConfigured E)"
  "sat (keeps I) (getImmediateChildObjectPathCount E p)"
  unfolding getEthChannelInterfaceMap_def getPefConfInfo_def getPowerStatus_def getSmtpMailID_def
    PEFActionSELLOG_def initiateStateTransition_def initiateChassisStateTransition_def
    isMailAlertConfigured_def mail_service_ready_def resolveHost_def
    getImmediateChildObjectPathCount_def
  by (intro keeps)+

lemma keeps_send_to_managers: "sat (keeps I) (send_to_managers E n ip st ms b)"
  by (induction ms arbitrary: b)
    (auto intro!: keeps simp: send_to_manager_def getSystemUptimeTicks_def)

lemma keeps_sendOBMCErrorNotification:
  "sat (keeps I) (sendOBMCErrorNotification E i ts sev msg eid est sn ad ip ch sel)"
  unfolding sendOBMCErrorNotification_def sendTrap_def Let_def getTrapEnabled_def
    getSNMPDisableStatus_def getManagers_def snmp_channel_map_eq select_manager_def build_manager_def
    loadSnmpV3UserFromDBus_def
  by (intro keeps keeps_helpers keeps_send_to_managers)

lemma keeps_sendSNMPAlert: "sat (keeps I) (sendSNMPAlert E ev ch sel)"
  unfolding sendSNMPAlert_def Let_def queue_snmp_def bmc_address_def getIPAddress_def getCurrentTime_def
  by (intro keeps keeps_helpers keeps_sendOBMCErrorNotification)

lemma keeps_sendSmtpAlert: "sat (keeps I) (sendSmtpAlert E ev m)"
  unfolding sendSmtpAlert_def Let_def alert_subject_def alert_body_def get_string_def deliver_mail_def
  by (intro keeps keeps_helpers)

lemma keeps_alert_policy: "sat (keeps I) (alert_policy E cfg ethMap ev row)"
  unfolding alert_policy_def select_destination_def Let_def smtp_alert_def snmp_alert_def log_action_def
  by (intro keeps keeps_helpers keeps_sendSNMPAlert keeps_sendSmtpAlert)

lemma keeps_performPefAction: "sat (keeps I) (performPefAction E es ev ethMap cfg)"
  unfolding performPefAction_def power_action_def log_action_def alert_action_def
    checkAlertPoicyTbl_def policy_object_def
  by (intro keeps keeps_helpers keeps_alert_policy)

lemma keeps_pefTask: "sat (keeps I) (pefTask E recId senType senNum eveType d1 d2 d3 genId msg)"
  unfolding pefTask_def get_byte_def eventFilteringProcess_def matched_entries_def filter_list_def
  by (intro keeps keeps_helpers keeps_performPefAction)

lemma keeps_countdown: "sat (keeps I) (countdown E timer)"
proof (induction timer rule: measure_induct_rule [where f = unat])
  case (less timer)
  show ?case
    by (subst countdown.simps) (auto intro!: keeps less measure_unat simp: try_call_def)
qed

lemma keeps_armPostponeTimer: "sat (keeps I) (armPostponeTimer E props)"
  unfolding armPostponeTimer_def try_call_def
  by (auto intro!: keeps keeps_countdown split: list.split)

end

interpretation sensor_map_kept: task_invariant E num_map_inv for E
  by unfold_locales (simp_all add: keep_getPathFromSensorNumber num_map_inv_def)

interpretation retry_bounds_kept: task_invariant E retry_bounds for E
proof unfold_locales
  show "sat (keeps retry_bounds) (getPathFromSensorNumber E n ty)" for n ty
    by (rule sat_mono [OF same_getPathFromSensorNumber(1)])
      (simp add: same_retry_def keeps_def retry_bounds_def)
qed (simp add: retry_bounds_def)

text \<open>What the configuration monitors leave alone.\<close>

lemma keeps_monitors:
  assumes "\<And>s f. I s \<Longrightarrow> I (s\<lparr>files := f\<rparr>)"
  shows "sat (keeps I) (eventFilterChanged E path msg)" "sat (keeps I) (alertPolicyChanged E path msg)"
    "sat (keeps I) (pefConfInfoChanged E path msg)"
    "sat (keeps I) (destinationSelectorChanged E path msg)"
proof -
  have "keeps I s s'" if "config_saved E s s'" for s s'
    using that assms by (auto simp: keeps_def config_saved_def)
  then show "sat (keeps I) (eventFilterChanged E path msg)" "sat (keeps I) (alertPolicyChanged E path msg)"
    "sat (keeps I) (pefConfInfoChanged E path msg)" "sat (keeps I) (destinationSelectorChanged E path msg)"
    using config_monitors by (blast intro: sat_mono)+
qed

lemma kept_files:
  "num_map_inv s \<Longrightarrow> num_map_inv (s\<lparr>files := f\<rparr>)" "retry_bounds s \<Longrightarrow> retry_bounds (s\<lparr>files := f\<rparr>)"
  by (simp_all add: num_map_inv_def retry_bounds_def)

lemma map_monitors:
  "sat (keeps num_map_inv) (eventFilterChanged E path msg)" "sat (keeps num_map_inv) (alertPolicyChanged E path msg)"
  "sat (keeps num_map_inv) (pefConfInfoChanged E path msg)"
  "sat (keeps num_map_inv) (destinationSelectorChanged E path msg)"
  by (rule keeps_monitors, erule kept_files)+

lemma bounds_monitors:
  "sat (keeps retry_bounds) (eventFilterChanged E path msg)" "sat (keeps retry_bounds) (alertPolicyChanged E path msg)"
  "sat (keeps retry_bounds) (pefConfInfoChanged E path msg)"
  "sat (keeps retry_bounds) (destinationSelectorChanged E path msg)"
  by (rule keeps_monitors, erule kept_files)+

section \<open>Reachable states\<close>

lemma step_keeps_sensor_map: "daemon_step E s s' \<Longrightarrow> num_map_inv s \<Longrightarrow> num_map_inv s'"
proof (induction rule: daemon_step.induct)
  case task
  then show ?case using sat_keepsD [OF sensor_map_kept.keeps_pefTask] by blast
next
  case postpone
  then show ?case using sat_keepsD [OF sensor_map_kept.keeps_armPostponeTimer] by blast
next
  case (write_retryEnable b old s r s')
  then show ?case using save_current_result [of E "s\<lparr>retryEnable := b\<rparr>"]
    by (auto simp: set_retryEnable_def num_map_inv_def)
next
  case (write_retryCount c oldc s r s')
  then show ?case using save_current_result [of E "s\<lparr>retryCount := c\<rparr>"]
    by (auto simp: set_retryCount_def num_map_inv_def split: if_splits)
next
  case (write_timeInterval i oldi s r s')
  then show ?case using save_current_result [of E "s\<lparr>timeInterval := i\<rparr>"]
    by (auto simp: set_timeInterval_def num_map_inv_def split: if_splits)
next
  case (write_alertsLimit a olda s r s')
  then show ?case using save_current_result [of E "s\<lparr>alertsLimit := a\<rparr>"]
    by (auto simp: set_alertsLimit_def num_map_inv_def split: if_splits)
next
  case filter_changed
  then show ?case using sat_keepsD [OF map_monitors(1)] by blast
next
  case policy_changed
  then show ?case using sat_keepsD [OF map_monitors(2)] by blast
next
  case settings_changed
  then show ?case using sat_keepsD [OF map_monitors(3)] by blast
next
  case selector_changed
  then show ?case using sat_keepsD [OF map_monitors(4)] by blast
qed (auto simp: sensorAdded_def sensorRemoved_def num_map_inv_def)

lemma step_keeps_retry_bounds:
  assumes "daemon_step E s s'" and "retry_bounds s"
  shows "retry_bounds s'"
proof -
  note handlers = retry_bounds_kept.keeps_pefTask retry_bounds_kept.keeps_armPostponeTimer
    keep_retry_setters bounds_monitors
  note kept = handlers [THEN sat_keepsD, OF assms(2)]
  show ?thesis
  proof (rule daemon_stepE [OF assms(1)])
    fix r :: "exn + unit"
    assume "sensorAdded s = (r, s')"
    then show ?thesis using assms(2) by (auto simp: sensorAdded_def retry_bounds_def)
  next
    fix r :: "exn + unit"
    assume "sensorRemoved s = (r, s')"
    then show ?thesis using assms(2) by (auto simp: sensorRemoved_def retry_bounds_def)
  qed (erule kept)+
qed

section \<open>Properties\<close>



end
