(* ===== verification/SensorInfo.thy ===== *)
theory SensorInfo
  imports SensorMap StdMap
begin

text \<open>
  The sensor lists that the configuration daemon offers (\<open>src/pef_config.cpp\<close>, interface
  \<open>xyz.openbmc_project.pef.SensorInfo\<close>): the names of all sensors by number, grouped by type or for one
  type, and the sensor types in use.  A sensor number is cut to 8 bits here.
\<close>

section \<open>The lists\<close>

definition number_name :: "u16 \<times> string \<Rightarrow> u8 \<times> string" where
  "number_name = (\<lambda>(n, path). (ucast n, getSensorNameFromPath path))"

definition getSensorNumNameMap :: "'w env \<Rightarrow> ('w, (u8 \<times> string) list) act" where
  "getSensorNumNameMap E =
     bindE (getSensorNumMap E) (\<lambda>(sensorNumMapPtr, updated).
       case sensorNumMapPtr of
         None \<Rightarrow> ret []
       | Some m \<Rightarrow> ret (assign_all (map number_name m)))"

text \<open>\<open>groupedMap[sensorType][sensorNum] = sensorName\<close>.\<close>

definition group_put ::
  "(string \<times> (u8 \<times> string) list) list \<Rightarrow> u16 \<times> string \<Rightarrow> (string \<times> (u8 \<times> string) list) list" where
  "group_put groupedMap entry =
     (let (sensorNum, sensorName) = number_name entry;
          sensorType = getSensorTypeStringFromPath (snd entry);
          inner = (case map_of groupedMap sensorType of None \<Rightarrow> [] | Some l \<Rightarrow> l)
      in map_put sensorType (map_put sensorNum sensorName inner) groupedMap)"

definition getSensorNumNameMapByType ::
  "'w env \<Rightarrow> ('w, (string \<times> (u8 \<times> string) list) list) act" where
  "getSensorNumNameMapByType E =
     bindE (getSensorNumMap E) (\<lambda>(sensorNumMapPtr, updated).
       case sensorNumMapPtr of
         None \<Rightarrow> ret []
       | Some m \<Rightarrow> ret (foldl group_put [] m))"

definition of_type :: "string \<Rightarrow> sensor_num_map \<Rightarrow> sensor_num_map" where
  "of_type sensorType m = filter (\<lambda>(n, path). getSensorTypeStringFromPath path = sensorType) m"

definition sensors_for_type :: "string \<Rightarrow> sensor_num_map \<Rightarrow> (u8 \<times> string) list" where
  "sensors_for_type sensorType m =
     (if sensorType = ''All'' then (255, ''All'') # assign_all (map number_name m)
      else assign_all (map number_name (of_type sensorType m)))"

definition getSensorNumNameMapForType :: "'w env \<Rightarrow> string \<Rightarrow> ('w, (u8 \<times> string) list) act" where
  "getSensorNumNameMapForType E sensorType =
     bindE (getSensorNumMap E) (\<lambda>(sensorNumMapPtr, updated).
       case sensorNumMapPtr of
         None \<Rightarrow> ret []
       | Some m \<Rightarrow> ret (sensors_for_type sensorType m))"

section \<open>The sensor types\<close>

definition add_type :: "(string \<times> u8) list \<Rightarrow> u16 \<times> string \<Rightarrow> (string \<times> u8) list" where
  "add_type typeMap entry =
     (let type = getSensorTypeStringFromPath (snd entry)
      in if map_of typeMap type \<noteq> None then typeMap
         else (case map_of sensorTypes (c_str type) of
                 Some (ty, ev) \<Rightarrow> map_put type ty typeMap
               | None \<Rightarrow> typeMap))"

definition available_types :: "sensor_num_map \<Rightarrow> (string \<times> u8) list" where
  "available_types m = map_put ''All'' 255 (foldl add_type [] m)"

definition getAvailableSensorTypes :: "'w env \<Rightarrow> ('w, (string \<times> u8) list) act" where
  "getAvailableSensorTypes E =
     bindE (getSensorNumMap E) (\<lambda>(sensorNumMapPtr, updated).
       case sensorNumMapPtr of
         None \<Rightarrow> ret []
       | Some m \<Rightarrow> ret (available_types m))"

section \<open>Facts\<close>

text \<open>Grouping agrees with filtering: the group of a type is what the list for that type shows.\<close>

lemma of_type_snoc:
  "of_type ty (m @ [x]) = of_type ty m @ (if getSensorTypeStringFromPath (snd x) = ty then [x] else [])"
  by (simp add: of_type_def split_beta)

lemma groups_of_types:
  "map_ok (foldl group_put [] m) \<and>
   map_of (foldl group_put [] m) ty =
     (if of_type ty m = [] then None else Some (assign_all (map number_name (of_type ty m))))"
proof (induction m arbitrary: ty rule: rev_induct)
  case Nil
  then show ?case by (simp add: of_type_def)
next
  case (snoc x m)
  let ?g = "foldl group_put [] m" and ?t = "getSensorTypeStringFromPath (snd x)"
  have inner: "(case map_of ?g ?t of None \<Rightarrow> [] | Some l \<Rightarrow> l) = assign_all (map number_name (of_type ?t m))"
    using snoc.IH by auto
  have "foldl group_put [] (m @ [x]) = map_put ?t (assign_all (map number_name (of_type ?t (m @ [x])))) ?g"
    by (simp add: group_put_def Let_def split_beta inner of_type_snoc assign_all_snoc)
  then show ?case using snoc.IH by (auto simp: of_type_snoc)
qed

text \<open>The types found: exactly those of the sensors that are in the table of sensor types.\<close>

lemma types_of_sensors:
  "map_ok (foldl add_type [] m) \<and>
   map_of (foldl add_type [] m) ty =
     (if of_type ty m = [] then None else map_option fst (map_of sensorTypes (c_str ty)))"
proof (induction m arbitrary: ty rule: rev_induct)
  case Nil
  then show ?case by (simp add: of_type_def)
next
  case (snoc x m)
  then show ?case
    by (auto simp: add_type_def Let_def of_type_snoc split: option.splits)
qed

text \<open>The numbers of a map with valid numbers never look like the reserved 255.\<close>

lemma valid_number_low_byte: "valid_number n \<Longrightarrow> ucast n \<noteq> (255 :: u8)"
proof
  assume "valid_number n" and "ucast n = (255 :: u8)"
  then have "unat (ucast n :: u8) = 255" by simp
  then have "unat n mod 256 = 255" by (simp add: unsigned_ucast_eq take_bit_eq_mod)
  with \<open>valid_number n\<close> show False by (simp add: valid_number_def)
qed

lemma low_byte_snum:
  assumes "k < 765"
  shows "ucast (snum k) = (of_nat (k mod 255) :: u8)"
proof -
  have "unat (ucast (snum k) :: u8) = nth_sensor_number k mod 256"
    by (simp only: unsigned_ucast_eq take_bit_eq_mod unat_snum [OF assms]) simp
  also have "\<dots> = k mod 255"
  proof -
    consider "k < 255" | "255 \<le> k" "k < 510" | "510 \<le> k" by linarith
    then show ?thesis
    proof cases
      case 1
      then show ?thesis by (simp add: nth_sensor_number_def)
    next
      case 2
      then obtain d where "k = 255 + d" "d < 255" by (metis add_less_cancel_left le_Suc_ex numeral_Bit0)
      then show ?thesis by (simp add: nth_sensor_number_def)
    next
      case 3
      then obtain d where "k = 510 + d" by (metis le_Suc_ex)
      then show ?thesis using assms mod_mult_self2 [of d 255 2] mod_mult_self2 [of d 256 3]
        by (simp add: nth_sensor_number_def add.commute)
    qed
  qed
  finally have "unat (ucast (snum k) :: u8) = unat (of_nat (k mod 255) :: u8)"
    by (simp add: unsigned_of_nat take_bit_nat_eq_self)
  then show ?thesis by (rule unsigned_word_eqI)
qed

lemma last_of_upt:
  assumes "k < n" and "\<forall>j. k < j \<and> j < n \<longrightarrow> f j \<noteq> f k"
  shows "map_of (rev (map (\<lambda>j. (f j, g j)) [0..<n])) (f k) = Some (g k)"
proof -
  have split: "[0..<n] = [0..<k] @ k # [Suc k..<n]"
    using assms(1) upt_add_eq_append [of 0 k "n - k"] by (simp add: upt_conv_Cons)
  have "map_of (rev (map (\<lambda>j. (f j, g j)) [Suc k..<n])) (f k) = None"
    using assms(2) by (force simp: map_of_eq_None_iff Suc_le_eq)
  then show ?thesis unfolding split by (simp add: map_add_def)
qed

lemma low_byte_inject: "(of_nat (j mod 255) :: u8) = of_nat (k mod 255) \<longleftrightarrow> j mod 255 = k mod 255"
proof -
  have "unat (of_nat (i mod 255) :: u8) = i mod 255" for i
    using mod_less_divisor [of 255 i] by (simp add: unsigned_of_nat take_bit_nat_eq_self)
  then show ?thesis by metis
qed

lemma numbered_names:
  assumes "length ps < 765"
  shows "map number_name (dealt 0 ps)
    = map (\<lambda>k. (of_nat (k mod 255), getSensorNameFromPath (ps ! k))) [0..<length ps]"
proof (rule nth_equalityI)
  show "length (map number_name (dealt 0 ps)) = length (map (\<lambda>k. (of_nat (k mod 255) :: u8,
      getSensorNameFromPath (ps ! k))) [0..<length ps])"
    by (simp add: dealt_def)
next
  fix i
  assume "i < length (map number_name (dealt 0 ps))"
  then have i: "i < length ps" by (simp add: dealt_def)
  then have "ucast (snum i) = (of_nat (i mod 255) :: u8)" using assms by (intro low_byte_snum) simp
  then show "map number_name (dealt 0 ps) ! i
      = map (\<lambda>k. (of_nat (k mod 255), getSensorNameFromPath (ps ! k))) [0..<length ps] ! i"
    using i by (simp add: dealt_def number_name_def)
qed

lemma plain_map:
  assumes "n < 765"
  shows "getSensorNumMap open_env (tree_sys n)
    = (Inr (Some (dealt 0 (map to_string [0..<n])), True), snd (getSensorNumMap open_env (tree_sys n)))"
proof -
  have "number_sensors 0 0 (plain_tree n) [] = (Inr (), dealt 0 (map to_string [0..<n]))"
    using number_sensors_dealt [OF plain_tree_distinct, of 0 n "[]"] assms
    by (simp add: snum_0 plain_tree_paths)
  from getSensorNumMap_build [OF open_env_opens tree_sys_simps(1,2) this]
  show ?thesis by simp
qed

section \<open>Properties\<close>

text \<open>C34. The list of one type agrees with the grouped lists: asked in the same state, the group of a
  type in \<open>getSensorNumNameMapByType\<close> is the list of \<open>getSensorNumNameMapForType\<close> for it, a type without
  a sensor has no group, and the list for \<open>All\<close> is that of \<open>getSensorNumNameMap\<close> behind the entry
  for all sensors.\<close>

theorem sensor_lists_agree:
  assumes "getSensorNumMap E s = (Inr (Some m, u), s')"
  shows "\<exists>groups names.
      getSensorNumNameMapByType E s = (Inr groups, s') \<and> getSensorNumNameMap E s = (Inr names, s')
    \<and> getSensorNumNameMapForType E ''All'' s = (Inr ((255, ''All'') # names), s')
    \<and> (ty = ''All'' \<or> getSensorNumNameMapForType E ty s
          = (Inr (case map_of groups ty of None \<Rightarrow> [] | Some l \<Rightarrow> l), s'))
    \<and> map_of groups ty \<noteq> Some []"
proof -
  have g: "getSensorNumNameMapByType E s = (Inr (foldl group_put [] m), s')"
    using assms by (simp add: getSensorNumNameMapByType_def)
  have n: "getSensorNumNameMap E s = (Inr (assign_all (map number_name m)), s')"
    using assms by (simp add: getSensorNumNameMap_def)
  have t: "getSensorNumNameMapForType E ty' s = (Inr (sensors_for_type ty' m), s')" for ty'
    using assms by (simp add: getSensorNumNameMapForType_def)
  show ?thesis
    unfolding g n t using groups_of_types [of m ty] by (auto simp: sensors_for_type_def)
qed

theorem sensor_lists_agree_witness:
  "\<exists>groups names.
      getSensorNumNameMapByType open_env (tree_sys 3)
        = (Inr groups, snd (getSensorNumMap open_env (tree_sys 3)))
    \<and> getSensorNumNameMap open_env (tree_sys 3)
        = (Inr names, snd (getSensorNumMap open_env (tree_sys 3)))
    \<and> getSensorNumNameMapForType open_env ''All'' (tree_sys 3)
        = (Inr ((255, ''All'') # names), snd (getSensorNumMap open_env (tree_sys 3)))
    \<and> (''1'' = ''All'' \<or> getSensorNumNameMapForType open_env ''1'' (tree_sys 3)
          = (Inr (case map_of groups ''1'' of None \<Rightarrow> [] | Some l \<Rightarrow> l),
             snd (getSensorNumMap open_env (tree_sys 3))))
    \<and> map_of groups ''1'' \<noteq> Some []"
  by (rule sensor_lists_agree [OF plain_map]) simp

text \<open>Sensors hide each other: the lists cut the sensor number to its low byte, so that after a
  rescan a sensor is listed under its place modulo 255, and only if no later sensor of the tree has the
  same place there; with more than 255 sensors the names of the first ones cannot be found.\<close>

theorem later_sensor_hides:
  assumes "bus_opens E (world s)" and "sensorTreePtr s = Some tree" and "sensorNumMapPtr s = None"
    and "distinct (map fst tree)" and "length tree < 765" and "k < length tree"
    and "\<forall>j. k < j \<and> j < length tree \<longrightarrow> j mod 255 \<noteq> k mod 255"
    and "getSensorNumNameMap E s = (r, s')"
  shows "\<exists>names. r = Inr names \<and> map_of names (of_nat (k mod 255))
    = Some (getSensorNameFromPath (fst (tree ! k)))"
proof -
  let ?ps = "map fst tree"
  have "number_sensors 0 0 tree [] = (Inr (), dealt 0 ?ps)"
    using number_sensors_dealt [OF assms(4), of 0 "[]"] assms(5) by (simp add: snum_0)
  note build = getSensorNumMap_build [OF assms(1-3) this]
  have r: "r = Inr (assign_all (map number_name (dealt 0 ?ps)))"
    using assms(8) build by (simp add: getSensorNumNameMap_def)
  have "map_of (rev (map (\<lambda>j. (of_nat (j mod 255) :: u8, getSensorNameFromPath (?ps ! j))) [0..<length tree]))
      (of_nat (k mod 255)) = Some (getSensorNameFromPath (?ps ! k))"
    by (rule last_of_upt [OF assms(6)]) (use assms(7) in \<open>simp only: low_byte_inject not_False_eq_True\<close>)
  then show ?thesis using r numbered_names [of ?ps] assms(5,6) by simp
qed

theorem later_sensor_hides_witness:
  "\<exists>names. fst (getSensorNumNameMap open_env (tree_sys 300)) = Inr names
     \<and> map_of names 5 = Some (getSensorNameFromPath (fst (plain_tree 300 ! 260)))"
proof -
  have "\<forall>j. 260 < j \<and> j < length (plain_tree 300) \<longrightarrow> j mod 255 \<noteq> 260 mod 255"
  proof (intro allI impI)
    fix j :: nat
    assume "260 < j \<and> j < length (plain_tree 300)"
    then obtain d where j: "j = d + 255" and "5 < d" "d < 45" 
      by (intro that [of "j - 255"]) auto
    then show "j mod 255 \<noteq> 260 mod 255" by simp
  qed
  from later_sensor_hides [OF open_env_opens tree_sys_simps(1,2) plain_tree_distinct _ _ this
      prod.collapse [symmetric]]
  show ?thesis by simp
qed

text \<open>The offered sensor types are those of the sensors: \<open>getAvailableSensorTypes\<close> lists a type,
  other than the entry \<open>All\<close> for every sensor, exactly when some sensor has it and the table of sensor
  types knows it, with the code of that table.\<close>

theorem available_types_exact:
  assumes "getSensorNumMap E s = (Inr (Some m, u), s')"
  shows "\<exists>types. getAvailableSensorTypes E s = (Inr types, s') \<and> map_of types ''All'' = Some 255
    \<and> (ty = ''All'' \<or> map_of types ty =
        (if \<exists>x \<in> set m. getSensorTypeStringFromPath (snd x) = ty
         then map_option fst (map_of sensorTypes (c_str ty)) else None))"
proof -
  have "getAvailableSensorTypes E s = (Inr (available_types m), s')"
    using assms by (simp add: getAvailableSensorTypes_def)
  moreover have "of_type ty m = [] \<longleftrightarrow> \<not> (\<exists>x \<in> set m. getSensorTypeStringFromPath (snd x) = ty)"
    by (auto simp: of_type_def filter_empty_conv)
  ultimately show ?thesis
    using types_of_sensors [of m ty] types_of_sensors [of m "''All''"]
    by (auto simp: available_types_def)
qed

theorem available_types_exact_witness:
  "\<exists>types. getAvailableSensorTypes open_env (tree_sys 3)
        = (Inr types, snd (getSensorNumMap open_env (tree_sys 3))) \<and> map_of types ''All'' = Some 255
    \<and> (''1'' = ''All'' \<or> map_of types ''1'' =
        (if \<exists>x \<in> set (dealt 0 (map to_string [0..<3])). getSensorTypeStringFromPath (snd x) = ''1''
         then map_option fst (map_of sensorTypes (c_str ''1'')) else None))"
  by (rule available_types_exact [OF plain_map]) simp

end
