(* ===== verification/AddressCheck.thy ===== *)
theory AddressCheck
  imports World
begin

text \<open>
  The checks that the configuration daemon makes on addresses and community strings
  (\<open>src/pef_config.cpp\<close>).  \<open>inet_pton\<close> and \<open>getaddrinfo\<close> belong to the environment.
\<close>

section \<open>Addresses\<close>

definition validateIPv4Address :: "'w env \<Rightarrow> string \<Rightarrow> ('w, bool) act" where
  "validateIPv4Address E address =
     (if address = '''' then ret True
      else if e_inet_pton E AF_INET (c_str address) then ret True
      else
        let validIPv4Chars = list_all (\<lambda>c. is_digit c \<or> c = CHR ''.'') address
        in if validIPv4Chars then ret False
           else getsE (\<lambda>s. e_getaddrinfo E (world s) AF_INET (c_str address)))"

text \<open>The loop over the characters: \<open>validIPv6Chars\<close> and \<open>hasColon\<close> when it ends.\<close>

fun ipv6_scan :: "bool \<Rightarrow> string \<Rightarrow> bool \<times> bool" where
  "ipv6_scan hasColon [] = (True, hasColon)"
| "ipv6_scan hasColon (c # cs) =
     (let hasColon' = (c = CHR '':'' \<or> hasColon)
      in if \<not> is_xdigit c \<and> c \<noteq> CHR '':'' then (False, hasColon') else ipv6_scan hasColon' cs)"

definition validateIPv6Address :: "'w env \<Rightarrow> string \<Rightarrow> ('w, bool) act" where
  "validateIPv6Address E address =
     (if address = '''' then ret True
      else if e_inet_pton E AF_INET6 (c_str address) then ret True
      else
        let (validIPv6Chars, hasColon) = ipv6_scan False address
        in if hasColon \<and> validIPv6Chars then ret False
           else getsE (\<lambda>s. e_getaddrinfo E (world s) AF_INET6 (c_str address)))"

section \<open>Community strings\<close>

definition snmpBusName :: string where "snmpBusName = ''xyz.openbmc_project.Snmp.Conf''"
definition snmpRootPath :: string where
  "snmpRootPath = ''/xyz/openbmc_project/snmp/CommunityStrManager''"
definition snmpCommStrIntf :: string where
  "snmpCommStrIntf = ''xyz.openbmc_project.Snmp.CommunityStrManager''"

definition managed_objects_call :: ecall where
  "managed_objects_call =
     Method snmpBusName snmpRootPath ''org.freedesktop.DBus.ObjectManager'' ''GetManagedObjects'' []"

text \<open>\<open>intfMap.at(snmpCommStrIntf).at("CommunityString")\<close> as a string.\<close>

definition object_community :: "(string \<times> (string \<times> dval) list) list \<Rightarrow> exn + string" where
  "object_community intfMap =
     bindR (map_at intfMap snmpCommStrIntf) (\<lambda>commStrProps.
     bindR (map_at commStrProps ''CommunityString'') get_str)"

fun find_community ::
  "string \<Rightarrow> (string \<times> (string \<times> (string \<times> dval) list) list) list \<Rightarrow> exn + bool" where
  "find_community value [] = Inr False"
| "find_community value ((path, intfMap) # objTree) =
     bindR (object_community intfMap) (\<lambda>commStr.
       if commStr = value then Inr True else find_community value objTree)"

definition isCommStrValid :: "'w env \<Rightarrow> string \<Rightarrow> ('w, bool) act" where
  "isCommStrValid E value =
     catchE any_exception
       (thenE (bus_call E OpenBus)
          (bindE (bus_call E managed_objects_call) (\<lambda>(err, v).
           bindE (liftE (read_managed v)) (\<lambda>objTree. liftE (find_community value objTree)))))
       (ret False)"

section \<open>Facts\<close>

lemma ipv6_scan_eq:
  "fst (ipv6_scan h cs) = list_all (\<lambda>c. is_xdigit c \<or> c = CHR '':'') cs"
  "fst (ipv6_scan h cs) \<Longrightarrow> snd (ipv6_scan h cs) = (h \<or> CHR '':'' \<in> set cs)"
  by (induction h cs rule: ipv6_scan.induct) (auto simp: Let_def)

text \<open>The checks read, and do not throw.\<close>

lemma address_check_pure:
  "\<exists>b. validateIPv4Address E a s = (Inr b, s)" "\<exists>b. validateIPv6Address E a s = (Inr b, s)"
  by (cases "a = []"; auto simp: validateIPv4Address_def validateIPv6Address_def Let_def split_beta)+

lemma sat_address_check:
  assumes "\<And>s. R s s"
  shows "sat R (validateIPv4Address E a)" and "sat R (validateIPv6Address E a)"
  using assms address_check_pure [of E a] by (metis satD' sat_def snd_conv)+

lemma find_community_exceptions: "find_community cs t = Inl e \<Longrightarrow> any_exception e"
  by (induction cs t rule: find_community.induct)
    (auto simp: bindR_eq_Inl object_community_def dest: pure_exceptions split: if_splits)

lemma raises_isCommStrValid: "raises P (isCommStrValid E value)"
  unfolding isCommStrValid_def
  by (intro raises_catch_any raises_intros raises_bus_call raises_lift)
    (auto dest: pure_exceptions find_community_exceptions)

lemma reads_isCommStrValid:
  "P OpenBus \<Longrightarrow> P managed_objects_call \<Longrightarrow> sat (calls_only P) (isCommStrValid E value)"
  unfolding isCommStrValid_def by (intro calls_sat)

lemma same_isCommStrValid: "sat same_files (isCommStrValid E value)"
  unfolding isCommStrValid_def by (intro files_sat)

text \<open>What looks like a numeric address of the family: characters of such addresses only, and for IPv6
  at least one colon.\<close>

definition unfinished_ipv4 :: "string \<Rightarrow> bool" where
  "unfinished_ipv4 a \<longleftrightarrow> list_all (\<lambda>c. is_digit c \<or> c = CHR ''.'') a"

definition unfinished_ipv6 :: "string \<Rightarrow> bool" where
  "unfinished_ipv6 a \<longleftrightarrow> CHR '':'' \<in> set a \<and> list_all (\<lambda>c. is_xdigit c \<or> c = CHR '':'') a"

section \<open>Properties\<close>

text \<open>C35. What counts as an address: the empty string, a numeric address of the family, or a name that
  resolves in the family and does not look like an unfinished numeric address, that is, has a character
  that no IPv4 address has, respectively no colon or a character that no IPv6 address has.\<close>

theorem addresses_accepted:
  "validateIPv4Address E a s =
     (Inr (a = '''' \<or> e_inet_pton E AF_INET (c_str a)
       \<or> e_getaddrinfo E (world s) AF_INET (c_str a) \<and> \<not> unfinished_ipv4 a), s)
   \<and> validateIPv6Address E a s =
     (Inr (a = '''' \<or> e_inet_pton E AF_INET6 (c_str a)
       \<or> e_getaddrinfo E (world s) AF_INET6 (c_str a) \<and> \<not> unfinished_ipv6 a), s)"
  using ipv6_scan_eq [of False a]
  by (auto simp: validateIPv4Address_def validateIPv6Address_def unfinished_ipv4_def unfinished_ipv6_def
      Let_def split_beta)

text \<open>A community string is accepted exactly when it is among those of the leading readable objects
  that the SNMP service lists: an object without the interface or the property hides all later ones.\<close>

theorem community_found:
  assumes "fst (e_bus E (world s) OpenBus) = Reply opened dv"
    and "fst (e_bus E (world (after_call E OpenBus s)) managed_objects_call) = Reply err (DManaged t)"
  shows "fst (isCommStrValid E cs s)
    = Inr (Inr cs \<in> set (takeWhile (\<lambda>r. \<not> isl r) (map (\<lambda>obj. object_community (snd obj)) t)))"
proof -
  have found: "(find_community cs t = Inr True)
      = (Inr cs \<in> set (takeWhile (\<lambda>r. \<not> isl r) (map (\<lambda>obj. object_community (snd obj)) t)))"
    by (induction cs t rule: find_community.induct)
      (auto simp: isl_def bindR_def split: sum.splits)
  have "fst (isCommStrValid E cs s) =
      (case find_community cs t of Inl e \<Rightarrow> if any_exception e then Inr False else Inl e | Inr b \<Rightarrow> Inr b)"
    using assms by (simp add: isCommStrValid_def catchE_def thenE_def bindE_def bus_call_eq split: sum.split)
  then show ?thesis
    unfolding found [symmetric] by (auto dest: find_community_exceptions split: sum.split)
qed

definition community_env :: "unit env" where
  "community_env = table_env (\<lambda>c. Reply False (DManaged
     [(''/a'', [(snmpCommStrIntf, [(''CommunityString'', DStr ''public'')])]), (''/b'', []),
      (''/c'', [(snmpCommStrIntf, [(''CommunityString'', DStr ''ops'')])])]))"

theorem community_found_witness:
  "fst (isCommStrValid community_env ''public'' (initial_sys ())) = Inr True
   \<and> fst (isCommStrValid community_env ''ops'' (initial_sys ())) = Inr False"
proof -
  let ?t = "[(''/a'', [(snmpCommStrIntf, [(''CommunityString'', DStr ''public'')])]), (''/b'', []),
      (''/c'', [(snmpCommStrIntf, [(''CommunityString'', DStr ''ops'')])])]"
  have "fst (isCommStrValid community_env cs (initial_sys ()))
      = Inr (Inr cs \<in> set (takeWhile (\<lambda>r. \<not> isl r) (map (\<lambda>obj. object_community (snd obj)) ?t)))" for cs
    by (rule community_found [where err = False and opened = False]) (simp_all add: community_env_def)
  then show ?thesis by (simp add: object_community_def map_at_def)
qed

end
