(* ===== verification/TestDestination.thy ===== *)
theory TestDestination
  imports SnmpNotify JsonEdit
begin

text \<open>
  The test alerts of the configuration daemon (\<open>src/pef_config.cpp\<close>, interface
  \<open>xyz.openbmc_project.pef.SnmpTest\<close>): the Ethernet interfaces of the platform, and a test trap or
  test mail to one configured destination.
\<close>

section \<open>Interfaces\<close>

definition isEthInterfaceName :: "string \<Rightarrow> bool" where
  "isEthInterfaceName interfaceName = starts_with ''eth'' interfaceName"

definition channelConfigFile :: string where
  "channelConfigFile = ''/etc/ipmi/channel_config.json''"

text \<open>One channel of the configuration: its interface, when it is a valid Ethernet channel.\<close>

definition channel_interface :: "json \<Rightarrow> exn + string option" where
  "channel_interface channelObj =
     (if \<not> json_is_object channelObj then Inr None
      else bindR (json_value json_get_bool channelObj ''is_valid'' False) (\<lambda>isValid.
        if \<not> isValid then Inr None
        else bindR (json_value json_get_string channelObj ''name'' '''') (\<lambda>name.
          if \<not> isEthInterfaceName name then Inr None else Inr (Some name))))"

fun eth_interfaces :: "json list \<Rightarrow> string list \<Rightarrow> exn + string list" where
  "eth_interfaces [] ethInterfaces = Inr ethInterfaces"
| "eth_interfaces (channelObj # channels) ethInterfaces =
     bindR (channel_interface channelObj) (\<lambda>r.
       case r of
         Some name \<Rightarrow>
           eth_interfaces channels (if name \<in> set ethInterfaces then ethInterfaces else ethInterfaces @ [name])
       | None \<Rightarrow> eth_interfaces channels ethInterfaces)"

definition getAvailableEthInterfaces :: "'w env \<Rightarrow> ('w, string list) act" where
  "getAvailableEthInterfaces E =
     bindE (getsE (\<lambda>s. files s channelConfigFile)) (\<lambda>file. case file of
       None \<Rightarrow> ret []
     | Some text \<Rightarrow>
         (let channelData = jl_parse (e_json E) text
          in if channelData = JDiscarded then ret []
             else liftE (eth_interfaces (json_items channelData) [])))"

definition getTestTimestamp :: "'w env \<Rightarrow> ('w, string) act" where
  "getTestTimestamp E = getsE (\<lambda>s. e_time E (world s))"

definition channel_map_call :: ecall where
  "channel_map_call = Method userManagerBus userMgrObjPath userAccPolicyIntf getMapMethod []"

definition getInterfaceNameForChannelForTest :: "'w env \<Rightarrow> u8 \<Rightarrow> ('w, string option) act" where
  "getInterfaceNameForChannelForTest E channelNo =
     catchE any_exception
       (thenE (bus_call E OpenBus)
          (bindE (bus_call E channel_map_call) (\<lambda>(err, v).
           bindE (liftE (read_channels v)) (\<lambda>channelMap.
             ret (case map_of channelMap channelNo of
                    Some iface \<Rightarrow> if isEthInterfaceName iface then Some iface else None
                  | None \<Rightarrow> None)))))
       (ret None)"

section \<open>Test mail\<close>

definition mail_id_call :: "string \<Rightarrow> ecall" where
  "mail_id_call user =
     get_property userManagerBus (userObjPathPrefix @ user) userAttributesIface ''SMTPMailID''"

definition getSmtpMailIDForTest :: "'w env \<Rightarrow> string \<Rightarrow> ('w, string option) act" where
  "getSmtpMailIDForTest E selectedUserName =
     (if selectedUserName = '''' then ret None
      else catchE any_exception
        (thenE (bus_call E OpenBus)
          (bindE (bus_call E (mail_id_call selectedUserName))
            (\<lambda>(err, v). bindE (liftE (get_str v)) (\<lambda>mailId. ret (Some mailId)))))
        (ret None))"

definition test_mail_call :: "string \<Rightarrow> u8 \<Rightarrow> u8 \<Rightarrow> ecall" where
  "test_mail_call mailId channelNo destinationSel =
     Method mailService mailObjPath mailIface ''ForgotPassSendMail''
       [DStr (c_str mailId), DStr ''PEF Test Alert'',
        DStr (''PEF test alert triggered for channel '' @ to_string (unat channelNo) @ '' destination ''
          @ to_string (unat destinationSel))]"

definition sendTestMailForDestination :: "'w env \<Rightarrow> string \<Rightarrow> u8 \<Rightarrow> u8 \<Rightarrow> ('w, bool) act" where
  "sendTestMailForDestination E mailId channelNo destinationSel =
     (if mailId = '''' then ret False
      else catchE any_exception
        (thenE (bus_call E OpenBus)
          (bindE (bus_call E (test_mail_call mailId channelNo destinationSel)) (\<lambda>(err, v). ret (\<not> err))))
        (ret False))"

section \<open>The test of one destination\<close>

text \<open>The test trap, which is also the method \<open>TestSNMP\<close>.\<close>

definition test_trap :: "'w env \<Rightarrow> u8 \<Rightarrow> u8 \<Rightarrow> ('w, bool) act" where
  "test_trap E channelNo destinationSel =
     bindE (getTestTimestamp E) (\<lambda>ts.
       sendOBMCErrorNotification E 0xFFFF ts ''Information'' ''PEF SNMP test notification''
         ''PEFTestEvent'' ''Asserted'' '''' '''' ''PEF_SNMP_TEST'' channelNo destinationSel)"

definition test_smtp :: "'w env \<Rightarrow> json \<Rightarrow> nat \<Rightarrow> u8 \<Rightarrow> u8 \<Rightarrow> ('w, bool) act" where
  "test_smtp E cfg selectedIndex channelNo destinationSel =
     (case json_array cfg ''UserName'' of
        None \<Rightarrow> ret False
      | Some userArr \<Rightarrow>
          (if length userArr \<le> selectedIndex then ret False
           else
             bindE (liftE (json_get_string (userArr ! selectedIndex))) (\<lambda>selectedUser.
             bindE (getSmtpMailIDForTest E selectedUser) (\<lambda>smtpMailId. case smtpMailId of
               None \<Rightarrow> ret False
             | Some mailId \<Rightarrow>
                 (if mailId = '''' then ret False
                  else sendTestMailForDestination E mailId channelNo destinationSel)))))"

definition test_entry :: "'w env \<Rightarrow> json \<Rightarrow> u8 \<Rightarrow> u8 \<Rightarrow> ('w, bool) act" where
  "test_entry E lanData channelNo destinationSel =
     (case json_lookup lanData ''Config'' of
        None \<Rightarrow> ret False
      | Some cfg \<Rightarrow>
          (case json_array cfg ''Type'' of
             None \<Rightarrow> ret False
           | Some typeArr \<Rightarrow>
               (let selectedIndex = unat destinationSel - 1
                in if length typeArr \<le> selectedIndex then ret False
                   else bindE (liftE (json_u8 (e_json E) (typeArr ! selectedIndex))) (\<lambda>destinationType.
                     if destinationType \<le> 2 then test_trap E channelNo destinationSel
                     else if destinationType = 3 then
                       test_smtp E cfg selectedIndex channelNo destinationSel
                     else ret False))))"

definition dispatchTestDestination :: "'w env \<Rightarrow> u8 \<Rightarrow> u8 \<Rightarrow> ('w, bool) act" where
  "dispatchTestDestination E channelNo destinationSel =
     catchE any_exception
       (if destinationSel = 0 then ret False
        else
          bindE (getInterfaceNameForChannelForTest E channelNo) (\<lambda>ifaceNameOpt. case ifaceNameOpt of
            None \<Rightarrow> ret False
          | Some ifaceName \<Rightarrow>
              bindE (read_json E pefLanParamConfFile) (\<lambda>mergedData.
                test_entry E (lan_section mergedData ifaceName) channelNo destinationSel)))
       (ret False)"

definition maxDestinationSel :: u8 where "maxDestinationSel = 15"

text \<open>The channel must be one of the Ethernet channels; a failing query counts as no.\<close>

definition test_channel_allowed :: "'w env \<Rightarrow> u8 \<Rightarrow> ('w, bool) act" where
  "test_channel_allowed E channelNo =
     catchE any_exception
       (thenE (bus_call E OpenBus)
          (bindE (bus_call E channel_map_call) (\<lambda>(err, v).
           bindE (liftE (read_channels v)) (\<lambda>channelMap.
             ret (\<exists>(mapChannelNo, interfaceName) \<in> set channelMap.
               isEthInterfaceName interfaceName \<and> mapChannelNo = channelNo)))))
       (ret False)"

definition TestDestination :: "'w env \<Rightarrow> u8 \<Rightarrow> u8 \<Rightarrow> ('w, bool) act" where
  "TestDestination E channelNo destinationSel =
     (if channelNo > 15 then ret False
      else bindE (test_channel_allowed E channelNo) (\<lambda>allowed.
        if \<not> allowed then ret False
        else
          (let destinationSel' = destinationSel + 1
           in if destinationSel' = 0 \<or> destinationSel' > maxDestinationSel - 1 then ret False
              else dispatchTestDestination E channelNo destinationSel')))"

section \<open>Facts\<close>

definition test_note :: "string \<Rightarrow> notification" where
  "test_note ts =
     \<lparr>obmcErrorID = 0xFFFF, obmcErrorTimestamp = ts, obmcErrorSeverity = ''Information'',
      obmcErrorMessage = ''PEF SNMP test notification'', obmcEventID = ''PEFTestEvent'',
      obmcEventStatus = ''Asserted'', obmcEventSubjectSN = '''', obmcAddData = '''',
      obmcIP = ''PEF_SNMP_TEST''\<rparr>"

lemma test_trap_eq:
  "test_trap E ch d = bindE (getTestTimestamp E) (\<lambda>ts. sendTrap E (test_note ts) (Some ch) (Some d))"
  by (simp add: test_trap_def sendOBMCErrorNotification_def test_note_def)

text \<open>A delivery: a trap of the test notification, or a test mail.\<close>

definition delivers :: "u8 \<Rightarrow> u8 \<Rightarrow> ecall \<Rightarrow> bool" where
  "delivers ch d c \<longleftrightarrow>
     (\<exists>session p ts st. c = SnmpSend session p \<and> trap_for (test_note ts) st session p)
     \<or> (\<exists>mail. mail \<noteq> '''' \<and> c = test_mail_call mail ch d)"

text \<open>\<open>one_delivery ch d m\<close>: \<open>m\<close> does not throw; it makes preparing calls and then at most one delivery, and
  when it returns true, there is one.\<close>

definition one_delivery :: "u8 \<Rightarrow> u8 \<Rightarrow> ('w, bool) act \<Rightarrow> bool" where
  "one_delivery ch d m \<longleftrightarrow> (\<forall>s r s'. m s = (r, s') \<longrightarrow>
     (\<exists>sent t. (r = Inr sent \<or> (\<exists>e. r = Inl e \<and> any_exception e \<and> \<not> sent)) \<and> list_all prepares_trap t
       \<and> (trace s' = trace s @ t \<and> \<not> sent \<or> (\<exists>c. trace s' = trace s @ t @ [c] \<and> delivers ch d c))))"

lemma one_deliveryI:
  assumes "\<And>s r s'. m s = (r, s') \<Longrightarrow> \<exists>sent t.
      (r = Inr sent \<or> (\<exists>e. r = Inl e \<and> any_exception e \<and> \<not> sent)) \<and> list_all prepares_trap t
    \<and> (trace s' = trace s @ t \<and> \<not> sent \<or> (\<exists>c. trace s' = trace s @ t @ [c] \<and> delivers ch d c))"
  shows "one_delivery ch d m"
  using assms by (simp add: one_delivery_def)

lemma one_deliveryD:
  assumes "one_delivery ch d m" and "m s = (Inr sent, s')"
  shows "\<exists>t. list_all prepares_trap t
    \<and> (trace s' = trace s @ t \<and> \<not> sent \<or> (\<exists>c. trace s' = trace s @ t @ [c] \<and> delivers ch d c))"
proof -
  obtain sent' t where "Inr sent = (Inr sent' :: exn + bool) \<or> (\<exists>e. Inr sent = (Inl e :: exn + bool) \<and> any_exception e \<and> \<not> sent')"
    and t: "list_all prepares_trap t"
      "trace s' = trace s @ t \<and> \<not> sent' \<or> (\<exists>c. trace s' = trace s @ t @ [c] \<and> delivers ch d c)"
    using assms(1) [unfolded one_delivery_def, rule_format, OF assms(2)] by (elim exE conjE)
  then have "sent' = sent" by simp
  then show ?thesis using t by (intro exI [of _ t] conjI) simp_all
qed

lemma one_delivery_False: "one_delivery ch d (ret False)"
  unfolding one_delivery_def by (auto intro!: exI [of _ "[]"])

lemma one_delivery_if:
  "(b \<Longrightarrow> one_delivery ch d m) \<Longrightarrow> (\<not> b \<Longrightarrow> one_delivery ch d n) \<Longrightarrow> one_delivery ch d (if b then m else n)"
  by simp

lemma one_delivery_option:
  "(x = None \<Longrightarrow> one_delivery ch d m) \<Longrightarrow> (\<And>y. x = Some y \<Longrightarrow> one_delivery ch d (f y)) \<Longrightarrow>
   one_delivery ch d (case x of None \<Rightarrow> m | Some y \<Rightarrow> f y)"
  by (cases x) auto

lemma one_delivery_raises: "one_delivery ch d m \<Longrightarrow> raises any_exception m"
  unfolding one_delivery_def raises_def by blast

text \<open>Preparing steps in front, and a handler that gives up behind.\<close>

lemma one_delivery_bind:
  assumes m: "sat (calls_only is_read_call) m" "raises any_exception m" and f: "\<And>x. one_delivery ch d (f x)"
  shows "one_delivery ch d (bindE m f)"
proof (rule one_deliveryI)
  fix s r s'
  assume run: "bindE m f s = (r, s')"
  obtain r1 s1 where m1: "m s = (r1, s1)" by (cases "m s")
  have "calls_only is_read_call s s1" using m(1) m1 by (rule satD')
  then have "calls_only prepares_trap s s1" by (rule calls_only_mono) (rule read_prepares_trap)
  then obtain t1 where t1: "trace s1 = trace s @ t1" "list_all prepares_trap t1"
    by (auto simp: calls_only_def)
  show "\<exists>sent t. (r = Inr sent \<or> (\<exists>e. r = Inl e \<and> any_exception e \<and> \<not> sent)) \<and> list_all prepares_trap t
    \<and> (trace s' = trace s @ t \<and> \<not> sent \<or> (\<exists>c. trace s' = trace s @ t @ [c] \<and> delivers ch d c))"
  proof (cases r1)
    case (Inl e)
    then have "r = Inl e" "s' = s1" using run m1 by simp_all
    moreover have "any_exception e" using raisesD [OF m(2)] m1 Inl by blast
    ultimately show ?thesis using t1 by blast
  next
    case (Inr x)
    then have "f x s1 = (r, s')" using run m1 by simp
    with f [of x] obtain sent t where
      "r = Inr sent \<or> (\<exists>e. r = Inl e \<and> any_exception e \<and> \<not> sent)" "list_all prepares_trap t"
      "trace s' = trace s1 @ t \<and> \<not> sent \<or> (\<exists>c. trace s' = trace s1 @ t @ [c] \<and> delivers ch d c)"
      unfolding one_delivery_def by blast
    then show ?thesis using t1 by (intro exI [of _ sent] exI [of _ "t1 @ t"]) auto
  qed
qed

lemma one_delivery_catch:
  assumes "one_delivery ch d m"
  shows "one_delivery ch d (catchE any_exception m (ret False))"
proof (rule one_deliveryI)
  fix s r s'
  assume run: "catchE any_exception m (ret False) s = (r, s')"
  obtain r1 s1 where m1: "m s = (r1, s1)" by (cases "m s")
  with assms obtain sent t where m2:
    "r1 = Inr sent \<or> (\<exists>e. r1 = Inl e \<and> any_exception e \<and> \<not> sent)" "list_all prepares_trap t"
    "trace s1 = trace s @ t \<and> \<not> sent \<or> (\<exists>c. trace s1 = trace s @ t @ [c] \<and> delivers ch d c)"
    unfolding one_delivery_def by blast
  then have "r = Inr sent" "s' = s1" using run m1 by auto
  then show "\<exists>sent t. (r = Inr sent \<or> (\<exists>e. r = Inl e \<and> any_exception e \<and> \<not> sent)) \<and> list_all prepares_trap t
    \<and> (trace s' = trace s @ t \<and> \<not> sent \<or> (\<exists>c. trace s' = trace s @ t @ [c] \<and> delivers ch d c))"
    using m2 by blast
qed

section \<open>The parts of a test\<close>

lemma channel_query_read [simp]: "is_read_call channel_map_call" "is_read_call (mail_id_call u)"
  by (simp_all add: channel_map_call_def mail_id_call_def)

lemma one_delivery_test_trap: "one_delivery ch d (test_trap E ch d)"
  unfolding test_trap_eq
proof (rule one_delivery_bind)
  fix ts
  show "one_delivery ch d (sendTrap E (test_note ts) (Some ch) (Some d))"
  proof (rule one_deliveryI)
    fix s :: "'a sys" and r s'
    assume run: "sendTrap E (test_note ts) (Some ch) (Some d) s = (r, s')"
    obtain st where "getSNMPDisableStatus s = (Inr st, s)"
      by (simp add: getSNMPDisableStatus_def)
    from run this show "\<exists>sent t. (r = Inr sent \<or> (\<exists>e. r = Inl e \<and> any_exception e \<and> \<not> sent))
        \<and> list_all prepares_trap t
        \<and> (trace s' = trace s @ t \<and> \<not> sent \<or> (\<exists>c. trace s' = trace s @ t @ [c] \<and> delivers ch d c))"
    proof (cases rule: sendTrap_cases)
      case (quiet t)
      then show ?thesis by blast
    next
      case (sent t b session p)
      then have "delivers ch d (SnmpSend session p)" by (auto simp: delivers_def)
      with sent show ?thesis by blast
    qed
  qed
qed (auto simp: getTestTimestamp_def intro: calls.sat_basic raises_gets)

lemma one_delivery_mail_call:
  "one_delivery ch d (bindE (bus_call E c) (\<lambda>(err, v). ret (\<not> err)))" if "delivers ch d c"
proof (rule one_deliveryI)
  fix s :: "'a sys" and r s'
  assume run: "bindE (bus_call E c) (\<lambda>(err, v). ret (\<not> err)) s = (r, s')"
  show "\<exists>sent t. (r = Inr sent \<or> (\<exists>e. r = Inl e \<and> any_exception e \<and> \<not> sent)) \<and> list_all prepares_trap t
    \<and> (trace s' = trace s @ t \<and> \<not> sent \<or> (\<exists>c. trace s' = trace s @ t @ [c] \<and> delivers ch d c))"
    by (rule bus_call_cases [of E c s]; rule exI [of _ "r = Inr True"]; rule exI [of _ "[]"])
      (use run that in \<open>auto simp: bindE_def\<close>)
qed

lemma one_delivery_then:
  "sat (calls_only is_read_call) m \<Longrightarrow> raises any_exception m \<Longrightarrow> one_delivery ch d n \<Longrightarrow>
   one_delivery ch d (thenE m n)"
  unfolding thenE_def by (rule one_delivery_bind)

lemma one_delivery_test_mail: "one_delivery ch d (sendTestMailForDestination E mail ch d)"
  unfolding sendTestMailForDestination_def
  by (intro one_delivery_if one_delivery_False one_delivery_catch one_delivery_then one_delivery_mail_call
      calls_bus_call raises_bus_call)
    (auto simp: delivers_def)

lemma query_getSmtpMailIDForTest:
  "sat (calls_only is_read_call) (getSmtpMailIDForTest E u)" "raises any_exception (getSmtpMailIDForTest E u)"
  unfolding getSmtpMailIDForTest_def
  by (intro calls_sat; simp) (intro raises_intros raises_catch_any raises_bus_call raises_lift;
      auto dest: pure_exceptions)

lemma query_interface:
  "sat (calls_only is_read_call) (getInterfaceNameForChannelForTest E ch)"
  "raises any_exception (getInterfaceNameForChannelForTest E ch)"
  unfolding getInterfaceNameForChannelForTest_def
  by (intro calls_sat; simp) (intro raises_intros raises_catch_any raises_bus_call raises_lift;
      auto dest: pure_exceptions)

lemma query_channel:
  "sat (calls_only is_read_call) (test_channel_allowed E ch)"
  "raises (\<lambda>_. False) (test_channel_allowed E ch)"
  unfolding test_channel_allowed_def
  by (intro calls_sat; simp) (intro raises_intros raises_catch_any raises_bus_call raises_lift;
      auto dest: pure_exceptions)

lemma one_delivery_lift:
  assumes "\<And>e. r = Inl e \<Longrightarrow> e = JsonError" and "\<And>x. one_delivery ch d (f x)"
  shows "one_delivery ch d (bindE (liftE r) f)"
proof (rule one_delivery_bind)
  show "raises any_exception (liftE r)"
    by (rule raises_lift, drule assms(1)) simp
qed (rule calls.sat_lift, rule assms(2))

lemma one_delivery_test_smtp: "one_delivery ch d (test_smtp E cfg i ch d)"
  unfolding test_smtp_def
proof (rule one_delivery_option, rule one_delivery_False, rule one_delivery_if, rule one_delivery_False,
    rule one_delivery_lift)
  show "json_get_string j = Inl e \<Longrightarrow> e = JsonError" for j e by (rule json_exceptions)
next
  show "one_delivery ch d (bindE (getSmtpMailIDForTest E user) (\<lambda>smtpMailId. case smtpMailId of
      None \<Rightarrow> ret False
    | Some mailId \<Rightarrow> (if mailId = '''' then ret False else sendTestMailForDestination E mailId ch d)))"
    for user
    by (rule one_delivery_bind [OF query_getSmtpMailIDForTest],
        rule one_delivery_option, rule one_delivery_False,
        rule one_delivery_if, rule one_delivery_False, rule one_delivery_test_mail)
qed

lemma one_delivery_test_entry: "one_delivery ch d (test_entry E lanData ch d)"
  unfolding test_entry_def Let_def
proof (rule one_delivery_option, rule one_delivery_False, rule one_delivery_option, rule one_delivery_False,
    rule one_delivery_if, rule one_delivery_False, rule one_delivery_lift)
  show "json_u8 J j = Inl e \<Longrightarrow> e = JsonError" for J j e
    by (auto simp: json_u8_def bindR_eq_Inl dest: json_exceptions)
next
  show "one_delivery ch d (if ty \<le> 2 then test_trap E ch d
      else if ty = 3 then test_smtp E cfg (unat d - 1) ch d else ret False)" for ty :: u8 and cfg
    by (simp add: one_delivery_test_trap one_delivery_test_smtp one_delivery_False)
qed

lemma one_delivery_dispatch:
  "one_delivery ch d (dispatchTestDestination E ch d)" "raises P (dispatchTestDestination E ch d)"
proof -
  have inner: "one_delivery ch d
      (if d = 0 then ret False
        else
          bindE (getInterfaceNameForChannelForTest E ch) (\<lambda>ifaceNameOpt. case ifaceNameOpt of
            None \<Rightarrow> ret False
          | Some ifaceName \<Rightarrow>
              bindE (read_json E pefLanParamConfFile) (\<lambda>mergedData.
                test_entry E (lan_section mergedData ifaceName) ch d)))"
    unfolding read_json_def
    by (intro one_delivery_if one_delivery_False one_delivery_bind one_delivery_option
        one_delivery_test_entry query_interface calls.sat_basic raises_gets)
  then show "one_delivery ch d (dispatchTestDestination E ch d)"
    unfolding dispatchTestDestination_def by (rule one_delivery_catch)
  show "raises P (dispatchTestDestination E ch d)"
    unfolding dispatchTestDestination_def
    by (rule raises_catch_any [OF one_delivery_raises [OF inner] raises_ret])
qed

section \<open>Properties\<close>

text \<open>C36. A test alert tells the truth: \<open>TestDestination\<close> never throws; it makes at most one delivery, a
  trap of the test notification or a test mail, as its last call and behind calls that only read or open
  the session, and only for a channel up to 15 and one of the first 14 destinations; and it returns true
  only after a delivery.\<close>

theorem test_destination_sound:
  assumes "TestDestination E ch d s = (r, s')"
  shows "\<exists>sent t. r = Inr sent \<and> list_all prepares_trap t
    \<and> (trace s' = trace s @ t \<and> \<not> sent
       \<or> (\<exists>c. trace s' = trace s @ t @ [c] \<and> delivers ch (d + 1) c \<and> ch \<le> 15 \<and> d < 14))"
proof -
  have quiet: "?thesis" if "r = Inr False" "calls_only is_read_call s s'"
  proof -
    have "calls_only prepares_trap s s'"
      using that(2) by (rule calls_only_mono) (rule read_prepares_trap)
    then show ?thesis using that(1) by (auto simp: calls_only_def)
  qed
  show ?thesis
  proof (cases "ch > 15")
    case True
    then show ?thesis using assms quiet by (simp add: TestDestination_def calls.refl)
  next
    case False
    obtain r1 s1 where q: "test_channel_allowed E ch s = (r1, s1)" by (cases "test_channel_allowed E ch s")
    then obtain allowed where r1: "r1 = Inr allowed"
      using raises_none [OF query_channel(2), of E ch s] by auto
    have reads: "calls_only is_read_call s s1" using query_channel(1) q by (rule satD')
    show ?thesis
    proof (cases "\<not> allowed \<or> d + 1 = 0 \<or> d + 1 > maxDestinationSel - 1")
      case True
      then have "r = Inr False \<and> s' = s1"
        using assms q r1 False by (auto simp: TestDestination_def Let_def bindE_def split: if_splits)
      then show ?thesis using reads by (intro quiet) auto
    next
      case ok: False
      then have run: "dispatchTestDestination E ch (d + 1) s1 = (r, s')"
        using assms q r1 False by (simp add: TestDestination_def Let_def bindE_def)
      have "d < 14" using ok by (simp add: maxDestinationSel_def) unat_arith
      obtain x where x: "r = Inr x"
        using raises_none [OF one_delivery_dispatch(2)] run by (metis prod.inject)
      have "calls_only prepares_trap s s1"
        using reads by (rule calls_only_mono) (rule read_prepares_trap)
      then obtain t1 where t1: "trace s1 = trace s @ t1" "list_all prepares_trap t1"
        by (auto simp: calls_only_def)
      obtain t where t: "list_all prepares_trap t" "trace s' = trace s1 @ t \<and> \<not> x
          \<or> (\<exists>c. trace s' = trace s1 @ t @ [c] \<and> delivers ch (d + 1) c)"
        using one_deliveryD [OF one_delivery_dispatch(1) run [unfolded x]] by (elim exE conjE)
      have "list_all prepares_trap (t1 @ t)" using t1(2) t(1) by simp
      moreover have "trace s' = trace s @ (t1 @ t) \<and> \<not> x
          \<or> (\<exists>c. trace s' = trace s @ (t1 @ t) @ [c] \<and> delivers ch (d + 1) c)"
        using t(2) t1(1) by simp
      moreover have "ch \<le> 15" using False by simp
      ultimately show ?thesis
        using x \<open>d < 14\<close> by (intro exI [of _ x] exI [of _ "t1 @ t"] conjI) simp_all
    qed
  qed
qed

text \<open>An instance: the test of the one destination of \<open>trap_env\<close> delivers a trap.\<close>

lemma test_delivered: "fst (TestDestination trap_env 1 0 trap_sys) = Inr True"
proof -
  have bus: "bus_call trap_env c s = (Inr (False, DChanMap [(1, ''eth0'')]), after_call trap_env c s)"
    for c s
    by (rule bus_call_Reply) (simp add: trap_env_def table_env_def)
  have eth: "isEthInterfaceName ''eth0''" by (simp add: isEthInterfaceName_def starts_with_def)
  have allowed: "test_channel_allowed trap_env 1 s
      = (Inr True, after_call trap_env channel_map_call (after_call trap_env OpenBus s))" for s
    by (simp add: test_channel_allowed_def bus eth thenE_def bindE_def catchE_def)
  have iface: "getInterfaceNameForChannelForTest trap_env 1 s
      = (Inr (Some ''eth0''), after_call trap_env channel_map_call (after_call trap_env OpenBus s))" for s
    by (simp add: getInterfaceNameForChannelForTest_def bus eth thenE_def bindE_def catchE_def)
  have doc: "read_json trap_env pefLanParamConfFile s = (Inr trap_document, s)"
    if "files s = files trap_sys" for s
    using that by (simp add: read_json_def trap_files trap_env_def trap_json_def)
  have entry: "test_entry trap_env (lan_section trap_document ''eth0'') 1 1 = test_trap trap_env 1 1"
    by (simp add: test_entry_def json_array_def lan_section_def trap_document_def json_contains_def json_u8_def
        json_get_u32_def trap_env_def trap_json_def)
  have trap: "fst (test_trap trap_env 1 1 s) = Inr True" if "files s = files trap_sys" for s
    using trap_sent [OF that] by (simp add: test_trap_eq getTestTimestamp_def)
  have "fst (dispatchTestDestination trap_env 1 1 s) = Inr True" if "files s = files trap_sys" for s
  proof -
    let ?s = "after_call trap_env channel_map_call (after_call trap_env OpenBus s)"
    have "files ?s = files trap_sys" using that by simp
    from trap [OF this] obtain s' where "test_trap trap_env 1 1 ?s = (Inr True, s')" by (metis prod.collapse)
    then show ?thesis
      using that by (simp add: dispatchTestDestination_def catchE_def bindE_def iface doc entry)
  qed
  then show ?thesis
    by (simp add: TestDestination_def bindE_def allowed maxDestinationSel_def)
qed

theorem test_destination_sound_witness:
  "\<exists>t c. trace (snd (TestDestination trap_env 1 0 trap_sys)) = t @ [c] \<and> delivers 1 1 c"
proof -
  let ?s = "snd (TestDestination trap_env 1 0 trap_sys)"
  obtain sent t where r: "fst (TestDestination trap_env 1 0 trap_sys) = Inr sent"
    and t: "trace ?s = trace trap_sys @ t \<and> \<not> sent
     \<or> (\<exists>c. trace ?s = trace trap_sys @ t @ [c] \<and> delivers 1 (0 + 1) c \<and> (1 :: u8) \<le> 15 \<and> (0 :: u8) < 14)"
    using test_destination_sound [OF prod.collapse [symmetric], of trap_env 1 0 trap_sys]
    by (elim exE conjE)
  from r have "sent" using test_delivered by simp
  then obtain c where "trace ?s = (trace trap_sys @ t) @ [c]" "delivers 1 1 c" using t by auto
  then show ?thesis by (intro exI conjI)
qed

end
