(* ===== verification/ConfigObjects.thy ===== *)
theory ConfigObjects
  imports JsonEdit
begin

text \<open>
  The state of the configuration daemon: the objects it has published on the bus, the shared
  destination types of each LAN interface (\<open>sharedTypes\<close> in \<open>src/pef_config.cpp\<close>), and the parts that it
  has in common with the event-filtering daemon.
\<close>

section \<open>Objects\<close>

record dobject =
  o_path :: string
  o_iface :: string
  o_props :: "(string \<times> dval) list"

record 'w conf =
  c_sys :: "'w sys"
  c_objs :: "dobject list"
  c_types :: "string \<Rightarrow> u8 list"

type_synonym ('w, 'a) cact = "('w conf, 'a) prog"

text \<open>A function of the shared part, run in the configuration daemon.\<close>

definition on_sys :: "('w, 'a) act \<Rightarrow> ('w, 'a) cact" where
  "on_sys m = (\<lambda>c. case m (c_sys c) of (r, s') \<Rightarrow> (r, c\<lparr>c_sys := s'\<rparr>))"

text \<open>\<open>add_interface\<close> to \<open>initialize\<close>: an object appears on the bus when all its properties are
  registered.\<close>

definition publish :: "dobject \<Rightarrow> ('w, unit) cact" where
  "publish o' = modifyE (\<lambda>c. c\<lparr>c_objs := c_objs c @ [o']\<rparr>)"

definition is_object :: "string \<Rightarrow> string \<Rightarrow> dobject \<Rightarrow> bool" where
  "is_object path iface o' \<longleftrightarrow> o_path o' = path \<and> o_iface o' = iface"

definition find_object :: "string \<Rightarrow> string \<Rightarrow> dobject list \<Rightarrow> dobject option" where
  "find_object path iface objs = List.find (is_object path iface) objs"

definition get_prop :: "'w conf \<Rightarrow> string \<Rightarrow> string \<Rightarrow> string \<Rightarrow> dval option" where
  "get_prop c path iface name =
     (case find_object path iface (c_objs c) of None \<Rightarrow> None | Some o' \<Rightarrow> map_of (o_props o') name)"

text \<open>\<open>property = value\<close>.\<close>

definition put_prop :: "string \<Rightarrow> dval \<Rightarrow> dobject \<Rightarrow> dobject" where
  "put_prop name v o' = o'\<lparr>o_props := map (\<lambda>(n, x). (n, if n = name then v else x)) (o_props o')\<rparr>"

definition set_prop :: "string \<Rightarrow> string \<Rightarrow> string \<Rightarrow> dval \<Rightarrow> ('w, unit) cact" where
  "set_prop path iface name v = modifyE (\<lambda>c. c\<lparr>c_objs :=
     map (\<lambda>o'. if is_object path iface o' then put_prop name v o' else o') (c_objs c)\<rparr>)"

text \<open>The type of a property is fixed by its registration: its signature on the bus, for the types that occur.\<close>

definition prop_type :: "dval \<Rightarrow> string" where
  "prop_type v =
     (case v of DU8 _ \<Rightarrow> ''y'' | DU16 _ \<Rightarrow> ''q'' | DStr _ \<Rightarrow> ''s'' | DU8s _ \<Rightarrow> ''ay'' | DU16s _ \<Rightarrow> ''aq''
        | DStrs _ \<Rightarrow> ''as'' | _ \<Rightarrow> '''')"

section \<open>Constant element access\<close>

text \<open>\<open>j[key]\<close> on a constant object: a missing member is undefined behaviour.\<close>

fun json_const_field :: "json \<Rightarrow> string \<Rightarrow> exn + json" where
  "json_const_field (JObj kvs) k = (case map_of kvs k of None \<Rightarrow> Inl Undefined | Some v \<Rightarrow> Inr v)"
| "json_const_field _ k = Inl JsonError"

section \<open>A check of every element\<close>

fun all_checked :: "('a \<Rightarrow> ('s, bool) prog) \<Rightarrow> 'a list \<Rightarrow> ('s, bool) prog" where
  "all_checked f [] = ret True"
| "all_checked f (x # xs) = bindE (f x) (\<lambda>ok. if ok then all_checked f xs else ret False)"

section \<open>Writing a property\<close>

text \<open>A \<open>Set\<close> from the bus: the property must exist and have the type of the value; its check decides;
  \<open>after\<close> is the rest of the handler behind \<open>property = value\<close>.\<close>

definition checked_write ::
  "(string \<Rightarrow> dval \<Rightarrow> ('w, bool) cact) \<Rightarrow> (string \<Rightarrow> dval \<Rightarrow> ('w, unit) cact)
   \<Rightarrow> string \<Rightarrow> string \<Rightarrow> string \<Rightarrow> dval \<Rightarrow> ('w, bool) cact" where
  "checked_write check after path iface name v =
     bindE (getsE (\<lambda>c. get_prop c path iface name)) (\<lambda>old. case old of
       None \<Rightarrow> ret False
     | Some x \<Rightarrow>
         if prop_type x \<noteq> prop_type v then ret False
         else bindE (check name v) (\<lambda>ok.
           if ok then thenE (set_prop path iface name v) (thenE (after name v) (ret True)) else ret False))"

section \<open>Facts\<close>

lemma find_object_append:
  "find_object p i (xs @ ys) = (case find_object p i xs of None \<Rightarrow> find_object p i ys | Some o' \<Rightarrow> Some o')"
  by (induction xs) (simp_all add: find_object_def)

lemma on_sys_simps [simp]:
  "m (c_sys c) = (r, s') \<Longrightarrow> on_sys m c = (r, c\<lparr>c_sys := s'\<rparr>)"
  by (simp add: on_sys_def)

lemma sat_on_sys:
  assumes "sat R m" and "\<And>c s'. R (c_sys c) s' \<Longrightarrow> Q c (c\<lparr>c_sys := s'\<rparr>)"
  shows "sat Q (on_sys m)"
  unfolding sat_def
proof
  fix c :: "'a conf"
  obtain r s' where m: "m (c_sys c) = (r, s')" by (cases "m (c_sys c)")
  then have "R (c_sys c) s'" by (rule satD' [OF assms(1)])
  then show "Q c (snd (on_sys m c))" using m assms(2) by simp
qed

lemma is_object_put [simp]: "is_object p i (put_prop n v o') = is_object p i o'"
  by (simp add: is_object_def put_prop_def)

lemma map_of_put_prop:
  "map_of (o_props (put_prop name v o')) n
    = (if n = name then map_option (\<lambda>_. v) (map_of (o_props o') n) else map_of (o_props o') n)"
proof -
  have "map_of (map (\<lambda>(n, x). (n, if n = name then v else x)) kvs) n
      = (if n = name then map_option (\<lambda>_. v) (map_of kvs n) else map_of kvs n)" for kvs :: "(string \<times> dval) list"
    by (induction kvs) auto
  then show ?thesis by (simp add: put_prop_def)
qed

lemma find_object_set:
  "find_object p i (map (\<lambda>o'. if is_object path iface o' then put_prop name v o' else o') objs)
    = map_option (\<lambda>o'. if is_object path iface o' then put_prop name v o' else o') (find_object p i objs)"
  by (induction objs) (auto simp: find_object_def)

lemma find_object_is: "find_object p i objs = Some o' \<Longrightarrow> is_object p i o'"
  by (auto simp: find_object_def find_Some_iff)

text \<open>A property reads what was last written to it, and writing touches nothing else.\<close>

lemma get_prop_set_prop:
  "get_prop (snd (set_prop path iface name v c)) p i n =
     (if (p, i, n) = (path, iface, name) \<and> get_prop c p i n \<noteq> None then Some v else get_prop c p i n)"
proof (cases "find_object p i (c_objs c)")
  case None
  then show ?thesis by (simp add: get_prop_def set_prop_def find_object_set)
next
  case (Some o')
  then have "is_object path iface o' \<longleftrightarrow> p = path \<and> i = iface"
    using find_object_is [OF Some] by (auto simp: is_object_def)
  then show ?thesis
    using Some by (auto simp: get_prop_def set_prop_def find_object_set map_of_put_prop)
qed

lemma all_checked_pure:
  assumes "\<And>x s. f x s = (Inr (P x), s)"
  shows "all_checked f xs s = (Inr (list_all P xs), s)"
  using assms by (induction xs) (simp_all add: bindE_def)

lemma yields_all_checked:
  assumes "\<And>x. yields (\<lambda>ok. ok \<longrightarrow> P x) (f x)"
  shows "yields (\<lambda>ok. ok \<longrightarrow> list_all P xs) (all_checked f xs)"
proof (induction xs)
  case Nil
  then show ?case by (simp add: yields_def)
next
  case (Cons x xs)
  have "yields (\<lambda>ok. ok \<longrightarrow> list_all P (x # xs)) (if ok then all_checked f xs else ret False)"
    if "ok \<longrightarrow> P x" for ok
    using that Cons by (cases ok) (simp_all add: yields_def)
  then show ?case unfolding all_checked.simps by (rule yields_bind_via [OF assms])
qed

text \<open>A check of every element keeps what the check of one keeps.\<close>

context frame_relation begin

lemma sat_all_checked: "(\<And>x. x \<in> set xs \<Longrightarrow> sat R (f x)) \<Longrightarrow> sat R (all_checked f xs)"
  by (induction xs) (auto intro!: sat_ret sat_bind)

end

section \<open>The interface of a checked property\<close>

text \<open>A check promises that the values it accepts are \<open>ok\<close>, and neither it nor the rest of the handler
  touches the published objects.\<close>

definition same_objs :: "'w conf \<Rightarrow> 'w conf \<Rightarrow> bool" where
  "same_objs c c' \<longleftrightarrow> c_objs c' = c_objs c"

interpretation objs_frame: frame_relation same_objs
  by unfold_locales (simp_all add: same_objs_def)

lemma objs_on_sys: "sat same_objs (on_sys m)"
  unfolding sat_def on_sys_def by (simp add: same_objs_def split: prod.split)

lemmas objs_sat = objs_frame.sat_basic objs_frame.sat_compound sat_branch objs_on_sys

lemma get_prop_same: "same_objs c c' \<Longrightarrow> get_prop c' p i n = get_prop c p i n"
  by (simp add: same_objs_def get_prop_def)

locale checked_property =
  fixes check :: "string \<Rightarrow> dval \<Rightarrow> ('w, bool) cact"
    and after :: "string \<Rightarrow> dval \<Rightarrow> ('w, unit) cact"
    and ok :: "string \<Rightarrow> dval \<Rightarrow> bool"
  assumes accepts: "yields (\<lambda>b. b \<longrightarrow> ok n v) (check n v)"
    and check_objs: "sat same_objs (check n v)"
    and after_objs: "sat same_objs (after n v)"
begin

text \<open>The three outcomes of a write: nothing changes, or the value is \<open>ok\<close> and becomes that of the one
  property, whether the handler then returns or throws.\<close>

lemma write_cases:
  assumes "checked_write check after path iface name v c = (r, c')"
  obtains (refused) "r \<noteq> Inr True" "\<And>p i n. get_prop c' p i n = get_prop c p i n"
  | (accepted) old where "ok name v" "get_prop c path iface name = Some old" "prop_type old = prop_type v"
      "\<And>p i n. get_prop c' p i n
        = (if (p, i, n) = (path, iface, name) then Some v else get_prop c p i n)"
      "\<exists>c1 r'. check name v c = (Inr True, c1) \<and> after name v (snd (set_prop path iface name v c1)) = (r', c')
        \<and> r = (case r' of Inl e \<Rightarrow> Inl e | Inr _ \<Rightarrow> Inr True)"
proof (cases "get_prop c path iface name")
  case None
  then have "c' = c" "r = Inr False" using assms by (simp_all add: checked_write_def)
  then show ?thesis by (intro refused) simp_all
next
  case (Some x)
  obtain b c1 where ch: "check name v c = (b, c1)" by (cases "check name v c")
  have same: "get_prop c1 p i n = get_prop c p i n" for p i n
    by (rule get_prop_same [OF satD' [OF check_objs ch]])
  show ?thesis
  proof (cases "prop_type x = prop_type v \<and> b = Inr True")
    case False
    then have "r \<noteq> Inr True" "c' = c \<or> c' = c1"
      using assms Some ch by (cases b; auto simp: checked_write_def bindE_def split: if_splits)+
    then show ?thesis using same by (intro refused) auto
  next
    case True
    let ?c2 = "snd (set_prop path iface name v c1)"
    obtain r2 c3 where af: "after name v ?c2 = (r2, c3)" by (cases "after name v ?c2")
    have run: "(r, c') = (case r2 of Inl e \<Rightarrow> Inl e | Inr _ \<Rightarrow> Inr True, c3)"
      using assms Some True ch af
      by (cases r2) (simp_all add: checked_write_def bindE_def thenE_def set_prop_def)
    have "get_prop c' p i n = (if (p, i, n) = (path, iface, name) then Some v else get_prop c p i n)" for p i n
      using run get_prop_same [OF satD' [OF after_objs af], of p i n] Some
      by (simp add: get_prop_set_prop same)
    moreover have "ok name v" using yieldsD [OF accepts] ch True by blast
    ultimately show ?thesis using accepted Some run ch True af by auto
  qed
qed

text \<open>A write leaves every property as it was, or gives it a value that is \<open>ok\<close> and of its type.\<close>

lemma write_ok:
  assumes "checked_write check after path iface name v c = (r, c')"
  shows "get_prop c' p i n = get_prop c p i n
    \<or> i = iface \<and> (\<exists>old x. get_prop c p i n = Some old \<and> get_prop c' p i n = Some x \<and> ok n x
        \<and> prop_type old = prop_type x)"
  using assms by (rule write_cases) auto

end

end
