(* ===== verification/PefTables.thy ===== *)
theory PefTables
  imports EventFilter SensorMap TestDestination ConfigObjects
begin

text \<open>
  The tables of the configuration daemon (\<open>parsePefConfToDbus\<close> in \<open>src/pef_config.cpp\<close>): the objects built
  from the configuration file, with the event filters, alert policies and alert strings grouped in lists
  of columns, and the checks of the values that are written to them.
\<close>

section \<open>Plain objects\<close>

definition systemGUIDIntf :: string where "systemGUIDIntf = ''xyz.openbmc_project.pef.SystemGUID''"
definition oemParamIntf :: string where "oemParamIntf = ''xyz.openbmc_project.pef.OEMParam''"
definition alertStringTableIntf :: string where
  "alertStringTableIntf = ''xyz.openbmc_project.pef.AlertStringTable''"
definition alertStringTableRoot :: string where
  "alertStringTableRoot = ''/xyz/openbmc_project/PefAlertManager/AlertStringTable''"
definition destStringTableObj :: string where
  "destStringTableObj = ''/xyz/openbmc_project/PefAlertManager/DestinationSelector/Entry''"
definition destStringTableIntf :: string where
  "destStringTableIntf = ''xyz.openbmc_project.pef.DestinationSelectorTable''"

text \<open>\<open>register_property(name, static_cast<T>(j[key]))\<close>.\<close>

definition u8_prop :: "json_lib \<Rightarrow> json \<Rightarrow> string \<Rightarrow> string \<Rightarrow> exn + string \<times> dval" where
  "u8_prop J j name key =
     bindR (json_const_field j key) (\<lambda>x. bindR (json_get_u8 J x) (\<lambda>v. Inr (name, DU8 v)))"

definition u16_prop :: "json_lib \<Rightarrow> json \<Rightarrow> string \<Rightarrow> exn + string \<times> dval" where
  "u16_prop J j key =
     bindR (json_const_field j key) (\<lambda>x. bindR (json_get_u16 J x) (\<lambda>v. Inr (key, DU16 v)))"

definition str_prop :: "json \<Rightarrow> string \<Rightarrow> exn + string \<times> dval" where
  "str_prop j key =
     bindR (json_const_field j key) (\<lambda>x. bindR (json_get_string x) (\<lambda>v. Inr (key, DStr v)))"

definition conf_info_object :: "json_lib \<Rightarrow> json \<Rightarrow> exn + dobject" where
  "conf_info_object J pefConfData =
     bindR (map_result (\<lambda>key. u8_prop J pefConfData key key)
       [''Version'', ''ActionSupported'', ''MaxEventTblEntry'', ''PEFControl'', ''PEFActionGblControl'',
        ''PEFStartupDly'', ''PEFAlertStartupDly'']) (\<lambda>bytes.
     bindR (map_result (u16_prop J pefConfData) [''LastBMCProcessedEventID'', ''LastSWProcessedEventID''])
       (\<lambda>ids.
     bindR (map_result (str_prop pefConfData) [''Subject'', ''Message'']) (\<lambda>texts.
       Inr \<lparr>o_path = pefObj, o_iface = pefConfInfoIntf, o_props = bytes @ ids @ texts\<rparr>)))"

definition system_guid_object :: "json_lib \<Rightarrow> json \<Rightarrow> exn + dobject" where
  "system_guid_object J systemGuid =
     bindR (map_result (\<lambda>i. u8_prop J systemGuid (''SystemGUID'' @ to_string i) (''SystemGUID'' @ to_string i))
       [0..<16]) (\<lambda>props.
       Inr \<lparr>o_path = pefObj, o_iface = systemGUIDIntf, o_props = props\<rparr>)"

definition oem_param_object :: "json_lib \<Rightarrow> json \<Rightarrow> exn + dobject" where
  "oem_param_object J oemParamData =
     bindR (map_result (\<lambda>i. u8_prop J oemParamData (''OemParam'' @ to_string i) (''OEMParam'' @ to_string i))
       [0..<32]) (\<lambda>props.
       Inr \<lparr>o_path = pefObj, o_iface = oemParamIntf, o_props = props\<rparr>)"

definition destination_object :: "json_lib \<Rightarrow> json \<Rightarrow> exn + dobject" where
  "destination_object J destSelTable =
     bindR (bindR (json_const_field destSelTable ''LanDestination'') (json_get_int J)) (\<lambda>lanDestEntry.
     bindR (u8_prop J destSelTable ''LanChannel'' ''LanChannel'') (\<lambda>channel.
     bindR (u8_prop J destSelTable ''DestinationSelector'' ''DestinationType'') (\<lambda>selector.
       Inr \<lparr>o_path = destStringTableObj @ (if 0 \<le> lanDestEntry then to_string (nat lanDestEntry)
                                           else ''-'' @ to_string (nat (- lanDestEntry))),
            o_iface = destStringTableIntf, o_props = [channel, selector]\<rparr>)))"

text \<open>\<open>for (const auto& x : data[table])\<close>, one object for each entry.\<close>

definition publish_each :: "(json \<Rightarrow> exn + dobject) \<Rightarrow> json \<Rightarrow> string \<Rightarrow> ('w, unit) cact" where
  "publish_each build data table =
     bindE (liftE (json_field data table)) (\<lambda>entries.
       forE (json_items entries) (\<lambda>x. bindE (liftE (build x)) publish))"

section \<open>Lists of columns\<close>

text \<open>The list that the row \<open>idx\<close> of a table goes to; the last list takes all further rows.\<close>

definition bucket_of :: "nat \<Rightarrow> nat \<Rightarrow> nat" where
  "bucket_of width idx = (let bucket = idx div width in if bucket > 3 then 3 else bucket)"

definition list_bucket :: "nat \<Rightarrow> 'a list \<Rightarrow> nat \<Rightarrow> 'a list" where
  "list_bucket width rows bucket =
     map snd (filter (\<lambda>(idx, row). bucket_of width idx = bucket) (enumerate 0 rows))"

text \<open>\<open>entry.value(key, 0)\<close> for each entry, cut to the width of the column.\<close>

definition int_column :: "json_lib \<Rightarrow> string \<Rightarrow> json list \<Rightarrow> exn + int list" where
  "int_column J key entries = map_result (\<lambda>e. json_value (json_get_int J) e key 0) entries"

definition column8 :: "json_lib \<Rightarrow> json list \<Rightarrow> string \<Rightarrow> exn + string \<times> dval" where
  "column8 J entries key =
     bindR (int_column J key entries) (\<lambda>xs. Inr (key, DU8s (map word_of_int xs)))"

definition column16 :: "json_lib \<Rightarrow> json list \<Rightarrow> string \<Rightarrow> exn + string \<times> dval" where
  "column16 J entries key =
     bindR (int_column J key entries) (\<lambda>xs. Inr (key, DU16s (map word_of_int xs)))"

definition string_column :: "json list \<Rightarrow> string \<Rightarrow> exn + string \<times> dval" where
  "string_column entries key =
     bindR (map_result (\<lambda>e. json_value json_get_string e key '''') entries) (\<lambda>xs. Inr (key, DStrs xs))"

definition filter_keys :: "string list" where
  "filter_keys =
     [''EventFilterTableEntry'', ''FilterConfig'', ''EvtFilterAction'', ''AlertPolicyNum'',
      ''EventSeverity'', ''GenIDByte1'', ''GenIDByte2'', ''SensorType'', ''SensorNum'', ''EventTrigger'',
      ''EventData1OffsetMask'', ''EventData1ANDMask'', ''EventData1Cmp1'', ''EventData1Cmp2'',
      ''EventData2ANDMask'', ''EventData2Cmp1'', ''EventData2Cmp2'', ''EventData3ANDMask'',
      ''EventData3Cmp1'', ''EventData3Cmp2'']"

definition filter_list_object :: "json_lib \<Rightarrow> nat \<Rightarrow> json list \<Rightarrow> exn + dobject" where
  "filter_list_object J bucket entries =
     bindR (map_result (\<lambda>key. if key = ''EventData1OffsetMask'' then column16 J entries key
                              else column8 J entries key) filter_keys) (\<lambda>props.
       Inr \<lparr>o_path = eventFilterTableRoot @ ''/List'' @ to_string (bucket + 1),
            o_iface = eventFilterTableIntf, o_props = props\<rparr>)"

definition policy_list_object :: "json_lib \<Rightarrow> nat \<Rightarrow> json list \<Rightarrow> exn + dobject" where
  "policy_list_object J bucket entries =
     bindR (map_result (column8 J entries)
       [''AlertPolicyGroupNum'', ''EnableAlert'', ''PolicyAction'', ''ChannelNo'', ''DestinationSel''])
       (\<lambda>props.
     bindR (string_column entries ''EventSpecificAlertStr'') (\<lambda>strs.
     bindR (column8 J entries ''AlertStingkey'') (\<lambda>keys.
       Inr \<lparr>o_path = alertPolicyTableObj @ ''/PolicyList_eth'' @ to_string bucket,
            o_iface = alertPolicyTableIntf, o_props = props @ [strs, keys]\<rparr>)))"

definition string_list_object :: "json_lib \<Rightarrow> nat \<Rightarrow> json list \<Rightarrow> exn + dobject" where
  "string_list_object J bucket entries =
     bindR (map_result (column8 J entries) [''AlertStringTableEntry'', ''EventFilterSel'', ''AlertStringSet''])
       (\<lambda>bytes.
     bindR (map_result (column16 J entries) [''AlertString0'', ''AlertString1'', ''AlertString2''])
       (\<lambda>texts.
       Inr \<lparr>o_path = alertStringTableRoot @ ''/List'' @ to_string (bucket + 1),
            o_iface = alertStringTableIntf, o_props = bytes @ texts\<rparr>))"

definition publish_lists ::
  "(nat \<Rightarrow> json list \<Rightarrow> exn + dobject) \<Rightarrow> nat \<Rightarrow> json \<Rightarrow> string \<Rightarrow> ('w, unit) cact" where
  "publish_lists build width data table =
     bindE (liftE (json_field data table)) (\<lambda>rows.
       forE [0..<4] (\<lambda>bucket.
         let entries = list_bucket width (json_items rows) bucket
         in if entries = [] then ret () else bindE (liftE (build bucket entries)) publish))"

definition publish_tables :: "json_lib \<Rightarrow> json \<Rightarrow> ('w, unit) cact" where
  "publish_tables J data =
     thenE (publish_each (conf_info_object J) data ''PEFConfInfo'')
     (thenE (publish_each (system_guid_object J) data ''SystemGUID'')
     (thenE (publish_each (oem_param_object J) data ''OEMParam'')
     (thenE (publish_lists (filter_list_object J) 10 data ''EventFilterTable'')
     (thenE (publish_lists (policy_list_object J) 15 data ''AlertPolicyTable'')
     (thenE (publish_lists (string_list_object J) 10 data ''AlertStringTable'')
            (publish_each (destination_object J) data ''DestinationSelector''))))))"

section \<open>Checks of written values\<close>

definition eventFilterTableMaxEntry :: u8 where "eventFilterTableMaxEntry = 40"
definition filterConfigReservedBits :: u8 where "filterConfigReservedBits = 0x1F"
definition filterConfigReserved1 :: u8 where "filterConfigReserved1 = 0x3"
definition filterConfigReserved2 :: u8 where "filterConfigReserved2 = 0x1"
definition evtFilterActionMaxValue :: u8 where "evtFilterActionMaxValue = 0x7F"
definition alertPolicyNumMaxValue :: u8 where "alertPolicyNumMaxValue = 0x7F"
definition maxAlertPolicyGroupNum :: u8 where "maxAlertPolicyGroupNum = 15"
definition policyActionMaxValue :: u8 where "policyActionMaxValue = 4"

lemmas table_limits =
  eventFilterTableMaxEntry_def filterConfigReservedBits_def filterConfigReserved1_def
  filterConfigReserved2_def evtFilterActionMaxValue_def alertPolicyNumMaxValue_def
  maxAlertPolicyGroupNum_def policyActionMaxValue_def maxDestinationSel_def

definition entry_id_valid :: "u8 \<Rightarrow> bool" where
  "entry_id_valid entry = (if entry = 0x00 then False else if entry > eventFilterTableMaxEntry then False else True)"

definition filter_config_valid :: "u8 \<Rightarrow> bool" where
  "filter_config_valid config =
     (if config AND filterConfigReservedBits \<noteq> 0 then False
      else if drop_bit 5 config AND 0x3 = filterConfigReserved1 then False
      else if drop_bit 5 config AND 0x3 = filterConfigReserved2 then False
      else True)"

text \<open>The operands are promoted to \<open>int\<close>.\<close>

definition severity_valid :: "u8 \<Rightarrow> bool" where
  "severity_valid severity =
     (if (NOT (uint severity) + 1) AND uint severity \<noteq> uint severity \<or> severity > 0x20 then False else True)"

definition sensor_type_valid :: "u8 \<Rightarrow> bool" where
  "sensor_type_valid type =
     (if type = 0x00 \<or> type = 0xFF then True
      else list_ex (\<lambda>(name, code, ev). code = type) sensorTypes)"

definition sensor_nums_valid :: "'w env \<Rightarrow> u8 list \<Rightarrow> ('w, bool) act" where
  "sensor_nums_valid E value =
     bindE (getSensorNumMap E) (\<lambda>(sensorNumMapPtr, updated). case sensorNumMapPtr of
       None \<Rightarrow> ret False
     | Some m \<Rightarrow> ret (list_all (\<lambda>num. num = 0xFF \<or> map_of m (ucast num) \<noteq> None) value))"

definition check_filter :: "'w env \<Rightarrow> string \<Rightarrow> dval \<Rightarrow> ('w, bool) act" where
  "check_filter E name v =
     (case v of
        DU8s value \<Rightarrow>
          (if name = ''EventFilterTableEntry'' then ret (list_all entry_id_valid value)
           else if name = ''FilterConfig'' then ret (list_all filter_config_valid value)
           else if name = ''EvtFilterAction'' then
             ret (list_all (\<lambda>action. \<not> action > evtFilterActionMaxValue) value)
           else if name = ''AlertPolicyNum'' then
             ret (list_all (\<lambda>policyNum. \<not> policyNum > alertPolicyNumMaxValue) value)
           else if name = ''EventSeverity'' then ret (list_all severity_valid value)
           else if name = ''SensorType'' then ret (list_all sensor_type_valid value)
           else if name = ''SensorNum'' then sensor_nums_valid E value
           else ret True)
      | _ \<Rightarrow> ret True)"

text \<open>A channel number of a policy: at most 15, and an Ethernet channel of the user manager's map, which
  is asked for every element.\<close>

definition channel_valid :: "'w env \<Rightarrow> u8 \<Rightarrow> ('w, bool) act" where
  "channel_valid E channelNo =
     (if channelNo > 15 then ret False
      else catchE sdbus_exception
        (thenE (bus_call E OpenBus)
          (bindE (bus_call E channel_map_call) (\<lambda>(err, v).
           bindE (liftE (read_channels v)) (\<lambda>channelMap.
             ret (case map_of channelMap channelNo of
                    None \<Rightarrow> False
                  | Some iface \<Rightarrow> isEthInterfaceName iface)))))
        (ret False))"

text \<open>The last two columns are read-only.\<close>

definition check_policy :: "'w env \<Rightarrow> string \<Rightarrow> dval \<Rightarrow> ('w, bool) act" where
  "check_policy E name v =
     (case v of
        DU8s value \<Rightarrow>
          (if name = ''AlertPolicyGroupNum'' then
             ret (list_all (\<lambda>groupNum. \<not> (groupNum = 0 \<or> groupNum > maxAlertPolicyGroupNum)) value)
           else if name = ''EnableAlert'' then ret (list_all (\<lambda>enable. \<not> enable > 1) value)
           else if name = ''PolicyAction'' then
             ret (list_all (\<lambda>action. \<not> action > policyActionMaxValue) value)
           else if name = ''ChannelNo'' then all_checked (channel_valid E) value
           else if name = ''DestinationSel'' then
             ret (list_all (\<lambda>destSel. \<not> destSel > maxDestinationSel) value)
           else ret False)
      | _ \<Rightarrow> ret False)"

text \<open>The properties of all other tables are written without a check.\<close>

definition check_table :: "'w env \<Rightarrow> string \<Rightarrow> string \<Rightarrow> dval \<Rightarrow> ('w, bool) act" where
  "check_table E iface name v =
     (if iface = eventFilterTableIntf then check_filter E name v
      else if iface = alertPolicyTableIntf then check_policy E name v
      else ret True)"

definition write_table :: "'w env \<Rightarrow> string \<Rightarrow> string \<Rightarrow> string \<Rightarrow> dval \<Rightarrow> ('w, bool) cact" where
  "write_table E path iface name v =
     checked_write (\<lambda>n x. on_sys (check_table E iface n x)) (\<lambda>n x. ret ()) path iface name v"

section \<open>What the checks guarantee\<close>

text \<open>The values of the columns by the rules of the platform event filter.\<close>

definition filter_rule :: "string \<Rightarrow> u8 \<Rightarrow> bool" where
  "filter_rule name x \<longleftrightarrow>
     (if name = ''EventFilterTableEntry'' then x \<in> {1..40}
      else if name = ''FilterConfig'' then x \<in> {0x00, 0x40, 0x80, 0xC0}
      else if name = ''EvtFilterAction'' \<or> name = ''AlertPolicyNum'' then \<not> bit x 7
      else if name = ''EventSeverity'' then x \<in> {0, 1, 2, 4, 8, 16, 32}
      else if name = ''SensorType'' then x \<in> {0, 0xFF} \<union> (fst \<circ> snd) ` set sensorTypes
      else True)"

definition policy_rule :: "string \<Rightarrow> u8 \<Rightarrow> bool" where
  "policy_rule name x \<longleftrightarrow>
     (if name = ''AlertPolicyGroupNum'' then x \<in> {1..15}
      else if name = ''EnableAlert'' then x \<in> {0, 1}
      else if name = ''PolicyAction'' then x \<le> 4
      else if name = ''ChannelNo'' \<or> name = ''DestinationSel'' then x \<le> 15
      else True)"

definition table_rule :: "string \<Rightarrow> string \<Rightarrow> dval \<Rightarrow> bool" where
  "table_rule iface name v \<longleftrightarrow>
     (case v of
        DU8s xs \<Rightarrow>
          (if iface = eventFilterTableIntf then list_all (filter_rule name) xs
           else if iface = alertPolicyTableIntf then list_all (policy_rule name) xs
           else True)
      | _ \<Rightarrow> True)"

text \<open>Every byte satisfies a decidable predicate when the 256 bytes do.\<close>

lemma u8_all: "(\<And>n. n < 256 \<Longrightarrow> P (word_of_nat n)) \<Longrightarrow> P (x :: u8)"
proof -
  assume "\<And>n. n < 256 \<Longrightarrow> P (word_of_nat n)"
  moreover have "unat x < 256" using unsigned_less [of x] by simp
  ultimately have "P (word_of_nat (unat x))" by blast
  then show ?thesis by simp
qed

lemma u8_all_list: "list_all (\<lambda>n. P (word_of_nat n)) [0..<256] \<Longrightarrow> P (x :: u8)"
  by (rule u8_all) (simp add: list_all_iff)

lemma filter_config_rule: "filter_config_valid x \<longleftrightarrow> x \<in> {0x00, 0x40, 0x80, 0xC0}"
  by (rule u8_all_list [of "\<lambda>x. filter_config_valid x \<longleftrightarrow> x \<in> {0x00, 0x40, 0x80, 0xC0}"]) code_simp

lemma severity_rule: "severity_valid x \<longleftrightarrow> x \<in> {0, 1, 2, 4, 8, 16, 32}"
  by (rule u8_all_list [of "\<lambda>x. severity_valid x \<longleftrightarrow> x \<in> {0, 1, 2, 4, 8, 16, 32}"]) code_simp

lemma high_bit_rule: "\<not> (x :: u8) > 0x7F \<longleftrightarrow> \<not> bit x 7"
  by (rule u8_all_list [of "\<lambda>x. \<not> x > 0x7F \<longleftrightarrow> \<not> bit x 7"]) code_simp

lemma entry_id_rule: "entry_id_valid x \<longleftrightarrow> x \<in> {1..40}"
  unfolding entry_id_valid_def table_limits by (simp add: not_less) unat_arith

lemma sensor_type_rule: "sensor_type_valid x \<longleftrightarrow> x \<in> {0, 0xFF} \<union> (fst \<circ> snd) ` set sensorTypes"
  by (force simp: sensor_type_valid_def list_ex_iff)

lemma enable_rule: "\<not> (x :: u8) > 1 \<longleftrightarrow> x \<in> {0, 1}"
  by (simp add: not_less) unat_arith

lemma positive_rule: "(1 :: u8) \<le> x \<longleftrightarrow> x \<noteq> 0"
  by unat_arith

lemmas value_rules =
  entry_id_rule filter_config_rule severity_rule high_bit_rule sensor_type_rule enable_rule positive_rule

text \<open>What each check accepts obeys the rule of its column.\<close>

lemma table_rule_simps [simp]:
  "table_rule eventFilterTableIntf name (DU8s xs) = list_all (filter_rule name) xs"
  "table_rule alertPolicyTableIntf name (DU8s xs) = list_all (policy_rule name) xs"
  by (simp_all add: table_rule_def alertPolicyTableIntf_def eventFilterTableIntf_def)

lemma yields_ret_list:
  "(\<And>x. p x \<Longrightarrow> q x) \<Longrightarrow> yields (\<lambda>b. b \<longrightarrow> list_all q xs) (ret (list_all p xs))"
  by (auto simp: yields_def list_all_iff)

lemma yields_true: "P \<Longrightarrow> yields (\<lambda>b. b \<longrightarrow> P) m"
  by (simp add: yields_def)

lemma yields_trivial [simp]: "yields (\<lambda>b. True) m"
  by (simp add: yields_def)

lemma yields_ret_False: "yields (\<lambda>b. b \<longrightarrow> P) (ret False)"
  by (simp add: yields_def)

lemma check_filter_sound: "yields (\<lambda>b. b \<longrightarrow> table_rule eventFilterTableIntf name v) (check_filter E name v)"
proof (cases v)
  case (DU8s xs)
  have free: "list_all (filter_rule name) xs"
    if "name \<noteq> ''EventFilterTableEntry''" "name \<noteq> ''FilterConfig''" "name \<noteq> ''EvtFilterAction''"
      "name \<noteq> ''AlertPolicyNum''" "name \<noteq> ''EventSeverity''" "name \<noteq> ''SensorType''"
    using that by (simp add: filter_rule_def list_all_iff)
  show ?thesis
    unfolding DU8s check_filter_def dval.case table_rule_simps
  proof (intro yields_if)
    show "yields (\<lambda>b. b \<longrightarrow> list_all (filter_rule name) xs) (sensor_nums_valid E xs)"
      if "name = ''SensorNum''"
      using that by (intro yields_true free) simp_all
    show "yields (\<lambda>b. b \<longrightarrow> list_all (filter_rule name) xs) (ret True)"
      if "name \<noteq> ''EventFilterTableEntry''" "name \<noteq> ''FilterConfig''" "name \<noteq> ''EvtFilterAction''"
        "name \<noteq> ''AlertPolicyNum''" "name \<noteq> ''EventSeverity''" "name \<noteq> ''SensorType''"
      using that by (intro yields_true free)
  qed (rule yields_ret_list; simp add: filter_rule_def value_rules table_limits)+
qed (simp_all add: check_filter_def table_rule_def yields_true)

lemma channel_valid_sound: "yields (\<lambda>b. b \<longrightarrow> x \<le> 15) (channel_valid E x)"
  unfolding channel_valid_def by (intro yields_if yields_ret_False yields_true) (simp add: not_less)

lemma check_policy_sound: "yields (\<lambda>b. b \<longrightarrow> table_rule alertPolicyTableIntf name v) (check_policy E name v)"
proof (cases v)
  case (DU8s xs)
  show ?thesis
    unfolding DU8s check_policy_def dval.case table_rule_simps
  proof (intro yields_if yields_ret_False)
    assume name: "name = ''ChannelNo''"
    have "policy_rule name = (\<lambda>x. x \<le> 15)" by (simp add: fun_eq_iff policy_rule_def name)
    then show "yields (\<lambda>b. b \<longrightarrow> list_all (policy_rule name) xs) (all_checked (channel_valid E) xs)"
      using yields_all_checked [OF channel_valid_sound] by simp
  qed (rule yields_ret_list; simp add: policy_rule_def value_rules [unfolded not_less] table_limits not_less)+
qed (simp_all add: check_policy_def table_rule_def yields_true)

lemma check_table_sound: "yields (\<lambda>b. b \<longrightarrow> table_rule iface name v) (check_table E iface name v)"
proof -
  have "table_rule iface name v" if "iface \<noteq> eventFilterTableIntf" "iface \<noteq> alertPolicyTableIntf"
    using that by (simp add: table_rule_def split: dval.split)
  then show ?thesis
    unfolding check_table_def
    by (intro yields_if) (simp_all add: check_filter_sound check_policy_sound yields_true)
qed

text \<open>The tables offer the interface of a checked property.\<close>

lemma yields_on_sys: "yields P m \<Longrightarrow> yields P (on_sys m)"
  unfolding yields_def on_sys_def by (fastforce split: prod.splits)

interpretation table: checked_property
  "\<lambda>n x. on_sys (check_table E iface n x)" "\<lambda>n x. ret ()" "table_rule iface" for E iface
  by unfold_locales (intro yields_on_sys check_table_sound objs_sat)+

definition one_filter_conf :: "unit conf" where
  "one_filter_conf =
     \<lparr>c_sys = initial_sys (),
      c_objs = [\<lparr>o_path = ''/p'', o_iface = eventFilterTableIntf, o_props = [(''EvtFilterAction'', DU8s [2])]\<rparr>],
      c_types = (\<lambda>_. [])\<rparr>"

lemma one_filter_written:
  "fst (write_table (table_env (\<lambda>_. BusError)) ''/p'' eventFilterTableIntf ''EvtFilterAction'' (DU8s [3])
     one_filter_conf) = Inr True"
  by (simp add: write_table_def checked_write_def check_table_def check_filter_def on_sys_def bindE_def thenE_def
      prop_type_def set_prop_def one_filter_conf_def get_prop_def find_object_def is_object_def table_limits)

section \<open>Properties\<close>

text \<open>C14. A write to a table is all or nothing: either no property on the bus changes, or the value obeys
  the rule of its column and becomes the value of this one property, whatever the services answer.\<close>

theorem table_write_safe:
  assumes "write_table E path iface name v c = (r, c')"
  shows "(r \<noteq> Inr True \<and> (\<forall>p i n. get_prop c' p i n = get_prop c p i n))
    \<or> (table_rule iface name v \<and> get_prop c path iface name \<noteq> None
       \<and> (\<forall>p i n. get_prop c' p i n = (if (p, i, n) = (path, iface, name) then Some v else get_prop c p i n)))"
  using assms unfolding write_table_def by (rule table.write_cases) simp_all

theorem table_write_safe_witness:
  "table_rule eventFilterTableIntf ''EvtFilterAction'' (DU8s [3])
   \<and> get_prop (snd (write_table (table_env (\<lambda>_. BusError)) ''/p'' eventFilterTableIntf ''EvtFilterAction'' (DU8s [3])
       one_filter_conf)) ''/p'' eventFilterTableIntf ''EvtFilterAction'' = Some (DU8s [3])"
proof -
  let ?w = "write_table (table_env (\<lambda>_. BusError)) ''/p'' eventFilterTableIntf ''EvtFilterAction'' (DU8s [3])
      one_filter_conf"
  have "?w = (Inr True, snd ?w)" using one_filter_written by (metis prod.collapse)
  then show ?thesis by (rule table_write_safe [THEN disjE]) simp_all
qed



end
