(* ===== verification/ConfiguredTable.thy ===== *)
theory ConfiguredTable
  imports PefTables ConfigUpdate
begin

text \<open>
  The event filter table from the configuration file to the event: the configuration daemon groups the
  rows of the file in lists of columns and publishes them, the event-filtering daemon reads the lists
  back, and its monitor saves changed lists.  Together they behave as if events were matched against the
  rows of the file.
\<close>

section \<open>The abstract table\<close>

text \<open>A row of the file as a filter entry; an absent member is 0.\<close>

definition row_int :: "json_lib \<Rightarrow> json \<Rightarrow> string \<Rightarrow> int" where
  "row_int J row key = (case json_value (json_get_int J) row key 0 of Inr x \<Rightarrow> x | Inl _ \<Rightarrow> 0)"

definition configured_entry :: "json_lib \<Rightarrow> json \<Rightarrow> EvtFilterTblEntry" where
  "configured_entry J row =
     \<lparr>FilterConfig = word_of_int (row_int J row ''FilterConfig''),
      EvtFilterAction = word_of_int (row_int J row ''EvtFilterAction''),
      AlertPolicyNum = word_of_int (row_int J row ''AlertPolicyNum''),
      EventSeverity = word_of_int (row_int J row ''EventSeverity''),
      GenIDByte1 = word_of_int (row_int J row ''GenIDByte1''),
      GenIDByte2 = word_of_int (row_int J row ''GenIDByte2''),
      SensorType = word_of_int (row_int J row ''SensorType''),
      SensorNum = word_of_int (row_int J row ''SensorNum''),
      EventTrigger = word_of_int (row_int J row ''EventTrigger''),
      EventData1OffsetMask = word_of_int (row_int J row ''EventData1OffsetMask''),
      EventData1ANDMask = word_of_int (row_int J row ''EventData1ANDMask''),
      EventData1Cmp1 = word_of_int (row_int J row ''EventData1Cmp1''),
      EventData1Cmp2 = word_of_int (row_int J row ''EventData1Cmp2''),
      EventData2ANDMask = word_of_int (row_int J row ''EventData2ANDMask''),
      EventData2Cmp1 = word_of_int (row_int J row ''EventData2Cmp1''),
      EventData2Cmp2 = word_of_int (row_int J row ''EventData2Cmp2''),
      EventData3ANDMask = word_of_int (row_int J row ''EventData3ANDMask''),
      EventData3Cmp1 = word_of_int (row_int J row ''EventData3Cmp1''),
      EventData3Cmp2 = word_of_int (row_int J row ''EventData3Cmp2'')\<rparr>"

text \<open>What matching an event against the file means.\<close>

definition configured_matches :: "json_lib \<Rightarrow> json list \<Rightarrow> EventMsgData \<Rightarrow> EvtFilterTblEntry list" where
  "configured_matches J rows ev = filter (\<lambda>e. filter_spec e ev) (map (configured_entry J) rows)"

section \<open>The columns of a published list\<close>

definition configured_columns :: "json_lib \<Rightarrow> json list \<Rightarrow> filter_columns" where
  "configured_columns J rows =
     \<lparr>fc_FilterConfig = map (\<lambda>r. word_of_int (row_int J r ''FilterConfig'')) rows,
      fc_GenIDByte1 = map (\<lambda>r. word_of_int (row_int J r ''GenIDByte1'')) rows,
      fc_GenIDByte2 = map (\<lambda>r. word_of_int (row_int J r ''GenIDByte2'')) rows,
      fc_SensorType = map (\<lambda>r. word_of_int (row_int J r ''SensorType'')) rows,
      fc_SensorNum = map (\<lambda>r. word_of_int (row_int J r ''SensorNum'')) rows,
      fc_EventTrigger = map (\<lambda>r. word_of_int (row_int J r ''EventTrigger'')) rows,
      fc_EventData1ANDMask = map (\<lambda>r. word_of_int (row_int J r ''EventData1ANDMask'')) rows,
      fc_EventData1Cmp1 = map (\<lambda>r. word_of_int (row_int J r ''EventData1Cmp1'')) rows,
      fc_EventData1Cmp2 = map (\<lambda>r. word_of_int (row_int J r ''EventData1Cmp2'')) rows,
      fc_EventData2ANDMask = map (\<lambda>r. word_of_int (row_int J r ''EventData2ANDMask'')) rows,
      fc_EventData2Cmp1 = map (\<lambda>r. word_of_int (row_int J r ''EventData2Cmp1'')) rows,
      fc_EventData2Cmp2 = map (\<lambda>r. word_of_int (row_int J r ''EventData2Cmp2'')) rows,
      fc_EventData3ANDMask = map (\<lambda>r. word_of_int (row_int J r ''EventData3ANDMask'')) rows,
      fc_EventData3Cmp1 = map (\<lambda>r. word_of_int (row_int J r ''EventData3Cmp1'')) rows,
      fc_EventData3Cmp2 = map (\<lambda>r. word_of_int (row_int J r ''EventData3Cmp2'')) rows,
      fc_EventData1OffsetMask = map (\<lambda>r. word_of_int (row_int J r ''EventData1OffsetMask'')) rows,
      fc_EvtFilterAction = map (\<lambda>r. word_of_int (row_int J r ''EvtFilterAction'')) rows,
      fc_AlertPolicyNum = map (\<lambda>r. word_of_int (row_int J r ''AlertPolicyNum'')) rows,
      fc_EventSeverity = map (\<lambda>r. word_of_int (row_int J r ''EventSeverity'')) rows\<rparr>"

lemma int_column_rows:
  "int_column J key rows = Inr xs \<Longrightarrow> xs = map (\<lambda>r. row_int J r key) rows"
proof -
  assume "int_column J key rows = Inr xs"
  then have "list_all2 (\<lambda>r x. json_value (json_get_int J) r key 0 = Inr x) rows xs"
    by (simp add: int_column_def map_result_Inr)
  then show ?thesis by (induction rows xs rule: list_all2_induct) (simp_all add: row_int_def)
qed

lemma column_rows:
  "column8 J rows key = Inr kv \<Longrightarrow> kv = (key, DU8s (map (\<lambda>r. word_of_int (row_int J r key)) rows))"
  "column16 J rows key = Inr kv \<Longrightarrow> kv = (key, DU16s (map (\<lambda>r. word_of_int (row_int J r key)) rows))"
  by (auto simp: column8_def column16_def bindR_eq_Inr dest!: int_column_rows)

text \<open>Properties registered one for each key are found under their keys.\<close>

lemma map_of_results:
  assumes "map_result f keys = Inr props" and "k \<in> set keys" and "\<And>k kv. f k = Inr kv \<Longrightarrow> fst kv = k"
  shows "\<exists>v. f k = Inr (k, v) \<and> map_of props k = Some v"
  using assms(1,2)
proof (induction keys arbitrary: props)
  case Nil
  then show ?case by simp
next
  case (Cons x keys)
  then obtain v ps where r: "f x = Inr (x, v)" "map_result f keys = Inr ps" "props = (x, v) # ps"
    using assms(3) by (auto simp: bindR_eq_Inr)
  then show ?case using Cons by (cases "k = x") auto
qed

lemma filter_object_column:
  assumes "filter_list_object J b rows = Inr o'" and "key \<in> set filter_keys"
  shows "map_of (o_props o') key = Some
    (if key = ''EventData1OffsetMask'' then DU16s (map (\<lambda>r. word_of_int (row_int J r key)) rows)
     else DU8s (map (\<lambda>r. word_of_int (row_int J r key)) rows))"
proof -
  let ?f = "\<lambda>key. if key = ''EventData1OffsetMask'' then column16 J rows key else column8 J rows key"
  obtain props where p: "map_result ?f filter_keys = Inr props" "o_props o' = props"
    using assms(1) by (auto simp: filter_list_object_def bindR_eq_Inr)
  have "fst kv = k" if "?f k = Inr kv" for k kv
    using that by (auto dest: column_rows split: if_splits)
  from map_of_results [OF p(1) assms(2) this]
  obtain v where "?f key = Inr (key, v)" "map_of props key = Some v" by blast
  then show ?thesis using p(2) by (auto dest: column_rows split: if_splits)
qed

lemma filter_object_columns:
  assumes "filter_list_object J b rows = Inr o'"
  shows "read_filter_columns (o_props o') = Inr (configured_columns J rows)"
proof -
  have c8: "col8 (o_props o') key = Inr (map (\<lambda>r. word_of_int (row_int J r key)) rows)"
    if "key \<in> set filter_keys" "key \<noteq> ''EventData1OffsetMask''" for key
    using filter_object_column [OF assms that(1)] that(2) by (simp add: col8_def map_at_def)
  have "col16 (o_props o') ''EventData1OffsetMask''
      = Inr (map (\<lambda>r. word_of_int (row_int J r ''EventData1OffsetMask'')) rows)"
    using filter_object_column [OF assms, of "''EventData1OffsetMask''"]
    by (simp add: col16_def map_at_def filter_keys_def)
  then show ?thesis
    by (simp add: read_filter_columns_def c8 filter_keys_def configured_columns_def)
qed

lemma configured_list_rows: "list_rows (configured_columns J rows) = map (configured_entry J) rows"
proof -
  have len: "length (fc_FilterConfig (configured_columns J rows)) = length rows"
    by (simp add: configured_columns_def)
  have "row_complete (configured_columns J rows) i" "row_entry (configured_columns J rows) i = configured_entry J (rows ! i)"
    if "i < length rows" for i
    using that by (simp_all add: row_complete_def row_entry_def configured_columns_def configured_entry_def)
  then show ?thesis
    unfolding set_list_rows len by (intro nth_equalityI) (simp_all add: filter_id_conv [THEN iffD2])
qed

section \<open>The rows of the lists\<close>

text \<open>The lists of a table partition its rows, in order.\<close>

lemma filter_lt_Suc:
  fixes f :: "'a \<Rightarrow> nat"
  assumes "sorted (map f xs)"
  shows "filter (\<lambda>x. f x < k) xs @ filter (\<lambda>x. f x = k) xs = filter (\<lambda>x. f x < Suc k) xs"
  using assms
proof (induction xs)
  case Nil
  then show ?case by simp
next
  case (Cons x xs)
  then have ge: "\<forall>y \<in> set xs. f x \<le> f y" and IH: "filter (\<lambda>x. f x < k) xs @ filter (\<lambda>x. f x = k) xs
      = filter (\<lambda>x. f x < Suc k) xs" by auto
  show ?case
  proof (cases "f x < k")
    case True
    then show ?thesis using IH by simp
  next
    case False
    then have "filter (\<lambda>x. f x < k) xs = []" using ge by (auto simp: filter_empty_conv)
    then show ?thesis using False IH by auto
  qed
qed

lemma concat_filter_parts:
  fixes f :: "'a \<Rightarrow> nat"
  assumes "sorted (map f xs)" and "\<And>x. x \<in> set xs \<Longrightarrow> f x < k"
  shows "concat (map (\<lambda>b. filter (\<lambda>x. f x = b) xs) [0..<k]) = xs"
proof -
  have "concat (map (\<lambda>b. filter (\<lambda>x. f x = b) xs) [0..<n]) = filter (\<lambda>x. f x < n) xs" for n
    by (induction n) (simp_all add: filter_lt_Suc [OF assms(1)])
  then show ?thesis using assms(2) by (simp add: filter_id_conv [THEN iffD2])
qed

lemma bucket_mono: "i \<le> j \<Longrightarrow> bucket_of w i \<le> bucket_of w j"
  using div_le_mono [of i j w] by (auto simp: bucket_of_def Let_def)

lemma buckets_partition: "concat (map (list_bucket w rows) [0..<4]) = rows"
proof -
  let ?f = "\<lambda>p. bucket_of w (fst p)"
  have "sorted_wrt (\<lambda>p q. ?f p \<le> ?f q) (enumerate 0 rows)"
    by (auto simp: sorted_wrt_iff_nth_less nth_enumerate_eq intro: bucket_mono)
  then have "concat (map (\<lambda>b. filter (\<lambda>p. ?f p = b) (enumerate 0 rows)) [0..<4]) = enumerate 0 rows"
    by (intro concat_filter_parts) (auto simp: sorted_wrt_map bucket_of_def Let_def)
  then have "map snd (concat (map (\<lambda>b. filter (\<lambda>p. ?f p = b) (enumerate 0 rows)) [0..<4])) = rows"
    by simp
  moreover have "list_bucket w rows = (\<lambda>b. map snd (filter (\<lambda>p. ?f p = b) (enumerate 0 rows)))"
    by (simp add: fun_eq_iff list_bucket_def case_prod_unfold)
  ultimately show ?thesis by (simp add: map_concat comp_def)
qed

lemma list_bucket_empty:
  assumes "0 < w" and "b \<le> 3"
  shows "list_bucket w rows b = [] \<longleftrightarrow> length rows \<le> w * b"
proof
  assume "list_bucket w rows b = []"
  then have none: "bucket_of w i \<noteq> b" if "i < length rows" for i
    using that by (auto simp: list_bucket_def filter_empty_conv in_set_enumerate_eq)
  show "length rows \<le> w * b"
  proof (rule ccontr)
    assume "\<not> length rows \<le> w * b"
    then show False using none [of "w * b"] assms by (simp add: bucket_of_def Let_def)
  qed
next
  assume le: "length rows \<le> w * b"
  have none: "bucket_of w i \<noteq> b" if "i < length rows" for i
  proof -
    have "i div w < b" using that le assms(1) by (simp add: div_less_iff_less_mult mult.commute)
    then show ?thesis using assms(2) by (simp add: bucket_of_def Let_def)
  qed
  then have "bucket_of w (fst p) \<noteq> b" if "p \<in> set (enumerate 0 rows)" for p
    using that by (simp add: in_set_enumerate_eq)
  then show "list_bucket w rows b = []"
    by (simp add: list_bucket_def filter_empty_conv case_prod_beta)
qed

lemma filter_downward:
  fixes P :: "nat \<Rightarrow> bool"
  assumes "\<And>b b'. b' \<le> b \<Longrightarrow> P b \<Longrightarrow> P b'"
  shows "\<exists>n \<le> k. filter P [0..<k] = [0..<n]"
proof (induction k)
  case 0
  then show ?case by simp
next
  case (Suc k)
  show ?case
  proof (cases "P k")
    case True
    then have "filter P [0..<Suc k] = [0..<Suc k]" using assms [OF less_imp_le True] True
      by (intro filter_True) (auto simp: less_Suc_eq)
    then show ?thesis by blast
  next
    case False
    then show ?thesis using Suc by (auto intro: le_SucI)
  qed
qed

text \<open>The lists that are not empty come first.\<close>

definition used_buckets :: "nat \<Rightarrow> 'a list \<Rightarrow> nat list" where
  "used_buckets w rows = filter (\<lambda>b. list_bucket w rows b \<noteq> []) [0..<4]"

lemma used_buckets_prefix:
  assumes "0 < w"
  shows "\<exists>n \<le> 4. used_buckets w rows = [0..<n]"
proof -
  have "used_buckets w rows = filter (\<lambda>b. w * b < length rows) [0..<4]"
    unfolding used_buckets_def by (rule filter_cong) (auto simp: list_bucket_empty [OF assms])
  moreover have "w * b' < length rows" if "b' \<le> b" "w * b < length rows" for b b'
    using that by (meson le_less_trans mult_le_mono2)
  ultimately show ?thesis using filter_downward [of "\<lambda>b. w * b < length rows" 4] by simp
qed

lemma used_buckets_partition: "concat (map (list_bucket w rows) (used_buckets w rows)) = rows"
proof -
  have "concat (map f (filter (\<lambda>b. f b \<noteq> []) bs)) = concat (map f bs)" for f :: "nat \<Rightarrow> 'a list" and bs
    by (induction bs) auto
  then show ?thesis using buckets_partition by (simp add: used_buckets_def)
qed

section \<open>The published objects\<close>

definition table_objects ::
  "(nat \<Rightarrow> json list \<Rightarrow> exn + dobject) \<Rightarrow> nat \<Rightarrow> json list \<Rightarrow> dobject list \<Rightarrow> bool" where
  "table_objects build w rows objs \<longleftrightarrow>
     list_all2 (\<lambda>b o'. build b (list_bucket w rows b) = Inr o') (used_buckets w rows) objs"

lemma forE_publish:
  assumes "forE bs (\<lambda>b. if P b then ret () else bindE (liftE (build b)) publish) c = (Inr (), c')"
  shows "\<exists>objs. list_all2 (\<lambda>b o'. build b = Inr o') (filter (\<lambda>b. \<not> P b) bs) objs
    \<and> c' = c\<lparr>c_objs := c_objs c @ objs\<rparr>"
  using assms
proof (induction bs arbitrary: c)
  case Nil
  then show ?case by simp
next
  case (Cons b bs)
  show ?case
  proof (cases "P b")
    case True
    then show ?thesis using Cons by simp
  next
    case False
    then obtain o' where b: "build b = Inr o'" using Cons.prems by (cases "build b") (auto simp: thenE_def)
    then have "forE bs (\<lambda>b. if P b then ret () else bindE (liftE (build b)) publish)
        (c\<lparr>c_objs := c_objs c @ [o']\<rparr>) = (Inr (), c')"
      using Cons.prems False by (simp add: thenE_def publish_def)
    from Cons.IH [OF this] obtain objs where
      "list_all2 (\<lambda>b o'. build b = Inr o') (filter (\<lambda>b. \<not> P b) bs) objs"
      "c' = c\<lparr>c_objs := c_objs c @ o' # objs\<rparr>" by auto
    then show ?thesis using b False by (intro exI [of _ "o' # objs"]) simp
  qed
qed

lemma publish_lists_Inr:
  assumes "publish_lists build w data table c = (Inr (), c')"
  obtains rows objs where "json_field data table = Inr rows" "table_objects build w (json_items rows) objs"
    "c' = c\<lparr>c_objs := c_objs c @ objs\<rparr>"
proof -
  obtain rows where r: "json_field data table = Inr rows"
    using assms by (cases "json_field data table") (auto simp: publish_lists_def)
  then show ?thesis
    using forE_publish [of "[0..<4]" "\<lambda>b. list_bucket w (json_items rows) b = []"
        "\<lambda>b. build b (list_bucket w (json_items rows) b)" c c'] assms that
    by (auto simp: publish_lists_def Let_def table_objects_def used_buckets_def)
qed

text \<open>Objects that appear between two states.\<close>

definition adds_objects :: "(dobject \<Rightarrow> bool) \<Rightarrow> 'w conf \<Rightarrow> 'w conf \<Rightarrow> bool" where
  "adds_objects P c c' \<longleftrightarrow> (\<exists>new. c_objs c' = c_objs c @ new \<and> list_all P new)"

interpretation adds: frame_relation "adds_objects P" for P
proof unfold_locales
  show "adds_objects P c c" for c :: "'w conf" by (simp add: adds_objects_def)
next
  fix c d e :: "'w conf"
  assume "adds_objects P c d" and "adds_objects P d e"
  then show "adds_objects P c e" by (auto simp: adds_objects_def)
qed

lemma adds_publish: "P o' \<Longrightarrow> sat (adds_objects P) (publish o')"
  by (simp add: sat_def publish_def adds_objects_def)

lemma adds_build:
  "(\<And>o'. r = Inr o' \<Longrightarrow> P o') \<Longrightarrow> sat (adds_objects P) (bindE (liftE r) publish)"
  by (cases r) (simp_all add: adds.sat_throw adds_publish)

lemmas adds_sat = adds.sat_basic adds.sat_compound sat_branch adds_build

definition below :: "string \<Rightarrow> dobject \<Rightarrow> bool" where
  "below parent o' \<longleftrightarrow> starts_with (parent @ ''/'') (o_path o')"

lemma adds_publish_each:
  assumes "\<And>x o'. build x = Inr o' \<Longrightarrow> P o'"
  shows "sat (adds_objects P) (publish_each build data table)"
  unfolding publish_each_def using assms by (intro adds.sat_bind adds.sat_lift adds.sat_for adds_build)

lemma adds_publish_lists:
  assumes "\<And>b rows o'. build b rows = Inr o' \<Longrightarrow> P o'"
  shows "sat (adds_objects P) (publish_lists build w data table)"
  unfolding publish_lists_def Let_def using assms
  by (intro adds.sat_bind adds.sat_lift adds.sat_for sat_if adds.sat_ret adds_build)

lemma adds_nothing_below:
  assumes "adds_objects (\<lambda>o'. \<not> below parent o') c c'"
  shows "filter (below parent) (c_objs c') = filter (below parent) (c_objs c)"
  using assms by (auto simp: adds_objects_def list_all_iff filter_empty_conv)

section \<open>The tables among the objects\<close>

lemma object_paths:
  "conf_info_object J x = Inr o' \<Longrightarrow> o_path o' = pefObj"
  "system_guid_object J x = Inr o' \<Longrightarrow> o_path o' = pefObj"
  "oem_param_object J x = Inr o' \<Longrightarrow> o_path o' = pefObj"
  "filter_list_object J b es = Inr o' \<Longrightarrow>
     o_path o' = eventFilterTableRoot @ ''/List'' @ to_string (b + 1) \<and> o_iface o' = eventFilterTableIntf"
  "policy_list_object J b es = Inr o' \<Longrightarrow>
     o_path o' = alertPolicyTableObj @ ''/PolicyList_eth'' @ to_string b \<and> o_iface o' = alertPolicyTableIntf"
  "string_list_object J b es = Inr o' \<Longrightarrow> o_path o' = alertStringTableRoot @ ''/List'' @ to_string (b + 1)"
  "destination_object J x = Inr o' \<Longrightarrow> \<exists>n. o_path o' = destStringTableObj @ n"
  by (auto simp: conf_info_object_def system_guid_object_def oem_param_object_def filter_list_object_def
      policy_list_object_def string_list_object_def destination_object_def bindR_eq_Inr)

lemma below_other:
  "\<not> starts_with (eventFilterTableRoot @ ''/'') pefObj" "\<not> starts_with (alertPolicyTableObj @ ''/'') pefObj"
  "\<not> starts_with (eventFilterTableRoot @ ''/'') (alertPolicyTableObj @ p)"
  "\<not> starts_with (alertPolicyTableObj @ ''/'') (eventFilterTableRoot @ p)"
  "\<not> starts_with (eventFilterTableRoot @ ''/'') (alertStringTableRoot @ p)"
  "\<not> starts_with (alertPolicyTableObj @ ''/'') (alertStringTableRoot @ p)"
  "\<not> starts_with (eventFilterTableRoot @ ''/'') (destStringTableObj @ p)"
  "\<not> starts_with (alertPolicyTableObj @ ''/'') (destStringTableObj @ p)"
  by (simp_all add: starts_with_def eventFilterTableRoot_def alertPolicyTableObj_def pefObj_def
      alertStringTableRoot_def destStringTableObj_def)

lemma thenE_InrD: "thenE m n s = (Inr x, s') \<Longrightarrow> \<exists>y t. m s = (Inr y, t) \<and> n t = (Inr x, s')"
  by (cases "m s"; cases "fst (m s)") auto

lemma table_objects_below:
  assumes "table_objects build w rows objs" and "\<And>b es o'. build b es = Inr o' \<Longrightarrow> below parent o'"
  shows "list_all (below parent) objs"
  using assms(1) unfolding table_objects_def
  by (induction rule: list_all2_induct) (auto intro: assms(2))

text \<open>A table among other objects that are published before and after it.\<close>

lemma published_table:
  assumes run: "thenE before (thenE (publish_lists build w data table) after) c = (Inr (), c')"
    and others: "sat (adds_objects (\<lambda>o'. \<not> below parent o')) before"
      "sat (adds_objects (\<lambda>o'. \<not> below parent o')) after"
    and own: "\<And>b es o'. build b es = Inr o' \<Longrightarrow> below parent o'"
  shows "\<exists>rows objs. json_field data table = Inr rows \<and> table_objects build w (json_items rows) objs
    \<and> filter (below parent) (c_objs c') = filter (below parent) (c_objs c) @ objs"
proof -
  obtain y c1 u c2 where m: "before c = (Inr y, c1)" "publish_lists build w data table c1 = (Inr u, c2)"
      "after c2 = (Inr (), c')"
    using run by (meson thenE_InrD)
  from m(2) obtain rows objs where t: "json_field data table = Inr rows"
      "table_objects build w (json_items rows) objs" "c2 = c1\<lparr>c_objs := c_objs c1 @ objs\<rparr>"
    using publish_lists_Inr by (metis (full_types) old.unit.exhaust)
  have "filter (below parent) objs = objs"
    using table_objects_below [OF t(2) own] by (auto simp: list_all_iff filter_id_conv)
  then have "filter (below parent) (c_objs c') = filter (below parent) (c_objs c) @ objs"
    using adds_nothing_below [OF satD' [OF others(1) m(1)]] adds_nothing_below [OF satD' [OF others(2) m(3)]] t(3)
    by simp
  then show ?thesis using t(1,2) by blast
qed

lemma thenE_assoc: "thenE (thenE a b) d = thenE a (thenE b d)"
  by (simp add: thenE_def bindE_assoc)

lemma own_below:
  "filter_list_object J b es = Inr o' \<Longrightarrow> below eventFilterTableRoot o'"
  "policy_list_object J b es = Inr o' \<Longrightarrow> below alertPolicyTableObj o'"
  by (auto dest!: object_paths simp: below_def starts_with_def)

lemma other_tables_below:
  assumes "parent = eventFilterTableRoot \<or> parent = alertPolicyTableObj"
  shows "sat (adds_objects (\<lambda>o'. \<not> below parent o')) (publish_each (conf_info_object J) data t)"
    "sat (adds_objects (\<lambda>o'. \<not> below parent o')) (publish_each (system_guid_object J) data t)"
    "sat (adds_objects (\<lambda>o'. \<not> below parent o')) (publish_each (oem_param_object J) data t)"
    "sat (adds_objects (\<lambda>o'. \<not> below parent o')) (publish_each (destination_object J) data t)"
    "sat (adds_objects (\<lambda>o'. \<not> below parent o')) (publish_lists (string_list_object J) n data t)"
  by (rule adds_publish_each adds_publish_lists, use assms below_other in \<open>auto simp: below_def dest!: object_paths\<close>)+

lemma published_filters:
  assumes "publish_tables J data c = (Inr (), c')"
  shows "\<exists>rows objs. json_field data ''EventFilterTable'' = Inr rows
    \<and> table_objects (filter_list_object J) 10 (json_items rows) objs
    \<and> filter (below eventFilterTableRoot) (c_objs c') = filter (below eventFilterTableRoot) (c_objs c) @ objs"
proof -
  let ?before = "thenE (publish_each (conf_info_object J) data ''PEFConfInfo'')
      (thenE (publish_each (system_guid_object J) data ''SystemGUID'')
             (publish_each (oem_param_object J) data ''OEMParam''))"
  let ?after = "thenE (publish_lists (policy_list_object J) 15 data ''AlertPolicyTable'')
      (thenE (publish_lists (string_list_object J) 10 data ''AlertStringTable'')
             (publish_each (destination_object J) data ''DestinationSelector''))"
  have run: "thenE ?before (thenE (publish_lists (filter_list_object J) 10 data ''EventFilterTable'') ?after) c
      = (Inr (), c')"
    using assms by (simp add: publish_tables_def thenE_assoc)
  have "sat (adds_objects (\<lambda>o'. \<not> below eventFilterTableRoot o'))
      (publish_lists (policy_list_object J) 15 data ''AlertPolicyTable'')"
    by (rule adds_publish_lists) (auto simp: below_def below_other dest!: object_paths)
  note tables = other_tables_below [OF disjI1 [OF HOL.refl]] this
  show ?thesis by (rule published_table [OF run]) (intro adds.sat_then tables own_below; assumption?)+
qed

lemma published_policies:
  assumes "publish_tables J data c = (Inr (), c')"
  shows "\<exists>rows objs. json_field data ''AlertPolicyTable'' = Inr rows
    \<and> table_objects (policy_list_object J) 15 (json_items rows) objs
    \<and> filter (below alertPolicyTableObj) (c_objs c') = filter (below alertPolicyTableObj) (c_objs c) @ objs"
proof -
  let ?before = "thenE (publish_each (conf_info_object J) data ''PEFConfInfo'')
      (thenE (publish_each (system_guid_object J) data ''SystemGUID'')
      (thenE (publish_each (oem_param_object J) data ''OEMParam'')
             (publish_lists (filter_list_object J) 10 data ''EventFilterTable'')))"
  let ?after = "thenE (publish_lists (string_list_object J) 10 data ''AlertStringTable'')
             (publish_each (destination_object J) data ''DestinationSelector'')"
  have run: "thenE ?before (thenE (publish_lists (policy_list_object J) 15 data ''AlertPolicyTable'') ?after) c
      = (Inr (), c')"
    using assms by (simp add: publish_tables_def thenE_assoc)
  have "sat (adds_objects (\<lambda>o'. \<not> below alertPolicyTableObj o'))
      (publish_lists (filter_list_object J) 10 data ''EventFilterTable'')"
    by (rule adds_publish_lists) (auto simp: below_def below_other dest!: object_paths)
  note tables = other_tables_below [OF disjI2 [OF HOL.refl]] this
  show ?thesis by (rule published_table [OF run]) (intro adds.sat_then tables own_below; assumption?)+
qed

text \<open>What a bus does that serves these objects: \<open>GetAll\<close> gives the properties of an object, and the object
  mapper gives the paths below a parent, or an error when there are none.\<close>

definition serves :: "'w env \<Rightarrow> dobject list \<Rightarrow> bool" where
  "serves E objs \<longleftrightarrow>
     (\<forall>w path iface o'. find_object path iface objs = Some o' \<longrightarrow>
        fst (e_bus E w (get_all_properties pefBus path iface)) = Reply False (DProps (o_props o')))
     \<and> (\<forall>w. \<forall>parent \<in> {eventFilterTableRoot, alertPolicyTableObj}.
        let paths = map o_path (filter (below parent) objs); r = fst (e_bus E w (subtree_paths_call parent))
        in r = Reply False (DStrs paths) \<or> paths = [] \<and> r = BusError)"

lemma find_object_below:
  assumes "starts_with (parent @ ''/'') path"
  shows "find_object path iface objs = find_object path iface (filter (below parent) objs)"
proof -
  have "is_object path iface o' \<Longrightarrow> below parent o'" for o'
    using assms by (simp add: is_object_def below_def)
  then show ?thesis unfolding find_object_def by (induction objs) auto
qed

text \<open>The objects of a table are found by their paths.\<close>

lemma find_table_object:
  assumes "list_all2 (\<lambda>b o'. o_path o' = path b \<and> o_iface o' = iface \<and> R b o') bs objs"
    and "b \<in> set bs" and "inj path"
  shows "\<exists>o'. find_object (path b) iface objs = Some o' \<and> R b o'"
  using assms(1,2)
proof (induction rule: list_all2_induct)
  case Nil
  then show ?case by simp
next
  case (Cons x bs o' objs)
  then show ?case using injD [OF assms(3), of x b]
    by (cases "x = b") (auto simp: find_object_def is_object_def)
qed

lemma collect_pure:
  assumes "\<And>x s. x \<in> set xs \<Longrightarrow> fst (f x s) = Inr (g x)"
  shows "fst (collectE xs f s) = Inr (concat (map g xs))"
  using assms
proof (induction xs arbitrary: s)
  case Nil
  then show ?case by simp
next
  case (Cons x xs)
  obtain t where x: "f x s = (Inr (g x), t)" using Cons.prems [of x s] by (cases "f x s") auto
  obtain u where "collectE xs f t = (Inr (concat (map g xs)), u)"
    using Cons.IH [of t] Cons.prems by (cases "collectE xs f t") auto
  then show ?case using x by simp
qed

lemma servesD:
  "serves E objs \<Longrightarrow> find_object path iface objs = Some o' \<Longrightarrow>
   fst (e_bus E w (get_all_properties pefBus path iface)) = Reply False (DProps (o_props o'))"
  by (simp add: serves_def)

lemma below_eq: "below parent = (\<lambda>o'. starts_with (parent @ ''/'') (o_path o'))"
  by (simp add: fun_eq_iff below_def)

lemma filter_list_configured:
  assumes "filter_list_object J b rows = Inr o'"
    and "fst (e_bus E (world s) (filter_list_call (Suc b))) = Reply False (DProps (o_props o'))"
  shows "filter_list E ev (Suc b) s = (Inr (configured_matches J rows ev), after_call E (filter_list_call (Suc b)) s)"
  using filter_object_columns [OF assms(1)]
  by (simp add: filter_list_def bus_call_Reply [OF assms(2)] bindE_def catchE_def configured_list_rows
      configured_matches_def entry_matches_filter)

lemma configured_matches_concat:
  "concat (map (\<lambda>b. configured_matches J (f b) ev) bs) = configured_matches J (concat (map f bs)) ev"
  by (induction bs) (simp_all add: configured_matches_def)

text \<open>The reply of the object mapper for a table, as a count and as a list.\<close>

lemma count_children:
  assumes "serves E objs" and "parent \<in> {eventFilterTableRoot, alertPolicyTableObj}"
  shows "fst (getImmediateChildObjectPathCount E parent s) = Inr (length (filter (below parent) objs))"
proof -
  have "filter (\<lambda>p. starts_with (parent @ ''/'') p) (map o_path (filter (below parent) objs))
      = map o_path (filter (below parent) objs)"
    by (simp add: filter_map comp_def below_eq)
  moreover have "fst (e_bus E (world s) (subtree_paths_call parent)) = Reply False (DStrs (map o_path (filter (below parent) objs)))
      \<or> filter (below parent) objs = [] \<and> fst (e_bus E (world s) (subtree_paths_call parent)) = BusError"
    using assms by (auto simp: serves_def Let_def)
  ultimately show ?thesis
    unfolding getImmediateChildObjectPathCount_def bindE_def catchE_def
    by (elim disjE conjE) (simp_all add: bus_call_Reply [where err = False] bus_call_BusError)
qed

lemma to_string_inj: "inj to_string"
  by (metis digits_value_to_string injI)

lemma served_filter_list:
  assumes "serves E objs" and "table_objects (filter_list_object J) 10 rows (filter (below eventFilterTableRoot) objs)"
    and "b \<in> set (used_buckets 10 rows)"
  shows "fst (filter_list E ev (Suc b) s) = Inr (configured_matches J (list_bucket 10 rows b) ev)"
proof -
  let ?path = "\<lambda>b. eventFilterTableRoot @ ''/List'' @ to_string (b + 1)"
  have paths: "list_all2 (\<lambda>b o'. o_path o' = ?path b \<and> o_iface o' = eventFilterTableIntf
      \<and> filter_list_object J b (list_bucket 10 rows b) = Inr o') (used_buckets 10 rows)
      (filter (below eventFilterTableRoot) objs)"
    using assms(2) unfolding table_objects_def by (rule list_all2_mono) (auto dest: object_paths)
  have "inj ?path" using to_string_inj by (auto simp: inj_def)
  from find_table_object [OF paths assms(3) this] obtain o' where o': "find_object (?path b) eventFilterTableIntf (filter (below eventFilterTableRoot) objs) = Some o'"
      "filter_list_object J b (list_bucket 10 rows b) = Inr o'"
    by blast
  have "starts_with (eventFilterTableRoot @ ''/'') (?path b)" by (simp add: starts_with_def)
  then have "find_object (?path b) eventFilterTableIntf objs = Some o'" using o'(1) find_object_below by metis
  from servesD [OF assms(1) this]
  have "fst (e_bus E (world s) (filter_list_call (Suc b))) = Reply False (DProps (o_props o'))"
    by (simp add: filter_list_call_def)
  from filter_list_configured [OF o'(2) this] show ?thesis by simp
qed

section \<open>Policy lists\<close>

definition row_string :: "json \<Rightarrow> string \<Rightarrow> string" where
  "row_string row key = (case json_value json_get_string row key '''' of Inr x \<Rightarrow> x | Inl _ \<Rightarrow> '''')"

definition configured_policy :: "json_lib \<Rightarrow> json \<Rightarrow> AlertPolicyTbl" where
  "configured_policy J row =
     \<lparr>AlertPolicyEntry = 0,
      AlertPolicyGroupNum = word_of_int (row_int J row ''AlertPolicyGroupNum''),
      EnableAlert = word_of_int (row_int J row ''EnableAlert''),
      PolicyAction = word_of_int (row_int J row ''PolicyAction''),
      ChannelNo = word_of_int (row_int J row ''ChannelNo''),
      DestinationSel = word_of_int (row_int J row ''DestinationSel''),
      EventSpecificAlertStr = row_string row ''EventSpecificAlertStr'',
      AlertStingkey = 0\<rparr>"

text \<open>The enabled policies of a group, in the order of the file.\<close>

definition configured_policies :: "json_lib \<Rightarrow> json list \<Rightarrow> u8 \<Rightarrow> AlertPolicyTbl list" where
  "configured_policies J rows no =
     filter (\<lambda>p. EnableAlert p = 1 \<and> AlertPolicyGroupNum p = no) (map (configured_policy J) rows)"

lemma string_column_rows:
  "string_column rows key = Inr kv \<Longrightarrow> kv = (key, DStrs (map (\<lambda>r. row_string r key) rows))"
proof -
  assume "string_column rows key = Inr kv"
  then obtain xs where xs: "map_result (\<lambda>e. json_value json_get_string e key '''') rows = Inr xs"
      and kv: "kv = (key, DStrs xs)"
    by (auto simp: string_column_def bindR_eq_Inr)
  from xs have "list_all2 (\<lambda>e x. json_value json_get_string e key '''' = Inr x) rows xs"
    by (simp add: map_result_Inr)
  then have "xs = map (\<lambda>r. row_string r key) rows"
    by (induction rows xs rule: list_all2_induct) (simp_all add: row_string_def)
  then show ?thesis using kv by simp
qed

lemma columns8_rows:
  "map_result (column8 J rows) keys = Inr ps \<Longrightarrow>
   ps = map (\<lambda>key. (key, DU8s (map (\<lambda>r. word_of_int (row_int J r key)) rows))) keys"
  by (induction keys arbitrary: ps) (auto simp: bindR_eq_Inr dest!: column_rows(1))

lemma policy_object_columns:
  assumes "policy_list_object J b rows = Inr o'"
  shows "read_policy_columns (o_props o') = Inr
    \<lparr>pc_group = map (\<lambda>r. word_of_int (row_int J r ''AlertPolicyGroupNum'')) rows,
     pc_enable = Some (map (\<lambda>r. word_of_int (row_int J r ''EnableAlert'')) rows),
     pc_action = Some (map (\<lambda>r. word_of_int (row_int J r ''PolicyAction'')) rows),
     pc_channel = Some (map (\<lambda>r. word_of_int (row_int J r ''ChannelNo'')) rows),
     pc_dest = Some (map (\<lambda>r. word_of_int (row_int J r ''DestinationSel'')) rows),
     pc_str = Some (map (\<lambda>r. row_string r ''EventSpecificAlertStr'') rows)\<rparr>"
proof -
  obtain ps st ks where m: "map_result (column8 J rows)
       [''AlertPolicyGroupNum'', ''EnableAlert'', ''PolicyAction'', ''ChannelNo'', ''DestinationSel''] = Inr ps"
      "string_column rows ''EventSpecificAlertStr'' = Inr st" "o_props o' = ps @ [st, ks]"
    using assms by (auto simp: policy_list_object_def bindR_eq_Inr simp del: map_result.simps)
  show ?thesis
    unfolding m(3) columns8_rows [OF m(1)] string_column_rows [OF m(2)]
    by (simp add: read_policy_columns_def opt_column_def map_at_def)
qed

lemma map_filter_cong:
  "(\<And>x. x \<in> set xs \<Longrightarrow> f x = g x) \<Longrightarrow> List.map_filter f xs = List.map_filter g xs"
  by (induction xs) (simp_all add: List.map_filter_simps split: option.split)

lemma policy_rows_configured:
  assumes "policy_list_object J b rows = Inr o'" and "read_policy_columns (o_props o') = Inr c"
  shows "policy_rows c no = configured_policies J rows no"
proof -
  let ?g = "\<lambda>r. if EnableAlert (configured_policy J r) = 1 \<and> AlertPolicyGroupNum (configured_policy J r) = no
      then Some (configured_policy J r) else None"
  note c = policy_object_columns [OF assms(1), unfolded assms(2) sum.inject]
  have len: "length (pc_group c) = length rows" by (simp add: c)
  have row: "policy_row c no i = ?g (rows ! i)" if "i < length rows" for i
    using that by (simp add: c policy_row_def column_at_def configured_policy_def)
  have "policy_rows c no = List.map_filter (\<lambda>i. ?g (rows ! i)) [0..<length rows]"
    unfolding policy_rows_def len by (rule map_filter_cong) (simp_all add: row)
  also have "\<dots> = List.map_filter ?g (map (\<lambda>i. rows ! i) [0..<length rows])"
    by (simp add: List.map_filter_def filter_map comp_def)
  also have "\<dots> = configured_policies J rows no"
  proof -
    have "List.map_filter ?g xs = configured_policies J xs no" for xs
      by (induction xs) (simp_all add: List.map_filter_simps configured_policies_def)
    then show ?thesis by (simp add: map_nth)
  qed
  finally show ?thesis .
qed

lemma collectE_map: "collectE (map g xs) f = collectE xs (\<lambda>x. f (g x))"
  by (induction xs) simp_all

lemma served_policy_object:
  assumes "serves E objs" and "find_object path alertPolicyTableIntf objs = Some o'"
    and "policy_list_object J b rows = Inr o'"
  shows "fst (policy_object E no path s) = Inr (configured_policies J rows no)"
proof -
  obtain c where c: "read_policy_columns (o_props o') = Inr c" using policy_object_columns [OF assms(3)] by blast
  show ?thesis
    using c policy_rows_configured [OF assms(3) c, of no]
    by (simp add: policy_object_def bus_call_Reply [OF servesD [OF assms(1,2)]] bindE_def catchE_def)
qed

lemma configured_policies_concat:
  "concat (map (\<lambda>b. configured_policies J (f b) no) bs) = configured_policies J (concat (map f bs)) no"
  by (induction bs) (simp_all add: configured_policies_def)

lemma served_policy_list:
  assumes "serves E objs" and "table_objects (policy_list_object J) 15 rows (filter (below alertPolicyTableObj) objs)"
    and "b \<in> set (used_buckets 15 rows)"
  shows "fst (policy_object E no (alertPolicyTableObj @ ''/PolicyList_eth'' @ to_string b) s)
    = Inr (configured_policies J (list_bucket 15 rows b) no)"
proof -
  let ?path = "\<lambda>b. alertPolicyTableObj @ ''/PolicyList_eth'' @ to_string b"
  have paths: "list_all2 (\<lambda>b o'. o_path o' = ?path b \<and> o_iface o' = alertPolicyTableIntf
      \<and> policy_list_object J b (list_bucket 15 rows b) = Inr o') (used_buckets 15 rows)
      (filter (below alertPolicyTableObj) objs)"
    using assms(2) unfolding table_objects_def by (rule list_all2_mono) (auto dest: object_paths)
  have "inj ?path" using to_string_inj by (auto simp: inj_def)
  from find_table_object [OF paths assms(3) this] obtain o' where
    o': "find_object (?path b) alertPolicyTableIntf (filter (below alertPolicyTableObj) objs) = Some o'"
      "policy_list_object J b (list_bucket 15 rows b) = Inr o'"
    by blast
  have "starts_with (alertPolicyTableObj @ ''/'') (?path b)" by (simp add: starts_with_def)
  then have "find_object (?path b) alertPolicyTableIntf objs = Some o'" using o'(1) find_object_below by metis
  then show ?thesis using served_policy_object [OF assms(1) _ o'(2)] by simp
qed

text \<open>The loop over the objects.\<close>

definition policy_step :: "'w env \<Rightarrow> u8 \<Rightarrow> string \<Rightarrow> ('w, AlertPolicyTbl list) act" where
  "policy_step E no = (\<lambda>path.
     if \<not> starts_with (alertPolicyTableObj @ ''/'') path then ret [] else policy_object E no path)"

lemma served_policies:
  assumes "serves E objs" and "table_objects (policy_list_object J) 15 rows (filter (below alertPolicyTableObj) objs)"
  shows "fst (collectE (map (\<lambda>b. alertPolicyTableObj @ ''/PolicyList_eth'' @ to_string b) (used_buckets 15 rows))
    (policy_step E no) t) = Inr (configured_policies J rows no)"
proof -
  let ?path = "\<lambda>b. alertPolicyTableObj @ ''/PolicyList_eth'' @ to_string b"
  let ?bs = "used_buckets 15 rows"
  have "fst (collectE (map ?path ?bs) (policy_step E no) t)
      = fst (collectE ?bs (\<lambda>b. policy_object E no (?path b)) t)"
    by (simp add: collectE_map policy_step_def starts_with_def)
  also have "\<dots> = Inr (concat (map (\<lambda>b. configured_policies J (list_bucket 15 rows b) no) ?bs))"
    using served_policy_list [OF assms] by (intro collect_pure) auto
  finally show ?thesis by (simp add: configured_policies_concat used_buckets_partition)
qed

text \<open>The lists of the whole filter table.\<close>

text \<open>The policies of the file, as they are found.\<close>

lemma published_policies_found:
  assumes "publish_tables J data c = (Inr (), c')" and "filter (below alertPolicyTableObj) (c_objs c) = []"
    and "serves E (c_objs c')"
  shows "\<exists>rows. json_field data ''AlertPolicyTable'' = Inr rows
    \<and> fst (checkAlertPoicyTbl E no s)
      = Inr (if no \<le> 0 then [] else configured_policies J (json_items rows) (of_int no))"
proof -
  obtain rows objs where r: "json_field data ''AlertPolicyTable'' = Inr rows"
      "table_objects (policy_list_object J) 15 (json_items rows) objs"
      "filter (below alertPolicyTableObj) (c_objs c') = objs"
    using published_policies [OF assms(1)] assms(2) by auto
  let ?bs = "used_buckets 15 (json_items rows)"
  let ?path = "\<lambda>b. alertPolicyTableObj @ ''/PolicyList_eth'' @ to_string b"
  have paths: "map o_path objs = map ?path ?bs"
    using r(2) unfolding table_objects_def by (induction rule: list_all2_induct) (auto dest: object_paths)
  show ?thesis
  proof (cases "no \<le> 0")
    case True
    then show ?thesis using r(1) by (simp add: checkAlertPoicyTbl_def)
  next
    case False
    have lists: "fst (collectE (map ?path ?bs) (policy_step E (of_int no)) t)
        = Inr (configured_policies J (json_items rows) (of_int no))" for t
      using served_policies [OF assms(3)] r(2,3) by simp
    have "fst (e_bus E (world s) (subtree_paths_call alertPolicyTableObj)) = Reply False (DStrs (map o_path objs))
        \<or> map o_path objs = [] \<and> fst (e_bus E (world s) (subtree_paths_call alertPolicyTableObj)) = BusError"
      using assms(3) r(3) by (auto simp: serves_def Let_def)
    then show ?thesis
    proof (elim disjE conjE)
      assume "fst (e_bus E (world s) (subtree_paths_call alertPolicyTableObj)) = Reply False (DStrs (map o_path objs))"
      then show ?thesis
        using False lists r(1) paths
        by (simp add: checkAlertPoicyTbl_def policy_step_def bus_call_Reply [where err = False] bindE_def catchE_def)
    next
      assume none: "map o_path objs = []"
        and err: "fst (e_bus E (world s) (subtree_paths_call alertPolicyTableObj)) = BusError"
      have "json_items rows = []"
        using none paths used_buckets_partition [of 15 "json_items rows"] by simp
      then show ?thesis
        using False err r(1)
        by (simp add: checkAlertPoicyTbl_def bus_call_BusError bindE_def catchE_def configured_policies_def)
    qed
  qed
qed

lemma published_matches:
  assumes "publish_tables J data c = (Inr (), c')" and "filter (below eventFilterTableRoot) (c_objs c) = []"
    and "serves E (c_objs c')"
  shows "\<exists>rows. json_field data ''EventFilterTable'' = Inr rows
    \<and> fst (matched_entries E ev s) = Inr (configured_matches J (json_items rows) ev)"
proof -
  obtain rows objs where r: "json_field data ''EventFilterTable'' = Inr rows"
      "table_objects (filter_list_object J) 10 (json_items rows) objs"
      "filter (below eventFilterTableRoot) (c_objs c') = objs"
    using published_filters [OF assms(1)] assms(2) by auto
  obtain n where n: "used_buckets 10 (json_items rows) = [0..<n]" using used_buckets_prefix [of 10] by auto
  then have len: "length objs = n" using r(2) by (auto simp: table_objects_def dest: list_all2_lengthD)
  then obtain s' where count: "getImmediateChildObjectPathCount E eventFilterTableRoot s = (Inr n, s')"
    using count_children [OF assms(3), of eventFilterTableRoot s] r(3)
    by (cases "getImmediateChildObjectPathCount E eventFilterTableRoot s") auto
  let ?m = "\<lambda>b. configured_matches J (list_bucket 10 (json_items rows) b) ev"
  have lists: "fst (filter_list E ev (Suc b) t) = Inr (?m b)" if "b < n" for b t
    using served_filter_list [OF assms(3)] r(2,3) n that by auto
  have "fst (collectE [1..<Suc n] (filter_list E ev) s') = Inr (concat (map (\<lambda>g. ?m (g - 1)) [1..<Suc n]))"
  proof (rule collect_pure)
    fix g t
    assume "g \<in> set [1..<Suc n]"
    then show "fst (filter_list E ev g t) = Inr (?m (g - 1))" using lists [of "g - 1" t] by auto
  qed
  moreover have "concat (map (\<lambda>g. ?m (g - 1)) [1..<Suc n]) = configured_matches J (json_items rows) ev"
    using used_buckets_partition [of 10 "json_items rows"]
    by (simp add: map_Suc_upt [symmetric] comp_def configured_matches_concat n del: upt_Suc)
  ultimately show ?thesis using r(1) count len by (cases n) (auto simp: matched_entries_def)
qed

text \<open>A bus that serves given objects, and documents with the plain conversions of integers, for the
  instances.\<close>

definition objects_bus :: "dobject list \<Rightarrow> ecall \<Rightarrow> breply" where
  "objects_bus objs c =
     (case c of
        Method svc path intf member (DStr x # _) \<Rightarrow>
          (if member = METHOD_GET_ALL then
             (case find_object path x objs of
                None \<Rightarrow> BusError | Some o' \<Rightarrow> Reply False (DProps (o_props o')))
           else Reply False (DStrs (map o_path (filter (below x) objs))))
      | _ \<Rightarrow> BusError)"

definition plain_json :: json_lib where
  "plain_json =
     \<lparr>jl_parse = (\<lambda>_. JDiscarded), jl_dump = (\<lambda>_ _. None), jl_int = plain_int, jl_u8 = plain_word,
      jl_u16 = plain_word, jl_u32 = plain_word, jl_merge_patch = (\<lambda>_ p. p)\<rparr>"

definition objects_env :: "dobject list \<Rightarrow> unit env" where
  "objects_env objs = (table_env (objects_bus objs))\<lparr>e_json := plain_json\<rparr>"

definition empty_conf :: "unit conf" where
  "empty_conf = \<lparr>c_sys = initial_sys (), c_objs = [], c_types = (\<lambda>_. [])\<rparr>"

lemma objects_serve: "serves (objects_env objs) objs"
  by (simp add: serves_def objects_env_def table_env_def objects_bus_def get_all_properties_def
      subtree_paths_call_def METHOD_GET_ALL_def Let_def)

text \<open>A filter table whose first row takes every event and whose second row is disabled.\<close>

definition two_filters :: json where
  "two_filters = JObj [(''EventFilterTable'', JArr
     [json_object (map (\<lambda>k. (k, JInt 255))
        [''GenIDByte1'', ''GenIDByte2'', ''SensorType'', ''SensorNum'', ''EventTrigger'']
        @ [(''FilterConfig'', JInt 128), (''EventData1OffsetMask'', JInt 65535), (''EvtFilterAction'', JInt 2)]),
      json_object [(''FilterConfig'', JInt 0)]])]"

section \<open>Properties\<close>

text \<open>C2. The two daemons together match events against the rows of the configuration file: when the
  configuration daemon has published the tables of a document and the bus serves its objects, the
  entries that the event-filtering daemon collects for an event are, in order, the rows of the document's
  filter table that the PEF rules select, whatever the split in lists.\<close>

theorem matching_refines_file:
  assumes "publish_tables J data c = (Inr (), c')" and "filter (below eventFilterTableRoot) (c_objs c) = []"
    and "serves E (c_objs c')"
  shows "\<exists>rows. json_field data ''EventFilterTable'' = Inr rows
    \<and> fst (matched_entries E ev s) = Inr (configured_matches J (json_items rows) ev)"
  using assms by (rule published_matches)

theorem matching_refines_file_witness:
  "\<exists>c'. publish_tables plain_json two_filters empty_conf = (Inr (), c') \<and> length (c_objs c') = 1
     \<and> (\<exists>es. fst (matched_entries (objects_env (c_objs c')) fan_event (initial_sys ())) = Inr es
         \<and> map EvtFilterAction es = [2])"
proof -
  obtain c' where c': "publish_tables plain_json two_filters empty_conf = (Inr (), c')"
  proof -
    have "fst (publish_tables plain_json two_filters empty_conf) = Inr ()" by code_simp
    then show ?thesis using that by (metis prod.collapse)
  qed
  have len: "length (c_objs (snd (publish_tables plain_json two_filters empty_conf))) = 1" by code_simp
  have sel: "(case json_field two_filters ''EventFilterTable'' of Inl e \<Rightarrow> False | Inr rows \<Rightarrow>
      map EvtFilterAction (configured_matches plain_json (json_items rows) fan_event) = [2])"
    unfolding configured_matches_def entry_matches_filter [symmetric] by code_simp
  have "filter (below eventFilterTableRoot) (c_objs empty_conf) = []" by (simp add: empty_conf_def)
  from matching_refines_file [OF c' this objects_serve, of fan_event "initial_sys ()"]
  show ?thesis using c' len sel by auto
qed

text \<open>C3. The policies of a group are the enabled rows of the configuration file with its number: when the
  configuration daemon has published the tables of a document and the bus serves its objects, the alert
  policies that the event-filtering daemon finds for a group are these rows, in their order.\<close>

theorem policies_refine_file:
  assumes "publish_tables J data c = (Inr (), c')" and "filter (below alertPolicyTableObj) (c_objs c) = []"
    and "serves E (c_objs c')"
  shows "\<exists>rows. json_field data ''AlertPolicyTable'' = Inr rows
    \<and> fst (checkAlertPoicyTbl E no s)
      = Inr (if no \<le> 0 then [] else configured_policies J (json_items rows) (of_int no))"
  using assms by (rule published_policies_found)


definition three_policies :: json where
  "three_policies = JObj [(''AlertPolicyTable'', JArr
     (map (\<lambda>(group, enable, dest). json_object
        [(''AlertPolicyGroupNum'', JInt group), (''EnableAlert'', JInt enable), (''DestinationSel'', JInt dest)])
       [(1, 1, 4), (2, 1, 5), (1, 0, 6)]))]"

theorem policies_refine_file_witness:
  "\<exists>c'. publish_tables plain_json three_policies empty_conf = (Inr (), c')
     \<and> (\<exists>ps. fst (checkAlertPoicyTbl (objects_env (c_objs c')) 1 (initial_sys ())) = Inr ps
         \<and> map DestinationSel ps = [4])"
proof -
  have "fst (publish_tables plain_json three_policies empty_conf) = Inr ()" by code_simp
  then obtain c' where c': "publish_tables plain_json three_policies empty_conf = (Inr (), c')"
    by (metis prod.collapse)
  have sel: "(case json_field three_policies ''AlertPolicyTable'' of Inl e \<Rightarrow> False | Inr rows \<Rightarrow>
      map DestinationSel (configured_policies plain_json (json_items rows) 1) = [4])"
    by code_simp
  have "filter (below alertPolicyTableObj) (c_objs empty_conf) = []" by (simp add: empty_conf_def)
  from policies_refine_file [OF c' this objects_serve, of 1 "initial_sys ()"]
  show ?thesis using c' sel by auto
qed

end
