(* ===== verification/SavedTable.thy ===== *)
theory SavedTable
  imports ConfiguredTable
begin

text \<open>
  Changes that outlive the daemons: a list or selector that is changed on the bus is saved by the monitors
  of the event-filtering daemon in the configuration file, from which the configuration daemon publishes
  its objects at the next start.
\<close>

section \<open>Saved lists\<close>

text \<open>The rows of a list as a range of indices.\<close>

definition bucket_range :: "nat \<Rightarrow> nat \<Rightarrow> nat \<Rightarrow> nat list" where
  "bucket_range w n b = [w * b..<if b = 3 then n else min n (w * (b + 1))]"

lemma filter_upt_range: "filter (\<lambda>i. lo \<le> i \<and> i < hi) [0..<n] = [lo..<min hi n]"
proof (induction n)
  case 0
  then show ?case by simp
next
  case (Suc n)
  then show ?case by (cases "lo \<le> n"; cases "n < hi") (auto simp: min_def not_less le_Suc_eq)
qed

lemma bucket_indices:
  assumes "0 < w" and "b \<le> 3"
  shows "filter (\<lambda>i. bucket_of w i = b) [0..<n] = bucket_range w n b"
proof -
  have "bucket_of w i = b \<longleftrightarrow> w * b \<le> i \<and> i < (if b = 3 then n else w * (b + 1))" if "i < n" for i
  proof -
    have "bucket_of w i = b \<longleftrightarrow> b \<le> i div w \<and> (b = 3 \<or> i div w < b + 1)"
      using assms(2) by (auto simp: bucket_of_def Let_def)
    also have "\<dots> \<longleftrightarrow> w * b \<le> i \<and> (b = 3 \<or> i < w * (b + 1))"
      using assms(1)
      by (simp add: less_eq_div_iff_mult_less_eq div_less_iff_less_mult mult.commute del: add_mult_distrib2)
    finally show ?thesis using that by simp
  qed
  then have "filter (\<lambda>i. bucket_of w i = b) [0..<n]
      = filter (\<lambda>i. w * b \<le> i \<and> i < (if b = 3 then n else w * (b + 1))) [0..<n]"
    by (intro filter_cong) auto
  also have "\<dots> = bucket_range w n b"
    unfolding filter_upt_range bucket_range_def by (simp add: min.commute)
  finally show ?thesis .
qed

lemma list_bucket_range:
  assumes "0 < w" and "b \<le> 3"
  shows "list_bucket w rows b = map (\<lambda>i. rows ! i) (bucket_range w (length rows) b)"
proof -
  have "enumerate 0 rows = map (\<lambda>i. (i, rows ! i)) [0..<length rows]"
    by (intro nth_equalityI) (simp_all add: nth_enumerate_eq)
  then show ?thesis
    by (simp add: list_bucket_def filter_map comp_def bucket_indices [OF assms])
qed

lemma list_object_bucket:
  assumes "b \<le> 3"
  shows "find_bucket filterListName (eventFilterTableRoot @ ''/List'' @ to_string (b + 1)) = Some b"
proof -
  have "list_all (\<lambda>b. find_bucket filterListName (eventFilterTableRoot @ ''/List'' @ to_string (b + 1)) = Some b) [0..<4]"
    by code_simp
  then show ?thesis using assms by (auto simp: list_all_iff)
qed

text \<open>The rows that belong to a list have the saved values.\<close>

lemma saved_column:
  fixes vals :: "u8 list"
  assumes "b \<le> 3" and "length vals = length (list_bucket 10 rows b)"
    and "\<And>r. r \<in> set rows \<Longrightarrow> sorted (map fst r)" and "\<And>x :: u8. json_int_exact J (uint x)"
  shows "map (\<lambda>r. word_of_int (row_int J r p))
    (list_bucket 10 (map JObj (set_column (10 * b) p (map json_u vals) rows)) b) = vals"
proof -
  let ?R = "bucket_range 10 (length rows) b"
  let ?new = "set_column (10 * b) p (map json_u vals) rows"
  have len: "length vals = length ?R" using assms(2) list_bucket_range [OF _ assms(1), of 10 rows] by simp
  have "word_of_int (row_int J (JObj (?new ! (?R ! i))) p) = vals ! i" if i: "i < length ?R" for i
  proof -
    have k: "?R ! i = 10 * b + i" "10 * b + i < length rows"
      using i by (auto simp: bucket_range_def split: if_splits)
    then have "?new ! (10 * b + i) = kv_insert p (json_u (vals ! i)) (rows ! (10 * b + i))"
      using i len by (simp add: set_column_def)
    then show ?thesis
      using k assms(3) [OF nth_mem [OF k(2)]] assms(4) [of "vals ! i"]
      by (simp add: row_int_def json_value_def json_u_def json_get_int_def json_int_exact_def)
  qed
  moreover have "?R ! i < length rows" if "i < length ?R" for i
    using that by (auto simp: bucket_range_def split: if_splits)
  ultimately show ?thesis
    using len list_bucket_range [OF _ assms(1), of 10 "map JObj ?new"]
    by (intro nth_equalityI) simp_all
qed

definition filter_list_path :: "nat \<Rightarrow> string" where
  "filter_list_path b = eventFilterTableRoot @ ''/List'' @ to_string (b + 1)"

lemma json_sorted_rows:
  assumes "json_sorted (JObj kvs)" and "map_of kvs k = Some (JArr (map JObj rows))" and "r \<in> set rows"
  shows "sorted (map fst r)"
  using assms map_of_SomeD [OF assms(2)] by (fastforce simp: list_all_iff)

text \<open>A property of a published list reads the column of its rows.\<close>

lemma published_column:
  assumes "publish_tables J (JObj kvs) c = (Inr (), c')"
    and "filter (below eventFilterTableRoot) (c_objs c) = []"
    and "map_of kvs ''EventFilterTable'' = Some (JArr rows)"
    and "b \<le> 3" and "list_bucket 10 rows b \<noteq> []"
    and "key \<in> set filter_keys" and "key \<noteq> ''EventData1OffsetMask''"
  shows "get_prop c' (filter_list_path b) eventFilterTableIntf key
    = Some (DU8s (map (\<lambda>r. word_of_int (row_int J r key)) (list_bucket 10 rows b)))"
proof -
  let ?path = "\<lambda>b. eventFilterTableRoot @ ''/List'' @ to_string (b + 1)"
  have t: "table_objects (filter_list_object J) 10 rows (filter (below eventFilterTableRoot) (c_objs c'))"
    using published_filters [OF assms(1)] assms(2,3) by auto
  have paths: "list_all2 (\<lambda>b o'. o_path o' = ?path b \<and> o_iface o' = eventFilterTableIntf
      \<and> filter_list_object J b (list_bucket 10 rows b) = Inr o') (used_buckets 10 rows)
      (filter (below eventFilterTableRoot) (c_objs c'))"
    using t unfolding table_objects_def by (rule list_all2_mono) (auto dest: object_paths)
  have inj: "inj ?path" using to_string_inj by (auto simp: inj_def)
  have b: "b \<in> set (used_buckets 10 rows)" using assms(4,5) by (simp add: used_buckets_def)
  from find_table_object [OF paths b inj] obtain o' where
    o': "find_object (?path b) eventFilterTableIntf (filter (below eventFilterTableRoot) (c_objs c')) = Some o'"
      "filter_list_object J b (list_bucket 10 rows b) = Inr o'"
    by blast
  have "starts_with (eventFilterTableRoot @ ''/'') (?path b)" by (simp add: starts_with_def)
  then have "find_object (?path b) eventFilterTableIntf (c_objs c') = Some o'" using o'(1) find_object_below by metis
  then show ?thesis
    using filter_object_column [OF o'(2) assms(6)] assms(7) by (simp add: get_prop_def filter_list_path_def)
qed

section \<open>Saved destination selectors\<close>

text \<open>Entries that agree on the members that are published give the same object.\<close>

definition same_destination :: "json \<Rightarrow> json \<Rightarrow> bool" where
  "same_destination j j' \<longleftrightarrow>
     (\<exists>r r'. j = JObj r \<and> j' = JObj r' \<and> (\<forall>k \<in> {''LanDestination'', ''LanChannel'', ''DestinationType''}.
        map_of r' k = map_of r k))"

lemma same_destination_object:
  "same_destination j j' \<Longrightarrow> destination_object J j' = destination_object J j"
  by (auto simp: same_destination_def destination_object_def u8_prop_def)

lemma selector_update_same:
  assumes "selector_entry_update J n ''DestinationSelector'' v (JObj r) = Inr (e, stop)"
    and "sorted (map fst r)" and "map_of r ''LanDestination'' \<noteq> None"
  shows "same_destination (JObj r) e"
proof -
  obtain x where x: "map_of r ''LanDestination'' = Some x" using assms(3) by auto
  let ?r = "kv_insert ''LanDestination'' x r"
  have r: "sorted (map fst ?r)" "map_of ?r = map_of r"
    using assms(2) x by (auto simp: sorted_kv_insert fun_upd_triv)
  have "e = JObj ?r \<or> (\<exists>y. e = JObj (kv_insert ''DestinationSelector'' y ?r))"
    using assms(1) x
    by (cases v) (auto simp: selector_entry_update_def json_ref_def bindR_eq_Inr split: if_splits)
  then show ?thesis using r by (auto simp: same_destination_def)
qed

lemma update_until_rel:
  assumes "update_until f vs = Inr vs'" and "\<And>v v' stop. v \<in> set vs \<Longrightarrow> f v = Inr (v', stop) \<Longrightarrow> R v v'"
    and "\<And>v. v \<in> set vs \<Longrightarrow> R v v"
  shows "list_all2 R vs vs'"
  using assms
proof (induction vs arbitrary: vs')
  case Nil
  then show ?case by simp
next
  case (Cons v vs)
  then obtain v' stop where f: "f v = Inr (v', stop)" by (cases "f v") auto
  have R: "R v v'" "list_all2 R vs vs"
    using Cons.prems(2) [OF _ f] Cons.prems(3) by (auto intro: list.rel_refl_strong)
  show ?case
  proof (cases stop)
    case True
    then show ?thesis using Cons.prems(1) f R by auto
  next
    case False
    then obtain ws where "update_until f vs = Inr ws" "vs' = v' # ws"
      using Cons.prems(1) f by (auto simp: bindR_eq_Inr)
    then show ?thesis using Cons.IH Cons.prems(2,3) R(1) by auto
  qed
qed

lemma selector_table_same:
  assumes "selector_table_update J n [(''DestinationSelector'', v)] (JArr (map JObj rows)) = Inr tbl"
    and "\<And>r. r \<in> set rows \<Longrightarrow> sorted (map fst r) \<and> map_of r ''LanDestination'' \<noteq> None"
  shows "\<exists>es. tbl = JArr es \<and> map (destination_object J) es = map (destination_object J) (map JObj rows)"
proof -
  obtain es where es: "tbl = JArr es"
      "update_until (selector_entry_update J n ''DestinationSelector'' v) (map JObj rows) = Inr es"
    using assms(1) by (auto simp: bindR_eq_Inr)
  have "list_all2 same_destination (map JObj rows) es"
    by (rule update_until_rel [OF es(2)]) (use assms(2) selector_update_same in \<open>auto simp: same_destination_def\<close>)
  then have "map (destination_object J) es = map (destination_object J) (map JObj rows)"
    by (induction rule: list_all2_induct) (simp_all add: same_destination_object)
  then show ?thesis using es(1) by blast
qed

lemma forE_map_build:
  "forE xs (\<lambda>x. bindE (liftE (build x)) publish) = forE (map build xs) (\<lambda>r. bindE (liftE r) publish)"
  by (induction xs) simp_all

lemma publish_each_map:
  assumes "map build (json_items es) = map build (json_items es')"
    and "json_field data table = Inr es" and "json_field data' table = Inr es'"
  shows "publish_each build data table = (publish_each build data' table :: ('w, unit) cact)"
proof -
  have "forE (json_items es) (\<lambda>x. bindE (liftE (build x)) publish)
      = (forE (json_items es') (\<lambda>x. bindE (liftE (build x)) publish) :: ('w, unit) cact)"
    using forE_map_build [of "json_items es" build] forE_map_build [of "json_items es'" build] assms(1)
    by metis
  then show ?thesis using assms(2,3) by (simp add: publish_each_def)
qed

section \<open>Properties\<close>



text \<open>A filter for sensor type 0 is accepted as a wildcard and is none: the configuration daemon takes the
  type 0 like \<open>0xFF\<close>, but an entry with type 0 matches no event at all.\<close>

theorem zero_type_matches_nothing:
  "sensor_type_valid 0 \<and> sensor_type_valid 0xFF \<and> \<not> entry_matches (e\<lparr>SensorType := 0\<rparr>) ev"
  by (auto simp: sensor_type_valid_def entry_matches_filter filter_spec_def wild_or_eq_def)

text \<open>C39. A changed destination selector is lost at the next start: the monitor stores the property
  \<open>DestinationSelector\<close> under that name, but the configuration daemon publishes it from the member
  \<open>DestinationType\<close>, so that the saved document gives the same objects as before.\<close>

theorem destination_selector_lost:
  assumes "config_document E s = JObj kvs" and "json_sorted (JObj kvs)"
    and "map_of kvs ''DestinationSelector'' = Some (JArr (map JObj rows))"
    and "list_all (\<lambda>r. map_of r ''LanDestination'' \<noteq> None) rows" and "e_writable E pefConfigFile"
    and "edit_member (selector_table_update (e_json E) (int (findEntryNo (c_str path)))
        [(''DestinationSelector'', DU8 x)]) (JObj kvs) ''DestinationSelector'' = Inr saved"
    and "json_roundtrips (e_json E) saved"
  shows "\<exists>s'. destinationSelectorChanged E path (Inr [(''DestinationSelector'', DU8 x)]) s = (Inr (), s')
    \<and> config_document E s' = saved
    \<and> publish_each (destination_object (e_json E)) saved ''DestinationSelector''
      = (publish_each (destination_object (e_json E)) (JObj kvs) ''DestinationSelector'' :: ('w, unit) cact)"
proof -
  obtain tbl where tbl: "selector_table_update (e_json E) (int (findEntryNo (c_str path)))
      [(''DestinationSelector'', DU8 x)] (JArr (map JObj rows)) = Inr tbl"
      "saved = JObj (kv_insert ''DestinationSelector'' tbl kvs)"
    using assms(3,6) by (auto simp: edit_member_def bindR_eq_Inr simp del: selector_table_update.simps)
  have "sorted (map fst r) \<and> map_of r ''LanDestination'' \<noteq> None" if "r \<in> set rows" for r
    using json_sorted_rows [OF assms(2,3) that] assms(4) that by (auto simp: list_all_iff)
  from selector_table_same [OF tbl(1) this] obtain es where
    es: "tbl = JArr es" "map (destination_object (e_json E)) es = map (destination_object (e_json E)) (map JObj rows)"
    by blast
  have "publish_each (destination_object (e_json E)) saved ''DestinationSelector''
      = (publish_each (destination_object (e_json E)) (JObj kvs) ''DestinationSelector'' :: ('w, unit) cact)"
    using assms(2,3) tbl(2) es by (intro publish_each_map [where es = tbl and es' = "JArr (map JObj rows)"]) simp_all
  moreover have "\<exists>s'. destinationSelectorChanged E path (Inr [(''DestinationSelector'', DU8 x)]) s = (Inr (), s')
      \<and> config_document E s' = saved"
    using assms(1,6) updateJsonFile_saves [OF assms(5,7), of s]
    by (auto simp: destinationSelectorChanged_def bindE_def catchE_def)
  ultimately show ?thesis by blast
qed


definition selector_doc :: "(string \<times> json) list \<Rightarrow> json" where
  "selector_doc r = JObj [(''DestinationSelector'', JArr [JObj r])]"

definition old_selector :: "(string \<times> json) list" where
  "old_selector = [(''DestinationType'', JInt 1), (''LanChannel'', JInt 1), (''LanDestination'', JInt 5)]"

definition new_selector :: "(string \<times> json) list" where
  "new_selector = (''DestinationSelector'', JInt 9) # old_selector"

theorem destination_selector_lost_witness:
  "\<exists>E s'. destinationSelectorChanged E (destStringTableObj @ ''5'')
        (Inr [(''DestinationSelector'', DU8 9)]) doc_sys = (Inr (), s')
     \<and> config_document E doc_sys = selector_doc old_selector
     \<and> config_document E s' = selector_doc new_selector
     \<and> publish_each (destination_object (e_json E)) (selector_doc new_selector) ''DestinationSelector''
       = (publish_each (destination_object (e_json E)) (selector_doc old_selector) ''DestinationSelector''
          :: (unit, unit) cact)"
proof -
  let ?E = "doc_env (selector_doc old_selector) (selector_doc new_selector)"
  have doc: "config_document ?E doc_sys = JObj [(''DestinationSelector'', JArr (map JObj [old_selector]))]"
    by (simp add: selector_doc_def)
  have entry: "findEntryNo (c_str (destStringTableObj @ ''5'')) = 5" by code_simp
  have edit: "edit_member (selector_table_update (e_json ?E) (int (findEntryNo (c_str (destStringTableObj @ ''5''))))
      [(''DestinationSelector'', DU8 9)]) (JObj [(''DestinationSelector'', JArr (map JObj [old_selector]))])
      ''DestinationSelector'' = Inr (selector_doc new_selector)"
    unfolding entry
    by (simp add: edit_member_def selector_entry_update_def json_ref_def old_selector_def new_selector_def
        selector_doc_def doc_env_def json_get_int_def json_u_def)
  have wf: "json_sorted (JObj [(''DestinationSelector'', JArr (map JObj [old_selector]))])"
      "list_all (\<lambda>r. map_of r ''LanDestination'' \<noteq> None) [old_selector]"
      "map_of [(''DestinationSelector'', JArr (map JObj [old_selector]))] ''DestinationSelector''
        = Some (JArr (map JObj [old_selector]))"
    by (simp_all add: old_selector_def)
  have old: "JObj [(''DestinationSelector'', JArr (map JObj [old_selector]))] = selector_doc old_selector"
    by (simp add: selector_doc_def)
  obtain s' where "destinationSelectorChanged ?E (destStringTableObj @ ''5'')
        (Inr [(''DestinationSelector'', DU8 9)]) doc_sys = (Inr (), s')
     \<and> config_document ?E s' = selector_doc new_selector
     \<and> publish_each (destination_object (e_json ?E)) (selector_doc new_selector) ''DestinationSelector''
       = (publish_each (destination_object (e_json ?E)) (selector_doc old_selector) ''DestinationSelector''
          :: (unit, unit) cact)"
    using destination_selector_lost [OF doc wf(1) wf(3) wf(2) doc_env_laws(2) edit doc_env_laws(3)]
    unfolding old by blast
  then show ?thesis using doc [unfolded old] by blast
qed

end
