(* ===== verification/LanConfig.thy ===== *)
theory LanConfig
  imports PefTables AddressCheck ConfigUpdate
begin

text \<open>
  The LAN parameters of the configuration daemon (\<open>src/pef_config.cpp\<close>): one object for each Ethernet
  interface, built from the shared LAN configuration file or a legacy file of the interface, whose
  properties are checked when they are written and stored in the shared file at once.
\<close>

section \<open>The configuration file\<close>

definition pefLanParamIntf :: string where "pefLanParamIntf = ''xyz.openbmc_project.pef.LanParamConfig''"

definition legacyLanFiles :: "(string \<times> string) list" where
  "legacyLanFiles =
     [(''eth0'', ''/var/lib/pef-alert-manager/pef-lan-param-config-eth0.json''),
      (''eth1'', ''/var/lib/pef-alert-manager/pef-lan-param-config-eth1.json''),
      (''eth2'', ''/var/lib/pef-alert-manager/pef-lan-param-config-eth2.json''),
      (''eth3'', ''/var/lib/pef-alert-manager/pef-lan-param-config-eth3.json'')]"

text \<open>A change behind a chain of references \<open>j[k1][k2]...\<close>.\<close>

fun edit_path :: "string list \<Rightarrow> (json \<Rightarrow> exn + json) \<Rightarrow> json \<Rightarrow> exn + json" where
  "edit_path [] f j = f j"
| "edit_path (k # ks) f j = edit_member (edit_path ks f) j k"

text \<open>The segments that \<open>std::getline(ss, segment, '/')\<close> reads: an empty rest after the last separator is
  none.\<close>

definition path_segments :: "string \<Rightarrow> string list" where
  "path_segments path =
     (let parts = split_pred (\<lambda>c. c = slash) path in if last parts = [] then butlast parts else parts)"

definition lan_edit :: "string \<Rightarrow> string \<Rightarrow> json \<Rightarrow> string option \<Rightarrow> json \<Rightarrow> exn + json" where
  "lan_edit interfaceName propName v selectorPath data =
     (let segments = (case selectorPath of None \<Rightarrow> [] | Some path \<Rightarrow> path_segments path);
          edit = edit_path (interfaceName # ''Config'' # segments) (\<lambda>cursor. json_set_field cursor propName v)
      in case json_lookup data ''Interfaces'' of
           Some (JObj _) \<Rightarrow> edit_member edit data ''Interfaces''
         | _ \<Rightarrow> edit data)"

definition updateLanParamConfigValue ::
  "'w env \<Rightarrow> string \<Rightarrow> string \<Rightarrow> json \<Rightarrow> string option \<Rightarrow> ('w, unit) act" where
  "updateLanParamConfigValue E interfaceName propName v selectorPath =
     bindE (read_json E pefLanParamConfFile) (\<lambda>parsed.
       let data = (if parsed = JDiscarded then JObj [] else parsed)
       in bindE (liftE (lan_edit interfaceName propName v selectorPath data)) (\<lambda>data'.
         if \<not> e_writable E pefLanParamConfFile then ret ()
         else write_json E pefLanParamConfFile data'))"

section \<open>Objects of the interfaces\<close>

text \<open>\<open>mergedLanConfigs\<close>, when it is available.\<close>

definition merged_configs :: "json \<Rightarrow> json option" where
  "merged_configs mergedLanData =
     (if mergedLanData = JDiscarded then None
      else case json_lookup mergedLanData ''Interfaces'' of
             Some (JObj kvs) \<Rightarrow> Some (JObj kvs)
           | _ \<Rightarrow> (if json_is_object mergedLanData then Some mergedLanData else None))"

definition lan_interface_data :: "'w env \<Rightarrow> json option \<Rightarrow> string \<Rightarrow> ('w, json) act" where
  "lan_interface_data E mergedLanConfigs ifaceName =
     bindE (case Option.bind mergedLanConfigs (\<lambda>m. json_lookup m ifaceName) of
              Some lanData \<Rightarrow> ret lanData
            | None \<Rightarrow> (case map_of legacyLanFiles ifaceName of
                         Some legacyFile \<Rightarrow> read_json E legacyFile
                       | None \<Rightarrow> ret JNull))
       (\<lambda>lanData. ret (if lanData = JDiscarded \<or> \<not> json_contains lanData ''Config''
                       then JObj [(''Config'', JObj [])] else lanData))"

definition ensureSized :: "u8 \<Rightarrow> 'a \<Rightarrow> 'a list \<Rightarrow> 'a list" where
  "ensureSized destCount fillVal vec =
     (if destCount \<noteq> 0 \<and> length vec < unat destCount
      then vec @ replicate (unat destCount - length vec) fillVal else vec)"

definition has_flat_arrays :: "json \<Rightarrow> bool" where
  "has_flat_arrays cfg \<longleftrightarrow>
     list_all (\<lambda>key. json_array cfg key \<noteq> None)
       [''IPv4'', ''IPv6'', ''UserName'', ''Type'', ''Timeout'', ''Retries'']"

text \<open>\<open>cfg[key].get<std::vector<std::string>>()\<close>.\<close>

definition lan_strings :: "json \<Rightarrow> string \<Rightarrow> exn + string list" where
  "lan_strings cfg key =
     bindR (json_field cfg key) (\<lambda>j. case j of JArr js \<Rightarrow> map_result json_get_string js | _ \<Rightarrow> Inl JsonError)"

text \<open>\<open>for (const auto& v : cfg[key])\<close>, with \<open>static_cast<uint8_t>(v.get<uint32_t>())\<close> for each.\<close>

definition lan_bytes :: "json_lib \<Rightarrow> json \<Rightarrow> string \<Rightarrow> exn + u8 list" where
  "lan_bytes J cfg key = bindR (json_field cfg key) (\<lambda>j. map_result (json_u8 J) (json_items j))"

text \<open>The properties of the destinations, and the types that the check of the users shares.\<close>

definition lan_arrays :: "json_lib \<Rightarrow> json \<Rightarrow> exn + (string \<times> dval) list \<times> u8 list" where
  "lan_arrays J cfg =
     bindR (json_value (json_get_u8 J) cfg ''NumberofDestinations'' 0) (\<lambda>destCount.
     bindR (lan_strings cfg ''IPv4'') (\<lambda>ipv4.
     bindR (lan_strings cfg ''IPv6'') (\<lambda>ipv6.
     bindR (lan_strings cfg ''UserName'') (\<lambda>users.
     bindR (lan_bytes J cfg ''Type'') (\<lambda>types.
     bindR (lan_bytes J cfg ''Retries'') (\<lambda>retries.
     bindR (lan_bytes J cfg ''Timeout'') (\<lambda>timeouts.
     bindR (lan_bytes J cfg ''AddressType'') (\<lambda>addressTypes.
       let typeArr = ensureSized destCount 0 types
       in Inr
         ([(''IPv4'', DStrs (ensureSized destCount ''0.0.0.0'' ipv4)),
           (''IPv6'', DStrs (ensureSized destCount ''0000:0000:0000:0000:0000:0000:0000:0000'' ipv6)),
           (''userName'', DStrs (ensureSized destCount '''' users)),
           (''Type'', DU8s typeArr),
           (''Timeout'', DU8s (ensureSized destCount 0 timeouts)),
           (''Retries'', DU8s (ensureSized destCount 0 retries)),
           (''AddressType'', DU8s (ensureSized destCount 1 addressTypes))],
          typeArr)))))))))"

definition lan_path :: "string \<Rightarrow> string" where "lan_path ifaceName = pefObj @ ''/Interface_'' @ ifaceName"

text \<open>A failure in the arrays leaves an object with the first two properties.\<close>

definition lan_object :: "json_lib \<Rightarrow> string \<Rightarrow> json \<Rightarrow> exn + dobject \<times> u8 list option" where
  "lan_object J ifaceName cfg =
     bindR (json_value json_get_string cfg ''CommunityString'' '''') (\<lambda>community.
     bindR (json_value (json_get_int J) cfg ''NumberofDestinations'' 0) (\<lambda>destinations.
       let basic = [(''CommunityString'', DStr community),
                    (''NumberofDestinations'', DU8 (word_of_int destinations))];
           object = (\<lambda>props. \<lparr>o_path = lan_path ifaceName, o_iface = pefLanParamIntf,
                              o_props = basic @ props\<rparr>)
       in if \<not> has_flat_arrays cfg then Inr (object [], None)
          else case lan_arrays J cfg of
                 Inl e \<Rightarrow> (if json_exception e then Inr (object [], None) else Inl e)
               | Inr (props, types) \<Rightarrow> Inr (object props, Some types)))"

definition publish_interface :: "'w env \<Rightarrow> json option \<Rightarrow> string \<Rightarrow> ('w, unit) cact" where
  "publish_interface E mergedLanConfigs ifaceName =
     bindE (on_sys (lan_interface_data E mergedLanConfigs ifaceName)) (\<lambda>lanData.
       catchE json_exception
         (bindE (liftE (json_field lanData ''Config'')) (\<lambda>cfg.
          bindE (liftE (lan_object (e_json E) ifaceName cfg)) (\<lambda>(o', types).
          thenE (case types of
                   None \<Rightarrow> ret ()
                 | Some ts \<Rightarrow> modifyE (\<lambda>c. c\<lparr>c_types := (c_types c)(ifaceName := ts)\<rparr>))
            (publish o'))))
         (ret ()))"

definition publish_lan :: "'w env \<Rightarrow> ('w, unit) cact" where
  "publish_lan E =
     bindE (on_sys (getAvailableEthInterfaces E)) (\<lambda>available.
       let lanInterfaces = (if available = [] then map fst legacyLanFiles else available)
       in bindE (on_sys (read_json E pefLanParamConfFile)) (\<lambda>mergedLanData.
         forE lanInterfaces (publish_interface E (merged_configs mergedLanData))))"

section \<open>Checks of written values\<close>

definition communityStringMaxLength :: nat where "communityStringMaxLength = 18"
definition retriesMaxValue :: u8 where "retriesMaxValue = 7"
definition destinationTypeVersion3 :: u8 where "destinationTypeVersion3 = 2"
definition destinationTypeSMTP :: u8 where "destinationTypeSMTP = 3"
definition destinationTypeOem1 :: u8 where "destinationTypeOem1 = 6"
definition destinationTypeOem2 :: u8 where "destinationTypeOem2 = 7"

lemmas lan_limits =
  communityStringMaxLength_def retriesMaxValue_def destinationTypeVersion3_def destinationTypeSMTP_def
  destinationTypeOem1_def destinationTypeOem2_def

definition user_path :: "string \<Rightarrow> string" where
  "user_path name = userObjPathPrefix @ name"

definition user_exists :: "'w env \<Rightarrow> string \<Rightarrow> ('w, bool) act" where
  "user_exists E name =
     catchE sdbus_exception
       (thenE (bus_call E OpenBus)
          (bindE (bus_call E (get_all_properties userManagerBus (user_path name) userAttributesIface))
             (\<lambda>(err, v). ret (\<not> err))))
       (ret False)"

definition snmp_access_call :: "string \<Rightarrow> ecall" where
  "snmp_access_call name =
     get_property userManagerBus (user_path name) userAttributesIface ''SNMPAccessEnableStatus''"

definition user_has_snmp :: "'w env \<Rightarrow> string \<Rightarrow> ('w, bool) act" where
  "user_has_snmp E name =
     catchE any_exception
       (thenE (bus_call E OpenBus)
          (bindE (bus_call E (snmp_access_call name)) (\<lambda>(err, v). liftE (get_bool v))))
       (ret False)"

definition user_has_mail :: "'w env \<Rightarrow> string \<Rightarrow> ('w, bool) act" where
  "user_has_mail E name =
     catchE any_exception
       (thenE (bus_call E OpenBus)
          (bindE (bus_call E (mail_id_call name))
             (\<lambda>(err, v). bindE (liftE (get_str v)) (\<lambda>mailId. ret (mailId \<noteq> '''')))))
       (ret False)"

text \<open>The body of the loop over the written user names.\<close>

definition user_valid :: "'w env \<Rightarrow> u8 list \<Rightarrow> nat \<times> string \<Rightarrow> ('w, bool) act" where
  "user_valid E currentTypes = (\<lambda>(i, name).
     if name = '''' then ret True
     else bindE (user_exists E name) (\<lambda>found.
       if \<not> found then ret False
       else
         (let type = (if i < length currentTypes then currentTypes ! i else 0)
          in if type = destinationTypeVersion3 then user_has_snmp E name
             else if type = destinationTypeSMTP then user_has_mail E name
             else ret True)))"

definition community_valid :: "'w env \<Rightarrow> string \<Rightarrow> ('w, bool) act" where
  "community_valid E value =
     (if length value > communityStringMaxLength then ret False
      else if value \<noteq> '''' then isCommStrValid E value
      else ret True)"

definition type_valid :: "u8 \<Rightarrow> bool" where
  "type_valid type \<longleftrightarrow>
     \<not> (type > destinationTypeVersion3 \<and> type \<noteq> destinationTypeSMTP
        \<and> type \<noteq> destinationTypeOem1 \<and> type \<noteq> destinationTypeOem2)"

text \<open>\<open>NumberofDestinations\<close> is read-only.\<close>

definition check_lan :: "'w env \<Rightarrow> string \<Rightarrow> string \<Rightarrow> dval \<Rightarrow> ('w, bool) cact" where
  "check_lan E ifaceName name v =
     (case v of
        DStr value \<Rightarrow>
          (if name = ''CommunityString'' then on_sys (community_valid E value) else ret False)
      | DStrs value \<Rightarrow>
          (if name = ''IPv4'' then on_sys (all_checked (validateIPv4Address E) value)
           else if name = ''IPv6'' then on_sys (all_checked (validateIPv6Address E) value)
           else if name = ''userName'' then
             bindE (getsE (\<lambda>c. c_types c ifaceName)) (\<lambda>currentTypes.
               on_sys (all_checked (user_valid E currentTypes) (enumerate 0 value)))
           else ret False)
      | DU8s value \<Rightarrow>
          (if name = ''Type'' then ret (list_all type_valid value)
           else if name = ''Timeout'' then ret True
           else if name = ''Retries'' then ret (list_all (\<lambda>retry. \<not> retry > retriesMaxValue) value)
           else if name = ''AddressType'' then ret (list_all (\<lambda>t. \<not> (t \<noteq> 0x1 \<and> t \<noteq> 0x2)) value)
           else ret False)
      | _ \<Rightarrow> ret False)"

text \<open>The value in the file, and the name of its member.\<close>

definition lan_json :: "dval \<Rightarrow> json" where
  "lan_json v =
     (case v of DStr value \<Rightarrow> JStr value | DStrs value \<Rightarrow> JArr (map JStr value)
        | DU8s value \<Rightarrow> JArr (map json_u value) | _ \<Rightarrow> JNull)"

definition lan_member :: "string \<Rightarrow> string" where
  "lan_member name = (if name = ''userName'' then ''UserName'' else name)"

definition after_lan :: "'w env \<Rightarrow> string \<Rightarrow> string \<Rightarrow> dval \<Rightarrow> ('w, unit) cact" where
  "after_lan E ifaceName name v =
     thenE (case v of
              DU8s types \<Rightarrow>
                whenE (name = ''Type'') (modifyE (\<lambda>c. c\<lparr>c_types := (c_types c)(ifaceName := types)\<rparr>))
            | _ \<Rightarrow> ret ())
       (on_sys (updateLanParamConfigValue E ifaceName (lan_member name) (lan_json v) None))"

definition write_lan :: "'w env \<Rightarrow> string \<Rightarrow> string \<Rightarrow> dval \<Rightarrow> ('w, bool) cact" where
  "write_lan E ifaceName name v =
     checked_write (check_lan E ifaceName) (after_lan E ifaceName)
       (lan_path ifaceName) pefLanParamIntf name v"

section \<open>Settings in a document\<close>

definition lan_document :: "'w env \<Rightarrow> 'w sys \<Rightarrow> json" where
  "lan_document E s =
     (let parsed = (case files s pefLanParamConfFile of None \<Rightarrow> JDiscarded | Some text \<Rightarrow> jl_parse (e_json E) text)
      in if parsed = JDiscarded then JObj [] else parsed)"

fun lookup_path :: "json \<Rightarrow> string list \<Rightarrow> json option" where
  "lookup_path j [] = Some j"
| "lookup_path j (k # ks) = Option.bind (json_lookup j k) (\<lambda>v. lookup_path v ks)"

text \<open>The setting \<open>key\<close> of an interface.\<close>

definition lan_setting :: "json \<Rightarrow> string \<Rightarrow> string \<Rightarrow> json option" where
  "lan_setting doc iface key =
     Option.bind (merged_configs doc) (\<lambda>m. lookup_path m [iface, ''Config'', key])"

lemma lookup_path_null: "path \<noteq> [] \<Longrightarrow> lookup_path JNull path = None"
  by (cases path) simp_all

text \<open>A change behind a path is seen there and nowhere else.\<close>

lemma edit_path_lookup:
  assumes "edit_path ks (\<lambda>cursor. json_set_field cursor p v) j = Inr j'" and "json_sorted j"
    and "length ks' = length ks"
  shows "json_is_object j' \<and> lookup_path j' (ks' @ [p']) =
    (if (ks', p') = (ks, p) then Some v else lookup_path j (ks' @ [p']))"
  using assms
proof (induction ks arbitrary: j j' ks')
  case Nil
  then have "json_is_object j'" by (cases j) auto
  moreover have "json_lookup j' x = (if x = p then Some v else json_lookup j x)" for x
    using Nil by (intro json_lookup_set_field) auto
  ultimately show ?case using Nil.prems(3) by (simp split: option.split)
next
  case (Cons k ks)
  obtain k' ks2 where ks': "ks' = k' # ks2" "length ks2 = length ks" using Cons.prems(3) by (cases ks') auto
  obtain w w' where w: "w = (case json_lookup j k of None \<Rightarrow> JNull | Some x \<Rightarrow> x)" "json_sorted w"
      "edit_path ks (\<lambda>cursor. json_set_field cursor p v) w = Inr w'" "json_is_object j'"
      "\<And>x. json_lookup j' x = (if x = k then Some w' else json_lookup j x)"
    using edit_member_lookup [of "edit_path ks (\<lambda>cursor. json_set_field cursor p v)" j k j'] Cons.prems(1,2)
    by auto
  have IH: "lookup_path w' (ks2 @ [p']) = (if (ks2, p') = (ks, p) then Some v else lookup_path w (ks2 @ [p']))"
    using Cons.IH [OF w(3,2) ks'(2)] by simp
  have "lookup_path w (ks2 @ [p']) = Option.bind (json_lookup j k) (\<lambda>x. lookup_path x (ks2 @ [p']))"
    using w(1) by (simp add: lookup_path_null split: option.split)
  then show ?case using ks'(1) w(4,5) IH by (cases "ks2 = ks \<and> p' = p") auto
qed

text \<open>What a saved value does to the settings, as the two daemons read them.\<close>

lemma lan_edit_setting:
  assumes "lan_edit iface prop v None data = Inr data'" and "json_sorted data" and "iface \<noteq> ''Interfaces''"
    and "data \<noteq> JDiscarded"
  shows "lan_setting data' i k = (if (i, k) = (iface, prop) then Some v else lan_setting data i k)"
    and "lookup_path (lan_section data' iface) [''Config'', prop] = Some v"
proof -
  let ?edit = "edit_path [iface, ''Config''] (\<lambda>cursor. json_set_field cursor prop v)"
  have "\<exists>m m'. ?edit m = Inr m' \<and> json_sorted m \<and> merged_configs data' = Some m'
    \<and> (merged_configs data = Some m \<or> merged_configs data = None \<and> m = JNull)
    \<and> lan_section data' iface = (case json_lookup m' iface of None \<Rightarrow> lan_section data' iface | Some j \<Rightarrow> j)"
  proof (cases "\<exists>kvs. json_lookup data ''Interfaces'' = Some (JObj kvs)")
    case True
    then obtain kvs where kvs: "json_lookup data ''Interfaces'' = Some (JObj kvs)" by blast
    then have "edit_member ?edit data ''Interfaces'' = Inr data'" using assms(1) by (simp add: lan_edit_def)
    from edit_member_lookup [OF this assms(2)] obtain m' where
      m': "json_sorted (JObj kvs)" "?edit (JObj kvs) = Inr m'" "json_lookup data' ''Interfaces'' = Some m'"
        "json_is_object data'"
      using kvs by auto
    have "json_is_object m'" using edit_path_lookup [OF m'(2,1), of "[iface, ''Config'']"] by simp
    then obtain kvs' where "m' = JObj kvs'" by (cases m') auto
    moreover have "merged_configs data = Some (JObj kvs)" using kvs assms(4) by (simp add: merged_configs_def)
    moreover have "data' \<noteq> JDiscarded" using m'(4) by auto
    ultimately show ?thesis using m'
      by (intro exI [of _ "JObj kvs"] exI [of _ m'])
        (simp add: merged_configs_def lan_section_def json_contains_def split: option.split)
  next
    case False
    then have e: "?edit data = Inr data'"
      using assms(1) by (auto simp: lan_edit_def Let_def split: option.splits json.splits)
    from e have "edit_member (edit_path [''Config''] (\<lambda>cursor. json_set_field cursor prop v)) data iface = Inr data'"
      by simp
    from edit_member_lookup [OF this assms(2)] have
      d': "json_is_object data'" "json_lookup data' ''Interfaces'' = json_lookup data ''Interfaces''"
      using assms(3) by auto
    have "data' \<noteq> JDiscarded" using d'(1) by auto
    then have m': "merged_configs data' = Some data'" "lan_section data' iface
        = (case json_lookup data' iface of None \<Rightarrow> JNull | Some j \<Rightarrow> j)"
      using d' False by (auto simp: merged_configs_def lan_section_def split: option.split json.split)
    have "merged_configs data = Some data \<or> merged_configs data = None \<and> data = JNull"
    proof (cases data)
      case (JObj kvs)
      then show ?thesis using False assms(4) by (auto simp: merged_configs_def split: option.split json.split)
    qed (use e in \<open>simp_all add: edit_member_def merged_configs_def\<close>)
    then show ?thesis using e assms(2) m'
      by (intro exI [of _ data] exI [of _ data']) (auto split: option.split)
  qed
  then obtain m m' where m: "?edit m = Inr m'" "json_sorted m" "merged_configs data' = Some m'"
      "merged_configs data = Some m \<or> merged_configs data = None \<and> m = JNull"
      "lan_section data' iface = (case json_lookup m' iface of None \<Rightarrow> lan_section data' iface | Some j \<Rightarrow> j)"
    by blast
  have path: "lookup_path m' [i, ''Config'', k]
      = (if (i, k) = (iface, prop) then Some v else lookup_path m [i, ''Config'', k])" for i k
    using edit_path_lookup [OF m(1,2), of "[i, ''Config'']" k] by simp
  then show "lan_setting data' i k = (if (i, k) = (iface, prop) then Some v else lan_setting data i k)"
    using m(3,4) by (auto simp: lan_setting_def)
  have "lookup_path m' [iface, ''Config'', prop] = Some v" using path by simp
  then show "lookup_path (lan_section data' iface) [''Config'', prop] = Some v"
    using m(5) by (auto simp: bind_eq_Some_conv)
qed

section \<open>What the checks guarantee\<close>

text \<open>The values of the settings, as far as they do not depend on the time of the check.\<close>

definition ipv4_rule :: "'w env \<Rightarrow> string \<Rightarrow> bool" where
  "ipv4_rule E a \<longleftrightarrow> a = '''' \<or> e_inet_pton E AF_INET (c_str a) \<or> (\<exists>c \<in> set a. \<not> is_digit c \<and> c \<noteq> CHR ''.'')"

definition ipv6_rule :: "'w env \<Rightarrow> string \<Rightarrow> bool" where
  "ipv6_rule E a \<longleftrightarrow>
     a = '''' \<or> e_inet_pton E AF_INET6 (c_str a) \<or> CHR '':'' \<notin> set a \<or> (\<exists>c \<in> set a. \<not> is_xdigit c \<and> c \<noteq> CHR '':'')"

definition lan_byte_rule :: "string \<Rightarrow> u8 \<Rightarrow> bool" where
  "lan_byte_rule name x \<longleftrightarrow>
     (if name = ''Type'' then x \<in> {0, 1, 2, 3, 6, 7}
      else if name = ''Retries'' then x \<le> 7
      else if name = ''AddressType'' then x \<in> {1, 2}
      else True)"

definition lan_rule :: "'w env \<Rightarrow> string \<Rightarrow> dval \<Rightarrow> bool" where
  "lan_rule E name v \<longleftrightarrow>
     (case v of
        DStr value \<Rightarrow> name = ''CommunityString'' \<and> length value \<le> 18
      | DStrs value \<Rightarrow>
          (if name = ''IPv4'' then list_all (ipv4_rule E) value
           else if name = ''IPv6'' then list_all (ipv6_rule E) value
           else name = ''userName'')
      | DU8s value \<Rightarrow>
          name \<in> {''Type'', ''Timeout'', ''Retries'', ''AddressType''} \<and> list_all (lan_byte_rule name) value
      | _ \<Rightarrow> False)"

lemma type_rule: "type_valid x \<longleftrightarrow> x \<in> {0, 1, 2, 3, 6, 7}"
proof -
  have "x \<le> 2 \<longleftrightarrow> x = 0 \<or> x = 1 \<or> x = 2" by unat_arith
  then show ?thesis by (auto simp: type_valid_def lan_limits not_less)
qed

lemma byte_rules:
  "list_all type_valid xs = list_all (lan_byte_rule ''Type'') xs"
  "list_all (\<lambda>retry. \<not> retry > retriesMaxValue) xs = list_all (lan_byte_rule ''Retries'') xs"
  "list_all (\<lambda>t. \<not> (t \<noteq> 0x1 \<and> t \<noteq> 0x2)) xs = list_all (lan_byte_rule ''AddressType'') xs"
  "list_all (\<lambda>t. t = 1 \<or> t = 2) xs = list_all (lan_byte_rule ''AddressType'') xs"
  "list_all (lan_byte_rule ''Timeout'') xs"
  by (simp_all add: list_all_iff lan_byte_rule_def type_rule lan_limits not_less)

lemma validateIPv4_rule: "yields (\<lambda>ok. ok \<longrightarrow> ipv4_rule E a) (validateIPv4Address E a)"
  unfolding validateIPv4Address_def Let_def
  by (intro yields_if yields_ret) (auto simp: ipv4_rule_def yields_def list_all_iff)

lemma validateIPv6_rule: "yields (\<lambda>ok. ok \<longrightarrow> ipv6_rule E a) (validateIPv6Address E a)"
  unfolding validateIPv6Address_def Let_def split_beta
  using ipv6_scan_eq [of False a]
  by (intro yields_if yields_ret) (auto simp: ipv6_rule_def yields_def list_all_iff)

lemma check_lan_sound: "yields (\<lambda>ok. ok \<longrightarrow> lan_rule E name v) (check_lan E iface name v)"
proof (cases v)
  case (DStr x)
  have "yields (\<lambda>ok. ok \<longrightarrow> length x \<le> 18) (community_valid E x)"
    unfolding community_valid_def by (intro yields_if yields_ret_False yields_true) (simp_all add: lan_limits)
  then show ?thesis
    unfolding DStr check_lan_def dval.case lan_rule_def
    by (intro yields_if yields_ret_False) (simp add: yields_on_sys)
next
  case (DStrs x)
  have "yields (\<lambda>ok. ok \<longrightarrow> list_all (ipv4_rule E) x) (on_sys (all_checked (validateIPv4Address E) x))"
    "yields (\<lambda>ok. ok \<longrightarrow> list_all (ipv6_rule E) x) (on_sys (all_checked (validateIPv6Address E) x))"
    by (intro yields_on_sys yields_all_checked validateIPv4_rule validateIPv6_rule)+
  then show ?thesis
    unfolding DStrs check_lan_def dval.case lan_rule_def
    by (intro yields_if yields_ret_False) (simp_all add: yields_true)
next
  case (DU8s x)
  show ?thesis
    unfolding DU8s check_lan_def dval.case lan_rule_def
    by (intro yields_if yields_ret_False yields_ret yields_true) (simp_all add: byte_rules)
qed (simp_all add: check_lan_def yields_ret_False)

lemma objs_after_lan: "sat same_objs (after_lan E iface name v)"
proof -
  have "sat same_objs (whenE b (modifyE (\<lambda>c. c\<lparr>c_types := f c\<rparr>)))" for b f
    by (intro objs_frame.sat_when objs_frame.sat_modify) (simp add: same_objs_def)
  then show ?thesis
    unfolding after_lan_def by (intro objs_frame.sat_then objs_on_sys) (cases v; simp add: objs_frame.sat_ret)
qed

interpretation lan: checked_property "check_lan E iface" "after_lan E iface" "lan_rule E" for E iface
proof
  show "yields (\<lambda>b. b \<longrightarrow> lan_rule E n v) (check_lan E iface n v)" for n v by (rule check_lan_sound)
  show "sat same_objs (check_lan E iface n v)" for n v
    unfolding check_lan_def
    by (cases v) (simp_all add: objs_frame.sat_ret objs_on_sys objs_frame.sat_bind objs_frame.sat_gets)
  show "sat same_objs (after_lan E iface n v)" for n v by (rule objs_after_lan)
qed

text \<open>The checks leave the files alone.\<close>

definition same_conf_files :: "'w conf \<Rightarrow> 'w conf \<Rightarrow> bool" where
  "same_conf_files c c' \<longleftrightarrow> files (c_sys c') = files (c_sys c)"

interpretation conf_files: frame_relation same_conf_files
  by unfold_locales (simp_all add: same_conf_files_def)

lemma conf_files_on_sys: "sat same_files m \<Longrightarrow> sat same_conf_files (on_sys m)"
  by (erule sat_on_sys) (simp add: same_files_def same_conf_files_def)

lemma files_user_valid: "sat same_files (user_valid E ts x)"
  unfolding user_valid_def user_exists_def user_has_snmp_def user_has_mail_def Let_def
  by (intro files_sat)

lemma files_check_lan: "sat same_conf_files (check_lan E iface name v)"
proof -
  have "sat same_files (community_valid E x)" for x
    unfolding community_valid_def by (intro files_sat same_isCommStrValid)
  moreover have "sat same_files (all_checked (validateIPv4Address E) xs)"
      "sat same_files (all_checked (validateIPv6Address E) xs)"
      "sat same_files (all_checked (user_valid E ts) us)" for xs ts us
    by (intro file_frame.sat_all_checked sat_address_check files_user_valid file_frame.refl)+
  ultimately show ?thesis
    unfolding check_lan_def
    by (cases v) (auto intro!: conf_files.sat_basic conf_files.sat_compound sat_if conf_files_on_sys)
qed

section \<open>Saving a setting\<close>

lemma lan_edit_object:
  assumes "lan_edit iface prop v None data = Inr data'" and "json_sorted data"
  shows "data' \<noteq> JDiscarded"
proof -
  let ?edit = "edit_path [iface, ''Config''] (\<lambda>cursor. json_set_field cursor prop v)"
  have "edit_member ?edit data ''Interfaces'' = Inr data' \<or> ?edit data = Inr data'"
    using assms(1) by (auto simp: lan_edit_def Let_def split: option.splits json.splits)
  then have "json_is_object data'"
    using edit_member_lookup assms(2) by (auto simp del: json_sorted.simps)
  then show ?thesis by auto
qed

lemma update_lan_saves:
  assumes "lan_edit iface prop v None (lan_document E s) = Inr data'" and "json_sorted (lan_document E s)"
    and "e_writable E pefLanParamConfFile" and "json_roundtrips (e_json E) data'"
  shows "\<exists>s'. updateLanParamConfigValue E iface prop v None s = (Inr (), s') \<and> lan_document E s' = data'"
proof -
  obtain out where "jl_dump (e_json E) 4 data' = Some out" "jl_parse (e_json E) out = data'"
    using assms(4) by (auto simp: json_roundtrips_def split: option.splits)
  then show ?thesis
    using assms(1,3) lan_edit_object [OF assms(1,2)]
    by (simp add: updateLanParamConfigValue_def read_json_def lan_document_def Let_def write_json_printed)
qed

text \<open>The user manager's answers behind an accepted user name.\<close>

lemma bus_call_answers: "yields (\<lambda>(err, v). \<exists>w. fst (e_bus E w c) = Reply err v) (bus_call E c)"
  by (auto simp: yields_def bus_call_def bindE_def ext_call_def split: prod.splits breply.splits)
    (metis fst_conv)

definition user_known :: "'w env \<Rightarrow> string \<Rightarrow> bool" where
  "user_known E name \<longleftrightarrow> (\<exists>w v. fst (e_bus E w
     (get_all_properties userManagerBus (user_path name) userAttributesIface)) = Reply False v)"

definition user_fits :: "'w env \<Rightarrow> u8 \<Rightarrow> string \<Rightarrow> bool" where
  "user_fits E type name \<longleftrightarrow>
     (type = 2 \<longrightarrow> (\<exists>w err. fst (e_bus E w (snmp_access_call name)) = Reply err (DBool True)))
     \<and> (type = 3 \<longrightarrow> (\<exists>w err m. fst (e_bus E w (mail_id_call name)) = Reply err (DStr m) \<and> m \<noteq> ''''))"

lemma yields_guarded:
  assumes "yields Q m" and "\<And>x. Q x \<Longrightarrow> yields (\<lambda>ok. ok \<longrightarrow> P) (f x)"
  shows "yields (\<lambda>ok. ok \<longrightarrow> P) (catchE p (thenE n (bindE m f)) (ret False))"
  by (intro yields_catch yields_then yields_bind_via [OF assms(1)] assms(2) yields_ret_False)

lemma user_exists_known: "yields (\<lambda>ok. ok \<longrightarrow> user_known E name) (user_exists E name)"
  unfolding user_exists_def
  by (rule yields_guarded [OF bus_call_answers]) (clarsimp simp: yields_def user_known_def, blast)

lemma user_has_snmp_fits: "yields (\<lambda>ok. ok \<longrightarrow> user_fits E 2 name) (user_has_snmp E name)"
  unfolding user_has_snmp_def
proof (rule yields_guarded [OF bus_call_answers])
  fix x
  assume a: "case x of (err, v) \<Rightarrow> \<exists>w. fst (e_bus E w (snmp_access_call name)) = Reply err v"
  obtain err v where x: "x = (err, v)" by (cases x)
  show "yields (\<lambda>ok. ok \<longrightarrow> user_fits E 2 name) (case x of (err, v) \<Rightarrow> liftE (get_bool v))"
    using a unfolding x by (cases v) (clarsimp simp: yields_def user_fits_def, blast?)+
qed

lemma user_has_mail_fits: "yields (\<lambda>ok. ok \<longrightarrow> user_fits E 3 name) (user_has_mail E name)"
  unfolding user_has_mail_def
proof (rule yields_guarded [OF bus_call_answers])
  fix x
  assume a: "case x of (err, v) \<Rightarrow> \<exists>w. fst (e_bus E w (mail_id_call name)) = Reply err v"
  obtain err v where x: "x = (err, v)" by (cases x)
  show "yields (\<lambda>ok. ok \<longrightarrow> user_fits E 3 name)
      (case x of (err, v) \<Rightarrow> bindE (liftE (get_str v)) (\<lambda>mailId. ret (mailId \<noteq> '''')))"
    using a unfolding x by (cases v) (auto simp: yields_def user_fits_def)
qed

lemma user_valid_fits:
  "yields (\<lambda>ok. ok \<longrightarrow> (snd u \<noteq> '''' \<longrightarrow> user_known E (snd u)
     \<and> user_fits E (if fst u < length ts then ts ! fst u else 0) (snd u))) (user_valid E ts u)"
proof -
  obtain i name where u: "u = (i, name)" by (cases u)
  define type where "type = (if i < length ts then ts ! i else 0)"
  let ?P = "name \<noteq> '''' \<longrightarrow> user_known E name \<and> user_fits E type name"
  let ?m = "if type = destinationTypeVersion3 then user_has_snmp E name
      else if type = destinationTypeSMTP then user_has_mail E name else ret True"
  have "yields (\<lambda>ok. ok \<longrightarrow> user_fits E type name) ?m"
    using user_has_snmp_fits [of E name] user_has_mail_fits [of E name]
    by (simp add: lan_limits yields_def user_fits_def)
  then have fits: "yields (\<lambda>ok. ok \<longrightarrow> ?P) ?m" if "user_known E name"
    using that by (simp add: yields_def)
  have eq: "user_valid E ts u = (if name = '''' then ret True
      else bindE (user_exists E name) (\<lambda>found. if \<not> found then ret False else ?m))"
    unfolding u user_valid_def type_def Let_def prod.case ..
  have body: "yields (\<lambda>ok. ok \<longrightarrow> ?P) (bindE (user_exists E name) (\<lambda>found. if \<not> found then ret False else ?m))"
    by (rule yields_bind_via [OF user_exists_known]) (intro yields_if yields_ret_False fits, blast)
  have "yields (\<lambda>ok. ok \<longrightarrow> ?P) (user_valid E ts u)"
    unfolding eq by (intro yields_if body yields_true) simp
  then show ?thesis unfolding u type_def fst_conv snd_conv .
qed

lemma after_lan_run:
  "\<exists>ts. after_lan E iface name v c
     = on_sys (updateLanParamConfigValue E iface (lan_member name) (lan_json v) None) (c\<lparr>c_types := ts\<rparr>)"
proof -
  have "\<exists>ts. thenE (whenE b (modifyE (\<lambda>c. c\<lparr>c_types := f c\<rparr>))) m c = m (c\<lparr>c_types := ts\<rparr>)" for b f m
    by (cases b) (auto intro: exI [of _ "f c"] exI [of _ "c_types c"])
  moreover have "\<exists>ts. thenE (ret ()) m c = m (c\<lparr>c_types := ts\<rparr>)" for m
    by (auto intro: exI [of _ "c_types c"])
  ultimately show ?thesis unfolding after_lan_def by (cases v) simp_all
qed

lemma write_accepted:
  assumes "write_lan E iface name v c = (Inr True, c')"
  obtains c1 old where "check_lan E iface name v c = (Inr True, c1)" "get_prop c (lan_path iface) pefLanParamIntf name = Some old"
    "after_lan E iface name v (snd (set_prop (lan_path iface) pefLanParamIntf name v c1)) = (Inr (), c')"
  using assms unfolding write_lan_def
proof (cases rule: lan.write_cases)
  case (accepted old)
  from accepted(5) obtain c1 r' where c1: "check_lan E iface name v c = (Inr True, c1)"
      "after_lan E iface name v (snd (set_prop (lan_path iface) pefLanParamIntf name v c1)) = (r', c')"
      "(Inr True :: exn + bool) = (case r' of Inl e \<Rightarrow> Inl e | Inr _ \<Rightarrow> Inr True)"
    by blast
  then have "r' = Inr ()" by (cases r') simp_all
  then show ?thesis using that c1(1,2) accepted(2) by blast
qed simp

section \<open>Settings at the next start\<close>

text \<open>A list comes back with at most some entries behind it.\<close>

definition padded :: "dval \<Rightarrow> dval \<Rightarrow> bool" where
  "padded v x \<longleftrightarrow>
     (case v of
        DStrs a \<Rightarrow> (case x of DStrs b \<Rightarrow> take (length a) b = a | _ \<Rightarrow> False)
      | DU8s a \<Rightarrow> (case x of DU8s b \<Rightarrow> take (length a) b = a | _ \<Rightarrow> False)
      | _ \<Rightarrow> x = v)"

lemma padded_str [simp]: "padded (DStr s) x \<longleftrightarrow> x = DStr s"
  by (simp add: padded_def)

lemma take_ensureSized [simp]: "take (length xs) (ensureSized n fill xs) = xs"
  by (simp add: ensureSized_def)

lemma lookup_object: "json_lookup j k = Some v \<Longrightarrow> json_field j k = Inr v \<and> j \<noteq> JDiscarded \<and> json_contains j k"
  by (cases j) (auto simp: json_contains_def)

lemma lan_strings_saved:
  "json_lookup cfg key = Some (lan_json (DStrs xs)) \<Longrightarrow> lan_strings cfg key = Inr xs"
proof -
  have "map_result json_get_string (map JStr xs) = Inr xs" by (induction xs) simp_all
  then show "json_lookup cfg key = Some (lan_json (DStrs xs)) \<Longrightarrow> lan_strings cfg key = Inr xs"
    by (simp add: lan_strings_def lan_json_def lookup_object)
qed

lemma lan_bytes_saved:
  assumes "json_lookup cfg key = Some (lan_json (DU8s xs))"
    and "\<And>b :: u8. json_get_u32 J (JInt (uint b)) = Inr (ucast b)"
  shows "lan_bytes J cfg key = Inr xs"
proof -
  have "ucast (ucast b :: u32) = b" for b :: u8 by (rule bit_word_eqI) (simp add: bit_simps)
  then have byte: "json_u8 J (json_u b) = Inr b" for b :: u8
    using assms(2) [of b] by (simp add: json_u8_def json_u_def)
  have "map_result (json_u8 J) (map json_u xs) = Inr xs" by (induction xs) (simp_all add: byte)
  then show ?thesis using assms(1) by (simp add: lan_bytes_def lan_json_def lookup_object)
qed

lemma lan_arrays_saved:
  assumes "lan_arrays J cfg = Inr (props, types)" and "json_lookup cfg (lan_member name) = Some (lan_json v)"
    and "lan_rule E name v" and "\<And>b :: u8. json_get_u32 J (JInt (uint b)) = Inr (ucast b)"
    and "map_of props name = Some x"
  shows "padded v x"
proof -
  obtain n a b u t r m d where
    r: "lan_strings cfg ''IPv4'' = Inr a" "lan_strings cfg ''IPv6'' = Inr b" "lan_strings cfg ''UserName'' = Inr u"
      "lan_bytes J cfg ''Type'' = Inr t" "lan_bytes J cfg ''Retries'' = Inr r" "lan_bytes J cfg ''Timeout'' = Inr m"
      "lan_bytes J cfg ''AddressType'' = Inr d"
    and props: "props =
         [(''IPv4'', DStrs (ensureSized n ''0.0.0.0'' a)),
          (''IPv6'', DStrs (ensureSized n ''0000:0000:0000:0000:0000:0000:0000:0000'' b)),
          (''userName'', DStrs (ensureSized n '''' u)), (''Type'', DU8s (ensureSized n 0 t)),
          (''Timeout'', DU8s (ensureSized n 0 m)), (''Retries'', DU8s (ensureSized n 0 r)),
          (''AddressType'', DU8s (ensureSized n 1 d))]"
    using assms(1) unfolding lan_arrays_def Let_def bindR_eq_Inr
    by (elim exE conjE) (rule that, assumption+, simp only: sum.inject prod.inject, elim conjE, erule sym)
  show ?thesis
  proof (cases v)
    case (DStrs xs)
    have s: "lan_strings cfg (lan_member name) = Inr xs"
      by (rule lan_strings_saved) (use assms(2) DStrs in simp)
    have "name = ''IPv4'' \<or> name = ''IPv6'' \<or> name = ''userName''"
      using assms(3) DStrs by (simp add: lan_rule_def split: if_splits)
    then show ?thesis using s r(1-3) assms(5) DStrs
      by (elim disjE) (auto simp: lan_member_def padded_def props)
  next
    case (DU8s xs)
    have s: "lan_bytes J cfg (lan_member name) = Inr xs"
      by (rule lan_bytes_saved [OF _ assms(4)]) (use assms(2) DU8s in simp)
    have "name = ''Type'' \<or> name = ''Timeout'' \<or> name = ''Retries'' \<or> name = ''AddressType''"
      using assms(3) DU8s by (simp add: lan_rule_def)
    then show ?thesis using s r(4-7) assms(5) DU8s
      by (elim disjE) (auto simp: lan_member_def padded_def props)
  next
    case (DStr y)
    then show ?thesis using assms(3,5) props by (simp add: lan_rule_def)
  qed (use assms(3) in \<open>simp_all add: lan_rule_def\<close>)
qed

lemma json_value_lookup: "json_lookup cfg k = Some v \<Longrightarrow> json_value conv cfg k d = conv v"
  by (cases cfg) (simp_all add: json_value_def)

lemma lan_rule_names:
  "lan_rule E name v \<Longrightarrow> name \<noteq> ''NumberofDestinations''"
  "lan_rule E ''CommunityString'' v \<Longrightarrow> \<exists>s. v = DStr s"
  "lan_rule E name (DStr s) \<Longrightarrow> name = ''CommunityString''"
  by (cases v; force simp: lan_rule_def split: if_splits)+

lemma lan_object_saved:
  assumes "lan_object J iface cfg = Inr (o', types)" and "json_lookup cfg (lan_member name) = Some (lan_json v)"
    and "lan_rule E name v" and "\<And>b :: u8. json_get_u32 J (JInt (uint b)) = Inr (ucast b)"
    and "map_of (o_props o') name = Some x"
  shows "padded v x"
proof -
  obtain community destinations props where
    m: "json_value json_get_string cfg ''CommunityString'' '''' = Inr community"
    and props: "o_props o' = [(''CommunityString'', DStr community), (''NumberofDestinations'', DU8 destinations)] @ props"
    and arrays: "props = [] \<or> (\<exists>ts. lan_arrays J cfg = Inr (props, ts))"
  proof -
    obtain community n where v: "json_value json_get_string cfg ''CommunityString'' '''' = Inr community"
        "json_value (json_get_int J) cfg ''NumberofDestinations'' 0 = Inr n"
      using assms(1) unfolding lan_object_def bindR_eq_Inr by blast
    show ?thesis
    proof (cases "has_flat_arrays cfg")
      case False
      then have "o_props o' = [(''CommunityString'', DStr community), (''NumberofDestinations'', DU8 (word_of_int n))] @ []"
        using assms(1) v by (auto simp: lan_object_def Let_def)
      then show ?thesis using that v(1) by blast
    next
      case True
      show ?thesis
      proof (cases "lan_arrays J cfg")
        case (Inl e)
        then have "o_props o' = [(''CommunityString'', DStr community), (''NumberofDestinations'', DU8 (word_of_int n))] @ []"
          using assms(1) v True by (auto simp: lan_object_def Let_def split: if_splits)
        then show ?thesis using that v(1) by blast
      next
        case (Inr p)
        then have "o_props o' = [(''CommunityString'', DStr community), (''NumberofDestinations'', DU8 (word_of_int n))] @ fst p"
          using assms(1) v True by (auto simp: lan_object_def Let_def split: prod.splits)
        then show ?thesis using that v(1) Inr by (metis prod.collapse)
      qed
    qed
  qed
  show ?thesis
  proof (cases "name = ''CommunityString''")
    case True
    then obtain s where s: "v = DStr s" using assms(3) lan_rule_names(2) by blast
    then have "community = s"
      using m assms(2) True json_value_lookup [of cfg "''CommunityString''" "JStr s" json_get_string "''''"]
      by (simp add: lan_member_def lan_json_def)
    then show ?thesis using s assms(5) props True by auto
  next
    case False
    then have "map_of props name = Some x" using assms(5) props lan_rule_names(1) [OF assms(3)] by simp
    then show ?thesis using arrays lan_arrays_saved [OF _ assms(2-4)] by (elim disjE exE) auto
  qed
qed

section \<open>Instances\<close>

definition timeout_doc :: "int \<Rightarrow> json" where
  "timeout_doc x = JObj [(''Interfaces'', JObj [(''eth0'', JObj [(''Config'', JObj
     [(''IPv4'', JArr []), (''IPv6'', JArr []), (''NumberofDestinations'', JInt 2), (''Retries'', JArr []),
      (''Timeout'', JArr [JInt x]), (''Type'', JArr []), (''UserName'', JArr [])])])])]"

definition lan_conf :: "unit conf" where
  "lan_conf =
     \<lparr>c_sys = (initial_sys ())\<lparr>files := [pefLanParamConfFile \<mapsto> ''old'']\<rparr>,
      c_objs = [\<lparr>o_path = lan_path ''eth0'', o_iface = pefLanParamIntf,
                o_props = [(''userName'', DStrs ['''']), (''Timeout'', DU8s [5])]\<rparr>],
      c_types = (\<lambda>iface. if iface = ''eth0'' then [2] else [])\<rparr>"

definition user_env :: "unit env" where
  "user_env = table_env (\<lambda>c. Reply False
     (if c = snmp_access_call ''ada'' then DBool True else DProps []))"

lemma lan_conf_document:
  "lan_document (doc_env (timeout_doc 5) (timeout_doc 9)) (c_sys lan_conf) = timeout_doc 5"
  by (simp add: lan_document_def lan_conf_def doc_env_def timeout_doc_def)

lemma lan_conf_timeout: "get_prop lan_conf (lan_path ''eth0'') pefLanParamIntf ''Timeout'' = Some (DU8s [5])"
  by (simp add: lan_conf_def get_prop_def find_object_def is_object_def)

section \<open>Properties\<close>

text \<open>C16. A written LAN setting is what both daemons read from then on: after an accepted write the property
  has the new value, and the shared file holds the same document with this one setting changed; the trap
  sender and the destination test, which look the interface up in their own way, find the new value.\<close>

theorem lan_setting_saved:
  assumes "write_lan E iface name v c = (Inr True, c')" and "iface \<noteq> ''Interfaces''"
    and "json_sorted (lan_document E (c_sys c))" and "lan_document E (c_sys c) \<noteq> JDiscarded"
    and "e_writable E pefLanParamConfFile"
    and "lan_edit iface (lan_member name) (lan_json v) None (lan_document E (c_sys c)) = Inr saved"
    and "json_roundtrips (e_json E) saved"
  shows "get_prop c' (lan_path iface) pefLanParamIntf name = Some v
    \<and> lan_document E (c_sys c') = saved
    \<and> (\<forall>i k. lan_setting saved i k = (if (i, k) = (iface, lan_member name) then Some (lan_json v)
         else lan_setting (lan_document E (c_sys c)) i k))
    \<and> lookup_path (lan_section saved iface) [''Config'', lan_member name] = Some (lan_json v)"
proof -
  obtain c1 old where w: "check_lan E iface name v c = (Inr True, c1)"
      "get_prop c (lan_path iface) pefLanParamIntf name = Some old"
      "after_lan E iface name v (snd (set_prop (lan_path iface) pefLanParamIntf name v c1)) = (Inr (), c')"
    using write_accepted [OF assms(1)] by blast
  let ?c2 = "snd (set_prop (lan_path iface) pefLanParamIntf name v c1)"
  have "files (c_sys c1) = files (c_sys c)"
    using satD' [OF files_check_lan w(1)] by (simp add: same_conf_files_def)
  then have same: "lan_document E (c_sys (c\<lparr>c_sys := c_sys c1\<rparr>)) = lan_document E (c_sys c)"
      "lan_document E (c_sys c1) = lan_document E (c_sys c)"
    by (simp_all add: lan_document_def)
  obtain s' where s': "updateLanParamConfigValue E iface (lan_member name) (lan_json v) None (c_sys c1) = (Inr (), s')"
      "lan_document E s' = saved"
    using update_lan_saves [of iface "lan_member name" "lan_json v" E "c_sys c1" saved] assms(3,5-7) same(2) by auto
  have "c_sys c' = s'"
    using w(3) after_lan_run [of E iface name v "snd (set_prop (lan_path iface) pefLanParamIntf name v c1)"] s'(1)
    by (auto simp: set_prop_def on_sys_def)
  moreover have "get_prop c' (lan_path iface) pefLanParamIntf name = Some v"
    using assms(1) unfolding write_lan_def by (cases rule: lan.write_cases) auto
  ultimately show ?thesis
    using s'(2) lan_edit_setting [OF assms(6,3,2,4)] by auto
qed

theorem lan_setting_saved_witness:
  "\<exists>c'. write_lan (doc_env (timeout_doc 5) (timeout_doc 9)) ''eth0'' ''Timeout'' (DU8s [9]) lan_conf = (Inr True, c')
     \<and> get_prop c' (lan_path ''eth0'') pefLanParamIntf ''Timeout'' = Some (DU8s [9])
     \<and> lan_document (doc_env (timeout_doc 5) (timeout_doc 9)) (c_sys c') = timeout_doc 9"
proof -
  let ?E = "doc_env (timeout_doc 5) (timeout_doc 9)"
  have "fst (write_lan ?E ''eth0'' ''Timeout'' (DU8s [9]) lan_conf) = Inr True" by code_simp
  then obtain c' where w: "write_lan ?E ''eth0'' ''Timeout'' (DU8s [9]) lan_conf = (Inr True, c')"
    by (metis prod.collapse)
  have edit: "lan_edit ''eth0'' (lan_member ''Timeout'') (lan_json (DU8s [9])) None (timeout_doc 5)
      = Inr (timeout_doc 9)" by code_simp
  have "get_prop c' (lan_path ''eth0'') pefLanParamIntf ''Timeout'' = Some (DU8s [9])
      \<and> lan_document ?E (c_sys c') = timeout_doc 9"
    using lan_setting_saved [OF w, unfolded lan_conf_document, OF _ _ _ _ edit]
    by (simp add: timeout_doc_def)
  then show ?thesis using w by blast
qed

text \<open>C20. The users of SNMPv3 and mail destinations are checked: after an accepted write of the user names,
  every name that is not empty was known to the user manager, had SNMP access when the destination of the
  same index is an SNMPv3 destination, and a mail address when it is a mail destination.\<close>

theorem lan_users_checked:
  assumes "write_lan E iface ''userName'' (DStrs names) c = (Inr True, c')"
    and "i < length names" and "names ! i \<noteq> ''''"
  shows "user_known E (names ! i)
    \<and> user_fits E (if i < length (c_types c iface) then c_types c iface ! i else 0) (names ! i)"
proof -
  let ?P = "\<lambda>u. snd u \<noteq> '''' \<longrightarrow> user_known E (snd u)
      \<and> user_fits E (if fst u < length (c_types c iface) then c_types c iface ! fst u else 0) (snd u)"
  obtain c1 where "check_lan E iface ''userName'' (DStrs names) c = (Inr True, c1)"
    using write_accepted [OF assms(1)] by blast
  then have run: "on_sys (all_checked (user_valid E (c_types c iface)) (enumerate 0 names)) c = (Inr True, c1)"
    by (simp add: check_lan_def)
  have "yields (\<lambda>ok. ok \<longrightarrow> list_all ?P us) (on_sys (all_checked (user_valid E (c_types c iface)) us))" for us
    by (intro yields_on_sys yields_all_checked user_valid_fits)
  from yieldsD [OF this run] have "list_all ?P (enumerate 0 names)" by (rule mp) simp
  moreover have "(i, names ! i) \<in> set (enumerate 0 names)" using assms(2) by (simp add: in_set_enumerate_eq)
  ultimately have "?P (i, names ! i)" unfolding list_all_iff by (rule bspec)
  then show ?thesis using assms(3) by (simp only: fst_conv snd_conv) blast
qed

theorem lan_users_checked_witness: "user_known user_env ''ada'' \<and> user_fits user_env 2 ''ada''"
proof -
  have "fst (write_lan user_env ''eth0'' ''userName'' (DStrs [''ada'']) lan_conf) = Inr True" by code_simp
  then obtain c' where "write_lan user_env ''eth0'' ''userName'' (DStrs [''ada'']) lan_conf = (Inr True, c')"
    by (metis prod.collapse)
  from lan_users_checked [OF this, of 0] show ?thesis by (simp add: lan_conf_def)
qed

text \<open>The numeric settings are checked one by one and against nothing else: destination types, timeouts,
  retries and address types are accepted exactly by their own values, nobody is asked, and a type is
  accepted whatever user its destination has.\<close>

theorem lan_bytes_exact:
  "check_lan E iface name (DU8s xs) c =
     (Inr (name \<in> {''Type'', ''Timeout'', ''Retries'', ''AddressType''} \<and> list_all (lan_byte_rule name) xs), c)"
proof (cases "name \<in> {''Type'', ''Timeout'', ''Retries'', ''AddressType''}")
  case True
  then consider "name = ''Type''" | "name = ''Timeout''" | "name = ''Retries''" | "name = ''AddressType''" by blast
  then show ?thesis by cases (simp_all add: check_lan_def byte_rules)
next
  case False
  then show ?thesis by (simp add: check_lan_def)
qed





end
