(* ===== verification/ConfigDaemon.thy ===== *)
theory ConfigDaemon
  imports SavedTable LanConfig SensorInfo Daemon
begin

text \<open>
  The configuration daemon as a transition system (\<open>parsePefConfToDbus\<close> and \<open>main\<close> in
  \<open>src/pef_config.cpp\<close>): it publishes its objects from the files and then serves property writes and
  method calls.  The properties of the reachable states follow by rule induction from the interface of
  the checked properties.
\<close>

section \<open>Start\<close>

text \<open>The two \<open>catch\<close> clauses are those of the monitors.\<close>

definition parsePefConfToDbus :: "'w env \<Rightarrow> ('w, unit) cact" where
  "parsePefConfToDbus E =
     catchE update_exception
       (bindE (on_sys (read_json E pefConfigFile)) (\<lambda>data.
          thenE (publish_tables (e_json E) data) (publish_lan E)))
       (ret ())"

definition pefSnmpTestIntf :: string where "pefSnmpTestIntf = ''xyz.openbmc_project.pef.SnmpTest''"
definition pefSensorInfoIntf :: string where "pefSensorInfoIntf = ''xyz.openbmc_project.pef.SensorInfo''"

text \<open>The objects of \<open>main\<close>; the last two have methods only.\<close>

definition service_objects :: "dobject list" where
  "service_objects =
     [\<lparr>o_path = pefPostponeTmrObj, o_iface = pefPostponeTmrIface, o_props = [(''ArmPEFPostponeTmr'', DU8 0)]\<rparr>,
      \<lparr>o_path = pefPostponeTmrObj, o_iface = pefPostponeCountDownIface,
       o_props = [(''TmrCountdownValue'', DU8 0)]\<rparr>,
      \<lparr>o_path = pefObj, o_iface = pefSnmpTestIntf, o_props = []\<rparr>,
      \<lparr>o_path = pefObj, o_iface = pefSensorInfoIntf, o_props = []\<rparr>]"

definition config_start :: "'w env \<Rightarrow> ('w, unit) cact" where
  "config_start E = thenE (forE service_objects publish) (parsePefConfToDbus E)"

section \<open>Steps\<close>

definition is_lan_path :: "string \<Rightarrow> bool" where
  "is_lan_path path \<longleftrightarrow> starts_with (lan_path '''') path"

definition write_property :: "'w env \<Rightarrow> string \<Rightarrow> string \<Rightarrow> string \<Rightarrow> dval \<Rightarrow> ('w, bool) cact" where
  "write_property E path iface name v =
     (if iface = pefLanParamIntf then
        (if is_lan_path path then write_lan E (drop (length (lan_path '''')) path) name v else ret False)
      else write_table E path iface name v)"

text \<open>Between two requests the outside world and the files may change.\<close>

inductive config_step :: "'w env \<Rightarrow> 'w conf \<Rightarrow> 'w conf \<Rightarrow> bool" for E where
  set_property: "write_property E path iface name v c = (r, c') \<Longrightarrow> config_step E c c'"
| test_destination: "on_sys (TestDestination E channelNo destinationSel) c = (r, c') \<Longrightarrow> config_step E c c'"
| test_snmp: "on_sys (test_trap E channelNo destinationSel) c = (r, c') \<Longrightarrow> config_step E c c'"
| sensor_names: "on_sys (getSensorNumNameMap E) c = (r, c') \<Longrightarrow> config_step E c c'"
| sensor_groups: "on_sys (getSensorNumNameMapByType E) c = (r, c') \<Longrightarrow> config_step E c c'"
| sensors_of_type: "on_sys (getSensorNumNameMapForType E type) c = (r, c') \<Longrightarrow> config_step E c c'"
| sensor_types: "on_sys (getAvailableSensorTypes E) c = (r, c') \<Longrightarrow> config_step E c c'"
| sensor_added: "on_sys sensorAdded c = (r, c') \<Longrightarrow> config_step E c c'"
| sensor_removed: "on_sys sensorRemoved c = (r, c') \<Longrightarrow> config_step E c c'"
| outside: "config_step E c (c\<lparr>c_sys := (c_sys c)\<lparr>world := w, files := f\<rparr>\<rparr>)"

inductive_cases config_stepE: "config_step E c c'"

definition config_reaches :: "'w env \<Rightarrow> 'w conf \<Rightarrow> 'w conf \<Rightarrow> bool" where
  "config_reaches E = (config_step E)\<^sup>*\<^sup>*"

section \<open>Properties of the objects\<close>

definition prop_rule :: "'w env \<Rightarrow> string \<Rightarrow> string \<Rightarrow> dval \<Rightarrow> bool" where
  "prop_rule E iface name v \<longleftrightarrow>
     (if iface = pefLanParamIntf then lan_rule E name v else table_rule iface name v)"

text \<open>Every property has the value it was published with, or one that obeys its rule, and its type.\<close>

definition props_ok :: "'w env \<Rightarrow> 'w conf \<Rightarrow> 'w conf \<Rightarrow> bool" where
  "props_ok E c0 c \<longleftrightarrow>
     (\<forall>p i n. get_prop c p i n = get_prop c0 p i n
        \<or> (\<exists>old x. get_prop c0 p i n = Some old \<and> get_prop c p i n = Some x \<and> prop_rule E i n x
             \<and> prop_type old = prop_type x))"

lemma props_okD:
  "props_ok E c0 c \<Longrightarrow> get_prop c p i n = Some x \<Longrightarrow> get_prop c0 p i n = Some x \<or> prop_rule E i n x"
  unfolding props_ok_def by (metis option.inject)

lemma lan_path_drop: "is_lan_path path \<Longrightarrow> lan_path (drop (length (lan_path '''')) path) = path"
  by (auto simp: is_lan_path_def starts_with_iff lan_path_def)

lemma write_ok_props:
  assumes "\<And>p i n. get_prop c' p i n = get_prop c p i n
      \<or> i = iface \<and> (\<exists>old x. get_prop c p i n = Some old \<and> get_prop c' p i n = Some x \<and> ok n x
          \<and> prop_type old = prop_type x)"
    and "\<And>n x. ok n x \<Longrightarrow> prop_rule E iface n x"
  shows "props_ok E c c'"
  unfolding props_ok_def using assms by metis

lemma write_property_ok:
  assumes "write_property E path iface name v c = (r, c')"
  shows "props_ok E c c'"
proof (cases "iface = pefLanParamIntf")
  case True
  show ?thesis
  proof (cases "is_lan_path path")
    case p: True
    have "write_lan E (drop (length (lan_path '''')) path) name v c = (r, c')"
      using assms True p by (simp add: write_property_def)
    from lan.write_ok [OF this [unfolded write_lan_def]] show ?thesis
      by (rule write_ok_props) (simp add: prop_rule_def)
  next
    case False
    then show ?thesis using assms True by (simp add: write_property_def props_ok_def)
  qed
next
  case False
  then have "write_table E path iface name v c = (r, c')" using assms by (simp add: write_property_def)
  from table.write_ok [OF this [unfolded write_table_def]] show ?thesis
    by (rule write_ok_props) (simp add: prop_rule_def False)
qed

lemma props_ok_trans: "props_ok E a b \<Longrightarrow> props_ok E b c \<Longrightarrow> props_ok E a c"
  unfolding props_ok_def by (metis option.inject)

lemma props_ok_same: "c_objs c' = c_objs c \<Longrightarrow> props_ok E c c'"
  by (simp add: props_ok_def get_prop_def)

lemma on_sys_objs: "on_sys m c = (r, c') \<Longrightarrow> c_objs c' = c_objs c"
  by (auto simp: on_sys_def split: prod.splits)

lemma config_step_props: "config_step E c c' \<Longrightarrow> props_ok E c c'"
  by (induction rule: config_step.induct) (auto dest: write_property_ok intro: props_ok_same dest: on_sys_objs)

section \<open>The sensor map\<close>

context task_invariant begin

lemma keeps_test_trap: "sat (keeps I) (test_trap E ch sel)"
  unfolding test_trap_def getTestTimestamp_def by (intro keeps keeps_sendOBMCErrorNotification)

lemma keeps_TestDestination: "sat (keeps I) (TestDestination E ch sel)"
  unfolding TestDestination_def test_channel_allowed_def dispatchTestDestination_def Let_def
    getInterfaceNameForChannelForTest_def read_json_def test_entry_def test_smtp_def getSmtpMailIDForTest_def
    sendTestMailForDestination_def
  by (intro keeps keeps_test_trap)

end

definition conf_map_inv :: "'w conf \<Rightarrow> bool" where
  "conf_map_inv c \<longleftrightarrow> num_map_inv (c_sys c)"

lemma kept_on_sys: "sat (keeps num_map_inv) m \<Longrightarrow> sat (keeps conf_map_inv) (on_sys m)"
  by (erule sat_on_sys) (simp add: keeps_def conf_map_inv_def)

lemma kept_checked_write:
  assumes "sat (keeps conf_map_inv) (check name v)" and "sat (keeps conf_map_inv) (after name v)"
  shows "sat (keeps conf_map_inv) (checked_write check after path iface name v)"
proof -
  have "sat (keeps conf_map_inv) (set_prop path iface name v)"
    unfolding set_prop_def by (rule keep.sat_modify) (simp add: keeps_def conf_map_inv_def)
  then show ?thesis unfolding checked_write_def using assms by (intro keep_sat)
qed

lemma kept_check_table: "sat (keeps num_map_inv) (check_table E iface name v)"
proof -
  have "sat (keeps num_map_inv) (sensor_nums_valid E xs)" for xs
    unfolding sensor_nums_valid_def by (intro keep_sat keep_getSensorNumMap)
  moreover have "sat (keeps num_map_inv) (all_checked (channel_valid E) xs)" for xs
    unfolding channel_valid_def by (intro keep.sat_all_checked sensor_map_kept.keeps)
  ultimately show ?thesis
    unfolding check_table_def check_filter_def check_policy_def
    by (cases v) (auto intro!: keep_sat)
qed

lemma kept_check_lan: "sat (keeps conf_map_inv) (check_lan E iface name v)"
proof -
  have "sat (keeps num_map_inv) (community_valid E x)" for x
    unfolding community_valid_def isCommStrValid_def by (intro sensor_map_kept.keeps)
  moreover have "sat (keeps num_map_inv) (all_checked (user_valid E ts) us)" for ts us
    unfolding user_valid_def user_exists_def user_has_snmp_def user_has_mail_def Let_def
    by (intro keep.sat_all_checked sensor_map_kept.keeps)
  moreover have "sat (keeps num_map_inv) (all_checked (validateIPv4Address E) xs)"
      "sat (keeps num_map_inv) (all_checked (validateIPv6Address E) xs)" for xs
    by (intro keep.sat_all_checked sat_address_check keep.refl)+
  ultimately show ?thesis
    unfolding check_lan_def by (cases v) (auto intro!: keep_sat kept_on_sys)
qed

lemma kept_updateLan: "sat (keeps num_map_inv) (updateLanParamConfigValue E iface p v sel)"
proof -
  have "sat (keeps num_map_inv) (modifyE (\<lambda>s. s\<lparr>files := f s\<rparr>))" for f :: "'a sys \<Rightarrow> _"
    by (rule keep.sat_modify) (simp add: keeps_def num_map_inv_def)
  then show ?thesis
    unfolding updateLanParamConfigValue_def read_json_def write_json_def Let_def by (intro keep_sat)
qed

lemma kept_after_lan: "sat (keeps conf_map_inv) (after_lan E iface name v)"
proof -
  have "sat (keeps conf_map_inv) (modifyE (\<lambda>c. c\<lparr>c_types := f c\<rparr>))" for f :: "'a conf \<Rightarrow> _"
    by (rule keep.sat_modify) (simp add: keeps_def conf_map_inv_def)
  then show ?thesis
    unfolding after_lan_def
    by (cases v) (auto intro!: keep_sat kept_on_sys kept_updateLan)
qed

lemma kept_write_property: "sat (keeps conf_map_inv) (write_property E path iface name v)"
  unfolding write_property_def write_lan_def write_table_def
  by (intro sat_if kept_checked_write kept_check_lan kept_after_lan kept_on_sys kept_check_table keep.sat_ret)

lemma kept_sensor_info:
  "sat (keeps num_map_inv) (getSensorNumNameMap E)" "sat (keeps num_map_inv) (getSensorNumNameMapByType E)"
  "sat (keeps num_map_inv) (getSensorNumNameMapForType E type)" "sat (keeps num_map_inv) (getAvailableSensorTypes E)"
  "sat (keeps num_map_inv) sensorAdded" "sat (keeps num_map_inv) sensorRemoved"
  unfolding getSensorNumNameMap_def getSensorNumNameMapByType_def getSensorNumNameMapForType_def
    getAvailableSensorTypes_def
  by (intro keep_sat keep_getSensorNumMap)+
    (auto simp: sat_def keeps_def sensorAdded_def sensorRemoved_def num_map_inv_def)

lemmas config_handlers =
  kept_write_property kept_on_sys [OF sensor_map_kept.keeps_TestDestination]
  kept_on_sys [OF sensor_map_kept.keeps_test_trap] kept_sensor_info [THEN kept_on_sys]

lemma config_step_map: "config_step E c c' \<Longrightarrow> conf_map_inv c \<Longrightarrow> conf_map_inv c'"
proof (induction rule: config_step.induct)
  case outside
  then show ?case by (simp add: conf_map_inv_def num_map_inv_def)
qed (blast dest: sat_keepsD [OF config_handlers(1)] sat_keepsD [OF config_handlers(2)]
    sat_keepsD [OF config_handlers(3)] sat_keepsD [OF config_handlers(4)] sat_keepsD [OF config_handlers(5)]
    sat_keepsD [OF config_handlers(6)] sat_keepsD [OF config_handlers(7)] sat_keepsD [OF config_handlers(8)]
    sat_keepsD [OF config_handlers(9)])+

section \<open>Exceptions at the start\<close>

text \<open>What the object builders throw: an exception of the JSON library, or undefined behaviour for a member
  that is missing in a constant entry.\<close>

definition build_exn :: "exn \<Rightarrow> bool" where
  "build_exn e \<longleftrightarrow> e = JsonError \<or> e = Undefined"

lemma field_exceptions:
  "json_const_field j k = Inl e \<Longrightarrow> build_exn e"
  by (cases j) (auto simp: build_exn_def split: option.splits)

lemma conv_exceptions:
  "json_get_u8 J x = Inl e \<Longrightarrow> build_exn e" "json_get_u16 J x = Inl e \<Longrightarrow> build_exn e"
  "json_get_int J x = Inl e \<Longrightarrow> build_exn e" "json_get_string x = Inl e \<Longrightarrow> build_exn e"
  by (auto dest: json_width_exceptions json_exceptions simp: build_exn_def)

lemma prop_exceptions:
  "u8_prop J j name key = Inl e \<Longrightarrow> build_exn e" "u16_prop J j key = Inl e \<Longrightarrow> build_exn e"
  "str_prop j key = Inl e \<Longrightarrow> build_exn e"
  by (auto simp: u8_prop_def u16_prop_def str_prop_def bindR_eq_Inl dest: field_exceptions conv_exceptions)

lemma map_result_exceptions:
  "(\<And>x e. f x = Inl e \<Longrightarrow> build_exn e) \<Longrightarrow> map_result f xs = Inl e \<Longrightarrow> build_exn e"
  by (auto dest: map_result_Inl)

lemma column_exceptions:
  "column8 J es key = Inl e \<Longrightarrow> build_exn e" "column16 J es key = Inl e \<Longrightarrow> build_exn e"
  "string_column es key = Inl e \<Longrightarrow> build_exn e"
proof -
  have "json_value (json_get_int J) x k 0 = Inl e' \<Longrightarrow> build_exn e'" for x k e'
    using json_value_exceptions [of "json_get_int J"] json_exceptions(2) by (auto simp: build_exn_def)
  then show "column8 J es key = Inl e \<Longrightarrow> build_exn e" "column16 J es key = Inl e \<Longrightarrow> build_exn e"
    by (auto simp: column8_def column16_def int_column_def bindR_eq_Inl dest: map_result_Inl)
  have "json_value json_get_string x k d = Inl e' \<Longrightarrow> build_exn e'" for x k d e'
    using json_value_exceptions [of json_get_string] json_exceptions(4) by (auto simp: build_exn_def)
  then show "string_column es key = Inl e \<Longrightarrow> build_exn e"
    by (auto simp: string_column_def bindR_eq_Inl dest: map_result_Inl)
qed

lemma object_exceptions:
  "conf_info_object J x = Inl e \<Longrightarrow> build_exn e" "system_guid_object J x = Inl e \<Longrightarrow> build_exn e"
  "oem_param_object J x = Inl e \<Longrightarrow> build_exn e" "destination_object J x = Inl e \<Longrightarrow> build_exn e"
  "filter_list_object J b es = Inl e \<Longrightarrow> build_exn e" "policy_list_object J b es = Inl e \<Longrightarrow> build_exn e"
  "string_list_object J b es = Inl e \<Longrightarrow> build_exn e"
  unfolding conf_info_object_def system_guid_object_def oem_param_object_def destination_object_def
    filter_list_object_def policy_list_object_def string_list_object_def bindR_eq_Inl
  by (elim disjE exE conjE; (drule map_result_Inl)?; auto dest: prop_exceptions column_exceptions
      field_exceptions conv_exceptions split: if_splits)+

lemma raises_publish_each:
  "(\<And>x e. build x = Inl e \<Longrightarrow> build_exn e) \<Longrightarrow> raises build_exn (publish_each build data table)"
  unfolding publish_each_def publish_def
  by (intro raises_intros raises_lift) (auto dest: json_exceptions simp: build_exn_def)

lemma raises_publish_lists:
  "(\<And>b es e. build b es = Inl e \<Longrightarrow> build_exn e) \<Longrightarrow> raises build_exn (publish_lists build w data table)"
  unfolding publish_lists_def publish_def Let_def
  by (intro raises_intros raises_lift) (auto dest: json_exceptions simp: build_exn_def)

lemma raises_publish_tables: "raises build_exn (publish_tables J data)"
  unfolding publish_tables_def
  by (intro raises_then raises_publish_each raises_publish_lists) (erule object_exceptions)+

lemma lan_object_exceptions: "lan_object J iface cfg = Inl e \<Longrightarrow> build_exn e"
proof -
  have vals: "json_value json_get_string cfg k d = Inl e' \<Longrightarrow> e' = JsonError"
    "json_value (json_get_int J) cfg k n = Inl e' \<Longrightarrow> e' = JsonError"
    "json_value (json_get_u8 J) cfg k b = Inl e' \<Longrightarrow> e' = JsonError" for k d n b e'
    using json_value_exceptions json_exceptions json_width_exceptions by metis+
  have strs: "lan_strings cfg k = Inl e' \<Longrightarrow> e' = JsonError" for k e'
  proof (cases "json_field cfg k")
    case (Inr j)
    then show "lan_strings cfg k = Inl e' \<Longrightarrow> e' = JsonError"
      by (cases j) (auto simp: lan_strings_def dest: json_exceptions map_result_Inl)
  qed (auto simp: lan_strings_def dest: json_exceptions)
  have "lan_bytes J cfg k = Inl e' \<Longrightarrow> e' = JsonError" for k e'
    by (auto simp: lan_bytes_def json_u8_def bindR_eq_Inl dest!: map_result_Inl dest: json_exceptions)
  with vals strs have arrays: "lan_arrays J cfg = Inl e' \<Longrightarrow> e' = JsonError" for e'
    unfolding lan_arrays_def Let_def bindR_eq_Inl by (elim disjE exE conjE) blast+
  assume obj: "lan_object J iface cfg = Inl e"
  have "json_value json_get_string cfg ''CommunityString'' '''' = Inl e
      \<or> json_value (json_get_int J) cfg ''NumberofDestinations'' 0 = Inl e"
  proof (cases "lan_arrays J cfg")
    case (Inl e')
    then have "json_exception e'" using arrays by (simp add: json_exception_def)
    then show ?thesis using obj Inl by (simp add: lan_object_def bindR_eq_Inl Let_def split: if_splits)
  next
    case (Inr p)
    then show ?thesis using obj by (cases p) (simp add: lan_object_def bindR_eq_Inl Let_def split: if_splits)
  qed
  then show "build_exn e" by (auto dest: vals simp: build_exn_def)
qed

lemma eth_interfaces_exceptions: "eth_interfaces cs ns = Inl e \<Longrightarrow> build_exn e"
proof (induction cs ns rule: eth_interfaces.induct)
  case (2 c cs ns)
  have "json_value json_get_bool c k b = Inl e' \<Longrightarrow> e' = JsonError"
    "json_value json_get_string c k d = Inl e' \<Longrightarrow> e' = JsonError" for k b d e'
    using json_value_exceptions json_exceptions by metis+
  then have "channel_interface c = Inl e' \<Longrightarrow> build_exn e'" for e'
    by (auto simp: channel_interface_def bindR_eq_Inl build_exn_def split: if_splits)
  then show ?case using 2 by (auto simp: bindR_eq_Inl split: option.splits)
qed simp

lemma raises_on_sys: "raises P m \<Longrightarrow> raises P (on_sys m)"
  by (auto simp: raises_def on_sys_def split: prod.splits)

lemma raises_publish_interface: "raises build_exn (publish_interface E m iface)"
proof -
  have "raises build_exn (on_sys (lan_interface_data E m iface))"
    unfolding lan_interface_data_def read_json_def by (intro raises_on_sys raises_intros)
  moreover have "raises build_exn (catchE json_exception
      (bindE (liftE (json_field j ''Config'')) (\<lambda>cfg.
       bindE (liftE (lan_object (e_json E) iface cfg)) (\<lambda>(o', types).
       thenE (case types of None \<Rightarrow> ret ()
              | Some ts \<Rightarrow> modifyE (\<lambda>c. c\<lparr>c_types := (c_types c)(iface := ts)\<rparr>)) (publish o')))) (ret ()))" for j
    unfolding publish_def
    by (intro raises_catch [where Q = build_exn] raises_intros raises_lift)
      (auto dest: json_exceptions lan_object_exceptions simp: build_exn_def)
  ultimately show ?thesis unfolding publish_interface_def by (intro raises_bind)
qed

lemma raises_publish_lan: "raises build_exn (publish_lan E)"
  unfolding publish_lan_def getAvailableEthInterfaces_def read_json_def Let_def
  by (intro raises_intros raises_on_sys raises_lift raises_publish_interface) (erule eth_interfaces_exceptions)

lemma raises_config_start: "raises (\<lambda>e. e = Undefined) (config_start E)"
proof -
  have "raises build_exn (bindE (on_sys (read_json E pefConfigFile)) (\<lambda>data.
      thenE (publish_tables (e_json E) data) (publish_lan E)))"
    unfolding read_json_def by (intro raises_intros raises_on_sys raises_publish_tables raises_publish_lan)
  then have "raises (\<lambda>e. e = Undefined) (parsePefConfToDbus E)"
    unfolding parsePefConfToDbus_def
    by (rule raises_catch) (auto simp: build_exn_def intro: raises_ret)
  then show ?thesis unfolding config_start_def publish_def by (intro raises_intros)
qed

section \<open>Properties\<close>





end
