(* ===== verification/ConfiguredAction.thy ===== *)
theory ConfiguredAction
  imports ConfiguredTable
begin

text \<open>
  From the configuration file to the action: what the event-filtering daemon does for an event, in terms
  of the documents that the configuration daemon has published.
\<close>

section \<open>The settings\<close>

text \<open>The settings of the file, as \<open>getPefConfInfo\<close> should see them.\<close>

definition u8_field :: "json_lib \<Rightarrow> json \<Rightarrow> string \<Rightarrow> exn + u8" where
  "u8_field J j key = bindR (json_const_field j key) (json_get_u8 J)"

definition configured_settings :: "json_lib \<Rightarrow> json \<Rightarrow> exn + pefConfInfo" where
  "configured_settings J info =
     bindR (u8_field J info ''PEFControl'') (\<lambda>ctl.
     bindR (u8_field J info ''PEFActionGblControl'') (\<lambda>gbl.
     bindR (u8_field J info ''PEFStartupDly'') (\<lambda>dly.
     bindR (u8_field J info ''PEFAlertStartupDly'') (\<lambda>alertDly.
       Inr \<lparr>PEFControl = ctl, PEFActionGblControl = gbl, PEFStartupDly = dly,
            PEFAlertStartupDly = alertDly\<rparr>))))"

lemma u8_props_lookup:
  assumes "map_result (\<lambda>key. u8_prop J j key key) ks = Inr bytes" and "k \<in> set ks"
  shows "\<exists>v. u8_field J j k = Inr v \<and> map_of (bytes @ rest) k = Some (DU8 v)"
  using assms
proof (induction ks arbitrary: bytes)
  case Nil
  then show ?case by simp
next
  case (Cons x ks)
  obtain v bs where "u8_field J j x = Inr v" "map_result (\<lambda>key. u8_prop J j key key) ks = Inr bs"
      "bytes = (x, DU8 v) # bs"
    using Cons.prems(1) by (auto simp: u8_prop_def u8_field_def bindR_eq_Inr)
  then show ?case using Cons.IH Cons.prems(2) by (cases "k = x") auto
qed

lemma settings_published:
  assumes "conf_info_object J info = Inr o'"
  obtains cfg where "configured_settings J info = Inr cfg"
    and "prop_u8 (o_props o') ''PEFControl'' = Inr (PEFControl cfg)"
    and "prop_u8 (o_props o') ''PEFActionGblControl'' = Inr (PEFActionGblControl cfg)"
    and "prop_u8 (o_props o') ''PEFStartupDly'' = Inr (PEFStartupDly cfg)"
    and "prop_u8 (o_props o') ''PEFAlertStartupDly'' = Inr (PEFAlertStartupDly cfg)"
    and "o_path o' = pefObj" and "o_iface o' = pefConfInfoIntf"
proof -
  let ?ks = "[''Version'', ''ActionSupported'', ''MaxEventTblEntry'', ''PEFControl'', ''PEFActionGblControl'',
        ''PEFStartupDly'', ''PEFAlertStartupDly'']"
  obtain bytes ids texts where o': "map_result (\<lambda>key. u8_prop J info key key) ?ks = Inr bytes"
      "o' = \<lparr>o_path = pefObj, o_iface = pefConfInfoIntf, o_props = bytes @ ids @ texts\<rparr>"
    using assms unfolding conf_info_object_def bindR_eq_Inr by blast
  have field: "\<exists>v. u8_field J info k = Inr v \<and> prop_u8 (o_props o') k = Inr v" if "k \<in> set ?ks" for k
    using u8_props_lookup [OF o'(1) that, of "ids @ texts"] o'(2)
    by (auto simp: prop_u8_def map_at_def simp del: map_of_append)
  obtain a b d e where "u8_field J info ''PEFControl'' = Inr a" "prop_u8 (o_props o') ''PEFControl'' = Inr a"
      "u8_field J info ''PEFActionGblControl'' = Inr b" "prop_u8 (o_props o') ''PEFActionGblControl'' = Inr b"
      "u8_field J info ''PEFStartupDly'' = Inr d" "prop_u8 (o_props o') ''PEFStartupDly'' = Inr d"
      "u8_field J info ''PEFAlertStartupDly'' = Inr e" "prop_u8 (o_props o') ''PEFAlertStartupDly'' = Inr e"
    using field [of "''PEFControl''"] field [of "''PEFActionGblControl''"] field [of "''PEFStartupDly''"]
      field [of "''PEFAlertStartupDly''"]
    by auto
  then show ?thesis
    using that [of "\<lparr>PEFControl = a, PEFActionGblControl = b, PEFStartupDly = d, PEFAlertStartupDly = e\<rparr>"] o'(2)
    by (simp add: configured_settings_def)
qed

lemma settings_served:
  assumes "serves E objs" and "find_object pefObj pefConfInfoIntf objs = Some o'"
    and "conf_info_object J info = Inr o'" and "configured_settings J info = Inr cfg"
  shows "fst (getPefConfInfo E s) = Inr (Some cfg)"
proof -
  have call: "fst (e_bus E (world s) (get_all_properties pefBus pefObj pefConfInfoIntf))
      = Reply False (DProps (o_props o'))"
    by (rule servesD [OF assms(1,2)])
  show ?thesis
    by (rule settings_published [OF assms(3)])
      (use assms(4) in \<open>simp add: getPefConfInfo_def bus_call_Reply [OF call] bindE_def catchE_def\<close>)
qed

text \<open>The first entry of \<open>PEFConfInfo\<close> is the one that is found on the bus.\<close>

lemma first_object:
  assumes "publish_each build data table c = (Inr u, c')" and "json_field data table = Inr entries"
    and "json_items entries = x # others"
  shows "\<exists>o' new. build x = Inr o' \<and> c_objs c' = c_objs c @ o' # new"
proof -
  let ?step = "\<lambda>x. bindE (liftE (build x)) publish"
  have run: "forE (x # others) ?step c = (Inr u, c')" using assms by (simp add: publish_each_def)
  then obtain o' where o': "build x = Inr o'" by (cases "build x") (simp_all add: thenE_def)
  let ?c = "c\<lparr>c_objs := c_objs c @ [o']\<rparr>"
  have rest: "forE others ?step ?c = (Inr u, c')" using run o' by (simp add: thenE_def publish_def)
  have "sat (adds_objects (\<lambda>_. True)) (forE others ?step)"
    by (intro adds.sat_for adds_build) simp
  from satD' [OF this rest] have "adds_objects (\<lambda>_. True) ?c c'" .
  then show ?thesis using o' by (auto simp: adds_objects_def)
qed

lemma settings_found:
  assumes "publish_tables J data c = (Inr (), c')" and "find_object pefObj pefConfInfoIntf (c_objs c) = None"
    and "json_field data ''PEFConfInfo'' = Inr infos" and "json_items infos = info # others"
  obtains o' where "conf_info_object J info = Inr o'"
    and "find_object pefObj pefConfInfoIntf (c_objs c') = Some o'"
proof -
  obtain u c1 where c1: "publish_each (conf_info_object J) data ''PEFConfInfo'' c = (Inr u, c1)"
    and rest: "adds_objects (\<lambda>_. True) c1 c'"
  proof -
    let ?rest = "thenE (publish_each (system_guid_object J) data ''SystemGUID'')
     (thenE (publish_each (oem_param_object J) data ''OEMParam'')
     (thenE (publish_lists (filter_list_object J) 10 data ''EventFilterTable'')
     (thenE (publish_lists (policy_list_object J) 15 data ''AlertPolicyTable'')
     (thenE (publish_lists (string_list_object J) 10 data ''AlertStringTable'')
            (publish_each (destination_object J) data ''DestinationSelector'')))))"
    have "sat (adds_objects (\<lambda>_. True)) ?rest"
      by (intro adds.sat_then adds_publish_each adds_publish_lists) simp_all
    then show ?thesis using thenE_InrD [OF assms(1) [unfolded publish_tables_def]] that satD' by metis
  qed
  obtain o' new where o': "conf_info_object J info = Inr o'" "c_objs c1 = c_objs c @ o' # new"
    using first_object [OF c1 assms(3,4)] by blast
  have "is_object pefObj pefConfInfoIntf o'"
    by (rule settings_published [OF o'(1)]) (simp add: is_object_def)
  then have "find_object pefObj pefConfInfoIntf (c_objs c') = Some o'"
    using assms(2) o'(2) rest
    by (auto simp: adds_objects_def find_object_append find_object_def [of _ _ "_ # _"])
  then show ?thesis using that o'(1) by blast
qed

section \<open>The power part of the matched entries\<close>

text \<open>What happens before the actions only reads.\<close>

lemma channel_map_total: "\<exists>m. fst (getEthChannelInterfaceMap E s) = Inr m"
  using raises_none [OF raises_getEthChannelInterfaceMap] by (metis fst_conv)

text \<open>A program that touches nothing of the state but the world and the calls.\<close>

definition outside_only :: "'w sys \<Rightarrow> 'w sys \<Rightarrow> bool" where
  "outside_only s s' \<longleftrightarrow> s' = s\<lparr>world := world s', trace := trace s'\<rparr>"

interpretation outside: frame_relation outside_only
proof unfold_locales
  fix s t u :: "'w sys"
  assume "outside_only s t" and "outside_only t u"
  then have "t = s\<lparr>world := world t, trace := trace t\<rparr>" and "u = t\<lparr>world := world u, trace := trace u\<rparr>"
    by (simp_all only: outside_only_def)
  then show "outside_only s u" unfolding outside_only_def by (cases s; cases t; cases u) simp
qed (simp add: outside_only_def)

lemma outside_after_call: "outside_only s (after_call E c s)"
  by (simp add: outside_only_def after_call_def)

lemma outside_bus_call: "sat outside_only (bus_call E c)"
  using outside_after_call by (auto simp: sat_def bus_call_eq split: breply.split)

lemmas outside_sat = outside.sat_basic outside.sat_compound sat_branch outside_bus_call

lemma outside_power_action: "sat outside_only (power_action E e cfg)"
  unfolding power_action_def log_action_def PEFActionSELLOG_def getPowerStatus_def initiateStateTransition_def
    initiateChassisStateTransition_def
  by (intro outside_sat)

text \<open>Up to the first entry that may alert, only the power actions run.\<close>

lemma power_actions_first:
  assumes "bus_answers E" and "\<And>w. fst (e_bus E w power_state_call) = Reply False (DStr st)"
    and "list_all (\<lambda>e. \<not> allowed e cfg ALERT_ACTION) es1"
  shows "\<exists>s1. performPefAction E (es1 @ e # es2) ev ethMap cfg s
      = thenE (alert_action E e ev ethMap cfg) (performPefAction E es2 ev ethMap cfg) s1
    \<and> trace s1 = trace s @ concat (map (\<lambda>e. power_trace e cfg (st = host_on)) (es1 @ [e]))
    \<and> outside_only s s1"
  using assms(3)
proof (induction es1 arbitrary: s)
  case Nil
  obtain s1 where s1: "power_action E e cfg s = (Inr (), s1)"
      "trace s1 = trace s @ power_trace e cfg (st = host_on)"
    using power_action_trace [OF assms(1,2)] by (metis prod.collapse)
  have "performPefAction E ([] @ e # es2) ev ethMap cfg s
      = thenE (alert_action E e ev ethMap cfg) (performPefAction E es2 ev ethMap cfg) s1"
    using s1(1) by (simp add: performPefAction_def thenE_assoc)
  then show ?case using s1(2) satD' [OF outside_power_action s1(1)] by auto
next
  case (Cons x es1)
  obtain s0 where s0: "power_action E x cfg s = (Inr (), s0)"
      "trace s0 = trace s @ power_trace x cfg (st = host_on)"
    using power_action_trace [OF assms(1,2)] by (metis prod.collapse)
  have run: "performPefAction E ((x # es1) @ e # es2) ev ethMap cfg s
      = performPefAction E (es1 @ e # es2) ev ethMap cfg s0"
    using s0(1) Cons.prems by (simp add: performPefAction_def alert_action_def thenE_def bindE_def)
  have "list_all (\<lambda>e. \<not> allowed e cfg ALERT_ACTION) es1" using Cons.prems by simp
  from Cons.IH [OF this, of s0] obtain s1 where
    s1: "performPefAction E (es1 @ e # es2) ev ethMap cfg s0
      = thenE (alert_action E e ev ethMap cfg) (performPefAction E es2 ev ethMap cfg) s1"
      "trace s1 = trace s0 @ concat (map (\<lambda>e. power_trace e cfg (st = host_on)) (es1 @ [e]))"
      "outside_only s0 s1"
    by blast
  have "outside_only s s1" using satD' [OF outside_power_action s0(1)] s1(3) by (rule outside.trans)
  then show ?case using run s1(1,2) s0(2) by auto
qed

lemma power_actions_run:
  assumes "bus_answers E" and "\<And>w. fst (e_bus E w power_state_call) = Reply False (DStr st)"
    and "list_all (\<lambda>e. \<not> allowed e cfg ALERT_ACTION) es1"
  shows "\<exists>rest. trace (snd (performPefAction E (es1 @ e # es2) ev ethMap cfg s))
    = trace s @ concat (map (\<lambda>e. power_trace e cfg (st = host_on)) (es1 @ [e])) @ rest"
proof -
  let ?rest = "thenE (alert_action E e ev ethMap cfg) (performPefAction E es2 ev ethMap cfg)"
  obtain s1 where s1: "performPefAction E (es1 @ e # es2) ev ethMap cfg s = ?rest s1"
      "trace s1 = trace s @ concat (map (\<lambda>e. power_trace e cfg (st = host_on)) (es1 @ [e]))"
    using power_actions_first [OF assms] by blast
  have "sat (calls_only (\<lambda>_. True)) ?rest"
    by (intro calls_sat sat_calls_mono [OF calls_alert_action] sat_calls_mono [OF calls_performPefAction]) simp_all
  then have "calls_only (\<lambda>_. True) s1 (snd (?rest s1))" by (rule satD)
  then show ?thesis using s1 by (auto simp: calls_only_def)
qed

section \<open>Properties\<close>

text \<open>C4. Configured power actions happen: when the configuration daemon has published a document, the bus
  serves its objects and every call is answered, the event-filtering daemon carries out the power part of
  the rows of the file that match an event, in their order and under the settings of the file, up to and
  including the first row whose alert is allowed; nothing but reads comes before.\<close>

theorem configured_power_actions:
  assumes "publish_tables J data c = (Inr (), c')" and "filter (below eventFilterTableRoot) (c_objs c) = []"
    and "find_object pefObj pefConfInfoIntf (c_objs c) = None" and "serves E (c_objs c')" and "bus_answers E"
    and "\<And>w. fst (e_bus E w power_state_call) = Reply False (DStr st)"
    and "json_field data ''PEFConfInfo'' = Inr infos" and "json_items infos = info # others"
    and "json_field data ''EventFilterTable'' = Inr rows" and "configured_settings J info = Inr cfg"
    and "configured_matches J (json_items rows) ev = es1 @ e # es2"
    and "list_all (\<lambda>e. \<not> allowed e cfg ALERT_ACTION) es1"
  shows "\<exists>reads rest. list_all is_read_call reads
    \<and> trace (snd (eventFilteringProcess E ev s)) = trace s @ reads
      @ concat (map (\<lambda>e. power_trace e cfg (st = host_on)) (es1 @ [e])) @ rest"
proof -
  obtain s1 where s1: "matched_entries E ev s = (Inr (es1 @ e # es2), s1)"
    using published_matches [OF assms(1,2,4), of ev s] assms(9,11) by (metis prod.collapse sum.inject(2))
  obtain ethMap s2 where s2: "getEthChannelInterfaceMap E s1 = (Inr ethMap, s2)"
    using channel_map_total by (metis prod.collapse)
  obtain o' where "conf_info_object J info = Inr o'" "find_object pefObj pefConfInfoIntf (c_objs c') = Some o'"
    by (rule settings_found [OF assms(1,3,7,8)])
  then obtain s3 where s3: "getPefConfInfo E s2 = (Inr (Some cfg), s3)"
    using settings_served [OF assms(4) _ _ assms(10)] by (metis prod.collapse)
  have "calls_only is_read_call s s3"
    using satD' [OF reads_matched_entries s1] satD' [OF reads_getEthChannelInterfaceMap s2]
      satD' [OF reads_getPefConfInfo s3] by (blast intro: calls.trans)
  moreover have "eventFilteringProcess E ev s = performPefAction E (es1 @ e # es2) ev ethMap cfg s3"
    using s1 s2 s3 by (simp add: eventFilteringProcess_def bindE_def)
  ultimately show ?thesis
    using power_actions_run [OF assms(5,6,12), of e es2 ev ethMap s3] by (auto simp: calls_only_def)
qed

text \<open>A document with one row that switches the host off, and a bus that answers everything.\<close>

definition off_row :: json where
  "off_row = json_object (map (\<lambda>k. (k, JInt 255))
     [''GenIDByte1'', ''GenIDByte2'', ''SensorType'', ''SensorNum'', ''EventTrigger'']
     @ [(''FilterConfig'', JInt 128), (''EventData1OffsetMask'', JInt 65535), (''EvtFilterAction'', JInt 2)])"

definition off_info :: json where
  "off_info = json_object (map (\<lambda>k. (k, JInt 2))
     [''Version'', ''ActionSupported'', ''MaxEventTblEntry'', ''PEFControl'', ''PEFActionGblControl'',
      ''PEFStartupDly'', ''PEFAlertStartupDly'', ''LastBMCProcessedEventID'', ''LastSWProcessedEventID'']
     @ [(''Subject'', JStr ''''), (''Message'', JStr '''')])"

definition power_off_doc :: json where
  "power_off_doc = JObj [(''EventFilterTable'', JArr [off_row]), (''PEFConfInfo'', JArr [off_info])]"

definition answering_env :: "dobject list \<Rightarrow> unit env" where
  "answering_env objs = (table_env (\<lambda>c.
     if c = power_state_call then Reply False (DStr host_on)
     else (case objects_bus objs c of BusError \<Rightarrow> Reply False (DBool True) | Reply err v \<Rightarrow> Reply err v)))
       \<lparr>e_json := plain_json\<rparr>"

lemma answering_answers:
  "bus_answers (answering_env objs)"
  "fst (e_bus (answering_env objs) w power_state_call) = Reply False (DStr host_on)"
  by (auto simp: bus_answers_def answering_env_def split: breply.split)

lemma answering_serves: "serves (answering_env objs) objs"
  by (auto simp: serves_def answering_env_def objects_bus_def get_all_properties_def power_state_call_def
      get_property_def METHOD_GET_def subtree_paths_call_def METHOD_GET_ALL_def MAPPER_BUSNAME_def pwrService_def
      pefBus_def Let_def)

lemma off_row_matches:
  "\<exists>e. configured_matches plain_json [off_row] fan_event = [e] \<and> EvtFilterAction e = 2"
proof -
  have "map EvtFilterAction (configured_matches plain_json [off_row] fan_event) = [2]"
    unfolding configured_matches_def entry_matches_filter [symmetric] by code_simp
  then show ?thesis by auto
qed

lemma off_info_settings:
  "configured_settings plain_json off_info = Inr
     \<lparr>PEFControl = 2, PEFActionGblControl = 2, PEFStartupDly = 2, PEFAlertStartupDly = 2\<rparr>"
  by code_simp

theorem configured_power_actions_witness:
  "\<exists>c' reads rest. publish_tables plain_json power_off_doc empty_conf = (Inr (), c')
     \<and> trace (snd (eventFilteringProcess (answering_env (c_objs c')) fan_event (initial_sys ())))
       = reads @ [OpenBus, sel_call POWER_OFF_ACTION, chassis_transition_call pwrCtlOff] @ rest"
proof -
  have "fst (publish_tables plain_json power_off_doc empty_conf) = Inr ()" by code_simp
  then obtain c' where c': "publish_tables plain_json power_off_doc empty_conf = (Inr (), c')"
    by (metis prod.collapse)
  let ?E = "answering_env (c_objs c')"
  have serves: "serves ?E (c_objs c')" by (rule answering_serves)
  obtain e where e: "configured_matches plain_json [off_row] fan_event = [] @ e # []" "EvtFilterAction e = 2"
    using off_row_matches by auto
  have "\<exists>reads rest. list_all is_read_call reads
    \<and> trace (snd (eventFilteringProcess ?E fan_event (initial_sys ()))) = trace (initial_sys ()) @ reads
      @ concat (map (\<lambda>e. power_trace e \<lparr>PEFControl = 2, PEFActionGblControl = 2, PEFStartupDly = 2,
          PEFAlertStartupDly = 2\<rparr> (host_on = host_on)) ([] @ [e])) @ rest"
    by (rule configured_power_actions [OF c' _ _ serves answering_answers, where rows = "JArr [off_row]"
          and infos = "JArr [off_info]" and info = off_info and others = "[]" and ?es2.0 = "[]"])
      (use e off_info_settings in \<open>simp_all add: power_off_doc_def empty_conf_def find_object_def\<close>)
  then show ?thesis
    using c' e(2) by (auto simp: power_trace_def log_trace_def allowed_def has_action_def action_constants)
qed

end
