(* ===== verification/ConfiguredAlert.thy ===== *)
theory ConfiguredAlert
  imports ConfiguredAction ConfigDaemon
begin

text \<open>
  From the configuration file to the mail: the alert part of what the event-filtering daemon does for an
  event, in terms of the documents and the LAN settings that the configuration daemon has published, and of
  the sensors that the object mapper lists.
\<close>

section \<open>The sensor of the event\<close>

text \<open>The object mapper lists fewer sensors than there are numbers.\<close>

definition sensors_listed :: "'w env \<Rightarrow> sensor_tree \<Rightarrow> bool" where
  "sensors_listed E tree \<longleftrightarrow>
     bus_answers E \<and> (\<forall>w. fst (e_bus E w mapper_subtree_call) = Reply False (DSubTree tree))
     \<and> distinct (map fst (filterSensors tree)) \<and> length (filterSensors tree) < 765"

text \<open>Nothing is cached, or the sensors of this tree.\<close>

definition sensors_settled :: "sensor_tree \<Rightarrow> 'w sys \<Rightarrow> bool" where
  "sensors_settled tree s \<longleftrightarrow>
     prevSensorUpdatedIndex s = sensorUpdatedIndex s
     \<and> (sensorTreePtr s = None
        \<or> sensorTreePtr s = Some (filterSensors tree)
          \<and> sensorNumMapPtr s = Some (dealt 0 (map fst (filterSensors tree))))"

definition event_sensor :: "sensor_tree \<Rightarrow> EventMsgData \<Rightarrow> string" where
  "event_sensor tree ev =
     (let paths = map fst (filterSensors tree); n = unat (sensorNum ev)
      in if n < 255 \<and> n < length paths then paths ! n else '''')"

lemma number_path_dealt:
  fixes n :: u8
  assumes "length ps < 765"
  shows "number_path (ucast n) 0xff (dealt 0 ps) = (if unat n < 255 \<and> unat n < length ps then ps ! unat n else '''')"
proof -
  have byte: "unat n < 256" using unsigned_less [of n] by simp
  then have n: "unat (ucast n :: u16) = unat n"
    by (simp add: unsigned_ucast_eq unsigned_take_bit_eq take_bit_nat_eq_self)
  have key: "snum k = ucast n \<longleftrightarrow> k = unat n \<and> k < 255" if "k < 765" for k
  proof -
    have "snum k = ucast n \<longleftrightarrow> nth_sensor_number k = unat n"
      using unat_snum [OF that] n by (metis word_unat_eq_iff)
    then show ?thesis using that byte by (auto simp: nth_sensor_number_def)
  qed
  let ?m = "zip (map snum [0..<length ps]) ps"
  have "map_of ?m (ucast n) = (if unat n < 255 \<and> unat n < length ps then Some (ps ! unat n) else None)"
  proof (cases "unat n < 255 \<and> unat n < length ps")
    case True
    have "inj_on snum {0..<length ps}"
    proof (rule linorder_inj_onI')
      fix i j assume "j \<in> {0..<length ps}" and "i < j"
      then show "snum i \<noteq> snum j" using snum_less [of i j] assms by simp
    qed
    then have "distinct (map snum [0..<length ps])" by (simp add: distinct_map)
    moreover have "map snum [0..<length ps] ! unat n = ucast n" using True assms key [of "unat n"] by simp
    ultimately show ?thesis using True map_of_zip_nth [of "map snum [0..<length ps]" ps "unat n"] by simp
  next
    case False
    have "ucast n \<notin> set (map snum [0..<length ps])"
    proof
      assume "ucast n \<in> set (map snum [0..<length ps])"
      then obtain k where "k < length ps" "snum k = ucast n" by auto
      then show False using key [of k] assms False by simp
    qed
    then show ?thesis using False by (auto simp: map_of_zip_is_None)
  qed
  then show ?thesis by (simp add: number_path_def dealt_def osCriticalStop_def)
qed

lemma sensor_found:
  assumes "sensors_listed E tree" and "sensors_settled tree s"
  obtains s' where "getPathFromSensorNumber E (ucast (sensorNum ev)) 0xff s = (Inr (event_sensor tree ev), s')"
    and "sensors_settled tree s'"
proof -
  let ?ft = "filterSensors tree"
  let ?m = "dealt 0 (map fst ?ft)"
  have E: "bus_answers E" "fst (e_bus E w mapper_subtree_call) = Reply False (DSubTree tree)"
    "distinct (map fst ?ft)" "length ?ft < 765" for w
    using assms(1) by (simp_all add: sensors_listed_def)
  have opens: "bus_opens E (world s)" using E(1) by (simp add: bus_opens_def bus_answers_def)
  have "\<exists>s' u. getSensorNumMap E s = (Inr (Some ?m, u), s') \<and> sensors_settled tree s'"
  proof (cases "sensorTreePtr s")
    case None
    have deal: "number_sensors 0 0 ?ft [] = (Inr (), ?m)"
      using number_sensors_dealt [OF E(3), of 0 "[]"] E(4) by (simp add: snum_0)
    have idx: "sensorUpdatedIndex s + 1 \<noteq> prevSensorUpdatedIndex s"
      using assms(2) by (simp add: sensors_settled_def)
    let ?s = "(after_call E mapper_subtree_call (rescanning E s))\<lparr>sensorTreePtr := Some ?ft,
        sensorUpdatedIndex := sensorUpdatedIndex s + 1, sdrStatsTable := []\<rparr>"
    have "getSensorSubtree E s = (Inr (Some ?ft, sensorUpdatedIndex s + 1), ?s)"
      using getSensorSubtree_rescan [OF opens None] E(2) by (simp add: Let_def)
    moreover have "prevSensorUpdatedIndex ?s = prevSensorUpdatedIndex s" by (simp add: rescanning_def)
    ultimately have "getSensorNumMap E s = (Inr (Some ?m, True),
        ?s\<lparr>prevSensorUpdatedIndex := sensorUpdatedIndex s + 1, sensorNumMapPtr := Some ?m\<rparr>)"
      using idx deal by (simp add: getSensorNumMap_def thenE_def)
    then show ?thesis by (auto simp: sensors_settled_def)
  next
    case (Some t)
    then have "t = ?ft" "map_current ?m s" using assms(2) by (simp_all add: sensors_settled_def map_current_def)
    then show ?thesis
      using getSensorNumMap_hit [OF opens] assms(2) by (auto simp: sensors_settled_def)
  qed
  then obtain s' u where "getSensorNumMap E s = (Inr (Some ?m, u), s')" "sensors_settled tree s'" by blast
  moreover have "number_path (ucast (sensorNum ev)) 0xff ?m = event_sensor tree ev"
    using E(4) by (simp add: number_path_dealt event_sensor_def Let_def)
  ultimately show ?thesis using that by (simp add: getPathFromSensorNumber_def lookup_path_def)
qed

section \<open>The mail\<close>

text \<open>The texts of the mail, and the call that hands it to the mail service.\<close>

definition mail_subject :: "string \<Rightarrow> string \<Rightarrow> string \<Rightarrow> string" where
  "mail_subject severity subject host =
     (if subject \<noteq> '''' then subject
      else if severity = ''Ok'' then ''Message from '' @ host
      else ''Alert from '' @ host)"

definition event_mail :: "sensor_tree \<Rightarrow> EventMsgData \<Rightarrow> string \<Rightarrow> string \<Rightarrow> string \<Rightarrow> string \<Rightarrow> ecall" where
  "event_mail tree ev subject message host address =
     (let path = event_sensor tree ev
      in send_mail_call (mail_subject (smtp_severity ev) subject host)
           (message @ crlf @ body_text ev (getSensorNameFromPath path)
              (retrieveSensorTypeFromPath path (sensorType ev)) address))"

text \<open>What the services answer: the address of the user, the host name, and that every mail is accepted.\<close>

definition mail_answers :: "'w env \<Rightarrow> string \<Rightarrow> string \<Rightarrow> string \<Rightarrow> bool" where
  "mail_answers E user address host \<longleftrightarrow>
     (\<forall>w. fst (e_bus E w (mail_id_call user)) = Reply False (DStr address)
        \<and> fst (e_bus E w hostname_call) = Reply False (DStr host)
        \<and> (\<forall>subject body. fst (e_bus E w (send_mail_call subject body)) = Reply False (DU16 0)))"

text \<open>The two configured texts.\<close>

definition text_answers :: "'w env \<Rightarrow> string \<Rightarrow> string \<Rightarrow> bool" where
  "text_answers E subject message \<longleftrightarrow>
     (\<forall>w. fst (e_bus E w subject_call) = Reply False (DStr subject)
        \<and> fst (e_bus E w message_call) = Reply False (DStr message))"

lemma texts_run:
  assumes "mail_answers E user address host" and "text_answers E subject message"
  shows "alert_subject E sev s = (Inr (mail_subject sev subject host), after_call E hostname_call (after_call E subject_call s))"
    and "alert_body E t s = (Inr (message @ crlf @ t), after_call E message_call s)"
  using assms
  by (simp_all add: mail_answers_def text_answers_def alert_subject_def alert_body_def get_string_def mail_subject_def
      bus_call_eq bindE_def catchE_def)

lemma outside_settled:
  "outside_only s s' \<Longrightarrow> sensors_settled tree s' = sensors_settled tree s \<and> retryEnable s' = retryEnable s"
  by (cases s; cases s') (simp add: outside_only_def sensors_settled_def)

lemma sendSmtpAlert_sends:
  assumes "sensors_listed E tree" and "sensors_settled tree s" and "\<not> retryEnable s"
    and "mail_answers E user address host" and "text_answers E subject message" and "address \<noteq> ''''"
  shows "\<exists>reads s'. sendSmtpAlert E ev address s = (Inr 0, s') \<and> list_all is_read_call reads
    \<and> trace s' = trace s @ reads @ [event_mail tree ev subject message host address]"
proof -
  obtain s1 where s1: "getPathFromSensorNumber E (ucast (sensorNum ev)) 0xff s = (Inr (event_sensor tree ev), s1)"
    by (rule sensor_found [OF assms(1,2)])
  have "\<not> retryEnable s1"
    using satD' [OF same_getPathFromSensorNumber(1) s1] assms(3) by (simp add: same_retry_def)
  moreover have "fst (e_bus E w (send_mail_call x b)) = Reply False (DU16 0)" for w x b
    using assms(4) by (simp add: mail_answers_def)
  ultimately have run: "sendSmtpAlert E ev address s = (Inr 0,
      after_call E (event_mail tree ev subject message host address)
        (after_call E message_call (after_call E hostname_call (after_call E subject_call s1))))"
    using s1 assms(6) texts_run [OF assms(4,5)]
    by (simp add: sendSmtpAlert_def Let_def deliver_mail_def event_mail_def bus_call_eq bindE_def catchE_def)
  obtain reads where reads: "trace s1 = trace s @ reads" "list_all is_read_call reads"
    using satD' [OF reads_getPathFromSensorNumber s1] by (auto simp: calls_only_def)
  let ?reads = "reads @ [subject_call, hostname_call, message_call]"
  have "list_all is_read_call ?reads" using reads(2) by simp
  moreover have "trace (snd (sendSmtpAlert E ev address s))
      = trace s @ ?reads @ [event_mail tree ev subject message host address]"
    using run reads(1) by simp
  ultimately show ?thesis using run by (metis snd_conv)
qed

text \<open>The whole mail alert: its log entry, what it reads, the mail, and the event recorded as processed.\<close>

lemma smtp_alert_sends:
  assumes "sensors_listed E tree" and "sensors_settled tree s" and "\<not> retryEnable s"
    and "mail_answers E user address host" and "text_answers E subject message" and "address \<noteq> ''''" and "user \<noteq> ''''"
  shows "\<exists>reads s'. smtp_alert E cfg ev user s = (Inr (), s') \<and> list_all is_read_call reads
    \<and> trace s' = trace s @ log_trace cfg ALERT_ACTION @ reads
        @ [event_mail tree ev subject message host address, set_last_event_call ev]"
proof -
  have E: "bus_answers E" using assms(1) by (simp add: sensors_listed_def)
  obtain s1 where s1: "log_action E cfg ALERT_ACTION s = (Inr (), s1)" "trace s1 = trace s @ log_trace cfg ALERT_ACTION"
    by (rule log_action_answered [OF E])
  have "sat outside_only (log_action E cfg ALERT_ACTION)"
    unfolding log_action_def PEFActionSELLOG_def by (intro outside_sat)
  from satD' [OF this s1(1)] have kept1: "sensors_settled tree s1" "\<not> retryEnable s1"
    using outside_settled assms(2,3) by blast+
  let ?s2 = "after_call E (mail_id_call user) s1"
  have id: "getSmtpMailID E user s1 = (Inr (Some address), ?s2)"
    using assms(4,7)
    by (simp add: getSmtpMailID_def mail_answers_def mail_id_call_def [symmetric] bus_call_eq bindE_def catchE_def)
  have kept2: "sensors_settled tree ?s2" "\<not> retryEnable ?s2"
    using kept1 by (simp_all add: sensors_settled_def)
  obtain reads s3 where s3: "sendSmtpAlert E ev address ?s2 = (Inr 0, s3)" "list_all is_read_call reads"
      "trace s3 = trace ?s2 @ reads @ [event_mail tree ev subject message host address]"
    using sendSmtpAlert_sends [OF assms(1) kept2 assms(4-6)] by blast
  obtain err v where "bus_call E (set_last_event_call ev) s3
      = (Inr (err, v), after_call E (set_last_event_call ev) s3)"
    by (rule bus_answers_call [OF E])
  then have run: "smtp_alert E cfg ev user s = (Inr (), after_call E (set_last_event_call ev) s3)"
    using s1(1) id s3(1) by (simp add: smtp_alert_def)
  let ?reads = "mail_id_call user # reads"
  have "list_all is_read_call ?reads" using s3(2) by (simp add: mail_id_call_def)
  then show ?thesis using run s3(3) s1(2)
    by (intro exI [of _ ?reads] exI [of _ "after_call E (set_last_event_call ev) s3"]) simp
qed

section \<open>The policy\<close>

lemma mail_user: "chosen_destination m k = Inr (Some (3, user)) \<Longrightarrow> user \<noteq> ''''"
  by (auto simp: chosen_destination_def Let_def bindR_eq_Inr split: option.splits if_splits)

lemma mail_policy_sends:
  assumes "sensors_listed E tree" and "sensors_settled tree s" and "\<not> retryEnable s"
    and "mail_answers E user address host" and "text_answers E subject message" and "address \<noteq> ''''"
    and "AlertPolicyGroupNum row \<noteq> 0" and "getInterfaceNameForChannel (ChannelNo row) ethMap = iface" and "iface \<noteq> ''''"
    and "\<And>w. fst (e_bus E w (lan_params_call iface)) = Reply False (DProps lan)"
    and "chosen_destination lan (unat (DestinationSel row)) = Inr (Some (3, user))"
  shows "\<exists>reads s'. alert_policy E cfg ethMap ev row s = (Inr (), s') \<and> list_all is_read_call reads
    \<and> trace s' = trace s @ [lan_params_call iface] @ log_trace cfg ALERT_ACTION @ reads
        @ [event_mail tree ev subject message host address, set_last_event_call ev]"
proof -
  let ?s1 = "after_call E (lan_params_call iface) s"
  have dest: "select_destination E ethMap row s = (Inr (Some (3, user)), ?s1)"
    using assms(8-11)
    by (simp add: select_destination_def Let_def bus_call_Reply [where err = False] bindE_def catchE_def)
  have kept: "sensors_settled tree ?s1" "\<not> retryEnable ?s1"
    using assms(2,3) by (simp_all add: sensors_settled_def)
  obtain reads s' where s': "smtp_alert E cfg ev user ?s1 = (Inr (), s')" "list_all is_read_call reads"
      "trace s' = trace ?s1 @ log_trace cfg ALERT_ACTION @ reads
        @ [event_mail tree ev subject message host address, set_last_event_call ev]"
    using smtp_alert_sends [OF assms(1) kept assms(4-6) mail_user [OF assms(11)]] by blast
  have "alert_policy E cfg ethMap ev row s = (Inr (), s')"
    using dest s'(1) assms(7) by (simp add: alert_policy_def whenE_def)
  then show ?thesis using s'(2,3) by auto
qed

section \<open>The published objects\<close>

text \<open>A freshly started configuration daemon has published the tables of the document and the LAN settings.\<close>

definition started :: "'v env \<Rightarrow> json \<Rightarrow> dobject list \<Rightarrow> bool" where
  "started E0 data objs \<longleftrightarrow>
     (\<exists>c c1 c2. c_objs c = service_objects \<and> publish_tables (e_json E0) data c = (Inr (), c1)
        \<and> publish_lan E0 c1 = (Inr (), c2) \<and> objs = c_objs c2)"

text \<open>\<open>Get\<close> gives a property of an object.\<close>

definition serves_properties :: "'w env \<Rightarrow> dobject list \<Rightarrow> bool" where
  "serves_properties E objs \<longleftrightarrow>
     (\<forall>w path iface o' name v. find_object path iface objs = Some o' \<longrightarrow> map_of (o_props o') name = Some v \<longrightarrow>
        fst (e_bus E w (get_property pefBus path iface name)) = Reply False v)"

definition text_field :: "json \<Rightarrow> string \<Rightarrow> exn + string" where
  "text_field j key = bindR (json_const_field j key) json_get_string"

lemma texts_published:
  assumes "conf_info_object J info = Inr o'" and "text_field info ''Subject'' = Inr subject"
    and "text_field info ''Message'' = Inr message"
  shows "map_of (o_props o') ''Subject'' = Some (DStr subject)" and "map_of (o_props o') ''Message'' = Some (DStr message)"
proof -
  obtain bytes ids texts where o': "map_result (\<lambda>key. u8_prop J info key key)
      [''Version'', ''ActionSupported'', ''MaxEventTblEntry'', ''PEFControl'', ''PEFActionGblControl'',
        ''PEFStartupDly'', ''PEFAlertStartupDly''] = Inr bytes"
    "map_result (u16_prop J info) [''LastBMCProcessedEventID'', ''LastSWProcessedEventID''] = Inr ids"
    "map_result (str_prop info) [''Subject'', ''Message''] = Inr texts" "o_props o' = bytes @ ids @ texts"
    using assms(1) unfolding conf_info_object_def bindR_eq_Inr by auto
  have "map fst bytes = [''Version'', ''ActionSupported'', ''MaxEventTblEntry'', ''PEFControl'', ''PEFActionGblControl'',
        ''PEFStartupDly'', ''PEFAlertStartupDly'']"
    and "map fst ids = [''LastBMCProcessedEventID'', ''LastSWProcessedEventID'']"
    using o'(1,2) by (auto simp: u8_prop_def u16_prop_def bindR_eq_Inr)
  then have none: "map_of bytes k = None" "map_of ids k = None" if "k = ''Subject'' \<or> k = ''Message''" for k
    using that by (auto simp: map_of_eq_None_iff simp flip: set_map)
  have "texts = [(''Subject'', DStr subject), (''Message'', DStr message)]"
    using o'(3) assms(2,3) by (auto simp: str_prop_def text_field_def bindR_eq_Inr)
  then show "map_of (o_props o') ''Subject'' = Some (DStr subject)" and "map_of (o_props o') ''Message'' = Some (DStr message)"
    using o'(4) none by (simp_all add: map_add_def)
qed

lemma lan_objects_paths: "lan_object J iface cfg = Inr (o', types) \<Longrightarrow> o_path o' = lan_path iface \<and> o_iface o' = pefLanParamIntf"
  by (auto simp: lan_object_def Let_def bindR_eq_Inr split: if_splits sum.splits prod.splits)

lemma adds_on_sys: "sat (adds_objects P) (on_sys m)"
  by (auto simp: sat_def adds_objects_def on_sys_def split: prod.split)

lemma adds_publish_lan:
  fixes E :: "'w env"
  shows "sat (adds_objects (\<lambda>o'. \<exists>iface. o_path o' = lan_path iface \<and> o_iface o' = pefLanParamIntf)) (publish_lan E)"
proof -
  let ?P = "\<lambda>o'. \<exists>iface. o_path o' = lan_path iface \<and> o_iface o' = pefLanParamIntf"
  have types: "sat (adds_objects ?P) (modifyE (\<lambda>c :: 'w conf. c\<lparr>c_types := f c\<rparr>))" for f :: "'w conf \<Rightarrow> _"
    by (simp add: sat_def adds_objects_def)
  have step: "sat (adds_objects ?P) (bindE (liftE (lan_object J iface cfg)) (\<lambda>(o', types).
      thenE (case types of None \<Rightarrow> ret () | Some ts \<Rightarrow> modifyE (\<lambda>c. c\<lparr>c_types := (c_types c)(iface := ts)\<rparr>))
        (publish o')) :: ('w, unit) cact)" for J iface cfg
  proof (cases "lan_object J iface cfg")
    case (Inr p)
    obtain o' ts where p: "p = (o', ts)" by (cases p)
    have "?P o'" using lan_objects_paths Inr p by blast
    then have "sat (adds_objects ?P)
        (thenE (case ts of None \<Rightarrow> ret () | Some ts \<Rightarrow> modifyE (\<lambda>c. c\<lparr>c_types := (c_types c)(iface := ts)\<rparr>))
          (publish o') :: ('w, unit) cact)"
      by (intro adds.sat_then sat_option adds.sat_ret types adds_publish)
    then show ?thesis by (simp only: Inr p bindE_liftE_Inr prod.case)
  qed (simp add: adds.sat_throw)
  have interface: "sat (adds_objects ?P) (publish_interface E m iface)" for m iface
    unfolding publish_interface_def
    by (rule step adds_on_sys adds.sat_ret adds.sat_lift adds.sat_catch adds.sat_bind)+
  show ?thesis
    unfolding publish_lan_def Let_def by (rule interface adds_on_sys adds.sat_for adds.sat_bind)+
qed

text \<open>The LAN objects do not disturb the tables.\<close>

lemma serves_before_lan:
  assumes "serves E (objs @ lans)" and "list_all (\<lambda>o'. \<exists>iface. o_path o' = lan_path iface \<and> o_iface o' = pefLanParamIntf) lans"
  shows "serves E objs"
proof -
  have "\<not> below eventFilterTableRoot o'" "\<not> below alertPolicyTableObj o'" if "o' \<in> set lans" for o'
    using assms(2) that
    by (auto simp: list_all_iff below_def starts_with_def lan_path_def pefObj_def eventFilterTableRoot_def
        alertPolicyTableObj_def)
  then have "filter (below p) (objs @ lans) = filter (below p) objs"
    if "p \<in> {eventFilterTableRoot, alertPolicyTableObj}" for p
    using that by (auto simp: filter_empty_conv)
  moreover have "find_object path iface (objs @ lans) = Some o'" if "find_object path iface objs = Some o'" for path iface o'
    using that by (simp add: find_object_append)
  ultimately show ?thesis using assms(1) unfolding serves_def by (simp add: Let_def)
qed

text \<open>What the event-filtering daemon finds on the bus of a started configuration daemon.\<close>

lemma started_bus:
  fixes E0 :: "'v env"
  assumes "started E0 data objs" and "serves E objs"
  obtains c c1 :: "'v conf" and lans where "publish_tables (e_json E0) data c = (Inr (), c1)"
    and "filter (below eventFilterTableRoot) (c_objs c) = []" and "filter (below alertPolicyTableObj) (c_objs c) = []"
    and "find_object pefObj pefConfInfoIntf (c_objs c) = None"
    and "serves E (c_objs c1)" and "objs = c_objs c1 @ lans"
proof -
  obtain c c1 c2 :: "'v conf" where c: "c_objs c = service_objects" "publish_tables (e_json E0) data c = (Inr (), c1)"
      "publish_lan E0 c1 = (Inr (), c2)" "objs = c_objs c2"
    using assms(1) unfolding started_def by blast
  obtain lans where lans: "objs = c_objs c1 @ lans"
      "list_all (\<lambda>o'. \<exists>iface. o_path o' = lan_path iface \<and> o_iface o' = pefLanParamIntf) lans"
    using satD' [OF adds_publish_lan c(3)] c(4) by (auto simp: adds_objects_def)
  have "filter (below eventFilterTableRoot) service_objects = []" "filter (below alertPolicyTableObj) service_objects = []"
    "find_object pefObj pefConfInfoIntf service_objects = None"
    by code_simp+
  then show ?thesis using that [OF c(2), of lans] serves_before_lan [of E "c_objs c1" lans] lans assms(2) c(1)
    by simp
qed

section \<open>Before the mail\<close>

lemma outside_reads:
  "sat outside_only (matched_entries E ev)" "sat outside_only (getEthChannelInterfaceMap E)"
  "sat outside_only (getPefConfInfo E)" "sat outside_only (checkAlertPoicyTbl E no)"
  unfolding matched_entries_def filter_list_def getImmediateChildObjectPathCount_def getEthChannelInterfaceMap_def
    getPefConfInfo_def checkAlertPoicyTbl_def policy_object_def
  by (intro outside_sat)+

definition ethernet_channels :: "eth_channel_map \<Rightarrow> eth_channel_map" where
  "ethernet_channels channels = filter (\<lambda>(channel, iface). starts_with ''eth'' iface) channels"

lemma channel_map_answered:
  assumes "\<And>w. fst (e_bus E w channel_map_call) = Reply False (DChanMap channels)"
  shows "fst (getEthChannelInterfaceMap E s) = Inr (ethernet_channels channels)"
  using assms
  by (simp add: getEthChannelInterfaceMap_def channel_map_call_def [symmetric] ethernet_channels_def
      bus_call_Reply [where err = False] bindE_def catchE_def)

lemma policy_group: "configured_policies J rows no = p # ps \<Longrightarrow> AlertPolicyGroupNum p = no"
  by (metis (mono_tags, lifting) configured_policies_def filter_eq_ConsD)

section \<open>Properties\<close>

text \<open>C5. A configured mail is sent: when the configuration daemon has started from a document and the bus
  serves its objects, when the first matching row whose alert is allowed names a group whose first enabled
  policy selects a mail destination, and when the services answer, the event-filtering daemon carries
  out the power actions before, then logs the alert, hands to the mail service the one mail with the
  configured subject and message and the description of the event and its sensor, and records the event as processed.\<close>

theorem configured_mail_sent:
  fixes E0 :: "'v env"
  assumes "started E0 data objs" and "serves E objs" and "serves_properties E objs"
    and "json_field data ''PEFConfInfo'' = Inr infos" and "json_items infos = info # others"
    and "configured_settings (e_json E0) info = Inr cfg"
    and "text_field info ''Subject'' = Inr subject" and "text_field info ''Message'' = Inr message"
    and "json_field data ''EventFilterTable'' = Inr rows"
    and "configured_matches (e_json E0) (json_items rows) ev = es1 @ e # es2"
    and "list_all (\<lambda>e. \<not> allowed e cfg ALERT_ACTION) es1" and "allowed e cfg ALERT_ACTION"
    and "json_field data ''AlertPolicyTable'' = Inr policies" and "AlertPolicyNum e AND 0x0F \<noteq> 0"
    and "configured_policies (e_json E0) (json_items policies) (AlertPolicyNum e AND 0x0F) = row # rest"
    and "\<And>w. fst (e_bus E w channel_map_call) = Reply False (DChanMap channels)"
    and "getInterfaceNameForChannel (ChannelNo row) (ethernet_channels channels) = iface" and "iface \<noteq> ''''"
    and "find_object (lan_path iface) pefLanParamIntf objs = Some lan"
    and "chosen_destination (o_props lan) (unat (DestinationSel row)) = Inr (Some (3, user))"
    and "mail_answers E user address host" and "address \<noteq> ''''"
    and "\<And>w. fst (e_bus E w power_state_call) = Reply False (DStr st)"
    and "sensors_listed E tree" and "sensors_settled tree s" and "\<not> retryEnable s"
  shows "\<exists>reads1 reads2 reads3 later. list_all is_read_call (reads1 @ reads2 @ reads3)
    \<and> trace (snd (eventFilteringProcess E ev s)) = trace s @ reads1
      @ concat (map (\<lambda>e. power_trace e cfg (st = host_on)) (es1 @ [e]))
      @ reads2 @ log_trace cfg ALERT_ACTION @ reads3
      @ [event_mail tree ev subject message host address, set_last_event_call ev] @ later"
proof -
  let ?J = "e_json E0"
  let ?eth = "ethernet_channels channels"
  let ?powers = "concat (map (\<lambda>e. power_trace e cfg (st = host_on)) (es1 @ [e]))"
  have answers: "bus_answers E" using assms(24) by (simp add: sensors_listed_def)
  obtain c c1 :: "'v conf" and lans where c: "publish_tables ?J data c = (Inr (), c1)"
    "filter (below eventFilterTableRoot) (c_objs c) = []" "filter (below alertPolicyTableObj) (c_objs c) = []"
    "find_object pefObj pefConfInfoIntf (c_objs c) = None" "serves E (c_objs c1)" "objs = c_objs c1 @ lans"
    by (rule started_bus [OF assms(1,2)])
  obtain o' where o': "conf_info_object ?J info = Inr o'" "find_object pefObj pefConfInfoIntf (c_objs c1) = Some o'"
    by (rule settings_found [OF c(1,4) assms(4,5)])
  then have "find_object pefObj pefConfInfoIntf objs = Some o'" using c(6) by (simp add: find_object_append)
  then have texts: "text_answers E subject message"
    using assms(3) texts_published [OF o'(1) assms(7,8)]
    unfolding text_answers_def subject_call_def message_call_def serves_properties_def by blast
  obtain s1 where s1: "matched_entries E ev s = (Inr (es1 @ e # es2), s1)"
    using published_matches [OF c(1,2,5), of ev s] assms(9,10) by (metis prod.collapse sum.inject(2))
  obtain s2 where s2: "getEthChannelInterfaceMap E s1 = (Inr ?eth, s2)"
    using run_fst [where m = "getEthChannelInterfaceMap E" and s = s1] channel_map_answered [OF assms(16)] by blast
  obtain s3 where s3: "getPefConfInfo E s2 = (Inr (Some cfg), s3)"
    using run_fst [where m = "getPefConfInfo E" and s = s2] settings_served [OF c(5) o'(2,1) assms(6)] by blast
  obtain s4 where s4: "performPefAction E (es1 @ e # es2) ev ?eth cfg s3
      = thenE (alert_action E e ev ?eth cfg) (performPefAction E es2 ev ?eth cfg) s4"
      "trace s4 = trace s3 @ ?powers" "outside_only s3 s4"
    using power_actions_first [OF answers assms(23,11)] by blast
  let ?no = "AlertPolicyNum e AND 0x0F"
  have "0 < uint ?no" using assms(14) by (metis unsigned_eq_0_iff uint_ge_0 order_le_less)
  then have pos: "\<not> uint ?no \<le> 0" by (simp only: not_le)
  have "fst (checkAlertPoicyTbl E (uint ?no) s4) = Inr (row # rest)"
    using published_policies_found [OF c(1,3,5), of "uint ?no" s4] assms(13,15)
    by (simp only: pos if_False word_of_int_uint) auto
  then obtain s5 where s5: "checkAlertPoicyTbl E (uint ?no) s4 = (Inr (row # rest), s5)"
    by (rule exE [OF run_fst])
  have "outside_only s s5"
    using satD' [OF outside_reads(1) s1] satD' [OF outside_reads(2) s2] satD' [OF outside_reads(3) s3] s4(3)
      satD' [OF outside_reads(4) s5] by (meson outside.trans)
  then have ready: "sensors_settled tree s5" "\<not> retryEnable s5" using outside_settled assms(25,26) by blast+
  have "fst (e_bus E w (lan_params_call iface)) = Reply False (DProps (o_props lan))" for w
    using servesD [OF assms(2,19)]
    by (simp add: lan_params_call_def lanObjPath_def lan_path_def pefObj_def pefLanParamIntf_def)
  then obtain reads3 s6 where s6: "alert_policy E cfg ?eth ev row s5 = (Inr (), s6)" "list_all is_read_call reads3"
      "trace s6 = trace s5 @ [lan_params_call iface] @ log_trace cfg ALERT_ACTION @ reads3
        @ [event_mail tree ev subject message host address, set_last_event_call ev]"
    using mail_policy_sends [OF assms(24) ready assms(21) texts assms(22) _ assms(17,18) _ assms(20)]
      policy_group [OF assms(15)] assms(14) by metis
  let ?later = "thenE (forE rest (alert_policy E cfg ?eth ev)) (performPefAction E es2 ev ?eth cfg)"
  have "eventFilteringProcess E ev s = ?later s6"
    using s1 s2 s3 s4(1) s5 s6(1) assms(12)
    by (simp add: eventFilteringProcess_def alert_action_def thenE_def bindE_def)
  moreover have "sat (calls_only (\<lambda>_. True)) ?later"
    by (intro calls_sat sat_calls_mono [OF calls_alert_policy [OF assms(12)]] sat_calls_mono [OF calls_performPefAction])
      simp_all
  from satD [OF this, of s6] obtain later where "trace (snd (?later s6)) = trace s6 @ later"
    by (auto simp: calls_only_def)
  moreover have "calls_only is_read_call s s3" "calls_only is_read_call s4 s5"
    using satD' [OF reads_matched_entries s1] satD' [OF reads_getEthChannelInterfaceMap s2]
      satD' [OF reads_getPefConfInfo s3] satD' [OF reads_checkAlertPoicyTbl s5] by (blast intro: calls.trans)+
  then obtain reads1 reads2 where "trace s3 = trace s @ reads1" "list_all is_read_call reads1"
      "trace s5 = trace s4 @ reads2" "list_all is_read_call reads2"
    by (auto simp: calls_only_def)
  ultimately show ?thesis
    using s4(2) s6(2,3)
    by (intro exI [of _ reads1] exI [of _ "reads2 @ [lan_params_call iface]"] exI [of _ reads3] exI [of _ later])
      (simp add: lan_params_call_def)
qed

text \<open>A document whose one row alerts the group 1, whose one policy uses the first destination of the channel 1, and
  the LAN settings that make this destination the mail of a user.\<close>

definition alert_info :: json where
  "alert_info = json_object (map (\<lambda>k. (k, JInt 3))
     [''Version'', ''ActionSupported'', ''MaxEventTblEntry'', ''PEFControl'', ''PEFActionGblControl'',
      ''PEFStartupDly'', ''PEFAlertStartupDly'', ''LastBMCProcessedEventID'', ''LastSWProcessedEventID'']
     @ [(''Subject'', JStr ''Rack 7''), (''Message'', JStr ''Please check'')])"

definition alert_row :: json where
  "alert_row = json_object (map (\<lambda>k. (k, JInt 255))
     [''GenIDByte1'', ''GenIDByte2'', ''SensorType'', ''SensorNum'', ''EventTrigger'']
     @ [(''FilterConfig'', JInt 128), (''EventData1OffsetMask'', JInt 65535), (''EvtFilterAction'', JInt 1),
        (''AlertPolicyNum'', JInt 1)])"

definition alert_policy_row :: json where
  "alert_policy_row = json_object
     [(''AlertPolicyGroupNum'', JInt 1), (''EnableAlert'', JInt 1), (''ChannelNo'', JInt 1), (''DestinationSel'', JInt 1)]"

definition alert_doc :: json where
  "alert_doc = JObj [(''AlertPolicyTable'', JArr [alert_policy_row]), (''EventFilterTable'', JArr [alert_row]),
     (''PEFConfInfo'', JArr [alert_info])]"

definition mail_lan_doc :: json where
  "mail_lan_doc = JObj [(''Interfaces'', JObj [(''eth0'', JObj [(''Config'', json_object
     [(''IPv4'', JArr []), (''IPv6'', JArr []), (''UserName'', JArr [JStr ''ops'']), (''Type'', JArr [JInt 3]),
      (''Timeout'', JArr []), (''Retries'', JArr []), (''AddressType'', JArr []), (''NumberofDestinations'', JInt 2)])])])]"

definition lan_start :: "unit conf" where
  "lan_start = empty_conf\<lparr>c_sys := (initial_sys ())\<lparr>files := [pefLanParamConfFile \<mapsto> ''old'']\<rparr>, c_objs := service_objects\<rparr>"

definition mail_objects :: "dobject list" where
  "mail_objects =
     c_objs (snd (thenE (publish_tables (e_json (doc_env mail_lan_doc JNull)) alert_doc)
       (publish_lan (doc_env mail_lan_doc JNull)) lan_start))"

text \<open>Six fans, and a bus that serves the objects and answers for the services.\<close>

definition fan_tree :: sensor_tree where
  "fan_tree = map (\<lambda>n. (''/xyz/openbmc_project/sensors/fan_tach/'' @ n, [(''fans'', [])]))
     [''Fan0'', ''Fan1'', ''Fan2'', ''Fan3'', ''Fan4'', ''Fan5'']"

definition mail_bus :: "dobject list \<Rightarrow> ecall \<Rightarrow> breply" where
  "mail_bus objs c =
     (if c = power_state_call then Reply False (DStr host_on)
      else if c = channel_map_call then Reply False (DChanMap [(1, ''eth0'')])
      else if c = mapper_subtree_call then Reply False (DSubTree fan_tree)
      else if c = mail_id_call ''ops'' then Reply False (DStr ''ops@site'')
      else if c = hostname_call then Reply False (DStr ''bmc'')
      else if c \<in> {subtree_paths_call eventFilterTableRoot, subtree_paths_call alertPolicyTableObj} then objects_bus objs c
      else case c of
        Method svc path intf member args \<Rightarrow>
          (if member = sendMailMethod then Reply False (DU16 0)
           else if member = METHOD_GET_ALL then
             (case objects_bus objs c of BusError \<Rightarrow> Reply True (DBool False) | Reply err v \<Rightarrow> Reply err v)
           else case args of
               [DStr iface, DStr name] \<Rightarrow>
                 (case find_object path iface objs of
                    None \<Rightarrow> Reply True (DBool False)
                  | Some o' \<Rightarrow> (case map_of (o_props o') name of None \<Rightarrow> Reply True (DBool False) | Some v \<Rightarrow> Reply False v))
             | _ \<Rightarrow> Reply False (DBool True))
      | _ \<Rightarrow> Reply False (DBool True))"

lemmas call_names =
  get_property_def get_all_properties_def subtree_paths_call_def power_state_call_def channel_map_call_def
  mapper_subtree_call_def mail_id_call_def hostname_call_def send_mail_call_def METHOD_GET_def METHOD_GET_ALL_def
  getMapMethod_def sendMailMethod_def pefBus_def pwrService_def userManagerBus_def networkService_def MAPPER_BUSNAME_def
  PROP_INTF_def

lemma mail_bus_fixed:
  "mail_bus objs power_state_call = Reply False (DStr host_on)"
  "mail_bus objs channel_map_call = Reply False (DChanMap [(1, ''eth0'')])"
  "mail_bus objs mapper_subtree_call = Reply False (DSubTree fan_tree)"
  "mail_bus objs (mail_id_call ''ops'') = Reply False (DStr ''ops@site'')"
  "mail_bus objs hostname_call = Reply False (DStr ''bmc'')"
  "mail_bus objs (send_mail_call a b) = Reply False (DU16 0)"
  by (simp_all add: mail_bus_def call_names)

lemma mail_bus_answers: "bus_answers (table_env (mail_bus objs))"
  by (auto simp: bus_answers_def mail_bus_def objects_bus_def subtree_paths_call_def METHOD_GET_ALL_def
      split: ecall.split breply.split list.split dval.split option.split)

lemma mail_bus_serves: "serves (table_env (mail_bus objs)) objs"
  by (simp add: serves_def mail_bus_def objects_bus_def call_names Let_def)

lemma mail_bus_properties: "serves_properties (table_env (mail_bus objs)) objs"
  by (simp add: serves_properties_def mail_bus_def call_names)

lemma fans_listed: "sensors_listed (table_env (mail_bus objs)) fan_tree"
proof -
  have "distinct (map fst (filterSensors fan_tree))" "length (filterSensors fan_tree) < 765" by code_simp+
  then show ?thesis by (simp add: sensors_listed_def mail_bus_answers mail_bus_fixed)
qed

lemma mail_start: "started (doc_env mail_lan_doc JNull) alert_doc mail_objects"
proof -
  let ?E = "doc_env mail_lan_doc JNull"
  let ?run = "thenE (publish_tables (e_json ?E) alert_doc) (publish_lan ?E)"
  have "fst (?run lan_start) = Inr ()" by code_simp
  then obtain c2 where c2: "?run lan_start = (Inr (), c2)" by (rule exE [OF run_fst])
  then obtain c1 where "publish_tables (e_json ?E) alert_doc lan_start = (Inr (), c1)" "publish_lan ?E c1 = (Inr (), c2)"
    using thenE_InrD [OF c2] by auto
  moreover have "c_objs lan_start = service_objects" by (simp add: lan_start_def)
  moreover have "mail_objects = c_objs c2" using c2 by (simp add: mail_objects_def)
  ultimately show ?thesis unfolding started_def by blast
qed

lemma mail_destination:
  "\<exists>lan. find_object (lan_path ''eth0'') pefLanParamIntf mail_objects = Some lan
     \<and> chosen_destination (o_props lan) 1 = Inr (Some (3, ''ops''))"
proof -
  have "map_option (\<lambda>o'. chosen_destination (o_props o') 1) (find_object (lan_path ''eth0'') pefLanParamIntf mail_objects)
      = Some (Inr (Some (3, ''ops'')))"
    by code_simp
  then show ?thesis by auto
qed

lemma alert_matches:
  "\<exists>e. configured_matches (e_json (doc_env mail_lan_doc JNull)) [alert_row] fan_event = [e]
     \<and> EvtFilterAction e = 1 \<and> AlertPolicyNum e = 1"
proof -
  have "map (\<lambda>e. (EvtFilterAction e, AlertPolicyNum e))
      (configured_matches (e_json (doc_env mail_lan_doc JNull)) [alert_row] fan_event) = [(1, 1)]"
    unfolding configured_matches_def entry_matches_filter [symmetric] by code_simp
  then show ?thesis by auto
qed

lemma alert_policies:
  "\<exists>row. configured_policies (e_json (doc_env mail_lan_doc JNull)) [alert_policy_row] 1 = [row]
     \<and> ChannelNo row = 1 \<and> DestinationSel row = 1"
proof -
  have "map (\<lambda>p. (ChannelNo p, DestinationSel p))
      (configured_policies (e_json (doc_env mail_lan_doc JNull)) [alert_policy_row] 1) = [(1, 1)]"
    by code_simp
  then show ?thesis by auto
qed

definition alert_cfg :: pefConfInfo where
  "alert_cfg = \<lparr>PEFControl = 3, PEFActionGblControl = 3, PEFStartupDly = 3, PEFAlertStartupDly = 3\<rparr>"

lemma alert_settings:
  "configured_settings (e_json (doc_env mail_lan_doc JNull)) alert_info = Inr alert_cfg"
  "text_field alert_info ''Subject'' = Inr ''Rack 7''" "text_field alert_info ''Message'' = Inr ''Please check''"
  by code_simp+

theorem configured_mail_sent_witness:
  "\<exists>reads1 reads3 later. trace (snd (eventFilteringProcess (table_env (mail_bus mail_objects)) fan_event (initial_sys ())))
     = reads1 @ [OpenBus, sel_call ALERT_ACTION] @ reads3
       @ [event_mail fan_tree fan_event ''Rack 7'' ''Please check'' ''bmc'' ''ops@site'', set_last_event_call fan_event]
       @ later"
proof -
  let ?E = "table_env (mail_bus mail_objects)"
  let ?J = "e_json (doc_env mail_lan_doc JNull)"
  obtain e where e: "configured_matches ?J [alert_row] fan_event = [e]" "EvtFilterAction e = 1" "AlertPolicyNum e = 1"
    using alert_matches by blast
  obtain row where row: "configured_policies ?J [alert_policy_row] 1 = [row]" "ChannelNo row = 1" "DestinationSel row = 1"
    using alert_policies by blast
  obtain lan where lan: "find_object (lan_path ''eth0'') pefLanParamIntf mail_objects = Some lan"
      "chosen_destination (o_props lan) 1 = Inr (Some (3, ''ops''))"
    using mail_destination by blast
  have may: "allowed e alert_cfg ALERT_ACTION"
    using e(2) by (simp add: allowed_def has_action_def alert_cfg_def ALERT_ACTION_def)
  have quiet: "power_trace e alert_cfg on = []" for on
    using e(2) by (simp add: power_trace_def allowed_def has_action_def alert_cfg_def action_constants)
  have mail: "mail_answers ?E ''ops'' ''ops@site'' ''bmc''" by (simp add: mail_answers_def mail_bus_fixed)
  have fresh: "sensors_settled fan_tree (initial_sys ())" by (simp add: sensors_settled_def)
  have "\<exists>reads1 reads2 reads3 later. list_all is_read_call (reads1 @ reads2 @ reads3)
    \<and> trace (snd (eventFilteringProcess ?E fan_event (initial_sys ()))) = trace (initial_sys ()) @ reads1
      @ concat (map (\<lambda>e. power_trace e alert_cfg (host_on = host_on)) ([] @ [e]))
      @ reads2 @ log_trace alert_cfg ALERT_ACTION @ reads3
      @ [event_mail fan_tree fan_event ''Rack 7'' ''Please check'' ''bmc'' ''ops@site'', set_last_event_call fan_event]
      @ later"
    by (rule configured_mail_sent [OF mail_start mail_bus_serves mail_bus_properties, where infos = "JArr [alert_info]"
          and info = alert_info and others = "[]" and rows = "JArr [alert_row]" and policies = "JArr [alert_policy_row]"
          and row = row and rest = "[]" and channels = "[(1, ''eth0'')]" and iface = "''eth0''" and lan = lan
          and user = "''ops''" and ?es2.0 = "[]"])
      (use e row lan may mail fresh fans_listed alert_settings in
        \<open>simp_all add: alert_doc_def mail_bus_fixed ethernet_channels_def starts_with_def\<close>)
  then show ?thesis
    by (simp add: quiet log_trace_def alert_cfg_def) (metis append.assoc)
qed

end
