(* ===== verification/StaticSensors.thy ===== *)
theory StaticSensors
  imports SensorMap
begin

text \<open>
  The numbering of sensors in the build with \<open>FEATURE_STATIC_SENSOR_NUMBER\<close> (\<open>getSensorNumMap\<close> in
  \<open>include/sdrutils.hpp\<close>): each sensor brings its own number in the property \<open>SensorNumber\<close> of one of its
  interfaces; sensors without a usable number, and later ones with a number that is taken, are left out.
  The bus is opened a second time, and an exception of \<open>new_default_system\<close> leaves an empty map behind.
\<close>

section \<open>The number of a sensor\<close>

definition sensorNumberInterfaces :: "string list" where
  "sensorNumberInterfaces =
     [''xyz.openbmc_project.Sensor.Value'', ''xyz.openbmc_project.Sensor.EventOnly'',
      ''xyz.openbmc_project.Sensor.State'']"

text \<open>The loops over interfaces and services, up to the first that has the property.\<close>

fun probe_interfaces ::
  "'w env \<Rightarrow> string \<Rightarrow> string \<Rightarrow> string list \<Rightarrow> string list \<Rightarrow> ('w, (string \<times> dval) list option) act" where
  "probe_interfaces E path service offered [] = ret None"
| "probe_interfaces E path service offered (interfaceName # ifaces) =
     (if interfaceName \<notin> set offered then probe_interfaces E path service offered ifaces
      else
        bindE
          (catchE any_exception
            (bindE (bus_call E (get_all_properties service path interfaceName)) (\<lambda>(err, v).
             bindE (liftE (read_props v)) (\<lambda>tempProperties.
               ret (if map_of tempProperties ''SensorNumber'' \<noteq> None then Some tempProperties else None))))
            (ret None))
          (\<lambda>found. case found of
             Some properties \<Rightarrow> ret (Some properties)
           | None \<Rightarrow> probe_interfaces E path service offered ifaces))"

fun probe_services ::
  "'w env \<Rightarrow> string \<Rightarrow> (string \<times> string list) list \<Rightarrow> ('w, (string \<times> dval) list option) act" where
  "probe_services E path [] = ret None"
| "probe_services E path ((service, offered) # services) =
     bindE (probe_interfaces E path service offered sensorNumberInterfaces) (\<lambda>found. case found of
       Some properties \<Rightarrow> ret (Some properties)
     | None \<Rightarrow> probe_services E path services)"

fun number_value :: "dval \<Rightarrow> u16 option" where
  "number_value (DU8 value) = Some (ucast value)"
| "number_value (DU16 value) = Some value"
| "number_value _ = None"

definition lun3MaxSensorNum :: u16 where
  "lun3MaxSensorNum = lun3Sensor0 + maxSensorsPerLUN - 1"

definition out_of_range_number :: "u16 \<Rightarrow> bool" where
  "out_of_range_number sensorNum \<longleftrightarrow>
     (let sensorLun = (ucast (drop_bit 8 sensorNum) :: u8); sensorLowByte = (ucast sensorNum :: u8)
      in sensorNum = invalidSensorNumber \<or> sensorLowByte = reservedSensorNumber \<or> sensorLun = 2
         \<or> sensorNum > lun3MaxSensorNum)"

text \<open>The rest of the loop body, when the properties of the sensor have been found.\<close>

definition static_insert :: "string \<Rightarrow> (string \<times> dval) list \<Rightarrow> sensor_num_map \<Rightarrow> sensor_num_map" where
  "static_insert path properties m =
     (case map_of properties ''SensorNumber'' of
        None \<Rightarrow> m
      | Some v \<Rightarrow>
          (case number_value v of
             None \<Rightarrow> m
           | Some sensorNum \<Rightarrow>
               (if out_of_range_number sensorNum then m
                else if sensorNum \<in> fst ` set m then m
                else bimap_insert sensorNum path m)))"

fun number_static :: "'w env \<Rightarrow> sensor_tree \<Rightarrow> sensor_num_map \<Rightarrow> ('w, sensor_num_map) act" where
  "number_static E [] m = ret m"
| "number_static E ((path, services) # tree) m =
     (if services = [] then number_static E tree m
      else bindE (probe_services E path services) (\<lambda>found. case found of
             None \<Rightarrow> number_static E tree m
           | Some properties \<Rightarrow> number_static E tree (static_insert path properties m)))"

definition getSensorNumMapStatic :: "'w env \<Rightarrow> ('w, sensor_num_map option \<times> bool) act" where
  "getSensorNumMapStatic E =
     bindE (getSensorSubtree E) (\<lambda>(sensorTree, curSensorUpdatedIndex).
       case sensorTree of
         None \<Rightarrow> ret (None, False)
       | Some tree \<Rightarrow>
           bindE (getsE (\<lambda>s. (prevSensorUpdatedIndex s, sensorNumMapPtr s))) (\<lambda>(prev, cached).
           if curSensorUpdatedIndex = prev \<and> cached \<noteq> None then ret (cached, False)
           else
             thenE (modifyE (\<lambda>s. s\<lparr>prevSensorUpdatedIndex := curSensorUpdatedIndex,
                                  sensorNumMapPtr := Some []\<rparr>))
               (thenE (bus_call E OpenSystemBus)
                 (bindE (number_static E tree []) (\<lambda>m.
                    thenE (modifyE (\<lambda>s. s\<lparr>sensorNumMapPtr := Some m\<rparr>)) (ret (Some m, True)))))))"

definition getSensorNumberFromPathStatic :: "'w env \<Rightarrow> string \<Rightarrow> ('w, u16) act" where
  "getSensorNumberFromPathStatic E path = lookup_number (getSensorNumMapStatic E) path"

definition getPathFromSensorNumberStatic :: "'w env \<Rightarrow> u16 \<Rightarrow> u8 \<Rightarrow> ('w, string) act" where
  "getPathFromSensorNumberStatic E sensorNum senType = lookup_path (getSensorNumMapStatic E) sensorNum senType"

section \<open>The map\<close>

text \<open>The range check accepts exactly the usable numbers.\<close>

lemma unat_ucast_low: "unat (ucast (n :: u16) :: u8) = unat n mod 256"
  by (simp add: unsigned_ucast_eq take_bit_eq_mod)

lemma unat_ucast_high: "unat (ucast (drop_bit 8 (n :: u16)) :: u8) = unat n div 256"
proof -
  have "unat n < 65536" using unsigned_less [of n] by simp
  then show ?thesis by (simp add: unsigned_ucast_eq take_bit_eq_mod drop_bit_eq_div unat_div_distrib)
qed

lemma lun_arith:
  "(k :: nat) mod 256 \<noteq> 255 \<and> (k div 256 = 0 \<or> k div 256 = 1 \<or> k div 256 = 3) \<longleftrightarrow>
   k mod 256 \<noteq> 255 \<and> k div 256 \<noteq> 2 \<and> \<not> 1022 < k"
proof -
  define h l where "h = k div 256" and "l = k mod 256"
  then have "k = 256 * h + l" "l < 256" by simp_all
  moreover have "h \<in> {0, 1, 2, 3} \<or> 4 \<le> h" by auto
  ultimately show ?thesis unfolding h_def [symmetric] l_def [symmetric] by auto
qed

lemma in_range_number: "\<not> out_of_range_number n \<longleftrightarrow> valid_number n"
proof -
  have low: "(ucast n :: u8) = reservedSensorNumber \<longleftrightarrow> unat n mod 256 = 255"
    using unat_ucast_low [of n] by (simp add: word_unat_eq_iff reservedSensorNumber_def)
  have lun: "(ucast (drop_bit 8 n) :: u8) = 2 \<longleftrightarrow> unat n div 256 = 2"
    using unat_ucast_high [of n] by (simp add: word_unat_eq_iff)
  have top: "n > lun3MaxSensorNum \<longleftrightarrow> 1022 < unat n"
    by (simp add: lun3MaxSensorNum_def lun3Sensor0_def maxSensorsPerLUN_def word_less_nat_alt)
  have inv: "n = invalidSensorNumber \<Longrightarrow> unat n mod 256 = 255"
    by (simp add: invalidSensorNumber_def)
  have "\<not> out_of_range_number n \<longleftrightarrow> unat n mod 256 \<noteq> 255 \<and> unat n div 256 \<noteq> 2 \<and> \<not> 1022 < unat n"
    unfolding out_of_range_number_def Let_def low lun top using inv by blast
  then show ?thesis using lun_arith [of "unat n"] by (simp add: valid_number_def)
qed

lemma static_insert_ok: "num_map_ok m \<Longrightarrow> num_map_ok (static_insert path ps m)"
  by (auto simp: static_insert_def in_range_number intro!: num_map_ok_insert split: option.split)

lemma yields_number_static: "num_map_ok m \<Longrightarrow> yields num_map_ok (number_static E tree m)"
proof (induction tree arbitrary: m)
  case Nil
  then show ?case by (simp add: yields_ret del: prog_simps)
next
  case (Cons x tree)
  then show ?case
    by (cases x) (auto intro!: yields_bind Cons.IH static_insert_ok split: option.split)
qed

text \<open>Probing asks, and throws nothing.\<close>

lemma keep_probe:
  "sat (keeps num_map_inv) (probe_interfaces E path service offered ifaces)"
  "sat (keeps num_map_inv) (probe_services E path services)"
proof -
  have call: "sat (keeps num_map_inv) (bus_call E c)" for c
    by (rule keep_bus_call) (simp add: num_map_inv_def)
  show ifaces: "sat (keeps num_map_inv) (probe_interfaces E path service offered ifaces)" for service offered ifaces
    by (induction ifaces) (auto intro!: keep_sat call simp del: prog_simps)
  show "sat (keeps num_map_inv) (probe_services E path services)"
    by (induction services) (auto intro!: keep_sat ifaces simp del: prog_simps)
qed

lemma raises_probe:
  "raises P (probe_interfaces E path service offered ifaces)"
  "raises P (probe_services E path services)"
proof -
  show ifaces: "raises P (probe_interfaces E path service offered ifaces)" for service offered ifaces
    by (induction ifaces)
      (auto intro!: raises_intros raises_catch_any raises_bus_call raises_lift
        dest: pure_exceptions simp del: prog_simps)
  show "raises P (probe_services E path services)"
    by (induction services) (auto intro!: raises_intros ifaces simp del: prog_simps)
qed

lemma keep_number_static: "sat (keeps num_map_inv) (number_static E tree m)"
  by (induction tree arbitrary: m) (auto intro!: keep_sat keep_probe simp del: prog_simps)

lemma sat_keeps_via:
  assumes "sat (keeps I) m" and "yields Q m" and "\<And>x. Q x \<Longrightarrow> sat (keeps I) (f x)"
  shows "sat (keeps I) (bindE m f)"
  unfolding sat_def
proof
  fix s
  show "keeps I s (snd (bindE m f s))"
  proof (cases rule: bindE_cases [of m s f])
    case (exc e s')
    then show ?thesis using satD [OF assms(1), of s] by simp
  next
    case (val x s')
    have "sat (keeps I) (f x)" using assms(3) yieldsD [OF assms(2) val(1)] .
    then show ?thesis using satD [OF assms(1), of s] satD [of "keeps I" "f x" s'] val by (auto simp: keeps_def)
  qed
qed

lemma keep_getSensorNumMapStatic: "sat (keeps num_map_inv) (getSensorNumMapStatic E)"
proof -
  have store: "sat (keeps num_map_inv) (bindE (number_static E tree []) (\<lambda>m.
      thenE (modifyE (\<lambda>s. s\<lparr>sensorNumMapPtr := Some m\<rparr>)) (ret (Some m, True))))" for tree
  proof (rule sat_keeps_via)
    show "yields num_map_ok (number_static E tree [])"
      by (rule yields_number_static) (simp add: num_map_ok_def)
  qed (auto intro!: keep_sat keep.sat_modify keep_number_static simp: keeps_def num_map_inv_def)
  show ?thesis
    unfolding getSensorNumMapStatic_def
    by (intro store keep_sat keep.sat_modify keep_getSensorSubtree keep_bus_call)
      (auto simp: keeps_def num_map_inv_def num_map_ok_def)
qed

text \<open>The scan leaves the cached tree and the update indices alone.\<close>

definition same_scan :: "'w sys \<Rightarrow> 'w sys \<Rightarrow> bool" where
  "same_scan s s' \<longleftrightarrow> sensorTreePtr s' = sensorTreePtr s \<and> sensorUpdatedIndex s' = sensorUpdatedIndex s
     \<and> prevSensorUpdatedIndex s' = prevSensorUpdatedIndex s"

interpretation scan: frame_relation same_scan
  by unfold_locales (simp_all add: same_scan_def)

lemmas scan_sat = scan.sat_basic scan.sat_compound sat_branch

lemma scan_bus_call: "sat same_scan (bus_call E c)"
  by (auto simp: sat_def same_scan_def bus_call_eq after_call_def split: breply.split)

lemma scan_number_static: "sat same_scan (number_static E tree m)"
proof -
  have ifaces: "sat same_scan (probe_interfaces E path service offered ifaces)" for path service offered ifaces
    by (induction ifaces) (auto intro!: scan_sat scan_bus_call simp del: prog_simps)
  have "sat same_scan (probe_services E path services)" for path services
    by (induction services) (auto intro!: scan_sat ifaces simp del: prog_simps)
  then show ?thesis by (induction tree arbitrary: m) (auto intro!: scan_sat simp del: prog_simps)
qed

lemma getSensorNumMapStatic_current:
  assumes "getSensorNumMapStatic E s = (Inr (Some m, u), s')"
  shows "map_current m s'"
proof -
  obtain t i s1 where t: "getSensorSubtree E s = (Inr (Some t, i), s1)"
    using assms
    by (auto simp: getSensorNumMapStatic_def bindE_def split: prod.splits sum.splits option.splits)
  note s1 = getSensorSubtree_some [OF t]
  show ?thesis
  proof (cases "i = prevSensorUpdatedIndex s1 \<and> sensorNumMapPtr s1 \<noteq> None")
    case True
    then show ?thesis using assms s1 t by (auto simp: getSensorNumMapStatic_def map_current_def)
  next
    case False
    let ?s2 = "s1\<lparr>prevSensorUpdatedIndex := i, sensorNumMapPtr := Some []\<rparr>"
    obtain r s3 where b: "bus_call E OpenSystemBus ?s2 = (Inr r, s3)"
      and run: "bindE (number_static E t []) (\<lambda>m. thenE (modifyE (\<lambda>s. s\<lparr>sensorNumMapPtr := Some m\<rparr>))
          (ret (Some m, True))) s3 = (Inr (Some m, u), s')"
      using assms t False
      by (cases "bus_call E OpenSystemBus ?s2"; cases "fst (bus_call E OpenSystemBus ?s2)")
        (auto simp: getSensorNumMapStatic_def)
    from run obtain m' s4 where n: "number_static E t [] s3 = (Inr m', s4)"
      and s': "s' = s4\<lparr>sensorNumMapPtr := Some m\<rparr>"
      by (cases "number_static E t [] s3"; cases "fst (number_static E t [] s3)") auto
    show ?thesis
      using s1 satD' [OF scan_bus_call b] satD' [OF scan_number_static n] s'
      by (simp add: same_scan_def map_current_def)
  qed
qed

lemma getSensorNumMapStatic_hit:
  assumes "bus_opens E (world s)" and "map_current m s"
  shows "getSensorNumMapStatic E s = (Inr (Some m, False), after_call E OpenSystemBus s)"
proof -
  obtain t where t: "sensorTreePtr s = Some t" using assms(2) by (auto simp: map_current_def)
  show ?thesis
    using getSensorSubtree_cached [OF assms(1) t] assms(2)
    by (simp add: getSensorNumMapStatic_def map_current_def)
qed

interpretation static_numbers: sensor_numbering getSensorNumMapStatic
  by unfold_locales
    (rule keep_getSensorNumMapStatic getSensorNumMapStatic_current getSensorNumMapStatic_hit; assumption)+

section \<open>What the sensors offer\<close>

text \<open>The properties that a \<open>GetAll\<close> returns, if the number is among them.\<close>

definition number_property :: "breply \<Rightarrow> (string \<times> dval) list option" where
  "number_property r =
     (case r of
        Reply err (DProps m) \<Rightarrow> (if map_of m ''SensorNumber'' \<noteq> None then Some m else None)
      | _ \<Rightarrow> None)"

text \<open>On a bus with fixed answers: the places where a sensor can have its number, in the order of the
  search, and the number that counts.\<close>

definition number_places :: "(string \<times> string list) list \<Rightarrow> (string \<times> string) list" where
  "number_places services =
     concat (map (\<lambda>(service, offered).
       map (Pair service) (filter (\<lambda>i. i \<in> set offered) sensorNumberInterfaces)) services)"

definition offered_properties ::
  "(string \<Rightarrow> string \<Rightarrow> string \<Rightarrow> breply) \<Rightarrow> string \<Rightarrow> (string \<times> string) list \<Rightarrow> (string \<times> dval) list option" where
  "offered_properties answers path places =
     (case List.map_filter (\<lambda>(service, i). number_property (answers service path i)) places of
        [] \<Rightarrow> None
      | m # _ \<Rightarrow> Some m)"

definition own_number :: "(string \<Rightarrow> string \<Rightarrow> string \<Rightarrow> breply) \<Rightarrow> string \<times> (string \<times> string list) list \<Rightarrow> u16 option" where
  "own_number answers sensor =
     Option.bind (offered_properties answers (fst sensor) (number_places (snd sensor))) (\<lambda>properties.
     Option.bind (map_of properties ''SensorNumber'') (\<lambda>v.
     Option.bind (number_value v) (\<lambda>n. if valid_number n then Some n else None)))"

lemma offered_properties_append:
  "offered_properties answers path (xs @ ys) =
     (case offered_properties answers path xs of Some m \<Rightarrow> Some m | None \<Rightarrow> offered_properties answers path ys)"
  by (simp add: offered_properties_def List.map_filter_def split: list.split)

lemma probe_call:
  "fst (catchE any_exception
     (bindE (bus_call E c) (\<lambda>(err, v).
      bindE (liftE (read_props v)) (\<lambda>m. ret (if map_of m ''SensorNumber'' \<noteq> None then Some m else None))))
     (ret None) s) = Inr (number_property (fst (e_bus E (world s) c)))"
proof (cases "fst (e_bus E (world s) c)")
  case BusError
  then show ?thesis by (simp add: bus_call_eq number_property_def)
next
  case (Reply err v)
  then show ?thesis by (cases v) (simp_all add: bus_call_eq bindE_def catchE_def number_property_def)
qed

lemma probe_interfaces_answers:
  assumes "\<And>w service path i. fst (e_bus E w (get_all_properties service path i)) = answers service path i"
  shows "fst (probe_interfaces E path service offered ifaces s) =
    Inr (offered_properties answers path (map (Pair service) (filter (\<lambda>i. i \<in> set offered) ifaces)))"
proof (induction ifaces arbitrary: s)
  case Nil
  then show ?case by (simp add: offered_properties_def List.map_filter_simps)
next
  case (Cons i ifaces)
  show ?case
  proof (cases "i \<in> set offered")
    case False
    then show ?thesis using Cons.IH by simp
  next
    case True
    let ?call = "catchE any_exception
       (bindE (bus_call E (get_all_properties service path i)) (\<lambda>(err, v).
        bindE (liftE (read_props v)) (\<lambda>m. ret (if map_of m ''SensorNumber'' \<noteq> None then Some m else None))))
       (ret None)"
    have "fst (?call s) = Inr (number_property (answers service path i))"
      unfolding probe_call assms ..
    then obtain s1 where "?call s = (Inr (number_property (answers service path i)), s1)"
      by (rule exE [OF run_fst])
    note found = bindE_Inr [where m = ?call and s = s, OF this]
    have run: "probe_interfaces E path service offered (i # ifaces) s =
        (case number_property (answers service path i) of
           Some properties \<Rightarrow> ret (Some properties)
         | None \<Rightarrow> probe_interfaces E path service offered ifaces) s1"
      by (simp only: probe_interfaces.simps found True not_True_eq_False if_False)
    show ?thesis
      unfolding run using True Cons.IH [of s1]
      by (cases "number_property (answers service path i)")
        (simp_all add: offered_properties_def List.map_filter_simps)
  qed
qed

lemma probe_services_answers:
  assumes "\<And>w service path i. fst (e_bus E w (get_all_properties service path i)) = answers service path i"
  shows "fst (probe_services E path services s) = Inr (offered_properties answers path (number_places services))"
proof (induction services arbitrary: s)
  case Nil
  then show ?case by (simp add: offered_properties_def number_places_def List.map_filter_simps)
next
  case (Cons x services)
  obtain service offered where x: "x = (service, offered)" by (cases x)
  have "fst (probe_interfaces E path service offered sensorNumberInterfaces s) = Inr (offered_properties answers path
      (map (Pair service) (filter (\<lambda>i. i \<in> set offered) sensorNumberInterfaces)))"
    by (rule probe_interfaces_answers [OF assms])
  then obtain s1 where "probe_interfaces E path service offered sensorNumberInterfaces s = (Inr (offered_properties answers path
      (map (Pair service) (filter (\<lambda>i. i \<in> set offered) sensorNumberInterfaces))), s1)"
    by (rule exE [OF run_fst])
  then show ?case
    using Cons.IH by (simp add: x number_places_def offered_properties_append split: option.split)
qed

text \<open>The first sensor with a number keeps it.\<close>

lemma map_of_insort_num: "n \<notin> fst ` set m \<Longrightarrow> map_of (insort_num n p m) = (map_of m)(n \<mapsto> p)"
  by (induction n p m rule: insort_num.induct) (auto simp: fun_eq_iff)

definition offers :: "(string \<Rightarrow> string \<Rightarrow> string \<Rightarrow> breply) \<Rightarrow> sensor_tree \<Rightarrow> (u16 \<times> string) list" where
  "offers answers tree = List.map_filter (\<lambda>x. map_option (\<lambda>n. (n, fst x)) (own_number answers x)) tree"

lemma static_insert_own:
  assumes "offered_properties answers path (number_places services) = Some properties"
  shows "static_insert path properties m =
    (case own_number answers (path, services) of
       None \<Rightarrow> m | Some n \<Rightarrow> if n \<in> fst ` set m then m else bimap_insert n path m)"
  using assms
  by (auto simp: static_insert_def own_number_def in_range_number [symmetric] split: option.split)

lemma number_static_answers:
  assumes "\<And>w service path i. fst (e_bus E w (get_all_properties service path i)) = answers service path i"
    and "distinct (map fst tree)" and "snd ` set m \<inter> fst ` set tree = {}"
  shows "\<exists>m' s'. number_static E tree m s = (Inr m', s') \<and> map_of m' = map_of (offers answers tree) ++ map_of m"
  using assms(2,3)
proof (induction tree arbitrary: m s)
  case Nil
  then show ?case by (simp add: offers_def List.map_filter_simps)
next
  case (Cons x tree)
  obtain path services where x: "x = (path, services)" by (cases x)
  let ?own = "own_number answers (path, services)"
  let ?m = "case ?own of None \<Rightarrow> m | Some n \<Rightarrow> if n \<in> fst ` set m then m else bimap_insert n path m"
  have path: "path \<notin> snd ` set m" "path \<notin> fst ` set tree" using Cons.prems by (auto simp: x)
  have step: "\<exists>s1. number_static E (x # tree) m s = number_static E tree ?m s1"
  proof (cases "services = []")
    case True
    then have "?own = None" by (simp add: own_number_def number_places_def offered_properties_def List.map_filter_simps)
    then show ?thesis using True by (auto simp: x)
  next
    case False
    have "fst (probe_services E path services s) = Inr (offered_properties answers path (number_places services))"
      by (rule probe_services_answers [OF assms(1)])
    then obtain s1 where "probe_services E path services s
        = (Inr (offered_properties answers path (number_places services)), s1)"
      by (rule exE [OF run_fst])
    then show ?thesis
      using False static_insert_own [of answers path services]
      by (cases "offered_properties answers path (number_places services)") (auto simp: x own_number_def)
  qed
  have "snd ` set ?m \<inter> fst ` set tree = {}" "distinct (map fst tree)"
    using Cons.prems path by (auto simp: x bimap_insert_def set_insort_num split: option.split)
  note IH = Cons.IH [OF this(2,1)]
  obtain s1 where "number_static E (x # tree) m s = number_static E tree ?m s1" using step ..
  with IH [of s1] obtain m' s' where m': "number_static E (x # tree) m s = (Inr m', s')"
      "map_of m' = map_of (offers answers tree) ++ map_of ?m" by (elim exE conjE) (simp only:)
  have "map_of (offers answers tree) ++ map_of ?m = map_of (offers answers (x # tree)) ++ map_of m"
  proof (cases ?own)
    case None
    then show ?thesis by (simp add: offers_def List.map_filter_simps x)
  next
    case (Some n)
    show ?thesis
    proof (cases "n \<in> fst ` set m")
      case True
      then have "map_of m n \<noteq> None" by (simp add: map_of_eq_None_iff)
      then show ?thesis using Some True
        by (auto simp: offers_def List.map_filter_simps x fun_eq_iff map_add_def split: option.split)
    next
      case False
      then have "map_of m n = None" by (simp add: map_of_eq_None_iff)
      then show ?thesis using Some False path
        by (auto simp: offers_def List.map_filter_simps x fun_eq_iff map_add_def bimap_insert_def map_of_insort_num
            split: option.split)
    qed
  qed
  then show ?case using m' by simp
qed

section \<open>Properties\<close>

text \<open>Three sensors, two of them with the same number, for the instances.\<close>

definition three_numbers :: "string \<Rightarrow> string \<Rightarrow> string \<Rightarrow> breply" where
  "three_numbers service path iface =
     Reply False (DProps [(''SensorNumber'', if path = ''/c'' then DU16 0x301 else DU8 7)])"

definition static_env :: "unit env" where
  "static_env = table_env (\<lambda>c. case c of
     Method service path iface member (DStr i # _) \<Rightarrow> three_numbers service path i
   | _ \<Rightarrow> Reply False (DBool True))"

definition static_tree :: sensor_tree where
  "static_tree = map (\<lambda>path. (path, [(''svc'', [''xyz.openbmc_project.Sensor.State''])])) [''/a'', ''/b'', ''/c'']"

definition static_sys :: "unit sys" where
  "static_sys = (initial_sys ())\<lparr>sensorTreePtr := Some static_tree\<rparr>"

lemma static_env_bus:
  "fst (e_bus static_env w (get_all_properties service path i)) = three_numbers service path i"
  "bus_opens static_env w"
  by (simp_all add: static_env_def get_all_properties_def bus_opens_def)

text \<open>C25. Static numbers lead back: in the build with static sensor numbers, too, a number that is found for
  a path lies in LUN 0, 1 or 3 and is not the reserved slot, and looking it up at once returns the path.\<close>

theorem static_number_roundtrip:
  assumes "num_map_inv s" and "getSensorNumberFromPathStatic E path s = (Inr n, s')"
    and "n \<noteq> invalidSensorNumber" and "bus_opens E (world s')" and "ty \<noteq> osCriticalStop"
  shows "valid_number n \<and> fst (getPathFromSensorNumberStatic E n ty s') = Inr path"
  using static_numbers.lookup_roundtrip [OF assms(1) _ assms(3-5)] assms(2)
  by (simp add: getSensorNumberFromPathStatic_def getPathFromSensorNumberStatic_def)

theorem static_number_roundtrip_witness:
  "valid_number 0x301 \<and> fst (getPathFromSensorNumberStatic static_env 0x301 0
     (snd (getSensorNumberFromPathStatic static_env ''/c'' static_sys))) = Inr ''/c''"
proof (rule static_number_roundtrip)
  have "fst (getSensorNumberFromPathStatic static_env ''/c'' static_sys) = Inr 0x301" by code_simp
  then show "getSensorNumberFromPathStatic static_env ''/c'' static_sys
      = (Inr 0x301, snd (getSensorNumberFromPathStatic static_env ''/c'' static_sys))"
    by (metis prod.collapse)
qed (simp_all add: static_env_bus invalidSensorNumber_def osCriticalStop_def static_sys_def num_map_inv_def)



end
