(* ===== verification/Associations.thy ===== *)
theory Associations
  imports SensorMap
begin

text \<open>
  The entity of a sensor (\<open>updateIpmiFromAssociation\<close> and its helpers in \<open>include/sdrutils.hpp\<close>): from the
  associations of a sensor to the board that the entity manager configures, and to the configuration of
  the sensor on this board, whose values count more.  The functions use the connection that \<open>getSdBus\<close>
  gives; in this repository that is a null pointer, and a connection exists only in the IPMI daemon that
  the header is shared with.  So the connection is an argument, with \<open>getSdBus\<close> as its value here.
\<close>

section \<open>Asking the entity manager\<close>

text \<open>Whether \<open>dbus\<close> points to a connection.\<close>

definition getSdBus :: bool where "getSdBus = False"

definition get_object_call :: "string \<Rightarrow> ecall" where
  "get_object_call path =
     Method ''xyz.openbmc_project.ObjectMapper'' ''/xyz/openbmc_project/object_mapper''
       ''xyz.openbmc_project.ObjectMapper'' ''GetObject'' [DStr path, DStrs []]"

definition getObjectInterfaces :: "'w env \<Rightarrow> bool \<Rightarrow> string \<Rightarrow> ('w, (string \<times> string list) list) act" where
  "getObjectInterfaces E dbus path =
     (if \<not> dbus then throwE Undefined
      else catchE any_exception
        (bindE (bus_call E (get_object_call path)) (\<lambda>(err, v). liftE (read_object v)))
        (ret []))"

definition entity_manager_call :: "string \<Rightarrow> string \<Rightarrow> ecall" where
  "entity_manager_call path interface =
     Method ''xyz.openbmc_project.EntityManager'' path ''org.freedesktop.DBus.Properties'' ''GetAll''
       [DStr interface]"

definition getEntityManagerProperties ::
  "'w env \<Rightarrow> bool \<Rightarrow> string \<Rightarrow> string \<Rightarrow> ('w, (string \<times> dval) list) act" where
  "getEntityManagerProperties E dbus path interface =
     (if \<not> dbus then throwE Undefined
      else catchE any_exception
        (bindE (bus_call E (entity_manager_call path interface)) (\<lambda>(err, v). liftE (read_props v)))
        (ret []))"

definition getSensorConfigurationInterface :: "(string \<times> string list) list \<Rightarrow> string option" where
  "getSensorConfigurationInterface sensorInterfacesResponse =
     (case map_of sensorInterfacesResponse ''xyz.openbmc_project.EntityManager'' of
        None \<Rightarrow> None
      | Some entries \<Rightarrow>
          (case find (\<lambda>entry. entry = ''xyz.openbmc_project.Configuration.AspeedFan''
                  \<or> entry = ''xyz.openbmc_project.Configuration.I2CFan''
                  \<or> entry = ''xyz.openbmc_project.Configuration.NuvotonFan'') entries of
             Some entry \<Rightarrow> Some entry
           | None \<Rightarrow> find (starts_with ''xyz.openbmc_project.Configuration.'') entries))"

section \<open>The entity of a sensor\<close>

text \<open>The reference parameters are part of the state, since they keep what they got before an
  exception.\<close>

record entity =
  entityId :: u8
  entityInstance :: u8

type_synonym ('w, 'e, 'a) eact = "('w sys \<times> 'e, 'a) prog"

definition with_sys :: "('w, 'a) act \<Rightarrow> ('w, 'e, 'a) eact" where
  "with_sys m = (\<lambda>(s, e). case m s of (r, s') \<Rightarrow> (r, s', e))"

text \<open>\<open>if (it != end) target = static_cast<uint8_t>(std::get<uint64_t>(it->second))\<close>\<close>

definition assign_u64 ::
  "(string \<times> dval) list \<Rightarrow> string \<Rightarrow> (u8 \<Rightarrow> 'e \<Rightarrow> 'e) \<Rightarrow> ('w, 'e, unit) eact" where
  "assign_u64 properties key assign =
     (case map_of properties key of
        None \<Rightarrow> ret ()
      | Some v \<Rightarrow> bindE (liftE (get_u64 v)) (\<lambda>x. modifyE (\<lambda>(s, e). (s, assign (ucast x) e))))"

definition assign_entity :: "(string \<times> dval) list \<Rightarrow> ('w, 'x entity_scheme, unit) eact" where
  "assign_entity properties =
     thenE (assign_u64 properties ''EntityId'' (\<lambda>x e. e\<lparr>entityId := x\<rparr>))
           (assign_u64 properties ''EntityInstance'' (\<lambda>x e. e\<lparr>entityInstance := x\<rparr>))"

definition fs_filename :: "string \<Rightarrow> string" where
  "fs_filename path = (case last_index CHR ''/'' path of None \<Rightarrow> path | Some i \<Rightarrow> drop (Suc i) path)"

text \<open>The body of the loop for the association that counts; both of its ends are a \<open>break\<close>.  What else is
  read from the configuration of the sensor depends on the build.\<close>

definition follow_association ::
  "'w env \<Rightarrow> bool \<Rightarrow> ((string \<times> dval) list \<Rightarrow> ('w, 'x entity_scheme, unit) eact) \<Rightarrow> string \<Rightarrow> string
   \<Rightarrow> ('w, 'x entity_scheme, unit) eact" where
  "follow_association E dbus extra path endpoint =
     bindE (with_sys (getEntityManagerProperties E dbus (c_str endpoint)
              ''xyz.openbmc_project.Inventory.Decorator.Ipmi'')) (\<lambda>ipmiProperties.
     thenE (assign_entity ipmiProperties)
       (let sensorConfigPath = endpoint @ ''/'' @ fs_filename path
        in bindE (with_sys (getObjectInterfaces E dbus (c_str sensorConfigPath))) (\<lambda>sensorInterfacesResponse.
           case getSensorConfigurationInterface sensorInterfacesResponse of
             None \<Rightarrow> ret ()
           | Some configurationInterface \<Rightarrow>
               bindE (with_sys (getEntityManagerProperties E dbus (c_str sensorConfigPath)
                        (c_str configurationInterface))) (\<lambda>configurationProperties.
                 thenE (assign_entity configurationProperties) (extra configurationProperties)))))"

fun follow_associations ::
  "'w env \<Rightarrow> bool \<Rightarrow> ((string \<times> dval) list \<Rightarrow> ('w, 'x entity_scheme, unit) eact) \<Rightarrow> string
   \<Rightarrow> (string \<times> string \<times> string) list \<Rightarrow> ('w, 'x entity_scheme, unit) eact" where
  "follow_associations E dbus extra path [] = ret ()"
| "follow_associations E dbus extra path ((forward, reverse, endpoint) # entries) =
     (if \<not> (forward = ''chassis'' \<and> reverse = ''all_sensors'') then follow_associations E dbus extra path entries
      else follow_association E dbus extra path endpoint)"

text \<open>The associations of a sensor; \<open>None\<close> where the code returns early.\<close>

definition sensor_associations ::
  "(string \<times> (string \<times> dval) list) list \<Rightarrow> (exn + (string \<times> string \<times> string) list) option" where
  "sensor_associations sensorMap =
     (case map_of sensorMap ''xyz.openbmc_project.Association.Definitions'' of
        None \<Rightarrow> None
      | Some properties \<Rightarrow> map_option get_associations (map_of properties ''Associations''))"

definition updateIpmiFromAssociation ::
  "'w env \<Rightarrow> bool \<Rightarrow> string \<Rightarrow> (string \<times> (string \<times> dval) list) list \<Rightarrow> ('w, entity, unit) eact" where
  "updateIpmiFromAssociation E dbus path sensorMap =
     (case sensor_associations sensorMap of
        None \<Rightarrow> ret ()
      | Some values \<Rightarrow> bindE (liftE values) (follow_associations E dbus (\<lambda>_. ret ()) path))"

section \<open>The build for the IPMI daemon\<close>

text \<open>With \<open>FEATURE_APISENSOR_SUPPORT\<close> the configuration of the sensor gives further values, and the type
  codes are kept in the map \<open>sensorPathToSensorTypeCache\<close>, which is part of the state here.\<close>

record extra_entity = entity +
  sensorCapabilities :: u8
  sensorInitialization :: u8
  sensorTypeCode :: u8
  eventReadingType :: u8
  assertionMask1 :: u8
  assertionMask2 :: u8
  deassertionMask1 :: u8
  deassertionMask2 :: u8
  discreteReadingMask1 :: u8
  discreteReadingMask2 :: u8
  typeCache :: "string \<rightharpoonup> u8 \<times> u8"

text \<open>The loop over the states of a discrete sensor, of which IPMI knows fifteen.\<close>

fun state_masks :: "nat \<Rightarrow> u8 \<times> u8 \<Rightarrow> u8 \<times> u8" where
  "state_masks 0 ms = ms"
| "state_masks (Suc n) ms =
     state_masks n
       (if Suc n \<le> 15 then
          (if Suc n \<le> 8 then fst ms OR push_bit (Suc n - 1) 1 else fst ms,
           if Suc n > 8 then snd ms OR push_bit (Suc n - 8 - 1) 1 else snd ms)
        else ms)"

definition assign_masks :: "(string \<times> dval) list \<Rightarrow> ('w, extra_entity, unit) eact" where
  "assign_masks configurationProperties =
     (case map_of configurationProperties ''State'' of
        None \<Rightarrow> ret ()
      | Some v \<Rightarrow> bindE (liftE (get_strs v)) (\<lambda>stateArray.
          let (mask0, mask1) = state_masks (length stateArray) (0, 0)
          in modifyE (\<lambda>(s, e). (s, e\<lparr>assertionMask1 := mask0, deassertionMask1 := mask0,
               discreteReadingMask1 := mask0, assertionMask2 := mask1, deassertionMask2 := mask1,
               discreteReadingMask2 := mask1\<rparr>))))"

definition assign_extra :: "(string \<times> dval) list \<Rightarrow> ('w, extra_entity, unit) eact" where
  "assign_extra configurationProperties =
     thenE (assign_masks configurationProperties)
     (thenE (assign_u64 configurationProperties ''SensorCapabilities'' (\<lambda>x e. e\<lparr>sensorCapabilities := x\<rparr>))
     (thenE (assign_u64 configurationProperties ''SensorInitialization'' (\<lambda>x e. e\<lparr>sensorInitialization := x\<rparr>))
     (thenE (assign_u64 configurationProperties ''EventReadingType'' (\<lambda>x e. e\<lparr>eventReadingType := x\<rparr>))
            (assign_u64 configurationProperties ''SensorTypeCode'' (\<lambda>x e. e\<lparr>sensorTypeCode := x\<rparr>)))))"

definition cache_types :: "string \<Rightarrow> extra_entity \<Rightarrow> extra_entity" where
  "cache_types path e = e\<lparr>typeCache := (typeCache e)(path \<mapsto> (sensorTypeCode e, eventReadingType e))\<rparr>"

definition updateExtraIpmiFromAssociation ::
  "'w env \<Rightarrow> bool \<Rightarrow> string \<Rightarrow> (string \<times> (string \<times> dval) list) list \<Rightarrow> ('w, extra_entity, unit) eact" where
  "updateExtraIpmiFromAssociation E dbus path sensorMap =
     (case sensor_associations sensorMap of
        None \<Rightarrow> ret ()
      | Some values \<Rightarrow>
          bindE (liftE values) (\<lambda>entries.
          thenE (follow_associations E dbus assign_extra path entries)
            (modifyE (\<lambda>(s, e). (s, cache_types path e)))))"

text \<open>The lookups of the type codes in this build.\<close>

definition cached_type :: "(string \<rightharpoonup> u8 \<times> u8) \<Rightarrow> string \<Rightarrow> u8" where
  "cached_type cache path = (case cache path of Some t \<Rightarrow> fst t | None \<Rightarrow> getSensorTypeFromPath path)"

definition cached_event_type :: "(string \<rightharpoonup> u8 \<times> u8) \<Rightarrow> string \<Rightarrow> u8" where
  "cached_event_type cache path = (case cache path of Some t \<Rightarrow> snd t | None \<Rightarrow> getSensorEventTypeFromPath path)"

section \<open>Facts\<close>

text \<open>The association that counts, and the board it leads to.\<close>

definition board_of :: "(string \<times> (string \<times> dval) list) list \<Rightarrow> string option" where
  "board_of sensorMap =
     (case sensor_associations sensorMap of
        Some (Inr entries) \<Rightarrow> map_option (\<lambda>x. snd (snd x))
          (find (\<lambda>(forward, reverse, endpoint). forward = ''chassis'' \<and> reverse = ''all_sensors'') entries)
      | _ \<Rightarrow> None)"

lemma follow_associations_find:
  "follow_associations E dbus extra path entries =
     (case find (\<lambda>(forward, reverse, endpoint). forward = ''chassis'' \<and> reverse = ''all_sensors'') entries of
        None \<Rightarrow> ret ()
      | Some x \<Rightarrow> follow_association E dbus extra path (snd (snd x)))"
  by (induction entries) (auto simp del: prog_simps)

lemma board_found:
  assumes "board_of sensorMap = Some board"
  obtains entries x where "sensor_associations sensorMap = Some (Inr entries)" and "snd (snd x) = board"
    and "find (\<lambda>(forward, reverse, endpoint). forward = ''chassis'' \<and> reverse = ''all_sensors'') entries = Some x"
  using assms by (auto simp: board_of_def split: option.splits sum.splits)

lemma update_follows:
  assumes "board_of sensorMap = Some board"
  shows "updateIpmiFromAssociation E dbus path sensorMap = follow_association E dbus (\<lambda>_. ret ()) path board"
    and "updateExtraIpmiFromAssociation E dbus path sensorMap =
      thenE (follow_association E dbus assign_extra path board) (modifyE (\<lambda>(s, e). (s, cache_types path e)))"
  by (rule board_found [OF assms], simp add: updateIpmiFromAssociation_def updateExtraIpmiFromAssociation_def
      follow_associations_find del: prog_simps)+

text \<open>The values that properties give.\<close>

definition entity_values :: "(string \<times> dval) list \<Rightarrow> bool" where
  "entity_values properties \<longleftrightarrow>
     list_all (\<lambda>key. case map_of properties key of None \<Rightarrow> True | Some v \<Rightarrow> \<not> isl (get_u64 v))
       [''EntityId'', ''EntityInstance'']"

definition entity_value :: "(string \<times> dval) list \<Rightarrow> string \<Rightarrow> u8 option" where
  "entity_value properties key =
     (case map_of properties key of
        None \<Rightarrow> None
      | Some v \<Rightarrow> (case get_u64 v of Inl _ \<Rightarrow> None | Inr x \<Rightarrow> Some (ucast x)))"

definition or_else :: "'a option \<Rightarrow> 'a \<Rightarrow> 'a" where
  "or_else x d = (case x of None \<Rightarrow> d | Some y \<Rightarrow> y)"

definition set_entity :: "(string \<times> dval) list \<Rightarrow> 'x entity_scheme \<Rightarrow> 'x entity_scheme" where
  "set_entity ps e = e\<lparr>entityId := or_else (entity_value ps ''EntityId'') (entityId e),
     entityInstance := or_else (entity_value ps ''EntityInstance'') (entityInstance e)\<rparr>"

lemma assign_u64_run:
  "(case map_of ps key of None \<Rightarrow> True | Some v \<Rightarrow> \<not> isl (get_u64 v)) \<Longrightarrow>
   assign_u64 ps key f (s, e) = (Inr (), s, case entity_value ps key of None \<Rightarrow> e | Some x \<Rightarrow> f x e)"
  by (cases "map_of ps key"; cases "get_u64 (the (map_of ps key))") (auto simp: assign_u64_def entity_value_def)

lemma assign_entity_run: "entity_values ps \<Longrightarrow> assign_entity ps (s, e) = (Inr (), s, set_entity ps e)"
  by (auto simp: assign_entity_def assign_u64_run entity_values_def thenE_def bindE_def set_entity_def or_else_def
      split: option.split)

lemma with_sys_run: "fst (m s) = Inr x \<Longrightarrow> \<exists>s'. with_sys m (s, e) = (Inr x, s', e)"
  by (cases "m s") (simp add: with_sys_def)

section \<open>Properties\<close>

text \<open>The properties that the entity manager gives for an object, on a bus with fixed answers, and the
  configuration of the sensor on a board.\<close>

definition answered_props :: "breply \<Rightarrow> (string \<times> dval) list" where
  "answered_props r = (case r of Reply err (DProps m) \<Rightarrow> m | _ \<Rightarrow> [])"

definition answered_object :: "breply \<Rightarrow> (string \<times> string list) list" where
  "answered_object r = (case r of Reply err (DObject t) \<Rightarrow> t | _ \<Rightarrow> [])"

definition sensor_config :: "(ecall \<Rightarrow> breply) \<Rightarrow> string \<Rightarrow> (string \<times> dval) list" where
  "sensor_config answers config_path =
     (case getSensorConfigurationInterface (answered_object (answers (get_object_call (c_str config_path)))) of
        None \<Rightarrow> []
      | Some interface \<Rightarrow> answered_props (answers (entity_manager_call (c_str config_path) (c_str interface))))"

lemma properties_answered:
  assumes "\<And>w c. fst (e_bus E w c) = answers c"
  shows "fst (getEntityManagerProperties E True p i s) = Inr (answered_props (answers (entity_manager_call p i)))"
proof (cases "answers (entity_manager_call p i)")
  case BusError
  then show ?thesis
    by (simp add: getEntityManagerProperties_def bus_call_eq assms answered_props_def)
next
  case (Reply err v)
  then show ?thesis
    by (cases v) (simp_all add: getEntityManagerProperties_def bus_call_eq assms answered_props_def bindE_def catchE_def)
qed

lemma object_answered:
  assumes "\<And>w c. fst (e_bus E w c) = answers c"
  shows "fst (getObjectInterfaces E True p s) = Inr (answered_object (answers (get_object_call p)))"
proof (cases "answers (get_object_call p)")
  case BusError
  then show ?thesis by (simp add: getObjectInterfaces_def bus_call_eq assms answered_object_def)
next
  case (Reply err v)
  then show ?thesis
    by (cases v) (simp_all add: getObjectInterfaces_def bus_call_eq assms answered_object_def bindE_def catchE_def)
qed

lemma with_answers:
  assumes "\<And>w c. fst (e_bus E w c) = answers c"
  shows "\<exists>s'. with_sys (getEntityManagerProperties E True p i) (s, e)
      = (Inr (answered_props (answers (entity_manager_call p i))), s', e)"
    and "\<exists>s'. with_sys (getObjectInterfaces E True p) (s, e)
      = (Inr (answered_object (answers (get_object_call p))), s', e)"
  by (rule with_sys_run, rule properties_answered object_answered, rule assms)+

text \<open>A run along the association that counts: the values of the board, then those of the sensor.\<close>

lemma set_entity_Nil [simp]: "set_entity [] e = e"
  by (simp add: set_entity_def entity_value_def or_else_def)

lemma follow_run:
  assumes "\<And>w c. fst (e_bus E w c) = answers c"
    and "ps = answered_props (answers (entity_manager_call (c_str board)
           ''xyz.openbmc_project.Inventory.Decorator.Ipmi''))"
    and "cs = sensor_config answers (board @ ''/'' @ fs_filename path)"
    and "entity_values ps" and "entity_values cs"
    and "\<And>s e. extra cs (s, e) = (Inr (), s, g cs e)" and "\<And>e. g [] e = e"
  shows "\<exists>s'. follow_association E True extra path board (s, e) = (Inr (), s', g cs (set_entity cs (set_entity ps e)))"
proof -
  define config where "config = board @ ''/'' @ fs_filename path"
  let ?interface = "getSensorConfigurationInterface (answered_object (answers (get_object_call (c_str config))))"
  let ?rest = "case ?interface of None \<Rightarrow> ret () | Some i \<Rightarrow>
      bindE (with_sys (getEntityManagerProperties E True (c_str config) (c_str i)))
        (\<lambda>cs. thenE (assign_entity cs) (extra cs))"
  obtain s1 where s1: "with_sys (getEntityManagerProperties E True (c_str board)
      ''xyz.openbmc_project.Inventory.Decorator.Ipmi'') (s, e) = (Inr ps, s1, e)"
    using with_answers(1) [OF assms(1), of "c_str board" _ s e] unfolding assms(2) by blast
  obtain s2 where s2: "with_sys (getObjectInterfaces E True (c_str config)) (s1, set_entity ps e)
      = (Inr (answered_object (answers (get_object_call (c_str config)))), s2, set_entity ps e)"
    using with_answers(2) [OF assms(1), of "c_str config" s1 "set_entity ps e"] by blast
  have "\<exists>s'. ?rest (s2, set_entity ps e) = (Inr (), s', g cs (set_entity cs (set_entity ps e)))"
  proof (cases ?interface)
    case None
    then have "cs = []" using assms(3) by (simp add: sensor_config_def config_def)
    then show ?thesis using None assms(7) by simp
  next
    case (Some i)
    then have cs: "cs = answered_props (answers (entity_manager_call (c_str config) (c_str i)))"
      using assms(3) by (simp add: sensor_config_def config_def)
    obtain s3 where "with_sys (getEntityManagerProperties E True (c_str config) (c_str i)) (s2, set_entity ps e)
        = (Inr cs, s3, set_entity ps e)"
      using with_answers(1) [OF assms(1), of "c_str config" "c_str i" s2 "set_entity ps e"] unfolding cs by blast
    then show ?thesis using Some assms(6) by (simp add: assign_entity_run [OF assms(5)])
  qed
  moreover have "follow_association E True extra path board (s, e) = ?rest (s2, set_entity ps e)"
    unfolding follow_association_def Let_def config_def [symmetric]
    using s1 s2 by (simp add: assign_entity_run [OF assms(4)])
  ultimately show ?thesis by simp
qed

text \<open>C26. The entity of a sensor: with a connection and a bus that gives fixed answers, the entity of a sensor
  is the one that the entity manager has for the sensor on the board of the first association to a chassis,
  else the one of the board itself, else the old one, for the identifier and the instance separately; and
  without a connection, as in this repository, such an association leads to undefined behaviour.\<close>

theorem entity_from_association:
  assumes "\<And>w c. fst (e_bus E w c) = answers c"
    and "board_of sensorMap = Some board"
    and "ps = answered_props (answers (entity_manager_call (c_str board)
           ''xyz.openbmc_project.Inventory.Decorator.Ipmi''))"
    and "cs = sensor_config answers (board @ ''/'' @ fs_filename path)"
    and "entity_values ps" and "entity_values cs"
  shows "(\<exists>s'. updateIpmiFromAssociation E True path sensorMap (s, e) = (Inr (), s',
       \<lparr>entityId = or_else (entity_value cs ''EntityId'')
          (or_else (entity_value ps ''EntityId'') (entityId e)),
        entityInstance = or_else (entity_value cs ''EntityInstance'')
          (or_else (entity_value ps ''EntityInstance'') (entityInstance e))\<rparr>))
    \<and> updateIpmiFromAssociation E getSdBus path sensorMap (s, e) = (Inl Undefined, s, e)"
proof
  have "set_entity cs (set_entity ps e) =
       \<lparr>entityId = or_else (entity_value cs ''EntityId'')
          (or_else (entity_value ps ''EntityId'') (entityId e)),
        entityInstance = or_else (entity_value cs ''EntityInstance'')
          (or_else (entity_value ps ''EntityInstance'') (entityInstance e))\<rparr>"
    by (cases e) (simp add: set_entity_def)
  then show "\<exists>s'. updateIpmiFromAssociation E True path sensorMap (s, e) = (Inr (), s',
       \<lparr>entityId = or_else (entity_value cs ''EntityId'')
          (or_else (entity_value ps ''EntityId'') (entityId e)),
        entityInstance = or_else (entity_value cs ''EntityInstance'')
          (or_else (entity_value ps ''EntityInstance'') (entityInstance e))\<rparr>)"
    using follow_run [OF assms(1,3-6), where extra = "\<lambda>_. ret ()" and g = "\<lambda>_ e. e", of s e]
    by (simp add: update_follows(1) [OF assms(2)])
  show "updateIpmiFromAssociation E getSdBus path sensorMap (s, e) = (Inl Undefined, s, e)"
    by (simp add: update_follows(1) [OF assms(2)] follow_association_def getSdBus_def with_sys_def
        getEntityManagerProperties_def bindE_def)
qed

text \<open>A fan on a board, whose own configuration gives another identifier.\<close>

definition fan_answers :: "ecall \<Rightarrow> breply" where
  "fan_answers c =
     (if c = entity_manager_call ''/board'' ''xyz.openbmc_project.Inventory.Decorator.Ipmi'' then
        Reply False (DProps [(''EntityId'', DU64 7), (''EntityInstance'', DU64 1)])
      else if c = get_object_call ''/board/fan'' then
        Reply False (DObject [(''xyz.openbmc_project.EntityManager'', [''xyz.openbmc_project.Configuration.I2CFan''])])
      else if c = entity_manager_call ''/board/fan'' ''xyz.openbmc_project.Configuration.I2CFan'' then
        Reply False (DProps [(''EntityId'', DU64 29)])
      else BusError)"

definition fan_sensor :: "(string \<times> (string \<times> dval) list) list" where
  "fan_sensor = [(''xyz.openbmc_project.Association.Definitions'',
     [(''Associations'', DAssociations [(''x'', ''y'', ''/z''), (''chassis'', ''all_sensors'', ''/board'')])])]"

theorem entity_from_association_witness:
  "\<exists>s'. updateIpmiFromAssociation (table_env fan_answers) True ''/xyz/fan'' fan_sensor
       (initial_sys (), \<lparr>entityId = 0, entityInstance = 0\<rparr>)
     = (Inr (), s', \<lparr>entityId = 29, entityInstance = 1\<rparr>)"
proof -
  let ?ps = "[(''EntityId'', DU64 7), (''EntityInstance'', DU64 1)]" and ?cs = "[(''EntityId'', DU64 29)]"
  have board: "board_of fan_sensor = Some ''/board''" by code_simp
  have ps: "?ps = answered_props (fan_answers (entity_manager_call (c_str ''/board'')
      ''xyz.openbmc_project.Inventory.Decorator.Ipmi''))" by code_simp
  have cs: "?cs = sensor_config fan_answers (''/board'' @ ''/'' @ fs_filename ''/xyz/fan'')" by code_simp
  have bus: "fst (e_bus (table_env fan_answers) w c) = fan_answers c" for w c by simp
  have "entity_values ?ps" "entity_values ?cs" by (simp_all add: entity_values_def)
  from entity_from_association [OF bus board ps cs this, THEN conjunct1]
  show ?thesis by (simp add: entity_value_def or_else_def)
qed

section \<open>Type codes and masks\<close>

text \<open>The masks have the bits of the first fifteen states.\<close>

lemma state_masks_bits:
  "bit (fst (state_masks n ms)) i \<longleftrightarrow> bit (fst ms) i \<or> i < n \<and> i < 8"
  "bit (snd (state_masks n ms)) i \<longleftrightarrow> bit (snd ms) i \<or> i + 8 < n \<and> i < 7"
  by (induction n ms rule: state_masks.induct) (auto simp: bit_simps less_Suc_eq)

definition extra_values :: "(string \<times> dval) list \<Rightarrow> bool" where
  "extra_values ps \<longleftrightarrow> entity_values ps
     \<and> list_all (\<lambda>key. case map_of ps key of None \<Rightarrow> True | Some v \<Rightarrow> \<not> isl (get_u64 v))
         [''SensorCapabilities'', ''SensorInitialization'', ''EventReadingType'', ''SensorTypeCode'']
     \<and> (case map_of ps ''State'' of None \<Rightarrow> True | Some v \<Rightarrow> \<not> isl (get_strs v))"

definition set_masks :: "(string \<times> dval) list \<Rightarrow> extra_entity \<Rightarrow> extra_entity" where
  "set_masks ps e =
     (case map_of ps ''State'' of
        Some (DStrs states) \<Rightarrow>
          (let ms = state_masks (length states) (0, 0)
           in e\<lparr>assertionMask1 := fst ms, deassertionMask1 := fst ms, discreteReadingMask1 := fst ms,
                assertionMask2 := snd ms, deassertionMask2 := snd ms, discreteReadingMask2 := snd ms\<rparr>)
      | _ \<Rightarrow> e)"

definition set_extra :: "(string \<times> dval) list \<Rightarrow> extra_entity \<Rightarrow> extra_entity" where
  "set_extra ps e = (set_masks ps e)
     \<lparr>sensorCapabilities := or_else (entity_value ps ''SensorCapabilities'') (sensorCapabilities e),
      sensorInitialization := or_else (entity_value ps ''SensorInitialization'') (sensorInitialization e),
      eventReadingType := or_else (entity_value ps ''EventReadingType'') (eventReadingType e),
      sensorTypeCode := or_else (entity_value ps ''SensorTypeCode'') (sensorTypeCode e)\<rparr>"

lemma set_masks_other [simp]:
  "sensorCapabilities (set_masks ps e) = sensorCapabilities e"
  "sensorInitialization (set_masks ps e) = sensorInitialization e"
  "eventReadingType (set_masks ps e) = eventReadingType e"
  "sensorTypeCode (set_masks ps e) = sensorTypeCode e" "typeCache (set_masks ps e) = typeCache e"
  by (simp_all add: set_masks_def Let_def split: option.split dval.split)

lemma assign_masks_run:
  assumes "extra_values ps"
  shows "assign_masks ps (s, e) = (Inr (), s, set_masks ps e)"
proof (cases "map_of ps ''State''")
  case None
  then show ?thesis by (simp add: assign_masks_def set_masks_def)
next
  case (Some v)
  then show ?thesis
    using assms by (cases v) (simp_all add: assign_masks_def set_masks_def extra_values_def Let_def split_beta)
qed

lemma assign_extra_run:
  assumes "extra_values ps"
  shows "assign_extra ps (s, e) = (Inr (), s, set_extra ps e)"
  using assms assign_masks_run [OF assms, of s e]
  by (simp add: assign_extra_def assign_u64_run extra_values_def thenE_def bindE_def set_extra_def or_else_def
      split: option.split)

text \<open>In the build for the IPMI daemon the type codes of the configuration are what later lookups for the
  path give, and the masks of a discrete sensor have a bit for each of its first fifteen states.\<close>

theorem types_cached:
  assumes "\<And>w c. fst (e_bus E w c) = answers c"
    and "board_of sensorMap = Some board"
    and "entity_values (answered_props (answers (entity_manager_call (c_str board)
           ''xyz.openbmc_project.Inventory.Decorator.Ipmi'')))"
    and "cs = sensor_config answers (board @ ''/'' @ fs_filename path)" and "extra_values cs"
  shows "\<exists>s' e'. updateExtraIpmiFromAssociation E True path sensorMap (s, e) = (Inr (), s', e')
    \<and> cached_type (typeCache e') path = or_else (entity_value cs ''SensorTypeCode'') (sensorTypeCode e)
    \<and> cached_event_type (typeCache e') path = or_else (entity_value cs ''EventReadingType'') (eventReadingType e)"
proof -
  have "set_extra [] e = e" for e by (simp add: set_extra_def set_masks_def entity_value_def or_else_def)
  moreover have "entity_values cs" using assms(5) by (simp add: extra_values_def)
  ultimately obtain s' where "follow_association E True assign_extra path board (s, e)
      = (Inr (), s', set_extra cs (set_entity cs (set_entity (answered_props (answers (entity_manager_call (c_str board)
           ''xyz.openbmc_project.Inventory.Decorator.Ipmi''))) e)))"
    using follow_run [OF assms(1) HOL.refl assms(4,3), where extra = assign_extra and g = set_extra]
      assign_extra_run [OF assms(5)] by blast
  then show ?thesis
    by (simp add: update_follows(2) [OF assms(2)] cache_types_def cached_type_def cached_event_type_def
        set_extra_def set_entity_def)
qed

section \<open>The paths with the IPMI decorator\<close>

text \<open>The question to the object mapper; the answer of the context's connection is an error code or the paths.\<close>

definition decorator_paths_call :: ecall where
  "decorator_paths_call =
     Method ''xyz.openbmc_project.ObjectMapper'' ''/xyz/openbmc_project/object_mapper''
       ''xyz.openbmc_project.ObjectMapper'' ''GetSubTreePaths''
       [DStr ''/'', DI32 0, DStrs [''xyz.openbmc_project.Inventory.Decorator.Ipmi'']]"

text \<open>The context is the connection with its yielding call, or absent; the static variable is passed on.\<close>

definition getIpmiDecoratorPaths ::
  "(ecall \<Rightarrow> exn + string list) option \<Rightarrow> string set option \<Rightarrow> string set option" where
  "getIpmiDecoratorPaths ctx ipmiDecoratorPaths =
     (case ctx of
        None \<Rightarrow> ipmiDecoratorPaths
      | Some yield_method_call \<Rightarrow>
          if ipmiDecoratorPaths \<noteq> None then ipmiDecoratorPaths
          else (case yield_method_call decorator_paths_call of
                  Inl ec \<Rightarrow> ipmiDecoratorPaths
                | Inr paths \<Rightarrow> Some (set paths)))"

text \<open>Of any sequence of contexts the first one that gets an answer decides for all the later ones.\<close>

theorem decorator_paths_first_answer:
  "fold getIpmiDecoratorPaths ctxs None =
     (case List.map_filter (\<lambda>ctx. Option.bind ctx (\<lambda>call. case call decorator_paths_call of
          Inl ec \<Rightarrow> None | Inr paths \<Rightarrow> Some (set paths))) ctxs of
        [] \<Rightarrow> None | answer # later \<Rightarrow> Some answer)"
proof (induction ctxs)
  case (Cons ctx ctxs)
  have kept: "fold getIpmiDecoratorPaths cs (Some paths) = Some paths" for cs paths
    by (induction cs) (simp_all add: getIpmiDecoratorPaths_def split: option.split)
  have first: "getIpmiDecoratorPaths ctx None =
      Option.bind ctx (\<lambda>call. case call decorator_paths_call of Inl ec \<Rightarrow> None | Inr paths \<Rightarrow> Some (set paths))"
    by (simp add: getIpmiDecoratorPaths_def split: option.split sum.split)
  show ?case using Cons.IH by (auto simp: first kept List.map_filter_simps split: option.split)
qed (simp add: List.map_filter_simps)

end
