(* ===== verification/Spec2Isabelle.thy ===== *)
theory Spec2Isabelle
  imports
    Prelude StdMap CppString IpmiStats Json World JsonEdit PathUtils EventMatch DaemonCalls SensorMap Encryption
    SnmpNotify Alerts AlertPolicy PefAction EventFilter RetryConfig PostponeTimer ConfigUpdate Daemon
    SensorInfo AddressCheck TestDestination ConfigObjects PefTables ConfiguredTable SavedTable LanConfig
    ConfigDaemon ConfiguredAction ConfiguredAlert StaticSensors Associations
begin

text \<open>
  \<^bold>\<open>The platform event filter of an OpenBMC system.\<close>

  The repository builds two daemons.  The configuration daemon (\<open>src/pef_config.cpp\<close>) loads the PEF
  configuration from two files, publishes it as D-Bus objects and checks every write to them.  The
  event-filtering daemon (\<open>src/pef_action.cpp\<close>) offers the method \<open>doPefTask\<close>: for each platform event it
  reads the filter table of the configuration daemon, and for the entries that match it performs power
  actions and sends alerts by mail or SNMP trap to the destinations of the alert policies.  Its monitors
  save the tables that are changed on the bus in the file from which the configuration daemon starts.
  This development models both daemons with everything they call inside the repository.

  \<^bold>\<open>How the code is modelled.\<close>  A C++ function with effects is a program \<open>'w sys \<Rightarrow> (exn + 'a) \<times> 'w sys\<close>
  (\<open>Prelude\<close>): it gets the state of the daemon and returns a value or the exception that leaves it,
  together with the new state; \<open>catchE\<close> is a \<open>try\<close> block with the class of exceptions its handler
  takes.  Undefined behaviour is the exception \<open>Undefined\<close>, which no handler takes.  The state
  (\<open>World.sys\<close>) holds the globals of \<open>pef_action.cpp\<close>, the static variables of \<open>sdrutils.hpp\<close> and the
  files; the state of the configuration daemon (\<open>ConfigObjects.conf\<close>) adds the published objects and the
  destination types shared by the handlers of an interface.  All code outside the repository is a
  parameter, the record \<open>World.env\<close>: the D-Bus and the services behind it, the clock, the network
  interfaces, the resolver, the random source, nlohmann's parser, printer, merge and number conversions,
  OpenSSL and net-snmp.  Where its answers can change they depend on a state of the outside world that
  every call may change.  The calls made are recorded in order in \<open>trace\<close>, so that a property can say
  what a daemon does to others.  Machine integers keep their width.

  \<^bold>\<open>The shared theories.\<close>
  \<^item> \<open>Prelude\<close>, \<open>StdMap\<close>, \<open>CppString\<close>, \<open>Json\<close>, \<open>World\<close>, \<open>JsonEdit\<close>: programs, exceptions and their rules
    (the frame rules of the locale \<open>frame_relation\<close>, the result rules \<open>yields\<close>, the exception rules
    \<open>raises\<close>); \<open>std::map\<close>; \<open>std::string\<close> searches and conversions; JSON values and changes in place; the
    environment and the state.
  \<^item> \<open>PathUtils\<close>: \<open>include/pef_utils.hpp\<close> and the path functions of \<open>include/sdrutils.hpp\<close> and
    \<open>include/pef_config_update.hpp\<close>; round trips.
  \<^item> \<open>SensorMap\<close>, \<open>StaticSensors\<close>: the cached sensor tree and the sensor numbers of \<open>include/sdrutils.hpp\<close>
    in the default build, where they are dealt out in the order of the tree, and in the build with
    \<open>FEATURE_STATIC_SENSOR_NUMBER\<close>, where every sensor brings its own; the map is a bijection onto usable
    numbers.  The locale \<open>sensor_numbering\<close> states what the lookups need of a numbering and is interpreted on
    both.  What happens at the bound and when the object mapper fails.
  \<^item> \<open>IpmiStats\<close>, \<open>Associations\<close>: the statistics of sensor readings and the entity of a sensor, further
    parts of \<open>include/sdrutils.hpp\<close>, which is shared with the IPMI daemon; what the statistics summarise,
    and where the entity comes from.
  \<^item> \<open>Encryption\<close>: \<open>src/Encryption.cpp\<close>; key creation and the round trip of a password, under the named
    laws of the crypto library.
  \<^item> \<open>SnmpNotify\<close>: \<open>src/snmp_notification.cpp\<close> with \<open>include/snmp_notification.hpp\<close>; the selection of the
    manager, and the one trap that \<open>sendTrap\<close> may send.

  \<^bold>\<open>The event-filtering daemon.\<close>
  \<^item> \<open>EventMatch\<close>: \<open>pefEveDataMatch\<close> and the guards of a filter entry; equivalence with the filter
    predicate of the PEF rules.
  \<^item> \<open>DaemonCalls\<close>: the helpers of \<open>src/pef_action.cpp\<close> that ask or command other services.
  \<^item> \<open>Alerts\<close>, \<open>AlertPolicy\<close>, \<open>PefAction\<close>, \<open>EventFilter\<close>: the alerts, the policy lookup, \<open>performPefAction\<close>,
    and \<open>eventFilteringProcess\<close> with \<open>doPefTask\<close> of \<open>src/pef_action.cpp\<close>; every effect is justified by a
    matching entry and the global control, the exact calls of the power actions, the destination that is
    selected, and the error paths.
  \<^item> \<open>RetryConfig\<close>: the retry settings in \<open>main\<close> and \<open>saveConfig\<close>; the locale \<open>guarded_property\<close> states what
    a property setter promises and is interpreted on the four setters.
  \<^item> \<open>PostponeTimer\<close>: the handler of the postpone timer in \<open>include/pef_action.hpp\<close>; its countdown
    terminates and writes every value.
  \<^item> \<open>ConfigUpdate\<close>: the four monitors of \<open>include/pef_config_update.hpp\<close>; what they save, and that they
    change nothing else.
  \<^item> \<open>Daemon\<close>: the event loop as a transition system, and the invariants of its reachable states; the
    locale \<open>task_invariant\<close> states what an invariant needs from each handler.

  \<^bold>\<open>The configuration daemon\<close> (\<open>src/pef_config.cpp\<close> with \<open>include/pef_config.hpp\<close>).
  \<^item> \<open>ConfigObjects\<close>: the published objects and the handling of a property write as the bus library
    documents it (\<open>checked_write\<close>: type, then the validator, then the assignment and what follows it); the
    locale \<open>checked_property\<close> states what a validator promises, and is interpreted on the validators of the
    tables and of the LAN parameters.
  \<^item> \<open>PefTables\<close>: the objects built from the tables of the file, the split of the tables in lists, and the
    validators of the columns; accepted values are exactly those of the PEF rules.
  \<^item> \<open>LanConfig\<close>, \<open>AddressCheck\<close>: the objects of the Ethernet interfaces, the validators with their
    questions to resolver, SNMP service and user manager, and the storage of accepted values
    (\<open>updateLanParamConfigValue\<close>).
  \<^item> \<open>SensorInfo\<close>, \<open>TestDestination\<close>: the methods of the interfaces \<open>SensorInfo\<close> and \<open>SnmpTest\<close>.
  \<^item> \<open>ConfigDaemon\<close>: the start of the daemon and the requests it serves as a transition system; type and
    rule of every property are invariant.

  \<^bold>\<open>Both together.\<close>
  \<^item> \<open>ConfiguredTable\<close>: the daemons, connected by a bus that serves the published objects (\<open>serves\<close>, with
    \<open>objects_bus\<close> as an instance), refine the matching of events against the rows of the configuration
    file, and the selection of policies from its policy table.
  \<^item> \<open>ConfiguredAction\<close>, \<open>ConfiguredAlert\<close>: what the file prescribes does happen, up to the calls of the power
    actions, and up to the mail that describes the event and its sensor.
  \<^item> \<open>SavedTable\<close>: changes that outlive the daemons, and one that does not.

  \<^bold>\<open>Bounds.\<close>  No definition uses fuel: every loop of the code runs over a list, decreases an 8-bit counter
  (the postpone countdown) or fills a vector up to an index (\<open>padEntries\<close>), and is a terminating function.

  \<^bold>\<open>Not modelled.\<close>  Log and debug output; failing memory allocation; the clearing of the type cache on a rescan,
  which exists only in the IPMI daemon; the sessions of net-snmp beyond the fields the code sets; the event loop and the dispatch of the
  bus library beyond the order in which a property write runs the code's handlers, and its refusal of a
  second object with the same path; concurrency between the daemons (every answer of another service is
  arbitrary instead).
\<close>

end
